(* ===== verification/Prelude.thy ===== *)
theory Prelude
  imports Main "HOL-Library.Word"
begin

section \<open>Prelude\<close>

text \<open>
  What every component theory shares: the integer types of \<open>shared/api/rob_system.h\<close>,
  the ways in which a C function of this repository can fail to return, the sequencing of
  fallible computations, and generic facts about lists and words.

  \<^item> \<open>u8\<close>, \<open>u16\<close>, \<open>u32\<close>, \<open>s16\<close>, \<open>s32\<close> are the types \<open>UInt8\<close> to \<open>SInt32\<close>;
    on the 32-bit ARM target of the repository \<open>long\<close> is 32 bits wide.  Signed values
    are the same words, read with \<open>sint\<close>.
  \<^item> \<open>fault\<close> lists what ends a computation early: an assertion (\<open>assertFunc\<close> prints
    and calls \<open>exit (127)\<close>), an access to freed memory, through a null pointer or outside an
    array, the conversion of a \<open>double\<close> to an integer type that cannot hold it (both undefined in C), or a call that
    waits for ever.  A fallible computation is a value of the sum
    \<open>fault + 'a\<close>; \<open>andthen\<close> runs the next one on success.
  \<^item> Pointer arguments that the code itself asserts to be non-null are values here, so these
    assertions hold by construction; every other assertion of the modelled code is a branch.
\<close>

type_synonym u8 = "8 word"
type_synonym u16 = "16 word"
type_synonym u32 = "32 word"
type_synonym s16 = "16 word"
type_synonym s32 = "32 word"

datatype fault = Assert_Failed | Bad_Access | Bad_Conversion | Blocked

subsection \<open>Fallible computations\<close>

definition andthen :: "'e + 'a \<Rightarrow> ('a \<Rightarrow> 'e + 'b) \<Rightarrow> 'e + 'b" where
  "andthen r f = (case r of Inl e \<Rightarrow> Inl e | Inr x \<Rightarrow> f x)"

definition assert_that :: "bool \<Rightarrow> fault + unit" where
  "assert_that b = (if b then Inr () else Inl Assert_Failed)"

named_theorems res_simps \<open>evaluation of fallible computations\<close>

lemma andthen_Inl [simp, res_simps]: "andthen (Inl e) f = Inl e"
  by (simp add: andthen_def)

lemma andthen_Inr [simp, res_simps]: "andthen (Inr x) f = f x"
  by (simp add: andthen_def)

lemma andthen_eq_Inr: "andthen r f = Inr y \<longleftrightarrow> (\<exists>x. r = Inr x \<and> f x = Inr y)"
  by (cases r) auto

lemma andthen_eq_Inl: "andthen r f = Inl e \<longleftrightarrow> r = Inl e \<or> (\<exists>x. r = Inr x \<and> f x = Inl e)"
  by (cases r) auto

lemma assert_that_simps [simp, res_simps]:
  "assert_that True = Inr ()" "assert_that False = Inl Assert_Failed"
  by (simp_all add: assert_that_def)

lemma assert_that_Inr [simp]: "assert_that b = Inr u \<longleftrightarrow> b"
  by (simp add: assert_that_def)

text \<open>\<open>keeps I r\<close>: if \<open>r\<close> ends normally, its value satisfies \<open>I\<close>.\<close>

definition keeps :: "('a \<Rightarrow> bool) \<Rightarrow> 'e + 'a \<Rightarrow> bool" where
  "keeps I r = (case r of Inl e \<Rightarrow> True | Inr x \<Rightarrow> I x)"

lemma keeps_simps [simp]: "keeps I (Inl e)" "keeps I (Inr x) = I x"
  by (simp_all add: keeps_def)

lemma keeps_andthen: "keeps J r \<Longrightarrow> (\<And>x. J x \<Longrightarrow> keeps I (f x)) \<Longrightarrow> keeps I (andthen r f)"
  by (cases r) simp_all

lemma keeps_guard: "(b \<Longrightarrow> keeps I (f ())) \<Longrightarrow> keeps I (andthen (assert_that b) f)"
  by (cases b) simp_all

lemma keepsD: "keeps I r \<Longrightarrow> r = Inr x \<Longrightarrow> I x"
  by simp

fun iterate_res :: "nat \<Rightarrow> ('a \<Rightarrow> 'e + 'a) \<Rightarrow> 'a \<Rightarrow> 'e + 'a" where
  "iterate_res 0 f x = Inr x"
| "iterate_res (Suc n) f x = andthen (iterate_res n f x) f"

text \<open>A property of a \<open>let\<close> whose bound value is not to be copied.\<close>

lemma Let_prop: "Q x \<Longrightarrow> (\<And>y. Q y \<Longrightarrow> P (f y)) \<Longrightarrow> P (Let x f)"
  by (simp add: Let_def)

lemma if_prop:
  assumes "cond \<Longrightarrow> P yes" and "\<not> cond \<Longrightarrow> P no"
  shows "P (if cond then yes else no)"
  using assms by simp

subsection \<open>Lists\<close>

lemma last_append_single [simp]: "last (xs @ [x]) = x"
  by simp

lemma drop_length_append [simp]: "drop (length xs) (xs @ ys) = ys"
  by simp

subsection \<open>Words\<close>

lemma unat_u8_less: "unat (x :: u8) < 256"
  using unsigned_less [of x, where ?'a = nat] by simp

lemma unat_u8_le [simp]: "unat (x :: u8) \<le> 255"
  using unat_u8_less [of x] by simp

lemma unat_u8_255 [simp]: "unat (255 :: u8) = 255"
  by simp

lemma u32_nonneg: "0 \<le> (x :: u32)"
  by simp

subsection \<open>Little-endian members of packed structs\<close>

definition le_bytes32 :: "u32 \<Rightarrow> u8 list" where
  "le_bytes32 w = [ucast w, ucast (drop_bit 8 w), ucast (drop_bit 16 w), ucast (drop_bit 24 w)]"

fun le32 :: "u8 list \<Rightarrow> u32" where
  "le32 (b0 # b1 # b2 # b3 # bs) =
     or (ucast b0) (or (push_bit 8 (ucast b1)) (or (push_bit 16 (ucast b2)) (push_bit 24 (ucast b3))))"
| "le32 _ = 0"

lemma length_le_bytes32 [simp]: "length (le_bytes32 w) = 4"
  by (simp add: le_bytes32_def)

lemma le32_le_bytes32 [simp]: "le32 (le_bytes32 w @ bs) = w"
proof (rule bit_word_eqI)
  fix n assume "n < LENGTH(32)"
  have split: "n < 8 \<or> (\<exists>k<8. n = 8 + k) \<or> (\<exists>k<8. n = 16 + k) \<or> (\<exists>k. n = 24 + k)"
    by presburger
  show "bit (le32 (le_bytes32 w @ bs)) n \<longleftrightarrow> bit w n"
    using split \<open>n < LENGTH(32)\<close> by (elim disjE exE conjE) (auto simp: le_bytes32_def bit_simps)
qed

definition le_bytes16 :: "u16 \<Rightarrow> u8 list" where
  "le_bytes16 w = [ucast w, ucast (drop_bit 8 w)]"

fun le16 :: "u8 list \<Rightarrow> u16" where
  "le16 (b0 # b1 # bs) = or (ucast b0) (push_bit 8 (ucast b1))"
| "le16 _ = 0"

lemma length_le_bytes16 [simp]: "length (le_bytes16 w) = 2"
  by (simp add: le_bytes16_def)

lemma le16_le_bytes16 [simp]: "le16 (le_bytes16 w @ bs) = w"
proof (rule bit_word_eqI)
  fix n assume "n < LENGTH(16)"
  have "n < 8 \<or> (\<exists>k. n = 8 + k)"
    by presburger
  then show "bit (le16 (le_bytes16 w @ bs)) n \<longleftrightarrow> bit w n"
    using \<open>n < LENGTH(16)\<close> by (elim disjE exE) (auto simp: le_bytes16_def bit_simps)
qed

definition bool_byte :: "bool \<Rightarrow> u8" where
  "bool_byte b = (if b then 1 else 0)"

text \<open>The first byte of a chip's address (\<open>OneWire/api/one_wire.h\<close>).\<close>

abbreviation (input) FAMILY_PIO :: u8 where "FAMILY_PIO \<equiv> 0x29"
abbreviation (input) FAMILY_SBATTERY :: u8 where "FAMILY_SBATTERY \<equiv> 0x26"

end
