(* ===== verification/Messaging.thy ===== *)
theory Messaging
  imports Prelude
begin

section \<open>Messages, the messaging server and the messaging client\<close>

text \<open>
  The generic sockets library every server of the robot links: the message layout of
  \<open>MessagingServer/api/messaging_server.h\<close>, the receive loop, the dispatch of one message and
  the accept loop of \<open>MessagingServer/src/messaging_server.c\<close>, and the client of
  \<open>MessagingClient/src/messaging_client.c\<close>.

  The sockets interface is the environment: a connection is a record of what the calls on it
  return (\<open>recvs\<close> is the list of the results of successive \<open>recv\<close> calls, \<open>sendRet\<close> what
  \<open>send\<close> returns for a given number of bytes, \<open>memRecv\<close> and \<open>memSend\<close> whether
  \<open>malloc\<close> succeeds, \<open>memBuf\<close> and \<open>memReply\<close> what the fresh memory holds).  A \<open>recv\<close> when the list is used up is a call that blocks.
  The handler \<open>serverHandleMsg\<close>, which each server provides, is a parameter.
\<close>

subsection \<open>Sizes\<close>

text \<open>
  The sizes are macros without brackets around their bodies, so \<open>MAX_MSG_BODY_LENGTH\<close>
  expands to \<open>256 - 1 - 0 + 1 + 1\<close>: the last two terms are added, not subtracted.
\<close>

definition OFFSET_TO_MSG_LENGTH :: int where "OFFSET_TO_MSG_LENGTH = 0"
definition SIZE_OF_MSG_LENGTH :: int where "SIZE_OF_MSG_LENGTH = 1"
definition SIZE_OF_MSG_TYPE :: int where "SIZE_OF_MSG_TYPE = 1"
definition MAX_MSG_LENGTH :: int where "MAX_MSG_LENGTH = 256 - SIZE_OF_MSG_LENGTH"
definition MAX_MSG_BODY_LENGTH :: int where
  "MAX_MSG_BODY_LENGTH =
     256 - SIZE_OF_MSG_LENGTH - OFFSET_TO_MSG_LENGTH + SIZE_OF_MSG_LENGTH + SIZE_OF_MSG_TYPE"

text \<open>\<open>sizeof (Msg)\<close> for the packed struct.\<close>

definition sizeof_Msg :: int where
  "sizeof_Msg = SIZE_OF_MSG_LENGTH + SIZE_OF_MSG_TYPE + MAX_MSG_BODY_LENGTH"

lemmas size_defs = OFFSET_TO_MSG_LENGTH_def SIZE_OF_MSG_LENGTH_def SIZE_OF_MSG_TYPE_def
  MAX_MSG_LENGTH_def MAX_MSG_BODY_LENGTH_def sizeof_Msg_def

lemma size_values:
  "MAX_MSG_LENGTH = 255" "MAX_MSG_BODY_LENGTH = 257" "sizeof_Msg = 259"
  by (simp_all add: size_defs)

record msg =
  msgLength :: u8
  msgType :: u8
  msgBody :: "u8 list"

text \<open>A message overlaid on a buffer of bytes, as the packed struct is.\<close>

fun msg_of_bytes :: "u8 list \<Rightarrow> msg" where
  "msg_of_bytes (l # t # b) = \<lparr>msgLength = l, msgType = t, msgBody = b\<rparr>"
| "msg_of_bytes [l] = \<lparr>msgLength = l, msgType = 0, msgBody = []\<rparr>"
| "msg_of_bytes [] = \<lparr>msgLength = 0, msgType = 0, msgBody = []\<rparr>"

definition bytes_of_msg :: "msg \<Rightarrow> u8 list" where
  "bytes_of_msg m = msgLength m # msgType m # msgBody m"

datatype server_code =
    SERVER_EXIT_NORMALLY
  | SERVER_SUCCESS_KEEP_RUNNING
  | SERVER_ERR_GENERAL_FAILURE
  | SERVER_ERR_FAILED_TO_ACCEPT_CLIENT_CONNECTION
  | SERVER_ERR_FAILED_TO_LISTEN_ON_SOCKET
  | SERVER_ERR_FAILED_TO_BIND_SOCKET
  | SERVER_ERR_FAILED_TO_CREATE_SOCKET
  | SERVER_ERR_FAILED_TO_SET_SOCKET_OPTIONS
  | SERVER_ERR_FAILED_TO_SEND_RESPONSE_TO_CLIENT
  | SERVER_ERR_FAILED_TO_GET_MEMORY_FOR_RESPONSE
  | SERVER_ERR_MESSAGE_FROM_CLIENT_INCOMPLETE_OR_TOO_LONG
  | SERVER_ERR_FAILED_TO_GET_MEMORY_FOR_RECEPTION
  | SERVER_ERR_MESSAGE_TOO_LARGE

subsection \<open>Receiving\<close>

datatype recv_result = Recv_Data "u8 list" | Recv_Closed | Recv_Error

text \<open>
  The value \<open>recv\<close> returns for a request of \<open>req\<close> bytes, and the buffer after it:
  the bytes go to the start of the buffer, whatever has been received before.
\<close>

fun recv_count :: "nat \<Rightarrow> recv_result \<Rightarrow> int" where
  "recv_count req (Recv_Data bs) = int (length (take req bs))"
| "recv_count req Recv_Closed = 0"
| "recv_count req Recv_Error = -1"

fun recv_store :: "nat \<Rightarrow> recv_result \<Rightarrow> u8 list \<Rightarrow> u8 list" where
  "recv_store req (Recv_Data bs) buf = take req bs @ drop (length (take req bs)) buf"
| "recv_store req _ buf = buf"

definition buf_len :: "u8 list \<Rightarrow> nat" where
  "buf_len buf = unat (msgLength (msg_of_bytes buf))"

fun recv_loop :: "u8 list \<Rightarrow> int \<Rightarrow> recv_result list \<Rightarrow> (u8 list \<times> int) option" where
  "recv_loop buf raw [] = None"
| "recv_loop buf raw (r # rs) =
     (let req = buf_len buf + 1;
          n = recv_count req r;
          buf' = recv_store req r buf;
          raw' = (if n > 0 then raw + n else raw);
          len' = int (buf_len buf')
      in if raw' \<noteq> len' + SIZE_OF_MSG_LENGTH \<and> raw' < MAX_MSG_LENGTH + SIZE_OF_MSG_LENGTH
            \<and> n \<ge> 0 \<and> len' > 0
         then recv_loop buf' raw' rs
         else Some (buf', raw'))"

record connection =
  memRecv :: bool
  memBuf :: "u8 list"
  memSend :: bool
  memReply :: "u8 list"
  recvs :: "recv_result list"
  sendRet :: "nat \<Rightarrow> int"

text \<open>
  The buffer before the first \<open>recv\<close>: the contents of fresh memory, with the length byte set
  to \<open>MAX_MSG_LENGTH\<close>.
\<close>

definition fresh_buf :: "connection \<Rightarrow> u8 list" where
  "fresh_buf c = (case memBuf c of [] \<Rightarrow> [] | _ # bs \<Rightarrow> word_of_int MAX_MSG_LENGTH # bs)"

subsection \<open>One message\<close>

type_synonym 's handler = "msg \<Rightarrow> msg \<Rightarrow> 's \<Rightarrow> fault + (server_code \<times> msg \<times> 's)"

definition empty_reply :: "msg" where
  "empty_reply = \<lparr>msgLength = 0, msgType = 0, msgBody = replicate 257 0\<rparr>"

text \<open>The response before the handler is called: fresh memory in which only the length byte has been set.\<close>

definition fresh_reply :: "connection \<Rightarrow> msg" where
  "fresh_reply c = (msg_of_bytes (memReply c))\<lparr>msgLength := 0\<rparr>"

text \<open>
  \<open>handleSendReceive\<close>: the result is the return code, the response sent (if any) and the
  handler's new state.
\<close>

definition send_reply :: "connection \<Rightarrow> server_code \<Rightarrow> msg \<Rightarrow> fault + (server_code \<times> msg option)" where
  "send_reply c code reply =
     (if (code = SERVER_EXIT_NORMALLY \<or> code = SERVER_SUCCESS_KEEP_RUNNING) \<and> unat (msgLength reply) > 0
      then (let rawSendLength = unat (msgLength reply) + nat SIZE_OF_MSG_LENGTH
            in andthen (assert_that (int rawSendLength \<le> MAX_MSG_LENGTH)) (\<lambda>_.
               if sendRet c rawSendLength \<noteq> int rawSendLength
               then Inr (SERVER_ERR_FAILED_TO_SEND_RESPONSE_TO_CLIENT, None)
               else Inr (code, Some reply)))
      else Inr (code, None))"

definition handleSendReceive ::
  "'s handler \<Rightarrow> connection \<Rightarrow> 's \<Rightarrow> fault + (server_code \<times> msg option \<times> 's)" where
  "handleSendReceive H c s =
     (if memRecv c then
        (case recv_loop (fresh_buf c) 0 (recvs c) of
           None \<Rightarrow> Inl Blocked
         | Some (buf, raw) \<Rightarrow>
             if raw = int (buf_len buf) + SIZE_OF_MSG_LENGTH then
               if memSend c then
                 andthen (H (msg_of_bytes buf) (fresh_reply c) s) (\<lambda>(code, reply, s').
                   andthen (send_reply c code reply) (\<lambda>(code', sent). Inr (code', sent, s')))
               else Inr (SERVER_ERR_FAILED_TO_GET_MEMORY_FOR_RESPONSE, None, s)
             else Inr (SERVER_ERR_MESSAGE_FROM_CLIENT_INCOMPLETE_OR_TOO_LONG, None, s))
      else Inr (SERVER_ERR_FAILED_TO_GET_MEMORY_FOR_RECEPTION, None, s))"

text \<open>The reply with a body written over the start of the reply buffer.\<close>

definition reply_with :: "nat \<Rightarrow> u8 list \<Rightarrow> msg \<Rightarrow> msg" where
  "reply_with t body reply =
     reply\<lparr>msgLength := 1 + of_nat (length body), msgType := of_nat t,
           msgBody := body @ drop (length body) (msgBody reply)\<rparr>"

text \<open>A handler run on a list of messages, each with an empty response.\<close>

fun handle_all :: "'s handler \<Rightarrow> msg list \<Rightarrow> 's \<Rightarrow> fault + 's" where
  "handle_all H [] s = Inr s"
| "handle_all H (m # ms) s = andthen (H m empty_reply s) (\<lambda>(code, reply, s'). handle_all H ms s')"

subsection \<open>The accept loop\<close>

text \<open>
  \<open>socket\<close> and \<open>accept\<close> return an \<open>int\<close> that is stored in a \<open>UInt32\<close> and then
  compared with \<open>>= 0\<close>, an unsigned comparison.  The environment lists what successive
  \<open>accept\<close> calls return, with the connection each gives.  When the list is used up the server is waiting in \<open>accept\<close>:
  the result has no return code.
\<close>

fun accept_loop ::
  "'s handler \<Rightarrow> (int \<times> connection) list \<Rightarrow> 's \<Rightarrow> fault + (server_code option \<times> msg option list \<times> 's)" where
  "accept_loop H [] s = Inr (None, [], s)"
| "accept_loop H ((fd, c) # cs) s =
     (if (word_of_int fd :: u32) \<ge> 0 then
        andthen (handleSendReceive H c s) (\<lambda>(code, sent, s').
          if code = SERVER_SUCCESS_KEEP_RUNNING then
            andthen (accept_loop H cs s') (\<lambda>(code', sents, s''). Inr (code', sent # sents, s''))
          else Inr (Some code, [sent], s'))
      else Inr (Some SERVER_ERR_FAILED_TO_ACCEPT_CLIENT_CONNECTION, [], s))"

record os_setup =
  socketRet :: int
  setsockoptRet :: int
  bindRet :: int
  listenRet :: int

definition runMessagingServer ::
  "'s handler \<Rightarrow> os_setup \<Rightarrow> (int \<times> connection) list \<Rightarrow> 's \<Rightarrow>
     fault + (server_code option \<times> msg option list \<times> 's)" where
  "runMessagingServer H os cs s =
     (if (word_of_int (socketRet os) :: u32) \<ge> 0 then
        if setsockoptRet os \<ge> 0 then
          if bindRet os \<ge> 0 then
            if listenRet os \<ge> 0 then accept_loop H cs s
            else Inr (Some SERVER_ERR_FAILED_TO_LISTEN_ON_SOCKET, [], s)
          else Inr (Some SERVER_ERR_FAILED_TO_BIND_SOCKET, [], s)
        else Inr (Some SERVER_ERR_FAILED_TO_SET_SOCKET_OPTIONS, [], s)
      else Inr (Some SERVER_ERR_FAILED_TO_CREATE_SOCKET, [], s))"

subsection \<open>The receive loop\<close>

lemma length_recv_store:
  "length (take req (case r of Recv_Data bs \<Rightarrow> bs | _ \<Rightarrow> [])) \<le> length buf \<Longrightarrow>
   length (recv_store req r buf) = length buf"
  by (cases r) auto

lemma buf_len_bound: "buf_len buf \<le> 255"
  by (simp add: buf_len_def)

lemma recv_store_fits:
  assumes "256 \<le> length buf"
  shows "length (recv_store (buf_len b + 1) r buf) = length buf"
proof -
  have "length (take (buf_len b + 1) (case r of Recv_Data bs \<Rightarrow> bs | _ \<Rightarrow> [])) \<le> length buf"
    using buf_len_bound [of b] assms by simp
  then show ?thesis by (rule length_recv_store)
qed

text \<open>Every request stays inside the buffer: the loop never changes the buffer's length.\<close>

lemma recv_loop_length:
  "256 \<le> length buf \<Longrightarrow> recv_loop buf raw rs = Some (buf', raw') \<Longrightarrow> length buf' = length buf"
proof (induction rs arbitrary: buf raw)
  case Nil
  then show ?case by simp
next
  case (Cons r rs)
  let ?b = "recv_store (buf_len buf + 1) r buf"
  have len: "length ?b = length buf" using Cons.prems(1) by (rule recv_store_fits)
  show ?case
  proof (cases "recv_loop buf raw (r # rs) = Some (?b, raw')")
    case True
    with Cons.prems len show ?thesis by simp
  next
    case False
    with Cons.prems(2) obtain raw1 where "recv_loop ?b raw1 rs = Some (buf', raw')"
      by (auto simp: Let_def split: if_splits)
    with Cons.IH [of ?b raw1] Cons.prems(1) len show ?thesis by simp
  qed
qed

text \<open>
  A \<open>recv\<close> that returns 0 (the peer has closed the connection) changes nothing, and
  the loop condition does not test for it.
\<close>

lemma recv_loop_eof_spins:
  assumes "raw \<noteq> int (buf_len buf) + 1" "raw < 256" "buf_len buf > 0"
  shows "recv_loop buf raw (replicate n Recv_Closed) = None"
  by (induction n) (use assms in \<open>simp_all add: size_defs\<close>)

lemma buf_len_Cons [simp]: "buf_len (l # bs) = unat l"
  by (cases bs) (simp_all add: buf_len_def)

lemma buf_len_fresh: "memBuf c \<noteq> [] \<Longrightarrow> buf_len (fresh_buf c) = 255"
  by (cases "memBuf c") (simp_all add: fresh_buf_def size_defs)

lemma recv_loop_single:
  assumes "memBuf c \<noteq> []" and "unat l = length bs" and "0 < length bs"
  shows "recv_loop (fresh_buf c) 0 (Recv_Data (l # bs) # rs) =
           Some (l # bs @ drop (Suc (length bs)) (fresh_buf c), int (length bs) + 1)"
proof -
  have "length bs \<le> 255" using unat_u8_le [of l] assms(2) by simp
  then show ?thesis
    using assms by (simp add: buf_len_fresh Let_def size_defs)
qed

subsection \<open>Servers whose handler keeps an invariant\<close>

text \<open>
  What the server library needs from \<open>serverHandleMsg\<close>: it keeps the server's invariant.
  Then so does the accept loop, whatever the clients and the operating system do.
\<close>

locale message_handler =
  fixes handle :: "'s handler" and inv :: "'s \<Rightarrow> bool"
  assumes handle_inv: "inv s \<Longrightarrow> handle m r s = Inr (code, reply, s') \<Longrightarrow> inv s'"
begin

lemma handleSendReceive_inv:
  assumes "inv s" and "handleSendReceive handle c s = Inr (code, sent, s')"
  shows "inv s'"
  using assms handle_inv
  by (auto simp: handleSendReceive_def andthen_eq_Inr split: if_splits option.splits)

lemma accept_loop_inv:
  "inv s \<Longrightarrow> accept_loop handle cs s = Inr (code, sents, s') \<Longrightarrow> inv s'"
proof (induction cs arbitrary: s code sents)
  case Nil
  then show ?case by simp
next
  case (Cons p cs)
  obtain fd c where p: "p = (fd, c)" by (cases p)
  from Cons.prems(2) obtain code1 sent s1 where
    h: "handleSendReceive handle c s = Inr (code1, sent, s1)"
    by (auto simp: p andthen_eq_Inr)
  from Cons.prems(1) h have "inv s1" by (rule handleSendReceive_inv)
  with Cons.prems(2) h show ?case
    by (auto simp: p andthen_eq_Inr split: if_splits intro: Cons.IH)
qed

lemma runMessagingServer_inv:
  assumes "inv s" and "runMessagingServer handle os cs s = Inr (code, sents, s')"
  shows "inv s'"
  using assms by (auto simp: runMessagingServer_def split: if_splits intro: accept_loop_inv)

end

text \<open>
  With replies of at most 254 bytes after the length byte, the assertion before \<open>send\<close> holds,
  so a run only fails where the handler fails or a receive blocks.
\<close>

locale short_reply_handler = message_handler +
  assumes reply_short:
    "inv s \<Longrightarrow> handle m r s = Inr (code, reply, s') \<Longrightarrow> unat (msgLength reply) \<le> 254"
  and handler_runs: "inv s \<Longrightarrow> handle m r s \<noteq> Inl Bad_Access"
begin

lemma send_reply_total:
  assumes "unat (msgLength reply) \<le> 254"
  shows "\<exists>code' sent. send_reply c code reply = Inr (code', sent)"
  using assms by (auto simp: send_reply_def Let_def size_defs)

lemma handleSendReceive_no_bad_access:
  assumes "inv s"
  shows "handleSendReceive handle c s \<noteq> Inl Bad_Access"
proof
  assume "handleSendReceive handle c s = Inl Bad_Access"
  then obtain m r code reply s' where "handle m r s = Inr (code, reply, s')"
    and "send_reply c code reply = Inl Bad_Access"
    using handler_runs [OF assms]
    by (auto simp: handleSendReceive_def andthen_eq_Inl split: if_splits option.splits)
  with reply_short [OF assms] send_reply_total [of reply c code] show False by auto
qed

lemma accept_loop_no_bad_access: "inv s \<Longrightarrow> accept_loop handle cs s \<noteq> Inl Bad_Access"
proof (induction cs arbitrary: s)
  case Nil
  then show ?case by simp
next
  case (Cons p cs)
  obtain fd c where p: "p = (fd, c)" by (cases p)
  show ?case
  proof (cases "handleSendReceive handle c s")
    case (Inl e)
    with handleSendReceive_no_bad_access [OF Cons.prems, of c] show ?thesis by (auto simp: p)
  next
    case (Inr t)
    obtain code sent s1 where t: "t = (code, sent, s1)" by (cases t)
    have "inv s1" using Cons.prems Inr unfolding t by (rule handleSendReceive_inv)
    from Cons.IH [OF this] Inr t show ?thesis by (auto simp: p andthen_eq_Inl)
  qed
qed

end

subsection \<open>Properties of the server library\<close>

lemma recv_count_bounds: "-1 \<le> recv_count (buf_len b + 1) r \<and> recv_count (buf_len b + 1) r \<le> 256"
  using buf_len_bound [of b] by (cases r) auto

lemma recv_loop_raw_bound:
  "0 \<le> raw \<Longrightarrow> raw < 256 \<Longrightarrow> recv_loop buf raw rs = Some (buf', raw') \<Longrightarrow> raw' < 512"
proof (induction rs arbitrary: buf raw)
  case Nil
  then show ?case by simp
next
  case (Cons r rs)
  let ?n = "recv_count (buf_len buf + 1) r"
  let ?b = "recv_store (buf_len buf + 1) r buf"
  let ?raw = "if ?n > 0 then raw + ?n else raw"
  have bounds: "0 \<le> ?raw" "?raw < 512"
    using Cons.prems(1,2) recv_count_bounds [of buf r] by auto
  from Cons.prems(3) consider "raw' = ?raw" | "?raw < 256" "recv_loop ?b ?raw rs = Some (buf', raw')"
    by (auto simp: Let_def size_defs split: if_splits)
  then show ?case
    using bounds Cons.IH by cases (simp, blast)
qed

text \<open>
  Memory safety of reception: whatever the peer sends and however \<open>recv\<close> splits it, the
  receive loop keeps the 259-byte \<open>Msg\<close> buffer at its size, so no request ever reaches beyond it,
  and the length the loop ends with is below 512 (no \<open>UInt16\<close> wrap).
\<close>

theorem recv_loop_safe:
  assumes "length buf = nat sizeof_Msg" and "recv_loop buf 0 rs = Some (buf', raw')"
  shows "length buf' = nat sizeof_Msg \<and> raw' < 512"
  using assms recv_loop_length [of buf 0 rs buf' raw'] recv_loop_raw_bound [of 0 buf rs buf' raw']
  by (simp add: size_values)

theorem recv_loop_safe_witness:
  "\<exists>buf' raw'. recv_loop (2 # replicate 258 0) 0 [Recv_Data [2, 9, 9]] = Some (buf', raw')
      \<and> length buf' = nat sizeof_Msg \<and> raw' < 512"
proof -
  have l: "length (2 # replicate 258 (0::u8)) = nat sizeof_Msg"
    by (simp add: size_values)
  have r: "recv_loop (2 # replicate 258 0) 0 [Recv_Data [2, 9, 9]]
             = Some ([2, 9, 9] @ drop 3 (2 # replicate 258 0), 3)"
    by (simp add: Let_def size_defs)
  show ?thesis using r recv_loop_safe [OF l r] by blast
qed

text \<open>
  Reception of a whole message: if the first \<open>recv\<close> delivers a message \<open>l # bs\<close> whose length byte
  counts the bytes that follow, the handler is called once, on exactly these bytes (at the
  start of the buffer), and the code and the response are the handler's.
\<close>

theorem handle_single_chunk:
  assumes "memRecv c" and "memSend c" and "memBuf c \<noteq> []"
    and "recvs c = Recv_Data (l # bs) # rs" and "unat l = length bs" and "0 < length bs"
  shows "handleSendReceive H c s =
           andthen (H (msg_of_bytes (l # bs @ drop (Suc (length bs)) (fresh_buf c))) (fresh_reply c) s)
             (\<lambda>(code, reply, s').
                andthen (send_reply c code reply) (\<lambda>(code', sent). Inr (code', sent, s')))"
  using assms by (simp add: handleSendReceive_def recv_loop_single size_defs del: recv_loop.simps)

theorem handle_single_chunk_witness:
  "handleSendReceive (\<lambda>m r n. Inr (SERVER_SUCCESS_KEEP_RUNNING, r\<lparr>msgLength := msgType m\<rparr>, n + 1))
     \<lparr>memRecv = True, memBuf = replicate 259 0, memSend = True, memReply = 0 # 0 # replicate 257 0,
      recvs = [Recv_Data [1, 2]], sendRet = int\<rparr> (5::nat)
   = Inr (SERVER_SUCCESS_KEEP_RUNNING, Some (empty_reply\<lparr>msgLength := 2\<rparr>), 6)"
  by (subst handle_single_chunk [where l = 1 and bs = "[2]" and rs = "[]"])
    (simp_all add: send_reply_def fresh_reply_def empty_reply_def Let_def size_defs)

text \<open>
  C39. A peer that closes the connection before the message is complete makes the server hang: from a
  partial message in the buffer, no number of zero results of \<open>recv\<close> ends the receive loop,
  so \<open>handleSendReceive\<close> never returns.
\<close>

theorem server_spins_on_early_close:
  assumes "memRecv c" and "memBuf c \<noteq> []"
    and "recvs c = Recv_Data (l # bs) # replicate n Recv_Closed"
    and "length bs < unat l"
  shows "handleSendReceive H c s = Inl Blocked"
proof -
  let ?buf = "l # bs @ drop (Suc (length bs)) (fresh_buf c)"
  have short: "length bs < 255" using assms(4) unat_u8_le [of l] by linarith
  have "int (length bs) < int (unat l)" using assms(4) by (simp only: of_nat_less_iff)
  also have "\<dots> = uint l" by simp
  finally have neq: "int (length bs) \<noteq> uint l" by simp
  have "recv_loop (fresh_buf c) 0 (recvs c)
          = recv_loop ?buf (int (length bs) + 1) (replicate n Recv_Closed)"
    using assms short by (simp add: buf_len_fresh Let_def size_defs add.commute) (meson neq)
  also have "\<dots> = None"
  proof (rule recv_loop_eof_spins)
    show "int (length bs) + 1 \<noteq> int (buf_len ?buf) + 1" using neq by simp
  qed (use assms(4) short in auto)
  finally show ?thesis using assms(1) by (simp add: handleSendReceive_def)
qed

theorem server_spins_on_early_close_witness:
  "handleSendReceive (\<lambda>m r n. Inr (SERVER_SUCCESS_KEEP_RUNNING, r, n))
     \<lparr>memRecv = True, memBuf = replicate 259 0, memSend = True, memReply = 0 # 0 # replicate 257 0,
      recvs = Recv_Data [4, 2] # replicate 1000 Recv_Closed, sendRet = int\<rparr> (0::nat)
   = Inl Blocked"
  by (rule server_spins_on_early_close [where l = 4 and bs = "[2]" and n = 1000]) simp_all

lemma handleSendReceive_code:
  assumes "handleSendReceive H c s = Inr (code, sent, s')"
    and "\<And>m r s reply t. H m r s \<noteq> Inr (bad, reply, t)"
    and "bad \<in> {SERVER_ERR_FAILED_TO_CREATE_SOCKET, SERVER_ERR_FAILED_TO_ACCEPT_CLIENT_CONNECTION}"
  shows "code \<noteq> bad"
  using assms
  by (auto simp: handleSendReceive_def send_reply_def Let_def andthen_eq_Inr split: if_splits option.splits)

lemma accept_loop_code:
  assumes "\<And>m r s reply t. H m r s \<noteq> Inr (bad, reply, t)"
    and "bad \<in> {SERVER_ERR_FAILED_TO_CREATE_SOCKET, SERVER_ERR_FAILED_TO_ACCEPT_CLIENT_CONNECTION}"
  shows "accept_loop H cs s = Inr (code, sents, s') \<Longrightarrow> code \<noteq> Some bad"
proof (induction cs arbitrary: s code sents)
  case Nil
  then show ?case by simp
next
  case (Cons p cs)
  obtain fd c where "p = (fd, c)" by (cases p)
  with Cons show ?case
    by (auto simp: andthen_eq_Inr split: if_splits dest: handleSendReceive_code [OF _ assms])
qed

text \<open>
  The failure tests on \<open>socket\<close> and \<open>accept\<close> never fire, because the results are compared as
  unsigned numbers: whatever the operating system returns, \<open>runMessagingServer\<close> does not return
  \<open>FAILED_TO_CREATE_SOCKET\<close>, and returns \<open>FAILED_TO_ACCEPT_CLIENT_CONNECTION\<close> only if the
  handler does.
\<close>

theorem server_never_reports_socket_failure:
  assumes "\<And>m r s reply t. H m r s \<noteq> Inr (bad, reply, t)"
    and "bad \<in> {SERVER_ERR_FAILED_TO_CREATE_SOCKET, SERVER_ERR_FAILED_TO_ACCEPT_CLIENT_CONNECTION}"
    and "runMessagingServer H os cs s = Inr (code, sents, s')"
  shows "code \<noteq> Some bad"
  using assms accept_loop_code [OF assms(1,2)]
  by (auto simp: runMessagingServer_def split: if_splits)

theorem server_never_reports_socket_failure_witness:
  "runMessagingServer (\<lambda>m r n. Inr (SERVER_EXIT_NORMALLY, r, n))
      \<lparr>socketRet = -1, setsockoptRet = 0, bindRet = 0, listenRet = 0\<rparr>
      [(-1, \<lparr>memRecv = True, memBuf = replicate 259 0, memSend = True, memReply = 0 # 0 # replicate 257 0, recvs = [Recv_Error], sendRet = int\<rparr>)]
      (0::nat)
     = Inr (Some SERVER_ERR_MESSAGE_FROM_CLIENT_INCOMPLETE_OR_TOO_LONG, [None], 0)
   \<and> Some SERVER_ERR_MESSAGE_FROM_CLIENT_INCOMPLETE_OR_TOO_LONG \<noteq> Some SERVER_ERR_FAILED_TO_CREATE_SOCKET"
proof -
  let ?run = "runMessagingServer (\<lambda>m r n. Inr (SERVER_EXIT_NORMALLY, r, n))
      \<lparr>socketRet = -1, setsockoptRet = 0, bindRet = 0, listenRet = 0\<rparr>
      [(-1, \<lparr>memRecv = True, memBuf = replicate 259 0, memSend = True, memReply = 0 # 0 # replicate 257 0, recvs = [Recv_Error], sendRet = int\<rparr>)]
      (0::nat)"
  have r: "?run = Inr (Some SERVER_ERR_MESSAGE_FROM_CLIENT_INCOMPLETE_OR_TOO_LONG, [None], 0)"
    by (simp add: runMessagingServer_def handleSendReceive_def Let_def size_defs buf_len_fresh)
  show ?thesis
    using r server_never_reports_socket_failure [OF _ _ r, of SERVER_ERR_FAILED_TO_CREATE_SOCKET]
    by simp
qed

end
