(* ===== verification/Client.thy ===== *)
theory Client
  imports Messaging
begin

section \<open>The messaging client and the access functions of the servers\<close>

text \<open>
  \<open>runMessagingClient\<close> of \<open>MessagingClient/src/messaging_client.c\<close>, and the functions
  through which a process talks to one server: \<open>timerServerSend\<close>,
  \<open>hardwareServerSendReceive\<close>, \<open>batteryManagerServerSendReceive\<close>,
  \<open>taskHandlerServerSendReceive\<close>, \<open>stateMachineServerSendReceive\<close> and
  \<open>taskHandlerResponder\<close>.

  A \<open>client_conn\<close> is what the operating system returns during one call.  The result
  of \<open>runMessagingClient\<close> is the return code, the receive buffer after the call (if the caller
  gave one) and what was sent: the port and the bytes.  \<open>Inl Blocked\<close> is a call that waits
  for ever in \<open>recv\<close>.
\<close>

datatype client_code =
    CLIENT_SUCCESS
  | CLIENT_ERR_GENERAL_FAILURE
  | CLIENT_ERR_COULDNT_SEND_WHOLE_MESSAGE_TO_SERVER
  | CLIENT_ERR_FAILED_TO_CONNECT_TO_SERVER
  | CLIENT_ERR_FAILED_TO_CREATE_SOCKET
  | CLIENT_ERR_SEND_MESSAGE_IS_PNULL
  | CLIENT_ERR_MESSAGE_FROM_SERVER_INCOMPLETE_OR_TOO_LONG
  | CLIENT_ERR_FAILED_ON_RECV

record client_conn =
  cMemSend :: bool
  cMemRecv :: bool
  cSendBuf :: "u8 list"
  cRecvBuf :: "u8 list"
  cSocketRet :: int
  cConnectRet :: int
  cSendRet :: "nat \<Rightarrow> int"
  cRecvs :: "recv_result list"

subsection \<open>One exchange\<close>

definition more_to_receive :: "u8 list \<Rightarrow> int \<Rightarrow> int \<Rightarrow> bool" where
  "more_to_receive buf raw n \<longleftrightarrow>
     raw < int (buf_len buf) + SIZE_OF_MSG_LENGTH \<and> raw < MAX_MSG_LENGTH + SIZE_OF_MSG_LENGTH
     \<and> n \<ge> 0 \<and> buf_len buf > 0"

fun client_recv_loop ::
  "u8 list \<Rightarrow> int \<Rightarrow> int \<Rightarrow> client_code \<Rightarrow> recv_result list \<Rightarrow> (u8 list \<times> int \<times> client_code) option" where
  "client_recv_loop buf raw n code [] =
     (if more_to_receive buf raw n then None else Some (buf, raw, code))"
| "client_recv_loop buf raw n code (r # rs) =
     (if more_to_receive buf raw n then
        (let req = buf_len buf + 1;
             n' = recv_count req r;
             buf' = recv_store req r buf
         in if n' \<ge> 0 then client_recv_loop buf' (raw + n') n' code rs
            else client_recv_loop buf' raw n' CLIENT_ERR_FAILED_ON_RECV rs)
      else Some (buf, raw, code))"

definition client_receive :: "u8 list \<Rightarrow> recv_result list \<Rightarrow> fault + (client_code \<times> u8 list)" where
  "client_receive mem rs =
     (case client_recv_loop (word_of_int MAX_MSG_LENGTH # tl mem) 0 0 CLIENT_SUCCESS rs of
        None \<Rightarrow> Inl Blocked
      | Some (buf, raw, code) \<Rightarrow>
          if raw \<noteq> int (buf_len buf) + SIZE_OF_MSG_LENGTH
          then Inr (CLIENT_ERR_MESSAGE_FROM_SERVER_INCOMPLETE_OR_TOO_LONG, buf)
          else Inr (code, buf))"

definition runMessagingClient ::
  "client_conn \<Rightarrow> u16 \<Rightarrow> msg option \<Rightarrow> u8 list option \<Rightarrow>
     fault + (client_code \<times> u8 list option \<times> (u16 \<times> u8 list) option)" where
  "runMessagingClient c port pSendMsg pReceivedMsg =
     (case pSendMsg of
        None \<Rightarrow> Inr (CLIENT_ERR_SEND_MESSAGE_IS_PNULL, pReceivedMsg, None)
      | Some m \<Rightarrow>
          if (word_of_int (cSocketRet c) :: u32) \<ge> 0 then
            if cConnectRet c \<ge> 0 then
              (let rawSendLength = unat (msgLength m) + nat SIZE_OF_MSG_LENGTH;
                   sent = (port, take rawSendLength (bytes_of_msg m))
               in if cSendRet c rawSendLength = int rawSendLength then
                    (case pReceivedMsg of
                       None \<Rightarrow> Inr (CLIENT_SUCCESS, None, Some sent)
                     | Some mem \<Rightarrow>
                         andthen (client_receive mem (cRecvs c)) (\<lambda>(code, buf).
                           Inr (code, Some buf, Some sent)))
                  else Inr (CLIENT_ERR_COULDNT_SEND_WHOLE_MESSAGE_TO_SERVER, pReceivedMsg, None))
            else Inr (CLIENT_ERR_FAILED_TO_CONNECT_TO_SERVER, pReceivedMsg, None)
          else Inr (CLIENT_ERR_FAILED_TO_CREATE_SOCKET, pReceivedMsg, None))"

subsection \<open>Framing a request\<close>

text \<open>
  \<open>msgLength\<close> is a \<open>UInt8\<close>: adding the body length to it wraps at 256.  \<open>mem\<close> is
  the uninitialised body of the fresh \<open>Msg\<close>.
\<close>

definition frame_request :: "u8 list \<Rightarrow> nat \<Rightarrow> u8 list option \<Rightarrow> nat \<Rightarrow> msg" where
  "frame_request mem t pBody len =
     \<lparr>msgLength = 1 + of_nat len, msgType = of_nat t,
      msgBody = (case pBody of None \<Rightarrow> mem | Some b \<Rightarrow> take len b @ drop len mem)\<rparr>"

definition request_asserts :: "nat \<Rightarrow> nat \<Rightarrow> nat \<Rightarrow> bool" where
  "request_asserts maxMsgs t len \<longleftrightarrow> t < maxMsgs \<and> int len \<le> MAX_MSG_BODY_LENGTH"

definition MAX_NUM_TIMER_MSGS :: nat where "MAX_NUM_TIMER_MSGS = 4"
definition MAX_NUM_BATTERY_MANAGER_MSGS :: nat where "MAX_NUM_BATTERY_MANAGER_MSGS = 8"
definition MAX_NUM_HARDWARE_MSGS :: nat where "MAX_NUM_HARDWARE_MSGS = 75"
definition MAX_NUM_STATE_MACHINE_MSGS :: nat where "MAX_NUM_STATE_MACHINE_MSGS = 14"
definition MAX_NUM_TASK_HANDLER_MSGS :: nat where "MAX_NUM_TASK_HANDLER_MSGS = 5"

text \<open>The timer server never replies, so no buffer is given.\<close>

definition timerServerSend ::
  "client_conn \<Rightarrow> nat \<Rightarrow> u8 list option \<Rightarrow> nat \<Rightarrow> fault + (bool \<times> (u16 \<times> u8 list) option)" where
  "timerServerSend c t pBody len =
     andthen (assert_that (request_asserts MAX_NUM_TIMER_MSGS t len)) (\<lambda>_.
       if cMemSend c then
         andthen (runMessagingClient c 5235 (Some (frame_request (cSendBuf c) t pBody len)) None)
           (\<lambda>(code, _, sent). Inr (code = CLIENT_SUCCESS, sent))
       else Inr (False, None))"

text \<open>
  The three access functions that wait for a reply whose body starts with a \<open>Bool\<close>; the rest
  of the reply is handed back on success, where the caller asks for it.
\<close>

definition send_receive ::
  "nat \<Rightarrow> u16 \<Rightarrow> client_conn \<Rightarrow> nat \<Rightarrow> u8 list option \<Rightarrow> nat \<Rightarrow>
     fault + (client_code \<times> msg) option" where
  "send_receive maxMsgs port c t pBody len =
     andthen (assert_that (request_asserts maxMsgs t len)) (\<lambda>_.
       if cMemSend c \<and> cMemRecv c then
         andthen (runMessagingClient c port (Some (frame_request (cSendBuf c) t pBody len))
                    (Some (0 # tl (cRecvBuf c))))
           (\<lambda>(code, buf, _). Inr (Some (code, msg_of_bytes (case buf of None \<Rightarrow> [] | Some b \<Rightarrow> b))))
       else Inr None)"

definition success_reply :: "(client_code \<times> msg) option \<Rightarrow> bool \<times> u8 list option" where
  "success_reply r =
     (case r of
        None \<Rightarrow> (False, None)
      | Some (code, m) \<Rightarrow>
          if code = CLIENT_SUCCESS \<and> unat (msgLength m) > 1 then
            (let receivedMsgBodyLength = unat (msgLength m) - 1
             in if receivedMsgBodyLength \<ge> 1 \<and> hd (msgBody m) \<noteq> 0
                then (True, Some (take (receivedMsgBodyLength - 1) (tl (msgBody m))))
                else (False, None))
          else (False, None))"

definition hardwareServerSendReceive ::
  "client_conn \<Rightarrow> nat \<Rightarrow> u8 list option \<Rightarrow> nat \<Rightarrow> fault + (bool \<times> u8 list option)" where
  "hardwareServerSendReceive c t pBody len =
     andthen (send_receive MAX_NUM_HARDWARE_MSGS 5234 c t pBody len) (\<lambda>r. Inr (success_reply r))"

definition batteryManagerServerSendReceive ::
  "client_conn \<Rightarrow> nat \<Rightarrow> u8 list option \<Rightarrow> nat \<Rightarrow> fault + (bool \<times> u8 list option)" where
  "batteryManagerServerSendReceive c t pBody len =
     andthen (send_receive MAX_NUM_BATTERY_MANAGER_MSGS 5232 c t pBody len) (\<lambda>r. Inr (success_reply r))"

definition taskHandlerServerSendReceive ::
  "client_conn \<Rightarrow> nat \<Rightarrow> u8 list option \<Rightarrow> nat \<Rightarrow> fault + bool" where
  "taskHandlerServerSendReceive c t pBody len =
     andthen (send_receive MAX_NUM_TASK_HANDLER_MSGS 5233 c t pBody len) (\<lambda>r. Inr (fst (success_reply r)))"

text \<open>
  The state machine server's access function waits for a reply only if the caller wants its
  type; any reply with a type byte counts as success.
\<close>

definition stateMachineServerSendReceive ::
  "client_conn \<Rightarrow> nat \<Rightarrow> u8 list option \<Rightarrow> nat \<Rightarrow> bool \<Rightarrow> fault + (bool \<times> (u8 \<times> u8 list) option)" where
  "stateMachineServerSendReceive c t pBody len wantReply =
     andthen (assert_that (request_asserts MAX_NUM_STATE_MACHINE_MSGS t len)) (\<lambda>_.
       if cMemSend c \<and> (\<not> wantReply \<or> cMemRecv c) then
         andthen (runMessagingClient c 5231 (Some (frame_request (cSendBuf c) t pBody len))
                    (if wantReply then Some (0 # tl (cRecvBuf c)) else None))
           (\<lambda>(code, buf, _).
              if code = CLIENT_SUCCESS then
                (case buf of
                   None \<Rightarrow> Inr (True, None)
                 | Some b \<Rightarrow>
                     (let m = msg_of_bytes b in
                      if unat (msgLength m) \<ge> 1 then
                        (let receivedMsgBodyLength = unat (msgLength m) - 1
                         in andthen (assert_that (int receivedMsgBodyLength \<le> MAX_MSG_BODY_LENGTH))
                              (\<lambda>_. Inr (True, Some (msgType m, take receivedMsgBodyLength (msgBody m)))))
                      else Inr (False, None)))
              else Inr (False, None))
       else Inr (False, None))"

record task_req_header =
  handle :: u32
  sourceServerPort :: s32
  sourceServerIpAddressStringPresent :: bool
  sourceServerIpAddressString :: string

text \<open>The port is narrowed to 16 bits by the call; the address is the header's, if it is there.\<close>

definition taskHandlerResponder ::
  "client_conn \<Rightarrow> task_req_header \<Rightarrow> nat \<Rightarrow> u8 list option \<Rightarrow> nat \<Rightarrow>
     fault + (bool \<times> string \<times> (u16 \<times> u8 list) option)" where
  "taskHandlerResponder c h t pBody len =
     andthen (assert_that (request_asserts MAX_NUM_TASK_HANDLER_MSGS t len)) (\<lambda>_.
       if cMemSend c then
         (let pIpAddress = (if sourceServerIpAddressStringPresent h then sourceServerIpAddressString h
                            else ''127.0.0.1'')
          in andthen (runMessagingClient c (ucast (sourceServerPort h))
                        (Some (frame_request (cSendBuf c) t pBody len)) None)
               (\<lambda>(code, _, sent). Inr (code = CLIENT_SUCCESS, pIpAddress, sent)))
       else Inr (False, '''', None))"

subsection \<open>Properties of the client\<close>

text \<open>
  The length byte of a request.  The assertion lets bodies of up to 257 bytes through (the
  macros add where they should subtract), but the length byte is 8 bits wide: it is one more than the
  body length up to 254 bytes, and wraps to 0, 1 or 2 for 255 to 257 bytes.
\<close>

theorem request_length:
  assumes "request_asserts maxMsgs t len"
  shows "unat (msgLength (frame_request mem t pBody len)) = (if len \<le> 254 then len + 1 else len - 255)"
proof -
  have "len \<le> 257" using assms by (simp add: request_asserts_def size_values)
  moreover have "unat (1 + of_nat len :: u8) = (1 + len) mod 256"
    by (simp add: unat_word_ariths unat_of_nat mod_simps)
  ultimately show ?thesis
    by (auto simp: frame_request_def mod_if)
qed

theorem request_length_witness:
  "request_asserts 4 2 256 \<and> unat (msgLength (frame_request [] 2 None 256)) = 1"
proof -
  have a: "request_asserts 4 2 256" by (simp add: request_asserts_def size_values)
  show ?thesis using a request_length [OF a, of "[]" None] by simp
qed

lemma length_frame_body:
  "length mem = 257 \<Longrightarrow> length b \<le> 254 \<Longrightarrow> length (msgBody (frame_request mem t (Some b) (length b))) = 257"
  by (simp add: frame_request_def)

lemma frame_request_bytes:
  assumes "length b \<le> 254" and "length mem = 257"
  shows "take (length b + 2) (bytes_of_msg (frame_request mem t (Some b) (length b)))
           = (of_nat (length b + 1)) # (of_nat t) # b"
  using assms by (simp add: bytes_of_msg_def frame_request_def)



lemma client_recv_loop_failed:
  "code \<noteq> CLIENT_ERR_FAILED_ON_RECV \<Longrightarrow>
   client_recv_loop buf raw n code rs = Some (buf', raw', CLIENT_ERR_FAILED_ON_RECV) \<Longrightarrow>
   raw' \<noteq> int (buf_len buf') + 1"
proof (induction rs arbitrary: buf raw n)
  case Nil
  then show ?case by (simp split: if_splits)
next
  case (Cons r rs)
  show ?case
  proof (cases "recv_count (buf_len buf + 1) r \<ge> 0")
    case True
    with Cons show ?thesis by (auto simp: Let_def split: if_splits)
  next
    case False
    then have r: "r = Recv_Error" by (cases r) auto
    from Cons.prems have "more_to_receive buf raw n" by (auto split: if_splits)
    then have "raw < int (buf_len buf) + 1" by (simp add: more_to_receive_def size_defs)
    with Cons.prems r show ?thesis
      by (cases rs) (auto simp: Let_def more_to_receive_def split: if_splits)
  qed
qed

text \<open>
  A failing \<open>recv\<close> is always reported as an incomplete message: the code
  \<open>CLIENT_ERR_FAILED_ON_RECV\<close> set in the loop is overwritten by the length test after it, so
  \<open>runMessagingClient\<close> never returns it.
\<close>

theorem client_never_reports_recv_failure:
  "runMessagingClient c port m r = Inr (code, buf, sent) \<Longrightarrow> code \<noteq> CLIENT_ERR_FAILED_ON_RECV"
  by (auto simp: runMessagingClient_def client_receive_def Let_def andthen_eq_Inr size_defs
      split: option.splits if_splits dest: client_recv_loop_failed [of CLIENT_SUCCESS, simplified])

theorem client_never_reports_recv_failure_witness:
  "runMessagingClient \<lparr>cMemSend = True, cMemRecv = True, cSendBuf = [], cRecvBuf = [], cSocketRet = 3,
       cConnectRet = 0, cSendRet = int, cRecvs = [Recv_Error]\<rparr> 5234
     (Some \<lparr>msgLength = 1, msgType = 7, msgBody = []\<rparr>) (Some [0, 0, 0])
   = Inr (CLIENT_ERR_MESSAGE_FROM_SERVER_INCOMPLETE_OR_TOO_LONG, Some [255, 0, 0], Some (5234, [1, 7]))
   \<and> CLIENT_ERR_MESSAGE_FROM_SERVER_INCOMPLETE_OR_TOO_LONG \<noteq> CLIENT_ERR_FAILED_ON_RECV"
proof -
  have r: "runMessagingClient \<lparr>cMemSend = True, cMemRecv = True, cSendBuf = [], cRecvBuf = [], cSocketRet = 3,
       cConnectRet = 0, cSendRet = int, cRecvs = [Recv_Error]\<rparr> 5234
     (Some \<lparr>msgLength = 1, msgType = 7, msgBody = []\<rparr>) (Some [0, 0, 0])
   = Inr (CLIENT_ERR_MESSAGE_FROM_SERVER_INCOMPLETE_OR_TOO_LONG, Some [255, 0, 0], Some (5234, [1, 7]))"
    by (simp add: runMessagingClient_def client_receive_def more_to_receive_def bytes_of_msg_def
        Let_def size_defs)
  show ?thesis using r client_never_reports_recv_failure [OF r] by simp
qed

lemma client_receive_single:
  assumes "unat l = length bs" and "0 < length bs" and "mem \<noteq> []"
  shows "client_receive mem (Recv_Data (l # bs) # rs) =
           Inr (CLIENT_SUCCESS, l # bs @ drop (length bs) (tl mem))"
proof -
  have b: "length bs \<le> 255" using unat_u8_le [of l] assms(1) by simp
  have stop: "client_recv_loop (l # bs @ rest) (int (length bs) + 1) n CLIENT_SUCCESS rs
      = Some (l # bs @ rest, int (length bs) + 1, CLIENT_SUCCESS)" for rest n
    using assms(1) by (cases rs) (simp_all add: more_to_receive_def size_defs)
  have "client_recv_loop (w # tl mem) 0 0 CLIENT_SUCCESS (Recv_Data (l # bs) # rs)
      = Some (l # bs @ drop (length bs) (tl mem), int (length bs) + 1, CLIENT_SUCCESS)"
    if "unat w = 255" for w
    using that assms b stop [of "drop (length bs) (tl mem)"]
    by (simp add: Let_def more_to_receive_def size_defs add.commute)
  moreover have "unat (word_of_int MAX_MSG_LENGTH :: u8) = 255"
    by (simp add: size_defs)
  ultimately show ?thesis
    using assms(1) by (simp add: client_receive_def SIZE_OF_MSG_LENGTH_def del: client_recv_loop.simps)
qed

text \<open>
  Round trip of a confirmation: if a server replies with a success byte \<open>b\<close> and the bytes
  \<open>specs\<close> (at most 252), and the reply arrives in one piece, \<open>hardwareServerSendReceive\<close>
  returns whether \<open>b\<close> is non-zero, and hands \<open>specs\<close> back exactly when it is.
\<close>

theorem confirmation_roundtrip:
  assumes "t < MAX_NUM_HARDWARE_MSGS" and "length specs \<le> 252"
    and "cMemSend c" and "cMemRecv c" and "0 \<le> cConnectRet c" and "\<And>n. cSendRet c n = int n"
    and "cRecvs c = Recv_Data (of_nat (length specs + 2) # of_nat t # b # specs) # rs"
  shows "hardwareServerSendReceive c t None 0 = Inr (if b \<noteq> 0 then (True, Some specs) else (False, None))"
proof -
  let ?l = "of_nat (length specs + 2) :: u8"
  let ?bs = "of_nat t # b # specs"
  have l: "unat ?l = length ?bs"
    using assms(2) by (simp add: unat_of_nat del: of_nat_Suc of_nat_add)
  have r: "client_receive (0 # tl (cRecvBuf c)) (cRecvs c)
      = Inr (CLIENT_SUCCESS, ?l # ?bs @ drop (length ?bs) (tl (cRecvBuf c)))"
    using client_receive_single [OF l, of "0 # tl (cRecvBuf c)"] assms(7) by simp
  have "send_receive MAX_NUM_HARDWARE_MSGS 5234 c t None 0
      = Inr (Some (CLIENT_SUCCESS, msg_of_bytes (?l # ?bs @ drop (length ?bs) (tl (cRecvBuf c)))))"
    using assms(1,3-6) r
    by (simp add: send_receive_def request_asserts_def size_values runMessagingClient_def Let_def
        del: msg_of_bytes.simps)
  moreover have "success_reply (Some (CLIENT_SUCCESS, msg_of_bytes (?l # ?bs @ drop (length ?bs) (tl (cRecvBuf c)))))
      = (if b \<noteq> 0 then (True, Some specs) else (False, None))"
    using l by (simp add: success_reply_def)
  ultimately show ?thesis by (simp add: hardwareServerSendReceive_def)
qed

theorem confirmation_roundtrip_witness:
  "hardwareServerSendReceive \<lparr>cMemSend = True, cMemRecv = True, cSendBuf = replicate 257 0,
      cRecvBuf = replicate 259 0, cSocketRet = 3, cConnectRet = 0, cSendRet = int,
      cRecvs = [Recv_Data [4, 6, 1, 20, 30]]\<rparr> 6 None 0 = Inr (True, Some [20, 30])"
  by (subst confirmation_roundtrip [where specs = "[20, 30]" and b = 1 and rs = "[]"])
    (simp_all add: MAX_NUM_HARDWARE_MSGS_def)

end
