(* ===== verification/Timer_Server.thy ===== *)
theory Timer_Server
  imports Client
begin

section \<open>The timer server\<close>

text \<open>
  \<open>timer/src/timer_server.c\<close>, with its pointers.  The entries live at addresses; a pointer is
  \<open>None\<close> (\<open>PNULL\<close>) or \<open>Some a\<close>.  \<open>heap\<close> holds the three members of every
  \<open>TimerEntry\<close>, \<open>freeHead\<close> and \<open>usedHead\<close> are the two list heads, \<open>ticks\<close> is
  \<open>gTimerTickDeciSeconds\<close> (32 bits, wrapping), and \<open>outbox\<close> records what
  \<open>sendTimerExpiryMsg\<close> hands to the messaging client (port and message, oldest first).  A
  \<open>Timer *\<close> is the address of the entry that holds it.  The mutex is not a field: one
  operation holds it from its first to its last access to the lists, so operations are atomic,
  and a tick that finds it taken (\<open>pthread_mutex_trylock\<close> fails) is the
  case \<open>lockFree = False\<close> of \<open>tickHandlerCallback\<close>.

  The loops that walk a list count up to \<open>MAX_NUM_TIMERS\<close> and the sort up to its square; the
  counter is the recursion argument of the model, which counts down.
\<close>

subsection \<open>Data\<close>

definition MAX_SHORT_MSG_BODY_LENGTH :: int where
  "MAX_SHORT_MSG_BODY_LENGTH = MAX_MSG_BODY_LENGTH - 40"

definition MAX_NUM_TIMERS :: nat where "MAX_NUM_TIMERS = 30"

record timer =
  expiryTimeDeciSeconds :: u32
  timerId :: u8
  sourcePort :: s32
  expiryMsg :: msg

record timer_entry =
  timer :: timer
  pPrevEntry :: "nat option"
  pNextEntry :: "nat option"

record timer_server =
  heap :: "nat \<Rightarrow> timer_entry"
  freeHead :: "nat option"
  usedHead :: "nat option"
  ticks :: u32
  outbox :: "(s32 \<times> msg) list"

record timer_start_req =
  expiryDeciSeconds :: u32
  startId :: u8
  startSourcePort :: s32
  startExpiryMsg :: msg

record timer_stop_req =
  stopId :: u8
  stopSourcePort :: s32

definition zero_msg :: msg where
  "zero_msg = \<lparr>msgLength = 0, msgType = 0, msgBody = replicate 257 0\<rparr>"

definition zero_timer :: timer where
  "zero_timer = \<lparr>expiryTimeDeciSeconds = 0, timerId = 0, sourcePort = 0, expiryMsg = zero_msg\<rparr>"

text \<open>Writes through a pointer to an entry; the \<open>opt_\<close> forms are guarded by a null test.\<close>

definition set_timer :: "nat \<Rightarrow> timer \<Rightarrow> (nat \<Rightarrow> timer_entry) \<Rightarrow> nat \<Rightarrow> timer_entry" where
  "set_timer a t h = h(a := (h a)\<lparr>timer := t\<rparr>)"

definition set_next :: "nat \<Rightarrow> nat option \<Rightarrow> (nat \<Rightarrow> timer_entry) \<Rightarrow> nat \<Rightarrow> timer_entry" where
  "set_next a p h = h(a := (h a)\<lparr>pNextEntry := p\<rparr>)"

definition set_prev :: "nat \<Rightarrow> nat option \<Rightarrow> (nat \<Rightarrow> timer_entry) \<Rightarrow> nat \<Rightarrow> timer_entry" where
  "set_prev a p h = h(a := (h a)\<lparr>pPrevEntry := p\<rparr>)"

definition opt_set_next :: "nat option \<Rightarrow> nat option \<Rightarrow> (nat \<Rightarrow> timer_entry) \<Rightarrow> nat \<Rightarrow> timer_entry" where
  "opt_set_next q p h = (case q of None \<Rightarrow> h | Some a \<Rightarrow> set_next a p h)"

definition opt_set_prev :: "nat option \<Rightarrow> nat option \<Rightarrow> (nat \<Rightarrow> timer_entry) \<Rightarrow> nat \<Rightarrow> timer_entry" where
  "opt_set_prev q p h = (case q of None \<Rightarrow> h | Some a \<Rightarrow> set_prev a p h)"

subsection \<open>Walking and linking\<close>

fun find_entry :: "(nat \<Rightarrow> timer_entry) \<Rightarrow> nat option \<Rightarrow> nat \<Rightarrow> nat \<Rightarrow> nat option" where
  "find_entry h p t 0 = p"
| "find_entry h None t (Suc n) = None"
| "find_entry h (Some a) t (Suc n) =
     (if a = t then Some a else find_entry h (pNextEntry (h a)) t n)"

text \<open>
  The walk to the end of a list: the value of \<open>*ppEntry\<close> and the entry it is the next pointer of
  (\<open>None\<close>: it is the list head).
\<close>

fun walk_to_end :: "(nat \<Rightarrow> timer_entry) \<Rightarrow> nat option \<Rightarrow> nat option \<Rightarrow> nat \<Rightarrow> nat option \<times> nat option" where
  "walk_to_end h cur prev 0 = (cur, prev)"
| "walk_to_end h None prev (Suc n) = (None, prev)"
| "walk_to_end h (Some a) prev (Suc n) = walk_to_end h (pNextEntry (h a)) (Some a) n"

text \<open>
  \<open>*ppEntry = pWantedEntry\<close> and the two pointers of the entry, where \<open>*ppEntry\<close> is the slot found
  by the walk: the result is the new heap and the new list head.
\<close>

definition link_at_end ::
  "(nat \<Rightarrow> timer_entry) \<Rightarrow> nat option \<Rightarrow> nat option \<Rightarrow> nat \<Rightarrow> (nat \<Rightarrow> timer_entry) \<times> nat option" where
  "link_at_end h head prev w =
     (let h1 = opt_set_next prev (Some w) h;
          head' = (case prev of None \<Rightarrow> Some w | Some _ \<Rightarrow> head);
          h2 = set_prev w prev h1
      in (set_next w None h2, head'))"

subsection \<open>Freeing a timer\<close>

definition unlink_used :: "nat \<Rightarrow> timer_server \<Rightarrow> timer_server" where
  "unlink_used w s =
     (let h0 = set_timer w zero_timer (heap s);
          h1 = opt_set_next (pPrevEntry (h0 w)) (pNextEntry (h0 w)) h0;
          used' = (if usedHead s = Some w then pNextEntry (h1 w) else usedHead s);
          h2 = opt_set_prev (pNextEntry (h1 w)) (pPrevEntry (h1 w)) h1
      in s\<lparr>heap := h2, usedHead := used'\<rparr>)"

definition append_free :: "nat \<Rightarrow> timer_server \<Rightarrow> fault + timer_server" where
  "append_free w s =
     (case walk_to_end (heap s) (freeHead s) None MAX_NUM_TIMERS of
        (None, prev) \<Rightarrow>
          (let (h, head') = link_at_end (heap s) (freeHead s) prev w
           in Inr (s\<lparr>heap := h, freeHead := head'\<rparr>))
      | (Some _, _) \<Rightarrow> Inl Assert_Failed)"

definition freeTimerUnprotected :: "nat \<Rightarrow> timer_server \<Rightarrow> fault + timer_server" where
  "freeTimerUnprotected t s =
     (case find_entry (heap s) (usedHead s) t MAX_NUM_TIMERS of
        Some w \<Rightarrow> if w = t then append_free w (unlink_used w s) else Inl Assert_Failed
      | None \<Rightarrow> Inl Assert_Failed)"

subsection \<open>The tick\<close>

text \<open>The result of the send is only printed.\<close>

definition sendTimerExpiryMsg :: "nat \<Rightarrow> timer_server \<Rightarrow> timer_server" where
  "sendTimerExpiryMsg t s =
     s\<lparr>outbox := outbox s @ [(sourcePort (timer (heap s t)), expiryMsg (timer (heap s t)))]\<rparr>"

fun tick_loop :: "nat \<Rightarrow> nat option \<Rightarrow> timer_server \<Rightarrow> fault + timer_server" where
  "tick_loop 0 p s = Inr s"
| "tick_loop (Suc n) None s = Inr s"
| "tick_loop (Suc n) (Some a) s =
     (if expiryTimeDeciSeconds (timer (heap s a)) \<le> ticks s then
        (let s1 = sendTimerExpiryMsg a s; next = pNextEntry (heap s1 a)
         in andthen (freeTimerUnprotected a s1) (tick_loop n next))
      else tick_loop n (pNextEntry (heap s a)) s)"

definition tickHandlerCallback :: "bool \<Rightarrow> timer_server \<Rightarrow> fault + timer_server" where
  "tickHandlerCallback lockFree s =
     (let s1 = s\<lparr>ticks := ticks s + 1\<rparr>
      in if lockFree then tick_loop MAX_NUM_TIMERS (usedHead s1) s1 else Inr s1)"

subsection \<open>Sorting\<close>

definition swap_entries :: "nat \<Rightarrow> nat \<Rightarrow> timer_server \<Rightarrow> timer_server" where
  "swap_entries this next s =
     (let h1 = opt_set_next (pPrevEntry (heap s this)) (Some next) (heap s);
          h2 = opt_set_prev (pNextEntry (h1 next)) (Some this) h1;
          h3 = set_next this (pNextEntry (h2 next)) h2;
          h4 = set_prev next (pPrevEntry (h3 this)) h3;
          h5 = set_prev this (Some next) h4;
          h6 = set_next next (Some this) h5
      in s\<lparr>heap := h6, usedHead := (if usedHead s = Some this then Some next else usedHead s)\<rparr>)"

fun sort_loop :: "nat \<Rightarrow> nat option \<Rightarrow> timer_server \<Rightarrow> timer_server" where
  "sort_loop 0 p s = s"
| "sort_loop (Suc n) None s = s"
| "sort_loop (Suc n) (Some a) s =
     (case pNextEntry (heap s a) of
        Some b \<Rightarrow>
          if expiryTimeDeciSeconds (timer (heap s a)) > expiryTimeDeciSeconds (timer (heap s b))
          then (let s' = swap_entries a b s in sort_loop n (usedHead s') s')
          else sort_loop n (Some b) s
      | None \<Rightarrow> sort_loop n None s)"

definition sortUsedListUnprotected :: "timer_server \<Rightarrow> timer_server" where
  "sortUsedListUnprotected s = sort_loop (MAX_NUM_TIMERS * MAX_NUM_TIMERS) (usedHead s) s"

subsection \<open>Allocating a timer\<close>

definition unlink_last_free :: "nat \<Rightarrow> timer_server \<Rightarrow> timer_server" where
  "unlink_last_free w s =
     s\<lparr>heap := opt_set_next (pPrevEntry (heap s w)) (pNextEntry (heap s w)) (heap s),
       freeHead := (if freeHead s = Some w then None else freeHead s)\<rparr>"

definition append_used :: "nat \<Rightarrow> timer \<Rightarrow> timer_server \<Rightarrow> fault + timer_server" where
  "append_used w t s =
     (case walk_to_end (heap s) (usedHead s) None MAX_NUM_TIMERS of
        (None, prev) \<Rightarrow>
          (let (h, head') = link_at_end (heap s) (usedHead s) prev w
           in Inr (s\<lparr>heap := set_timer w t h, usedHead := head'\<rparr>))
      | (Some _, _) \<Rightarrow> Inl Assert_Failed)"

definition allocTimer :: "u32 \<Rightarrow> s32 \<Rightarrow> u8 \<Rightarrow> msg \<Rightarrow> timer_server \<Rightarrow> fault + (nat option \<times> timer_server)" where
  "allocTimer periodDeciSeconds port tid pExpiryMsg s =
     (case walk_to_end (heap s) (freeHead s) None MAX_NUM_TIMERS of
        (_, None) \<Rightarrow> Inr (None, s)
      | (_, Some w) \<Rightarrow>
          andthen
            (append_used w
               \<lparr>expiryTimeDeciSeconds = ticks s + periodDeciSeconds, timerId = tid, sourcePort = port,
                expiryMsg = pExpiryMsg\<rparr>
               (unlink_last_free w s))
            (\<lambda>s'. Inr (Some w, sortUsedListUnprotected s')))"

subsection \<open>Starting and stopping the server\<close>

fun free_loop :: "nat \<Rightarrow> nat option \<Rightarrow> timer_server \<Rightarrow> fault + timer_server" where
  "free_loop 0 p s = Inr s"
| "free_loop (Suc n) None s = Inr s"
| "free_loop (Suc n) (Some a) s =
     (let next = pNextEntry (heap s a) in andthen (freeTimerUnprotected a s) (free_loop n next))"

definition freeAllTimers :: "timer_server \<Rightarrow> fault + timer_server" where
  "freeAllTimers s =
     andthen (free_loop MAX_NUM_TIMERS (usedHead s) s) (\<lambda>s'. Inr (s'\<lparr>usedHead := None\<rparr>))"

text \<open>
  The environment of the server: whether the mutex and the tick timer can be set up and deleted,
  what \<open>malloc\<close> returns for each of the entries, and the bytes that follow the received
  \<open>Msg\<close> in memory.
\<close>

record timer_env =
  mutexInitOk :: bool
  mallocs :: "nat \<Rightarrow> nat option"
  timerCreateOk :: bool
  timerSettimeOk :: bool
  timerDeleteOk :: bool
  beyondMsg :: "u8 list"

fun link_new_entries :: "nat option list \<Rightarrow> nat option \<Rightarrow> timer_server \<Rightarrow> fault + timer_server" where
  "link_new_entries [] prev s = Inr s"
| "link_new_entries (None # ms) prev s = Inl Assert_Failed"
| "link_new_entries (Some a # ms) prev s =
     (let h1 = (heap s)(a := \<lparr>timer = zero_timer, pPrevEntry = prev, pNextEntry = None\<rparr>);
          h2 = opt_set_next prev (Some a) h1
      in link_new_entries ms (Some a)
           (s\<lparr>heap := h2, freeHead := (case prev of None \<Rightarrow> Some a | Some _ \<Rightarrow> freeHead s)\<rparr>))"

definition actionTimerServerStart :: "timer_env \<Rightarrow> timer_server \<Rightarrow> fault + timer_server" where
  "actionTimerServerStart env s =
     andthen (assert_that (mutexInitOk env)) (\<lambda>_.
     andthen (link_new_entries (map (mallocs env) [0..<MAX_NUM_TIMERS]) None s) (\<lambda>s'.
     andthen (assert_that (timerCreateOk env)) (\<lambda>_.
     andthen (assert_that (timerSettimeOk env)) (\<lambda>_. Inr s'))))"

text \<open>\<open>free\<close> of the entries leaves the heap alone in the model; no list points at them afterwards.\<close>

definition actionTimerServerStop :: "timer_env \<Rightarrow> timer_server \<Rightarrow> fault + timer_server" where
  "actionTimerServerStop env s =
     andthen (freeAllTimers s) (\<lambda>s'.
     andthen (assert_that (timerDeleteOk env)) (\<lambda>_. Inr (s'\<lparr>freeHead := None\<rparr>)))"

subsection \<open>Requests\<close>

definition actionTimerStart :: "timer_start_req \<Rightarrow> timer_server \<Rightarrow> fault + timer_server" where
  "actionTimerStart req s =
     andthen (allocTimer (expiryDeciSeconds req) (startSourcePort req) (startId req) (startExpiryMsg req) s)
       (\<lambda>(pTimer, s'). andthen (assert_that (pTimer \<noteq> None)) (\<lambda>_. Inr s'))"

fun stop_loop :: "nat \<Rightarrow> nat option \<Rightarrow> timer_stop_req \<Rightarrow> timer_server \<Rightarrow> fault + timer_server" where
  "stop_loop 0 p req s = Inr s"
| "stop_loop (Suc n) None req s = Inr s"
| "stop_loop (Suc n) (Some a) req s =
     (if timerId (timer (heap s a)) = stopId req \<and> sourcePort (timer (heap s a)) = stopSourcePort req
      then freeTimerUnprotected a s
      else stop_loop n (pNextEntry (heap s a)) req s)"

definition actionTimerStop :: "timer_stop_req \<Rightarrow> timer_server \<Rightarrow> fault + timer_server" where
  "actionTimerStop req s = stop_loop MAX_NUM_TIMERS (usedHead s) req s"

subsection \<open>Decoding and dispatch\<close>

text \<open>
  The body of a request is overlaid with the packed struct.  The expiry message is copied
  with \<open>memcpy (.., sizeof (Msg))\<close> from the 219-byte \<open>ShortMsg\<close> at offset 9 of the body: the copy
  takes the rest of the received \<open>Msg\<close> and the first bytes beyond it.
\<close>

definition sizeof_ShortMsg :: int where
  "sizeof_ShortMsg = SIZE_OF_MSG_LENGTH + SIZE_OF_MSG_TYPE + MAX_SHORT_MSG_BODY_LENGTH"

definition sizeof_TimerStartReq :: int where
  "sizeof_TimerStartReq = 4 + 1 + 4 + sizeof_ShortMsg"

definition sizeof_TimerStopReq :: int where
  "sizeof_TimerStopReq = 1 + 4"

definition decode_start_req :: "u8 list \<Rightarrow> u8 list \<Rightarrow> timer_start_req" where
  "decode_start_req beyond body =
     \<lparr>expiryDeciSeconds = le32 body, startId = body ! 4, startSourcePort = le32 (drop 5 body),
      startExpiryMsg = msg_of_bytes (take (nat sizeof_Msg) (drop 9 body @ beyond))\<rparr>"

definition decode_stop_req :: "u8 list \<Rightarrow> timer_stop_req" where
  "decode_stop_req body = \<lparr>stopId = body ! 0, stopSourcePort = le32 (drop 1 body)\<rparr>"

definition TIMER_SERVER_START_REQ :: u8 where "TIMER_SERVER_START_REQ = 0"
definition TIMER_SERVER_STOP_REQ :: u8 where "TIMER_SERVER_STOP_REQ = 1"
definition TIMER_START_REQ :: u8 where "TIMER_START_REQ = 2"
definition TIMER_STOP_REQ :: u8 where "TIMER_STOP_REQ = 3"

lemmas timer_msg_defs = TIMER_SERVER_START_REQ_def TIMER_SERVER_STOP_REQ_def
  TIMER_START_REQ_def TIMER_STOP_REQ_def

definition timer_doAction ::
  "timer_env \<Rightarrow> u8 \<Rightarrow> u8 list \<Rightarrow> timer_server \<Rightarrow> fault + (server_code \<times> timer_server)" where
  "timer_doAction env t body s =
     (if t = TIMER_SERVER_START_REQ then
        andthen (actionTimerServerStart env s) (\<lambda>s'. Inr (SERVER_SUCCESS_KEEP_RUNNING, s'))
      else if t = TIMER_SERVER_STOP_REQ then
        andthen (actionTimerServerStop env s) (\<lambda>s'. Inr (SERVER_EXIT_NORMALLY, s'))
      else if t = TIMER_START_REQ then
        andthen (actionTimerStart (decode_start_req (beyondMsg env) body) s)
          (\<lambda>s'. Inr (SERVER_SUCCESS_KEEP_RUNNING, s'))
      else if t = TIMER_STOP_REQ then
        andthen (actionTimerStop (decode_stop_req body) s)
          (\<lambda>s'. Inr (SERVER_SUCCESS_KEEP_RUNNING, s'))
      else Inl Assert_Failed)"

definition timer_serverHandleMsg :: "timer_env \<Rightarrow> timer_server handler" where
  "timer_serverHandleMsg env m reply s =
     andthen (assert_that (unat (msgType m) < MAX_NUM_TIMER_MSGS)) (\<lambda>_.
     andthen (timer_doAction env (msgType m) (msgBody m) s)
       (\<lambda>(code, s'). Inr (code, reply\<lparr>msgLength := 0\<rparr>, s')))"

subsection \<open>The client's side of the requests\<close>

text \<open>\<open>timer/src/timer_client.c\<close>: \<open>mem\<close> is the body of the \<open>ShortMsg\<close> before the call.\<close>

definition createTimerExpiryMsg :: "u8 list \<Rightarrow> u8 \<Rightarrow> u8 list option \<Rightarrow> nat \<Rightarrow> fault + msg" where
  "createTimerExpiryMsg mem t pMsgBody len =
     andthen (assert_that (int len \<le> MAX_SHORT_MSG_BODY_LENGTH)) (\<lambda>_.
       Inr \<lparr>msgLength = of_nat len + 1, msgType = t,
            msgBody = (case pMsgBody of None \<Rightarrow> mem | Some b \<Rightarrow> take len b @ drop len mem)\<rparr>)"

definition encode_start_req :: "u32 \<Rightarrow> u8 \<Rightarrow> s32 \<Rightarrow> msg \<Rightarrow> u8 list" where
  "encode_start_req period i port short = le_bytes32 period @ [i] @ le_bytes32 port @ bytes_of_msg short"

definition encode_stop_req :: "u8 \<Rightarrow> s32 \<Rightarrow> u8 list" where
  "encode_stop_req i port = i # le_bytes32 port"

definition sendStartTimer ::
  "client_conn \<Rightarrow> u32 \<Rightarrow> u8 \<Rightarrow> s32 \<Rightarrow> msg \<Rightarrow> fault + (bool \<times> (u16 \<times> u8 list) option)" where
  "sendStartTimer c period i port short =
     timerServerSend c (unat TIMER_START_REQ) (Some (encode_start_req period i port short))
       (nat sizeof_TimerStartReq)"

definition sendStopTimer :: "client_conn \<Rightarrow> u8 \<Rightarrow> s32 \<Rightarrow> fault + (bool \<times> (u16 \<times> u8 list) option)" where
  "sendStopTimer c i port =
     timerServerSend c (unat TIMER_STOP_REQ) (Some (encode_stop_req i port)) (nat sizeof_TimerStopReq)"

end
