(* ===== verification/Timer_Lists.thy ===== *)
theory Timer_Lists
  imports Timer_Server
begin

section \<open>The linked lists of the timer server\<close>

text \<open>
  \<open>dseg h p x as y\<close>: from the pointer \<open>x\<close>, the entries \<open>as\<close> are linked in this order by their next
  pointers, the last one points at \<open>y\<close>, and each points back at the one before it (the
  first at \<open>p\<close>).  Every operation of \<open>Timer_Server\<close> on pointers is shown here to do one thing to
  such a list: walk it, find in it, append to it, remove from it, swap two neighbours.
\<close>

fun dseg :: "(nat \<Rightarrow> timer_entry) \<Rightarrow> nat option \<Rightarrow> nat option \<Rightarrow> nat list \<Rightarrow> nat option \<Rightarrow> bool" where
  "dseg h p x [] y \<longleftrightarrow> x = y"
| "dseg h p x (a # as) y \<longleftrightarrow>
     x = Some a \<and> pPrevEntry (h a) = p \<and> dseg h (Some a) (pNextEntry (h a)) as y"

definition last_or :: "nat option \<Rightarrow> nat list \<Rightarrow> nat option" where
  "last_or p as = (if as = [] then p else Some (last as))"

named_theorems ptr_simps \<open>reading a heap after a write\<close>

lemma last_or_simps [simp]:
  "last_or p [] = p" "last_or p (a # as) = last_or (Some a) as" "last_or p (as @ [a]) = Some a"
  by (simp_all add: last_or_def)

lemma set_next_reads [simp, ptr_simps]:
  "pNextEntry (set_next a v h b) = (if b = a then v else pNextEntry (h b))"
  "pPrevEntry (set_next a v h b) = pPrevEntry (h b)"
  "timer (set_next a v h b) = timer (h b)"
  by (simp_all add: set_next_def)

lemma set_prev_reads [simp, ptr_simps]:
  "pPrevEntry (set_prev a v h b) = (if b = a then v else pPrevEntry (h b))"
  "pNextEntry (set_prev a v h b) = pNextEntry (h b)"
  "timer (set_prev a v h b) = timer (h b)"
  by (simp_all add: set_prev_def)

lemma set_timer_reads [simp, ptr_simps]:
  "timer (set_timer a t h b) = (if b = a then t else timer (h b))"
  "pNextEntry (set_timer a t h b) = pNextEntry (h b)"
  "pPrevEntry (set_timer a t h b) = pPrevEntry (h b)"
  by (simp_all add: set_timer_def)

lemma opt_set_timer_reads [simp, ptr_simps]:
  "timer (opt_set_next q v h b) = timer (h b)"
  "timer (opt_set_prev q v h b) = timer (h b)"
  by (simp_all add: opt_set_next_def opt_set_prev_def split: option.splits)

lemma opt_set_cross_reads [simp, ptr_simps]:
  "pPrevEntry (opt_set_next q v h b) = pPrevEntry (h b)"
  "pNextEntry (opt_set_prev q v h b) = pNextEntry (h b)"
  by (simp_all add: opt_set_next_def opt_set_prev_def split: option.splits)

lemma opt_set_reads [simp, ptr_simps]:
  "pNextEntry (opt_set_next q v h b) = (if q = Some b then v else pNextEntry (h b))"
  "pPrevEntry (opt_set_prev q v h b) = (if q = Some b then v else pPrevEntry (h b))"
  by (simp_all add: opt_set_next_def opt_set_prev_def split: option.splits)

lemma dseg_cong:
  "(\<And>a. a \<in> set as \<Longrightarrow> pNextEntry (h' a) = pNextEntry (h a) \<and> pPrevEntry (h' a) = pPrevEntry (h a)) \<Longrightarrow>
   dseg h' p x as y = dseg h p x as y"
  by (induction as arbitrary: p x) auto

lemma dseg_frame [simp]:
  "a \<notin> set as \<Longrightarrow> dseg (set_next a v h) p x as y = dseg h p x as y"
  "a \<notin> set as \<Longrightarrow> dseg (set_prev a v h) p x as y = dseg h p x as y"
  "dseg (set_timer a t h) p x as y = dseg h p x as y"
  by (rule dseg_cong; auto)+

lemma dseg_append [simp]:
  "dseg h p x (as @ bs) y \<longleftrightarrow> (\<exists>z. dseg h p x as z \<and> dseg h (last_or p as) z bs y)"
  by (induction as arbitrary: p x) auto

lemma dseg_None [simp]: "dseg h p None as y \<longleftrightarrow> as = [] \<and> y = None"
  by (cases as) auto

lemma walk_to_end_dseg:
  "dseg h p x as None \<Longrightarrow> length as \<le> n \<Longrightarrow> walk_to_end h x q n = (None, last_or q as)"
  by (induction h x q n arbitrary: p as rule: walk_to_end.induct)
    (auto simp: Suc_le_length_iff neq_Nil_conv dest: list.set_cases, (case_tac as; fastforce)+)

lemma find_entry_dseg:
  "dseg h p x as None \<Longrightarrow> length as \<le> n \<Longrightarrow>
   find_entry h x t n = (if t \<in> set as then Some t else None)"
proof (induction as arbitrary: p x n)
  case Nil
  then show ?case by (cases n) auto
next
  case (Cons a as)
  then show ?case by (cases n) (auto simp: neq_commute)
qed

lemma dseg_last_next:
  "dseg h p x (as @ [a]) y \<Longrightarrow> a \<notin> set as \<Longrightarrow> dseg (set_next a v h) p x (as @ [a]) v"
  by auto

lemma link_at_end_dseg:
  assumes "dseg h None head as None" and "w \<notin> set as" and "distinct as"
    and "link_at_end h head (last_or None as) w = (h', head')"
  shows "dseg h' None head' (as @ [w]) None"
    and "\<And>a. timer (h' a) = timer (h a)"
    and "\<And>a. a \<notin> set (as @ [w]) \<Longrightarrow>
           pNextEntry (h' a) = pNextEntry (h a) \<and> pPrevEntry (h' a) = pPrevEntry (h a)"
proof -
  have h': "h' = set_next w None (set_prev w (last_or None as) (opt_set_next (last_or None as) (Some w) h))"
    and head': "head' = (if as = [] then Some w else head)"
    using assms(4) by (auto simp: link_at_end_def Let_def last_or_def)
  show "dseg h' None head' (as @ [w]) None"
  proof (cases as rule: rev_cases)
    case Nil
    then show ?thesis by (simp add: h' head' opt_set_next_def)
  next
    case (snoc bs b)
    with assms(1-3) show ?thesis
      by (auto simp: h' head' opt_set_next_def)
  qed
  show "\<And>a. timer (h' a) = timer (h a)" by (simp add: h')
  show "\<And>a. a \<notin> set (as @ [w]) \<Longrightarrow>
      pNextEntry (h' a) = pNextEntry (h a) \<and> pPrevEntry (h' a) = pPrevEntry (h a)"
    by (cases as rule: rev_cases) (auto simp: h')
qed

lemma unlink_dseg:
  assumes "dseg h None x (pre @ w # post) None" and "distinct (pre @ w # post)"
    and "h' = opt_set_prev (pNextEntry (h w)) (pPrevEntry (h w))
                (opt_set_next (pPrevEntry (h w)) (pNextEntry (h w)) h)"
  shows "dseg h' None (if x = Some w then pNextEntry (h w) else x) (pre @ post) None"
    and "\<And>a. a \<notin> set (pre @ post) \<Longrightarrow>
           pNextEntry (h' a) = pNextEntry (h a) \<and> pPrevEntry (h' a) = pPrevEntry (h a)"
proof -
  have prev: "pPrevEntry (h w) = last_or None pre" and pre: "dseg h None x pre (Some w)"
    and post: "dseg h (Some w) (pNextEntry (h w)) post None"
    using assms(1) by auto
  have x: "x = Some w \<longleftrightarrow> pre = []"
    using pre assms(2) by (cases pre) auto
  show "dseg h' None (if x = Some w then pNextEntry (h w) else x) (pre @ post) None"
    using prev pre post assms(2)
    by (cases pre rule: rev_cases; cases post)
      (auto simp: assms(3) x opt_set_next_def opt_set_prev_def split: option.splits)
  show "\<And>a. a \<notin> set (pre @ post) \<Longrightarrow>
      pNextEntry (h' a) = pNextEntry (h a) \<and> pPrevEntry (h' a) = pPrevEntry (h a)"
    using prev post by (cases pre rule: rev_cases; cases post) (auto simp: assms(3))
qed

lemma swap_dseg:
  assumes "dseg (heap s) None (usedHead s) (pre @ a # b # post) None"
    and "distinct (pre @ a # b # post)"
  shows "dseg (heap (swap_entries a b s)) None (usedHead (swap_entries a b s)) (pre @ b # a # post) None"
    and "\<And>c. timer (heap (swap_entries a b s) c) = timer (heap s c)"
    and "\<And>c. c \<notin> set (pre @ a # b # post) \<Longrightarrow>
           pNextEntry (heap (swap_entries a b s) c) = pNextEntry (heap s c) \<and>
           pPrevEntry (heap (swap_entries a b s) c) = pPrevEntry (heap s c)"
proof -
  have prev: "pPrevEntry (heap s a) = last_or None pre" and pre: "dseg (heap s) None (usedHead s) pre (Some a)"
    and b: "pNextEntry (heap s a) = Some b" "pPrevEntry (heap s b) = Some a"
    and post: "dseg (heap s) (Some b) (pNextEntry (heap s b)) post None"
    using assms(1) by auto
  have x: "usedHead s = Some a \<longleftrightarrow> pre = []"
    using pre assms(2) by (cases pre) auto
  show "dseg (heap (swap_entries a b s)) None (usedHead (swap_entries a b s)) (pre @ b # a # post) None"
    using prev pre post b assms(2)
    by (cases pre rule: rev_cases; cases post)
      (auto simp: swap_entries_def Let_def x opt_set_next_def opt_set_prev_def)
  show "\<And>c. timer (heap (swap_entries a b s) c) = timer (heap s c)"
    by (simp add: swap_entries_def Let_def)
  show "\<And>c. c \<notin> set (pre @ a # b # post) \<Longrightarrow>
      pNextEntry (heap (swap_entries a b s) c) = pNextEntry (heap s c) \<and>
      pPrevEntry (heap (swap_entries a b s) c) = pPrevEntry (heap s c)"
    using prev b post by (cases pre rule: rev_cases; cases post) (auto simp: swap_entries_def Let_def)
qed

end
