(* ===== verification/Timer_Refinement.thy ===== *)
theory Timer_Refinement
  imports Timer_Lists
begin

section \<open>The timer server refines a queue of timers\<close>

text \<open>
  The abstract timer service: the running timers in the order of their expiry times, the number of
  free entries, the tick counter and the messages sent.  Starting inserts a timer after those that
  expire no later; stopping removes the first one with the id and port; a tick sends and
  removes exactly the timers that are due.  \<open>lists_ok\<close> ties the pointers of the server to the two lists
  of entries, and the theorems show that each operation of the server does what the
  abstract one does, with no assertion failing but the one for a full table.
\<close>

subsection \<open>The abstract service\<close>

record timer_queue =
  running :: "timer list"
  free_entries :: nat
  now :: u32
  sent_msgs :: "(s32 \<times> msg) list"

definition insert_timer :: "timer \<Rightarrow> timer list \<Rightarrow> timer list" where
  "insert_timer t ts =
     takeWhile (\<lambda>u. expiryTimeDeciSeconds u \<le> expiryTimeDeciSeconds t) ts @
     t # dropWhile (\<lambda>u. expiryTimeDeciSeconds u \<le> expiryTimeDeciSeconds t) ts"

definition spec_start :: "timer_start_req \<Rightarrow> timer_queue \<Rightarrow> fault + timer_queue" where
  "spec_start req q =
     (if free_entries q = 0 then Inl Assert_Failed
      else Inr (q\<lparr>running := insert_timer
                   \<lparr>expiryTimeDeciSeconds = now q + expiryDeciSeconds req, timerId = startId req,
                    sourcePort = startSourcePort req, expiryMsg = startExpiryMsg req\<rparr> (running q),
                  free_entries := free_entries q - 1\<rparr>))"

definition matches :: "timer_stop_req \<Rightarrow> timer \<Rightarrow> bool" where
  "matches req t \<longleftrightarrow> timerId t = stopId req \<and> sourcePort t = stopSourcePort req"

fun remove_first :: "('a \<Rightarrow> bool) \<Rightarrow> 'a list \<Rightarrow> 'a list" where
  "remove_first P [] = []"
| "remove_first P (x # xs) = (if P x then xs else x # remove_first P xs)"

definition spec_stop :: "timer_stop_req \<Rightarrow> timer_queue \<Rightarrow> timer_queue" where
  "spec_stop req q =
     (if \<exists>t\<in>set (running q). matches req t
      then q\<lparr>running := remove_first (matches req) (running q), free_entries := free_entries q + 1\<rparr>
      else q)"

definition spec_tick :: "bool \<Rightarrow> timer_queue \<Rightarrow> timer_queue" where
  "spec_tick lockFree q =
     (let n = now q + 1;
          due = filter (\<lambda>t. expiryTimeDeciSeconds t \<le> n) (running q)
      in if lockFree then
           q\<lparr>running := filter (\<lambda>t. \<not> expiryTimeDeciSeconds t \<le> n) (running q),
             free_entries := free_entries q + length due, now := n,
             sent_msgs := sent_msgs q @ map (\<lambda>t. (sourcePort t, expiryMsg t)) due\<rparr>
         else q\<lparr>now := n\<rparr>)"

subsection \<open>Insertion by the restarting bubble sort\<close>

fun bubble :: "('a \<Rightarrow> 'k::linorder) \<Rightarrow> nat \<Rightarrow> 'a list \<Rightarrow> 'a list \<Rightarrow> 'a list" where
  "bubble key 0 pre rest = pre @ rest"
| "bubble key (Suc n) pre [] = pre"
| "bubble key (Suc n) pre [x] = bubble key n (pre @ [x]) []"
| "bubble key (Suc n) pre (x # y # zs) =
     (if key x > key y then bubble key n [] (pre @ y # x # zs) else bubble key n (pre @ [x]) (y # zs))"

lemma bubble_sorted: "sorted (map key rest) \<Longrightarrow> bubble key n pre rest = pre @ rest"
  by (induction key n pre rest rule: bubble.induct) (auto simp: leD)

lemma bubble_one_pass:
  assumes "sorted (map key (as @ [a]))" and "key x < key a"
  shows "bubble key (Suc (length as) + n) pre (as @ a # x # bs) = bubble key n [] (pre @ as @ x # a # bs)"
  using assms
proof (induction as arbitrary: pre)
  case Nil
  then show ?case by simp
next
  case (Cons c as)
  from Cons.prems have le: "key c \<le> key (hd (as @ [a]))"
    by (cases as) auto
  have "bubble key (Suc (length (c # as)) + n) pre ((c # as) @ a # x # bs)
      = bubble key (Suc (length as) + n) (pre @ [c]) (as @ a # x # bs)"
    using le by (cases as) (auto simp: leD)
  also have "\<dots> = bubble key n [] ((pre @ [c]) @ as @ x # a # bs)"
    using Cons by auto
  finally show ?case by simp
qed

lemma bubble_inserts:
  assumes "sorted (map key (as @ bs))" and "\<forall>b\<in>set bs. key x < key b"
    and "length as * (length as + 1) div 2 \<le> n"
  shows "bubble key n [] (as @ x # bs)
       = takeWhile (\<lambda>y. key y \<le> key x) as @ x # dropWhile (\<lambda>y. key y \<le> key x) as @ bs"
  using assms
proof (induction as arbitrary: bs n rule: rev_induct)
  case Nil
  then show ?case by (auto simp: bubble_sorted less_imp_le)
next
  case (snoc a as)
  show ?case
  proof (cases "key a \<le> key x")
    case True
    with snoc.prems(1) have "\<forall>c\<in>set (as @ [a]). key c \<le> key x"
      by (auto simp: sorted_append intro: order_trans)
    moreover from this have "sorted (map key ((as @ [a]) @ x # bs))"
      using snoc.prems(1,2) by (auto simp: sorted_append less_imp_le)
    ultimately show ?thesis
      by (subst bubble_sorted) (auto simp: takeWhile_append)
  next
    case False
    have "length (as @ [a]) * (length (as @ [a]) + 1) div 2 = Suc (length as) + length as * (length as + 1) div 2"
      by (simp add: algebra_simps)
    with snoc.prems(3) have "Suc (length as) + length as * (length as + 1) div 2 \<le> n" by simp
    then obtain m where n: "n = Suc (length as) + m" and m: "length as * (length as + 1) div 2 \<le> m"
      by (intro that [of "n - Suc (length as)"]) linarith+
    have "bubble key n [] ((as @ [a]) @ x # bs) = bubble key m [] (as @ x # a # bs)"
      using bubble_one_pass [of key as a x m "[]" bs] snoc.prems(1) False n
      by (auto simp: sorted_append)
    also have "\<dots> = takeWhile (\<lambda>y. key y \<le> key x) as @ x # dropWhile (\<lambda>y. key y \<le> key x) as @ a # bs"
      using snoc.prems False m by (intro snoc.IH) auto
    also have "dropWhile (\<lambda>y. key y \<le> key x) as @ a # bs = dropWhile (\<lambda>y. key y \<le> key x) (as @ [a]) @ bs"
      using False by (simp add: dropWhile_append)
    also have "takeWhile (\<lambda>y. key y \<le> key x) as = takeWhile (\<lambda>y. key y \<le> key x) (as @ [a])"
      using False by (auto simp: takeWhile_append takeWhile_eq_all_conv)
    finally show ?thesis .
  qed
qed

subsection \<open>The two lists of entries\<close>

definition lists_ok :: "timer_server \<Rightarrow> nat list \<Rightarrow> nat list \<Rightarrow> bool" where
  "lists_ok s us fs \<longleftrightarrow>
     dseg (heap s) None (usedHead s) us None \<and> dseg (heap s) None (freeHead s) fs None \<and>
     distinct (us @ fs) \<and> length us + length fs \<le> MAX_NUM_TIMERS"

definition timers_of :: "timer_server \<Rightarrow> nat list \<Rightarrow> timer list" where
  "timers_of s us = map (\<lambda>a. timer (heap s a)) us"

lemma timers_of_cong:
  "(\<And>a. a \<in> set us \<Longrightarrow> timer (heap s' a) = timer (heap s a)) \<Longrightarrow> timers_of s' us = timers_of s us"
  by (simp add: timers_of_def)

lemma timers_of_simps [simp]:
  "timers_of s [] = []" "timers_of s (a # us) = timer (heap s a) # timers_of s us"
  "timers_of s (us @ vs) = timers_of s us @ timers_of s vs"
  by (simp_all add: timers_of_def)

lemma unlink_used_ok:
  assumes "dseg (heap s) None (usedHead s) (pre @ w # post) None" and "distinct (pre @ w # post)"
  shows "dseg (heap (unlink_used w s)) None (usedHead (unlink_used w s)) (pre @ post) None"
    and "\<And>a. a \<notin> set (pre @ post) \<Longrightarrow>
           pNextEntry (heap (unlink_used w s) a) = pNextEntry (heap s a) \<and>
           pPrevEntry (heap (unlink_used w s) a) = pPrevEntry (heap s a)"
    and "\<And>a. timer (heap (unlink_used w s) a) = (if a = w then zero_timer else timer (heap s a))"
    and "freeHead (unlink_used w s) = freeHead s" "ticks (unlink_used w s) = ticks s"
      "outbox (unlink_used w s) = outbox s"
proof -
  define h0 where "h0 = set_timer w zero_timer (heap s)"
  have "pNextEntry (h0 w) \<noteq> Some w" and "pPrevEntry (h0 w) \<noteq> Some w"
    using assms by (cases pre rule: rev_cases; cases post; auto simp: h0_def)+
  then have h1: "heap (unlink_used w s) = opt_set_prev (pNextEntry (h0 w)) (pPrevEntry (h0 w))
      (opt_set_next (pPrevEntry (h0 w)) (pNextEntry (h0 w)) h0)"
    and u1: "usedHead (unlink_used w s) = (if usedHead s = Some w then pNextEntry (h0 w) else usedHead s)"
    by (auto simp: unlink_used_def Let_def h0_def)
  have used0: "dseg h0 None (usedHead s) (pre @ w # post) None"
    using assms(1) by (simp add: h0_def del: dseg_append)
  show "dseg (heap (unlink_used w s)) None (usedHead (unlink_used w s)) (pre @ post) None"
    using unlink_dseg(1) [OF used0 assms(2) h1] by (simp add: u1 del: dseg_append)
  show "\<And>a. a \<notin> set (pre @ post) \<Longrightarrow>
      pNextEntry (heap (unlink_used w s) a) = pNextEntry (heap s a) \<and>
      pPrevEntry (heap (unlink_used w s) a) = pPrevEntry (heap s a)"
    using unlink_dseg(2) [OF used0 assms(2) h1] by (simp add: h0_def)
  show "\<And>a. timer (heap (unlink_used w s) a) = (if a = w then zero_timer else timer (heap s a))"
    by (simp add: h1) (simp add: h0_def)
qed (simp_all add: unlink_used_def Let_def)

text \<open>Appending an entry at the end found by the walk, with the other list out of the way.\<close>

lemma append_ok:
  assumes "dseg h None head as None" and "distinct as" and "w \<notin> set as" and "length as \<le> MAX_NUM_TIMERS"
    and "dseg h None other bs None" and "set bs \<inter> set (as @ [w]) = {}"
  obtains h' head' where "walk_to_end h head None MAX_NUM_TIMERS = (None, last_or None as)"
    and "link_at_end h head (last_or None as) w = (h', head')"
    and "dseg h' None head' (as @ [w]) None" and "dseg h' None other bs None"
    and "\<And>a. timer (h' a) = timer (h a)"
proof -
  obtain h' head' where link: "link_at_end h head (last_or None as) w = (h', head')" by fastforce
  note l = link_at_end_dseg [OF assms(1,3,2) link]
  have "dseg h' None other bs None = dseg h None other bs None"
  proof (rule dseg_cong)
    fix a assume "a \<in> set bs"
    with assms(6) have "a \<notin> set (as @ [w])" by blast
    then show "pNextEntry (h' a) = pNextEntry (h a) \<and> pPrevEntry (h' a) = pPrevEntry (h a)"
      by (rule l(3))
  qed
  with assms(5) have "dseg h' None other bs None" by simp
  then show thesis
    using that walk_to_end_dseg [OF assms(1,4)] link l(1,2) by blast
qed

text \<open>Freeing one timer moves its entry from the used list to the end of the free list.\<close>

lemma free_ok:
  assumes "lists_ok s (pre @ w # post) fs"
  obtains s' where "freeTimerUnprotected w s = Inr s'" and "lists_ok s' (pre @ post) (fs @ [w])"
    and "ticks s' = ticks s" and "outbox s' = outbox s"
    and "\<And>a. a \<noteq> w \<Longrightarrow> timer (heap s' a) = timer (heap s a)"
proof -
  have used: "dseg (heap s) None (usedHead s) (pre @ w # post) None"
    and free: "dseg (heap s) None (freeHead s) fs None"
    and dist: "distinct (pre @ w # post)" "w \<notin> set fs" "distinct fs" "set fs \<inter> set (pre @ post) = {}"
    and len: "length (pre @ w # post) + length fs \<le> MAX_NUM_TIMERS"
    using assms by (auto simp: lists_ok_def)
  have find: "find_entry (heap s) (usedHead s) w MAX_NUM_TIMERS = Some w"
    using find_entry_dseg [OF used, of MAX_NUM_TIMERS w] len by simp
  define s1 where "s1 = unlink_used w s"
  note u = unlink_used_ok [OF used dist(1), folded s1_def]
  have "dseg (heap s1) None (freeHead s) fs None = dseg (heap s) None (freeHead s) fs None"
    by (rule dseg_cong, rule u(2)) (use dist(4) in blast)
  with free have free1: "dseg (heap s1) None (freeHead s1) fs None" by (simp add: u(4))
  obtain h2 f2 where link: "walk_to_end (heap s1) (freeHead s1) None MAX_NUM_TIMERS = (None, last_or None fs)"
    "link_at_end (heap s1) (freeHead s1) (last_or None fs) w = (h2, f2)"
    "dseg h2 None f2 (fs @ [w]) None" "dseg h2 None (usedHead s1) (pre @ post) None"
    "\<And>a. timer (h2 a) = timer (heap s1 a)"
    by (rule append_ok [OF free1 dist(3,2) _ u(1)]) (use dist len in auto)
  define s' where "s' = s1\<lparr>heap := h2, freeHead := f2\<rparr>"
  have run: "freeTimerUnprotected w s = Inr s'"
    using find link(1,2) by (simp add: freeTimerUnprotected_def append_free_def s1_def [symmetric] s'_def)
  have "lists_ok s' (pre @ post) (fs @ [w])"
    using link(3,4) dist len by (auto simp: lists_ok_def s'_def simp del: dseg_append)
  moreover have "timer (heap s' a) = timer (heap s a)" if "a \<noteq> w" for a
    using that by (simp add: s'_def link(5) u(3))
  ultimately show thesis using run u(5,6) by (intro that [of s']) (simp_all add: s'_def)
qed

text \<open>The sort on the pointers is the restarting bubble sort on the list of entries.\<close>

definition expiry_at :: "timer_server \<Rightarrow> nat \<Rightarrow> u32" where
  "expiry_at s a = expiryTimeDeciSeconds (timer (heap s a))"

lemma sort_loop_ok:
  assumes "lists_ok s (pre @ rest) fs"
    and "p = (case rest of [] \<Rightarrow> None | a # _ \<Rightarrow> Some a)"
  shows "\<exists>s'. sort_loop n p s = s' \<and> lists_ok s' (bubble (expiry_at s) n pre rest) fs
    \<and> (\<forall>a. timer (heap s' a) = timer (heap s a)) \<and> ticks s' = ticks s \<and> outbox s' = outbox s"
  using assms
proof (induction n arbitrary: s pre rest p)
  case 0
  then show ?case by simp
next
  case (Suc n)
  consider "rest = []" | a where "rest = [a]" | a b zs where "rest = a # b # zs"
    by (metis list.exhaust)
  then show ?case
  proof cases
    case 1
    with Suc.prems show ?thesis by simp
  next
    case 2
    with Suc.prems have "pNextEntry (heap s a) = None" by (auto simp: lists_ok_def)
    with 2 Suc.prems Suc.IH [of s "pre @ [a]" "[]" None] show ?thesis by simp
  next
    case 3
    have nxt: "pNextEntry (heap s a) = Some b"
      and used: "dseg (heap s) None (usedHead s) (pre @ a # b # zs) None"
      and dist: "distinct (pre @ a # b # zs)" "set fs \<inter> set (pre @ a # b # zs) = {}"
      using Suc.prems(1) 3 by (auto simp: lists_ok_def)
    show ?thesis
    proof (cases "expiry_at s a > expiry_at s b")
      case True
      note sw = swap_dseg [OF used dist(1)]
      let ?s = "swap_entries a b s"
      have "dseg (heap ?s) None (freeHead s) fs None = dseg (heap s) None (freeHead s) fs None"
        by (rule dseg_cong, rule sw(3)) (use dist(2) in blast)
      then have ok: "lists_ok ?s ([] @ pre @ b # a # zs) fs"
        using Suc.prems(1) 3 sw(1)
        by (auto simp: lists_ok_def swap_entries_def Let_def simp del: dseg_append)
      have head: "usedHead ?s = (case pre @ b # a # zs of [] \<Rightarrow> None | c # _ \<Rightarrow> Some c)"
        using sw(1) by (cases pre) auto
      have "expiry_at ?s = expiry_at s" by (rule ext) (simp add: expiry_at_def sw(2))
      with Suc.IH [OF ok head] True 3 Suc.prems(2) nxt sw(2) show ?thesis
        by (simp add: expiry_at_def swap_entries_def Let_def)
    next
      case False
      with Suc.IH [of s "pre @ [a]" "b # zs" "Some b"] 3 Suc.prems nxt show ?thesis
        by (simp add: expiry_at_def)
    qed
  qed
qed

lemma sort_ok:
  assumes "lists_ok s (us @ [w]) fs" and "sorted (map (expiry_at s) us)"
  obtains s' where "sortUsedListUnprotected s = s'"
    and "lists_ok s' (takeWhile (\<lambda>a. expiry_at s a \<le> expiry_at s w) us @ w #
                      dropWhile (\<lambda>a. expiry_at s a \<le> expiry_at s w) us) fs"
    and "\<And>a. timer (heap s' a) = timer (heap s a)" and "ticks s' = ticks s" and "outbox s' = outbox s"
proof -
  have "dseg (heap s) None (usedHead s) (us @ [w]) None" and len: "length us < 30"
    using assms(1) by (auto simp: lists_ok_def MAX_NUM_TIMERS_def)
  then have head: "usedHead s = (case us @ [w] of [] \<Rightarrow> None | a # _ \<Rightarrow> Some a)"
    by (cases us) auto
  have "length us * (length us + 1) div 2 \<le> 30 * 30 div 2"
    using len by (intro div_le_mono mult_le_mono) auto
  then have "length us * (length us + 1) div 2 \<le> MAX_NUM_TIMERS * MAX_NUM_TIMERS"
    by (simp add: MAX_NUM_TIMERS_def)
  then have "bubble (expiry_at s) (MAX_NUM_TIMERS * MAX_NUM_TIMERS) [] (us @ [w])
      = takeWhile (\<lambda>a. expiry_at s a \<le> expiry_at s w) us @ w #
        dropWhile (\<lambda>a. expiry_at s a \<le> expiry_at s w) us"
    using bubble_inserts [of "expiry_at s" us "[]" w] assms(2) by simp
  with sort_loop_ok [of s "[]" "us @ [w]" fs "usedHead s" "MAX_NUM_TIMERS * MAX_NUM_TIMERS"] assms(1) head
  show thesis by (auto simp: sortUsedListUnprotected_def intro: that)
qed

lemma alloc_full: "lists_ok s us [] \<Longrightarrow> allocTimer period port i m s = Inr (None, s)"
  by (auto simp: allocTimer_def lists_ok_def MAX_NUM_TIMERS_def numeral_eq_Suc)

lemma last_free_prev:
  assumes "dseg h None x (fs @ [w]) None" and "distinct (fs @ [w])"
  shows "dseg (opt_set_next (pPrevEntry (h w)) (pNextEntry (h w)) h) None (if x = Some w then None else x) fs None"
    and "\<And>a. a \<notin> set fs \<Longrightarrow>
      pNextEntry (opt_set_next (pPrevEntry (h w)) (pNextEntry (h w)) h a) = pNextEntry (h a)"
proof -
  have w: "pPrevEntry (h w) = last_or None fs" "pNextEntry (h w) = None" "dseg h None x fs (Some w)"
    using assms(1) by auto
  have x: "x = Some w \<longleftrightarrow> fs = []" using w(3) assms(2) by (cases fs) auto
  show "dseg (opt_set_next (pPrevEntry (h w)) (pNextEntry (h w)) h) None (if x = Some w then None else x) fs None"
    using w assms(2) by (cases fs rule: rev_cases) (auto simp: opt_set_next_def x)
  show "\<And>a. a \<notin> set fs \<Longrightarrow>
      pNextEntry (opt_set_next (pPrevEntry (h w)) (pNextEntry (h w)) h a) = pNextEntry (h a)"
    using w by (cases fs rule: rev_cases) auto
qed

lemma append_used_ok:
  assumes "lists_ok s us (fs @ [w])"
  obtains s' where "append_used w t (unlink_last_free w s) = Inr s'" and "lists_ok s' (us @ [w]) fs"
    and "ticks s' = ticks s" and "outbox s' = outbox s"
    and "\<And>a. timer (heap s' a) = (if a = w then t else timer (heap s a))"
proof -
  have used: "dseg (heap s) None (usedHead s) us None"
    and free: "dseg (heap s) None (freeHead s) (fs @ [w]) None"
    and dist: "distinct (fs @ [w])" "distinct us" "set us \<inter> set (fs @ [w]) = {}"
    and len: "length us + length (fs @ [w]) \<le> MAX_NUM_TIMERS"
    using assms by (auto simp: lists_ok_def)
  define s1 where "s1 = unlink_last_free w s"
  have h1: "heap s1 = opt_set_next (pPrevEntry (heap s w)) (pNextEntry (heap s w)) (heap s)"
    and f1: "freeHead s1 = (if freeHead s = Some w then None else freeHead s)"
    and r1: "usedHead s1 = usedHead s" "ticks s1 = ticks s" "outbox s1 = outbox s"
    by (simp_all add: s1_def unlink_last_free_def)
  note lf = last_free_prev [OF free dist(1), folded h1 f1]
  have "dseg (heap s1) None (usedHead s) us None = dseg (heap s) None (usedHead s) us None"
  proof (rule dseg_cong)
    fix a assume "a \<in> set us"
    with dist(3) have "a \<notin> set fs" by auto
    then show "pNextEntry (heap s1 a) = pNextEntry (heap s a) \<and> pPrevEntry (heap s1 a) = pPrevEntry (heap s a)"
      using lf(2) by (simp add: h1)
  qed
  with used have used1: "dseg (heap s1) None (usedHead s1) us None" by (simp add: r1)
  obtain h2 u2 where link: "walk_to_end (heap s1) (usedHead s1) None MAX_NUM_TIMERS = (None, last_or None us)"
    "link_at_end (heap s1) (usedHead s1) (last_or None us) w = (h2, u2)"
    "dseg h2 None u2 (us @ [w]) None" "dseg h2 None (freeHead s1) fs None"
    "\<And>a. timer (h2 a) = timer (heap s1 a)"
    by (rule append_ok [OF used1 dist(2) _ _ lf(1)]) (use dist len in auto)
  have "append_used w t s1 = Inr (s1\<lparr>heap := set_timer w t h2, usedHead := u2\<rparr>)"
    using link(1,2) by (simp add: append_used_def)
  moreover have "lists_ok (s1\<lparr>heap := set_timer w t h2, usedHead := u2\<rparr>) (us @ [w]) fs"
    using link(3,4) dist len by (auto simp: lists_ok_def simp del: dseg_append)
  ultimately show thesis
    using r1 link(5)
    by (intro that [of "s1\<lparr>heap := set_timer w t h2, usedHead := u2\<rparr>"])
      (auto simp: s1_def [symmetric] h1)
qed

lemma takeWhile_eq_cong: "(\<And>x. x \<in> set xs \<Longrightarrow> P x = Q x) \<Longrightarrow> takeWhile P xs = takeWhile Q xs"
  by (rule takeWhile_cong) auto

lemma dropWhile_eq_cong: "(\<And>x. x \<in> set xs \<Longrightarrow> P x = Q x) \<Longrightarrow> dropWhile P xs = dropWhile Q xs"
  by (rule dropWhile_cong) auto

lemma alloc_ok:
  assumes "lists_ok s us (fs @ [w])" and "sorted (map (expiry_at s) us)"
    and "t = \<lparr>expiryTimeDeciSeconds = ticks s + period, timerId = i, sourcePort = port, expiryMsg = m\<rparr>"
  obtains s' us' where "allocTimer period port i m s = Inr (Some w, s')" and "lists_ok s' us' fs"
    and "timers_of s' us' = insert_timer t (timers_of s us)"
    and "ticks s' = ticks s" and "outbox s' = outbox s"
proof -
  have free: "dseg (heap s) None (freeHead s) (fs @ [w]) None" and len: "length (fs @ [w]) \<le> MAX_NUM_TIMERS"
    and wnew: "w \<notin> set us"
    using assms(1) by (auto simp: lists_ok_def)
  have walk: "walk_to_end (heap s) (freeHead s) None MAX_NUM_TIMERS = (None, Some w)"
    using walk_to_end_dseg [OF free len] by simp
  obtain s2 where s2: "append_used w t (unlink_last_free w s) = Inr s2" "lists_ok s2 (us @ [w]) fs"
    "ticks s2 = ticks s" "outbox s2 = outbox s" "\<And>a. timer (heap s2 a) = (if a = w then t else timer (heap s a))"
    by (rule append_used_ok [OF assms(1), of t]) blast
  have e: "expiry_at s2 a = expiry_at s a" if "a \<in> set us" for a
    using that wnew by (auto simp: expiry_at_def s2(5))
  have "sorted (map (expiry_at s2) us)"
    using assms(2) e by (metis (mono_tags, lifting) map_cong)
  from sort_ok [OF s2(2) this] obtain s3 where s3: "sortUsedListUnprotected s2 = s3"
    "lists_ok s3 (takeWhile (\<lambda>a. expiry_at s2 a \<le> expiry_at s2 w) us @ w #
                      dropWhile (\<lambda>a. expiry_at s2 a \<le> expiry_at s2 w) us) fs"
    "\<And>a. timer (heap s3 a) = timer (heap s2 a)" "ticks s3 = ticks s2" "outbox s3 = outbox s2"
    by metis
  let ?P = "\<lambda>a. expiryTimeDeciSeconds (timer (heap s a)) \<le> expiryTimeDeciSeconds t"
  have P: "takeWhile (\<lambda>a. expiry_at s2 a \<le> expiry_at s2 w) us = takeWhile ?P us"
    "dropWhile (\<lambda>a. expiry_at s2 a \<le> expiry_at s2 w) us = dropWhile ?P us"
    using wnew by (auto simp: expiry_at_def s2(5) intro!: takeWhile_eq_cong dropWhile_eq_cong)
  have same: "timer (heap s3 a) = timer (heap s a)" if "a \<in> set us" for a
    using that wnew by (auto simp: s3(3) s2(5))
  have "timers_of s3 (takeWhile ?P us @ w # dropWhile ?P us) = insert_timer t (timers_of s us)"
    using same wnew by (auto simp: timers_of_def insert_timer_def takeWhile_map dropWhile_map comp_def s3(3) s2(5)
        dest: set_takeWhileD set_dropWhileD)
  moreover have "allocTimer period port i m s = Inr (Some w, s3)"
    using walk s2(1) s3(1) by (simp add: allocTimer_def assms(3))
  ultimately show thesis
    using that s3 s2(3,4) P by simp
qed

text \<open>The tick sends and frees the entries that are due, and leaves the others in place.\<close>

definition due_at :: "timer_server \<Rightarrow> nat \<Rightarrow> bool" where
  "due_at s a \<longleftrightarrow> expiryTimeDeciSeconds (timer (heap s a)) \<le> ticks s"

definition notice_at :: "timer_server \<Rightarrow> nat \<Rightarrow> s32 \<times> msg" where
  "notice_at s a = (sourcePort (timer (heap s a)), expiryMsg (timer (heap s a)))"

lemma tick_loop_ok:
  assumes "lists_ok s (pre @ rest) fs" and "p = (case rest of [] \<Rightarrow> None | a # _ \<Rightarrow> Some a)"
    and "length rest \<le> n"
  shows "\<exists>s'. tick_loop n p s = Inr s'
    \<and> lists_ok s' (pre @ filter (\<lambda>a. \<not> due_at s a) rest) (fs @ filter (due_at s) rest)
    \<and> ticks s' = ticks s \<and> outbox s' = outbox s @ map (notice_at s) (filter (due_at s) rest)
    \<and> (\<forall>a. a \<in> set pre \<or> a \<in> set rest \<and> \<not> due_at s a \<longrightarrow> timer (heap s' a) = timer (heap s a))"
  using assms
proof (induction rest arbitrary: s pre fs p n)
  case Nil
  then show ?case by (cases n) auto
next
  case (Cons a rest)
  then obtain m where n: "n = Suc m" "length rest \<le> m" by (cases n) auto
  have nxt: "pNextEntry (heap s a) = (case rest of [] \<Rightarrow> None | a # _ \<Rightarrow> Some a)"
    using Cons.prems(1) by (cases rest) (auto simp: lists_ok_def)
  show ?case
  proof (cases "due_at s a")
    case False
    with Cons.IH [of s "pre @ [a]" fs "pNextEntry (heap s a)" m] Cons.prems n nxt show ?thesis
      by (auto simp: due_at_def)
  next
    case True
    define s1 where "s1 = sendTimerExpiryMsg a s"
    have s1: "lists_ok s1 (pre @ a # rest) fs" "ticks s1 = ticks s" "heap s1 = heap s"
      "outbox s1 = outbox s @ [notice_at s a]"
      using Cons.prems(1) by (simp_all add: s1_def sendTimerExpiryMsg_def lists_ok_def notice_at_def)
    obtain s2 where s2: "freeTimerUnprotected a s1 = Inr s2" "lists_ok s2 (pre @ rest) (fs @ [a])"
      "ticks s2 = ticks s1" "outbox s2 = outbox s1" "\<And>b. b \<noteq> a \<Longrightarrow> timer (heap s2 b) = timer (heap s1 b)"
        by (rule free_ok [OF s1(1)]) blast
    have "a \<notin> set (pre @ rest)" using Cons.prems(1) by (auto simp: lists_ok_def)
    then have same: "timer (heap s2 b) = timer (heap s b)" if "b \<in> set (pre @ rest)" for b
      using that s2(5) [of b] s1(3) by auto
    then have due: "filter (due_at s2) rest = filter (due_at s) rest"
      "filter (\<lambda>a. \<not> due_at s2 a) rest = filter (\<lambda>a. \<not> due_at s a) rest"
      "map (notice_at s2) (filter (due_at s) rest) = map (notice_at s) (filter (due_at s) rest)"
      by (auto simp: due_at_def notice_at_def s2(3) s1(2) intro!: filter_cong)
    have run: "tick_loop n p s = tick_loop m (pNextEntry (heap s a)) s2"
      using True Cons.prems(2) n s1(3) s2(1) by (simp add: due_at_def Let_def s1_def [symmetric])
    have "b \<in> set pre \<or> b \<in> set rest \<and> \<not> due_at s b \<longrightarrow> due_at s2 b = due_at s b" for b
      using same [of b] by (auto simp: due_at_def s2(3) s1(2))
    then show ?thesis
      using Cons.IH [OF s2(2) nxt n(2)] run due True same s2(3,4) s1(2,4) by auto
  qed
qed

text \<open>Stopping frees the first entry that matches.\<close>

lemma stop_loop_ok:
  assumes "lists_ok s (pre @ rest) fs" and "p = (case rest of [] \<Rightarrow> None | a # _ \<Rightarrow> Some a)"
    and "length rest \<le> n"
  shows "(\<forall>a\<in>set rest. \<not> matches req (timer (heap s a))) \<and> stop_loop n p req s = Inr s \<or>
    (\<exists>s' bs a cs. rest = bs @ a # cs \<and> matches req (timer (heap s a))
      \<and> (\<forall>b\<in>set bs. \<not> matches req (timer (heap s b))) \<and> stop_loop n p req s = Inr s'
      \<and> lists_ok s' (pre @ bs @ cs) (fs @ [a]) \<and> ticks s' = ticks s \<and> outbox s' = outbox s
      \<and> (\<forall>b. b \<noteq> a \<longrightarrow> timer (heap s' b) = timer (heap s b)))"
  using assms
proof (induction rest arbitrary: pre p n)
  case Nil
  then show ?case by (cases n) auto
next
  case (Cons a rest)
  then obtain m where n: "n = Suc m" "length rest \<le> m" by (cases n) auto
  have nxt: "pNextEntry (heap s a) = (case rest of [] \<Rightarrow> None | a # _ \<Rightarrow> Some a)"
    using Cons.prems(1) by (cases rest) (auto simp: lists_ok_def)
  show ?case
  proof (cases "matches req (timer (heap s a))")
    case True
    obtain s' where s': "freeTimerUnprotected a s = Inr s'" "lists_ok s' (pre @ rest) (fs @ [a])"
      "ticks s' = ticks s" "outbox s' = outbox s" "\<And>b. b \<noteq> a \<Longrightarrow> timer (heap s' b) = timer (heap s b)"
      by (rule free_ok [OF Cons.prems(1)]) blast
    with True Cons.prems(2) n have "stop_loop n p req s = Inr s'" by (simp add: matches_def)
    with s' True show ?thesis
      by (intro disjI2 exI [of _ s'] exI [of _ "[]"] exI [of _ a] exI [of _ rest]) simp
  next
    case False
    then have run: "stop_loop n p req s = stop_loop m (pNextEntry (heap s a)) req s"
      using Cons.prems(2) n by (auto simp: matches_def)
    from Cons.prems(1) have "lists_ok s ((pre @ [a]) @ rest) fs" by simp
    from Cons.IH [OF this nxt n(2)] show ?thesis
    proof (elim disjE exE conjE)
      fix s' bs b cs
      assume "rest = bs @ b # cs" "matches req (timer (heap s b))" "\<forall>b\<in>set bs. \<not> matches req (timer (heap s b))"
        "stop_loop m (pNextEntry (heap s a)) req s = Inr s'" "lists_ok s' ((pre @ [a]) @ bs @ cs) (fs @ [b])"
        "ticks s' = ticks s" "outbox s' = outbox s" "\<forall>c. c \<noteq> b \<longrightarrow> timer (heap s' c) = timer (heap s c)"
      with False run show ?thesis
        by (intro disjI2 exI [of _ s'] exI [of _ "a # bs"] exI [of _ b] exI [of _ cs]) simp
    qed (use False run in simp)
  qed
qed

lemma free_loop_ok:
  assumes "lists_ok s us fs" and "p = (case us of [] \<Rightarrow> None | a # _ \<Rightarrow> Some a)" and "length us \<le> n"
  shows "\<exists>s'. free_loop n p s = Inr s' \<and> lists_ok s' [] (fs @ us) \<and> ticks s' = ticks s \<and> outbox s' = outbox s"
  using assms
proof (induction us arbitrary: s fs p n)
  case Nil
  then show ?case by (cases n) auto
next
  case (Cons a us)
  then obtain m where n: "n = Suc m" "length us \<le> m" by (cases n) auto
  have nxt: "pNextEntry (heap s a) = (case us of [] \<Rightarrow> None | a # _ \<Rightarrow> Some a)"
    using Cons.prems(1) by (cases us) (auto simp: lists_ok_def)
  from Cons.prems(1) have "lists_ok s ([] @ a # us) fs" by simp
  then obtain s1 where s1: "freeTimerUnprotected a s = Inr s1" "lists_ok s1 us (fs @ [a])"
    "ticks s1 = ticks s" "outbox s1 = outbox s"
    by (rule free_ok) auto
  with Cons.IH [OF s1(2) nxt n(2)] Cons.prems(2) n show ?case by (auto simp: Let_def)
qed

lemma freeAllTimers_ok:
  assumes "lists_ok s us fs"
  obtains s' where "freeAllTimers s = Inr s'" and "lists_ok s' [] (fs @ us)"
    and "ticks s' = ticks s" and "outbox s' = outbox s"
proof -
  have head: "usedHead s = (case us of [] \<Rightarrow> None | a # _ \<Rightarrow> Some a)"
    using assms by (cases us) (auto simp: lists_ok_def)
  have len: "length us \<le> MAX_NUM_TIMERS" using assms by (simp add: lists_ok_def)
  from free_loop_ok [OF assms head len] show thesis
    by (auto simp: freeAllTimers_def lists_ok_def intro!: that)
qed

lemma dseg_upd: "a \<notin> set bs \<Longrightarrow> dseg (h(a := e)) p x bs y = dseg h p x bs y"
  by (rule dseg_cong) auto

lemma link_new_entries_ok:
  assumes "dseg (heap s) None (freeHead s) fs None" and "distinct (fs @ as)"
  shows "\<exists>s'. link_new_entries (map Some as) (last_or None fs) s = Inr s'
    \<and> dseg (heap s') None (freeHead s') (fs @ as) None
    \<and> usedHead s' = usedHead s \<and> ticks s' = ticks s \<and> outbox s' = outbox s"
  using assms
proof (induction as arbitrary: s fs)
  case Nil
  then show ?case by auto
next
  case (Cons a as)
  define e where "e = \<lparr>timer = zero_timer, pPrevEntry = last_or None fs, pNextEntry = None\<rparr>"
  define s1 where "s1 = s\<lparr>heap := opt_set_next (last_or None fs) (Some a) ((heap s)(a := e)),
      freeHead := (case last_or None fs of None \<Rightarrow> Some a | Some _ \<Rightarrow> freeHead s)\<rparr>"
  have "dseg (heap s1) None (freeHead s1) (fs @ [a]) None"
  proof (cases fs rule: rev_cases)
    case Nil
    then show ?thesis by (simp add: s1_def e_def opt_set_next_def)
  next
    case (snoc bs b)
    with Cons.prems show ?thesis
      by (auto simp: s1_def e_def opt_set_next_def dseg_upd)
  qed
  from Cons.IH [OF this] Cons.prems(2) obtain s' where
    "link_new_entries (map Some as) (Some a) s1 = Inr s'" "dseg (heap s') None (freeHead s') ((fs @ [a]) @ as) None"
    "usedHead s' = usedHead s1" "ticks s' = ticks s1" "outbox s' = outbox s1"
    by auto
  then show ?case
    by (intro exI [of _ s']) (simp add: s1_def e_def [symmetric] Let_def del: dseg_append)
qed

end
