(* ===== verification/Timer_Properties.thy ===== *)
theory Timer_Properties
  imports Timer_Refinement
begin

section \<open>Properties of the timer server\<close>

text \<open>
  \<open>timer_abs\<close> reads the abstract queue off the pointers, \<open>timer_inv\<close> says that the pointers are
  two well-formed lists and that the used one is in order of expiry.  The first group of
  properties is the refinement of the abstract service, operation by operation; the second uses the
  locale \<open>timer_service\<close>, whose laws the tick handler provides, to follow a timer over many
  ticks.
\<close>

subsection \<open>Abstraction and invariant\<close>

fun collect :: "(nat \<Rightarrow> timer_entry) \<Rightarrow> nat option \<Rightarrow> nat \<Rightarrow> nat list" where
  "collect h p 0 = []"
| "collect h None (Suc n) = []"
| "collect h (Some a) (Suc n) = a # collect h (pNextEntry (h a)) n"

definition used_addrs :: "timer_server \<Rightarrow> nat list" where
  "used_addrs s = collect (heap s) (usedHead s) MAX_NUM_TIMERS"

definition free_addrs :: "timer_server \<Rightarrow> nat list" where
  "free_addrs s = collect (heap s) (freeHead s) MAX_NUM_TIMERS"

definition pending :: "timer_server \<Rightarrow> timer list" where
  "pending s = timers_of s (used_addrs s)"

definition timer_abs :: "timer_server \<Rightarrow> timer_queue" where
  "timer_abs s = \<lparr>running = pending s, free_entries = length (free_addrs s), now = ticks s,
                  sent_msgs = outbox s\<rparr>"

definition timer_inv :: "timer_server \<Rightarrow> bool" where
  "timer_inv s \<longleftrightarrow>
     lists_ok s (used_addrs s) (free_addrs s) \<and> sorted (map expiryTimeDeciSeconds (pending s))"

lemma collect_dseg: "dseg h p x as None \<Longrightarrow> length as \<le> n \<Longrightarrow> collect h x n = as"
proof (induction as arbitrary: p x n)
  case Nil
  then show ?case by (cases n) auto
next
  case (Cons a as)
  then show ?case by (cases n) auto
qed

lemma lists_ok_addrs:
  assumes "lists_ok s us fs"
  shows "used_addrs s = us" and "free_addrs s = fs"
proof -
  have d: "dseg (heap s) None (usedHead s) us None" "dseg (heap s) None (freeHead s) fs None"
    and l: "length us \<le> MAX_NUM_TIMERS" "length fs \<le> MAX_NUM_TIMERS"
    using assms by (auto simp: lists_ok_def)
  show "used_addrs s = us" "free_addrs s = fs"
    using collect_dseg [OF d(1) l(1)] collect_dseg [OF d(2) l(2)]
    by (simp_all add: used_addrs_def free_addrs_def)
qed

lemma timer_invI:
  assumes "lists_ok s us fs" and "sorted (map expiryTimeDeciSeconds (timers_of s us))"
  shows "timer_inv s" and "pending s = timers_of s us"
    and "timer_abs s = \<lparr>running = timers_of s us, free_entries = length fs, now = ticks s, sent_msgs = outbox s\<rparr>"
  using assms lists_ok_addrs [OF assms(1)] by (simp_all add: timer_inv_def timer_abs_def pending_def)

lemma map_expiry_at: "map (expiry_at s) us = map expiryTimeDeciSeconds (timers_of s us)"
  by (simp add: timers_of_def expiry_at_def)

lemma timer_invE:
  assumes "timer_inv s"
  obtains us fs where "lists_ok s us fs" and "sorted (map expiryTimeDeciSeconds (timers_of s us))"
    and "pending s = timers_of s us" and "sorted (map (expiry_at s) us)"
    and "timer_abs s = \<lparr>running = timers_of s us, free_entries = length fs, now = ticks s, sent_msgs = outbox s\<rparr>"
  using assms
  by (intro that [of "used_addrs s" "free_addrs s"])
    (simp_all add: timer_inv_def timer_abs_def pending_def map_expiry_at)

lemma sorted_insert_timer:
  assumes "sorted (map expiryTimeDeciSeconds ts)"
  shows "sorted (map expiryTimeDeciSeconds (insert_timer t ts))"
proof -
  let ?P = "\<lambda>u. expiryTimeDeciSeconds u \<le> expiryTimeDeciSeconds t"
  define as where "as = takeWhile ?P ts"
  define bs where "bs = dropWhile ?P ts"
  have ts: "ts = as @ bs" by (simp add: as_def bs_def)
  have srt: "sorted (map expiryTimeDeciSeconds as)" "sorted (map expiryTimeDeciSeconds bs)"
    using assms unfolding ts by (simp_all add: sorted_append)
  have as: "\<forall>u\<in>set as. ?P u" unfolding as_def by (meson set_takeWhileD)
  have bs: "\<forall>u\<in>set bs. expiryTimeDeciSeconds t \<le> expiryTimeDeciSeconds u"
  proof (cases bs)
    case (Cons v vs)
    then have "\<not> ?P v" unfolding bs_def by (simp add: dropWhile_eq_Cons_conv)
    with srt(2) Cons show ?thesis by auto
  qed simp
  have "sorted (map expiryTimeDeciSeconds (as @ t # bs))"
    using srt as bs by (auto simp: sorted_append intro: order_trans)
  then show ?thesis by (simp add: insert_timer_def as_def bs_def)
qed

lemma remove_first_split:
  "P a \<Longrightarrow> (\<forall>b\<in>set bs. \<not> P b) \<Longrightarrow> remove_first P (bs @ a # cs) = bs @ cs"
  by (induction bs) auto

lemma remove_first_none: "(\<forall>b\<in>set bs. \<not> P b) \<Longrightarrow> remove_first P bs = bs"
  by (induction bs) auto

subsection \<open>Refinement of the abstract service\<close>

text \<open>
  Starting the server: with every \<open>malloc\<close> successful and distinct, \<open>actionTimerServerStart\<close> builds, on an
  empty server, a free list of all 30 entries, with no timer running.
\<close>

theorem server_start_ok:
  assumes "mutexInitOk env" and "timerCreateOk env" and "timerSettimeOk env"
    and "\<And>i. i < MAX_NUM_TIMERS \<Longrightarrow> mallocs env i = Some (addr i)"
    and "inj_on addr {0..<MAX_NUM_TIMERS}"
    and "usedHead s = None" and "freeHead s = None"
  shows "\<exists>s'. actionTimerServerStart env s = Inr s' \<and> timer_inv s' \<and>
    timer_abs s' = \<lparr>running = [], free_entries = MAX_NUM_TIMERS, now = ticks s, sent_msgs = outbox s\<rparr>"
proof -
  let ?as = "map addr [0..<MAX_NUM_TIMERS]"
  have ms: "map (mallocs env) [0..<MAX_NUM_TIMERS] = map Some ?as"
    using assms(4) by simp
  have "distinct ?as" using assms(5) by (simp add: distinct_map)
  then obtain s' where s': "link_new_entries (map Some ?as) None s = Inr s'"
    "dseg (heap s') None (freeHead s') ?as None" "usedHead s' = None" "ticks s' = ticks s" "outbox s' = outbox s"
    using link_new_entries_ok [of s "[]" ?as] assms(6,7) by auto
  then have "lists_ok s' [] ?as" using \<open>distinct ?as\<close> by (simp add: lists_ok_def)
  note inv = timer_invI [OF this]
  have "actionTimerServerStart env s = Inr s'"
    using assms(1-3) s'(1) by (simp add: actionTimerServerStart_def ms del: map_map)
  then show ?thesis
    using inv s'(4,5) by (intro exI [of _ s']) simp
qed


definition one_each :: timer_server where
  "one_each = \<lparr>heap = (\<lambda>a. \<lparr>timer = zero_timer\<lparr>expiryTimeDeciSeconds := of_nat a\<rparr>, pPrevEntry = None, pNextEntry = None\<rparr>),
               freeHead = Some 7, usedHead = Some 5, ticks = 3, outbox = []\<rparr>"

lemma one_each_inv: "timer_inv one_each"
proof -
  have "lists_ok one_each [5] [7]" by (simp add: lists_ok_def one_each_def MAX_NUM_TIMERS_def)
  then show ?thesis by (rule timer_invI) simp
qed


definition no_running :: timer_server where
  "no_running = one_each\<lparr>freeHead := None, usedHead := None\<rparr>"

definition all_mallocs :: timer_env where
  "all_mallocs = \<lparr>mutexInitOk = True, mallocs = Some, timerCreateOk = True, timerSettimeOk = True,
                  timerDeleteOk = True, beyondMsg = []\<rparr>"

theorem server_start_ok_witness:
  "\<exists>s'. actionTimerServerStart all_mallocs no_running = Inr s' \<and> timer_inv s' \<and>
    timer_abs s' = \<lparr>running = [], free_entries = MAX_NUM_TIMERS, now = ticks no_running, sent_msgs = outbox no_running\<rparr>"
  by (rule server_start_ok [where addr = id]) (simp_all add: all_mallocs_def no_running_def one_each_def)

text \<open>
  C29. Stopping a timer refines removal of the first timer with the request's id and port: on a well-formed
  server \<open>actionTimerStop\<close> never fails, leaves every other timer in place and keeps the server
  well-formed; a request that matches no timer changes nothing.
\<close>

theorem timer_stop_refines:
  assumes "timer_inv s"
  shows "\<exists>s'. actionTimerStop req s = Inr s' \<and> timer_inv s' \<and> timer_abs s' = spec_stop req (timer_abs s)"
proof -
  from assms obtain us fs where ok: "lists_ok s us fs" and srt: "sorted (map expiryTimeDeciSeconds (timers_of s us))"
    and abs: "timer_abs s = \<lparr>running = timers_of s us, free_entries = length fs, now = ticks s, sent_msgs = outbox s\<rparr>"
    by (rule timer_invE)
  have head: "usedHead s = (case us of [] \<Rightarrow> None | a # _ \<Rightarrow> Some a)" and len: "length us \<le> MAX_NUM_TIMERS"
    using ok by (cases us; auto simp: lists_ok_def)+
  have "lists_ok s ([] @ us) fs" using ok by simp
  from stop_loop_ok [OF this head len, of req] show ?thesis
  proof (elim disjE exE conjE)
    assume "\<forall>a\<in>set us. \<not> matches req (timer (heap s a))" "stop_loop MAX_NUM_TIMERS (usedHead s) req s = Inr s"
    then show ?thesis using assms abs
      by (auto simp: actionTimerStop_def spec_stop_def timers_of_def)
  next
    fix s' bs a cs
    assume us: "us = bs @ a # cs" and m: "matches req (timer (heap s a))"
      and bs: "\<forall>b\<in>set bs. \<not> matches req (timer (heap s b))"
      and run: "stop_loop MAX_NUM_TIMERS (usedHead s) req s = Inr s'" and ok': "lists_ok s' ([] @ bs @ cs) (fs @ [a])"
      and same: "ticks s' = ticks s" "outbox s' = outbox s" "\<forall>b. b \<noteq> a \<longrightarrow> timer (heap s' b) = timer (heap s b)"
    have "a \<notin> set (bs @ cs)" using ok' by (auto simp: lists_ok_def)
    then have ts: "timers_of s' (bs @ cs) = timers_of s (bs @ cs)"
      using same(3) by (intro timers_of_cong) metis
    have "sorted (map expiryTimeDeciSeconds (timers_of s' (bs @ cs)))"
      unfolding ts using srt by (simp add: us sorted_append)
    from timer_invI [OF ok' [simplified append_Nil] this]
    have "timer_inv s'" "timer_abs s' = \<lparr>running = timers_of s bs @ timers_of s cs, free_entries = length fs + 1,
        now = ticks s, sent_msgs = outbox s\<rparr>"
      using ts same(1,2) by (simp_all del: timers_of_simps) (simp_all only: timers_of_simps)
    moreover have "remove_first (matches req) (timers_of s us) = timers_of s bs @ timers_of s cs"
      using bs m by (simp add: us remove_first_split timers_of_def)
    ultimately show ?thesis
      using run m abs us by (auto simp: actionTimerStop_def spec_stop_def)
  qed
qed

theorem timer_stop_refines_witness:
  "\<exists>s'. actionTimerStop \<lparr>stopId = 1, stopSourcePort = 5232\<rparr> one_each = Inr s' \<and> timer_inv s' \<and>
     timer_abs s' = spec_stop \<lparr>stopId = 1, stopSourcePort = 5232\<rparr> (timer_abs one_each)"
  by (rule timer_stop_refines [OF one_each_inv])

text \<open>A tick, with the lock free or taken, is the abstract tick.\<close>

lemma tick_refines:
  assumes "timer_inv s"
  shows "\<exists>s'. tickHandlerCallback lockFree s = Inr s' \<and> timer_inv s' \<and>
    timer_abs s' = spec_tick lockFree (timer_abs s)"
proof -
  from assms obtain us fs where ok: "lists_ok s us fs" and srt: "sorted (map expiryTimeDeciSeconds (timers_of s us))"
    and abs: "timer_abs s = \<lparr>running = timers_of s us, free_entries = length fs, now = ticks s, sent_msgs = outbox s\<rparr>"
    by (rule timer_invE)
  define s1 where "s1 = s\<lparr>ticks := ticks s + 1\<rparr>"
  have ok1: "lists_ok s1 ([] @ us) fs" and same1: "timers_of s1 us = timers_of s us" "heap s1 = heap s"
    "ticks s1 = ticks s + 1" "outbox s1 = outbox s"
    using ok by (simp_all add: s1_def lists_ok_def timers_of_def)
  show ?thesis
  proof (cases lockFree)
    case False
    have "lists_ok s1 us fs" using ok1 by simp
    from timer_invI [OF this] srt same1 abs False show ?thesis
      by (simp add: tickHandlerCallback_def s1_def [symmetric] spec_tick_def)
  next
    case True
    have head: "usedHead s1 = (case us of [] \<Rightarrow> None | a # _ \<Rightarrow> Some a)" and len: "length us \<le> MAX_NUM_TIMERS"
      using ok1 by (cases us; auto simp: lists_ok_def)+
    let ?due = "\<lambda>a. expiryTimeDeciSeconds (timer (heap s a)) \<le> ticks s + 1"
    have due: "due_at s1 = ?due" by (rule ext) (simp add: due_at_def same1)
    obtain s' where s': "tick_loop MAX_NUM_TIMERS (usedHead s1) s1 = Inr s'"
      "lists_ok s' (filter (\<lambda>a. \<not> ?due a) us) (fs @ filter ?due us)"
      "ticks s' = ticks s + 1" "outbox s' = outbox s @ map (notice_at s1) (filter ?due us)"
      "\<forall>a. a \<in> set us \<and> \<not> ?due a \<longrightarrow> timer (heap s' a) = timer (heap s a)"
      using tick_loop_ok [OF ok1 head len] by (auto simp: due same1)
    have ts: "timers_of s' (filter (\<lambda>a. \<not> ?due a) us)
        = filter (\<lambda>t. \<not> expiryTimeDeciSeconds t \<le> ticks s + 1) (timers_of s us)"
      using s'(5) by (auto simp: timers_of_def filter_map comp_def)
    have "sorted (map expiryTimeDeciSeconds (timers_of s' (filter (\<lambda>a. \<not> ?due a) us)))"
      unfolding ts using srt by (rule sorted_filter)
    note inv = timer_invI [OF s'(2) this]
    have sends: "map (notice_at s1) (filter ?due us)
        = map (\<lambda>t. (sourcePort t, expiryMsg t)) (filter (\<lambda>t. expiryTimeDeciSeconds t \<le> ticks s + 1) (timers_of s us))"
      "length (filter (\<lambda>t. expiryTimeDeciSeconds t \<le> ticks s + 1) (timers_of s us)) = length (filter ?due us)"
      by (simp_all add: timers_of_def filter_map comp_def notice_at_def same1)
    have "tickHandlerCallback lockFree s = Inr s'"
      using True s'(1) by (simp add: tickHandlerCallback_def s1_def)
    moreover have "timer_abs s' = spec_tick lockFree (timer_abs s)"
      using True inv(3) s'(3,4) sends abs by (simp add: spec_tick_def Let_def ts)
    ultimately show ?thesis using inv(1) by blast
  qed
qed

text \<open>
  The tick handler refines the abstract tick: on a well-formed server it never fails, sends the expiry
  messages of exactly the timers whose time has come, in list order, to their own ports, frees their
  entries and keeps every other timer; if the mutex is taken it only counts the tick.
\<close>

theorem timer_tick_refines:
  assumes "timer_inv s"
  shows "\<exists>s'. tickHandlerCallback lockFree s = Inr s' \<and> timer_inv s' \<and>
    timer_abs s' = spec_tick lockFree (timer_abs s)"
  by (rule tick_refines [OF assms])

theorem timer_tick_refines_witness:
  "\<exists>s'. tickHandlerCallback True one_each = Inr s' \<and> timer_inv s' \<and>
    timer_abs s' = spec_tick True (timer_abs one_each)"
  by (rule timer_tick_refines [OF one_each_inv])

subsection \<open>Many ticks\<close>

text \<open>
  What a client of the timer service relies on: a tick keeps the invariant, which includes that the running
  timers are in order, and is the abstract tick.  From this law alone, a run of ticks sends each timer once
  and in order of expiry.
\<close>

definition notice :: "timer \<Rightarrow> s32 \<times> msg" where
  "notice t = (sourcePort t, expiryMsg t)"

definition due_by :: "u32 \<Rightarrow> timer \<Rightarrow> bool" where
  "due_by n t \<longleftrightarrow> expiryTimeDeciSeconds t \<le> n"

lemma spec_tick_free:
  "spec_tick True q =
     q\<lparr>running := filter (\<lambda>t. \<not> due_by (now q + 1) t) (running q),
       free_entries := free_entries q + length (filter (due_by (now q + 1)) (running q)), now := now q + 1,
       sent_msgs := sent_msgs q @ map notice (filter (due_by (now q + 1)) (running q))\<rparr>"
  by (simp add: spec_tick_def Let_def due_by_def [abs_def] notice_def [abs_def])

lemma filter_due_split:
  assumes "sorted (map expiryTimeDeciSeconds ts)" and "m \<le> n"
  shows "filter (due_by m) ts @ filter (due_by n) (filter (\<lambda>t. \<not> due_by m t) ts) = filter (due_by n) ts"
  using assms
proof (induction ts)
  case (Cons t ts)
  show ?case
  proof (cases "due_by m t")
    case True
    with Cons show ?thesis by (auto simp: due_by_def)
  next
    case False
    with Cons.prems(1) have "filter (due_by m) ts = []" "filter (\<lambda>t. \<not> due_by m t) ts = ts"
      by (auto simp: due_by_def filter_empty_conv filter_id_conv)
    with False show ?thesis by simp
  qed
qed simp

locale timer_service =
  fixes inv :: "'s \<Rightarrow> bool" and abs :: "'s \<Rightarrow> timer_queue" and tick :: "'s \<Rightarrow> fault + 's"
  assumes inv_sorted: "inv s \<Longrightarrow> sorted (map expiryTimeDeciSeconds (running (abs s)))"
    and tick_spec: "inv s \<Longrightarrow> \<exists>s'. tick s = Inr s' \<and> inv s' \<and> abs s' = spec_tick True (abs s)"
begin

lemma ticks_send:
  assumes "inv s" and "unat (now (abs s)) + Suc k < 2 ^ 32"
  shows "\<exists>s'. iterate_res (Suc k) tick s = Inr s' \<and> inv s' \<and> now (abs s') = now (abs s) + of_nat (Suc k)
    \<and> running (abs s') = filter (\<lambda>t. \<not> due_by (now (abs s) + of_nat (Suc k)) t) (running (abs s))
    \<and> sent_msgs (abs s') = sent_msgs (abs s) @
        map notice (filter (due_by (now (abs s) + of_nat (Suc k))) (running (abs s)))"
  using assms(2)
proof (induction k)
  case 0
  from tick_spec [OF assms(1)] show ?case by (auto simp: spec_tick_free)
next
  case (Suc k)
  let ?m = "now (abs s) + of_nat (Suc k)" and ?n = "now (abs s) + of_nat (Suc (Suc k))"
  from Suc obtain s1 where s1: "iterate_res (Suc k) tick s = Inr s1" "inv s1" "now (abs s1) = ?m"
    "running (abs s1) = filter (\<lambda>t. \<not> due_by ?m t) (running (abs s))"
    "sent_msgs (abs s1) = sent_msgs (abs s) @ map notice (filter (due_by ?m) (running (abs s)))"
    by auto
  from tick_spec [OF s1(2)] obtain s2 where s2: "tick s1 = Inr s2" "inv s2" "abs s2 = spec_tick True (abs s1)"
    by blast
  have n: "now (abs s1) + 1 = ?n" by (simp add: s1(3))
  have "unat ?m = unat (now (abs s)) + Suc k" "unat ?n = unat (now (abs s)) + Suc (Suc k)"
    using Suc.prems by (simp_all only: unat_word_ariths unat_of_nat len_num1) simp_all
  then have le: "?m \<le> ?n" by (simp only: word_le_nat_alt)
  have imp: "due_by ?m t \<Longrightarrow> due_by ?n t" for t using le by (simp only: due_by_def)
  have "filter (\<lambda>t. \<not> due_by ?n t) (filter (\<lambda>t. \<not> due_by ?m t) (running (abs s)))
      = filter (\<lambda>t. \<not> due_by ?n t) (running (abs s))"
    using imp by (simp only: filter_filter) (rule filter_cong, auto)
  moreover note filter_due_split [OF inv_sorted [OF assms(1)] le]
  ultimately show ?case
    using s1(1) s2 by (intro exI [of _ s2]) (simp add: spec_tick_free n s1(4,5) flip: map_append)
qed

end

interpretation tim: timer_service timer_inv timer_abs "tickHandlerCallback True"
proof
  show "sorted (map expiryTimeDeciSeconds (running (timer_abs s)))" if "timer_inv s" for s
    using that by (auto elim!: timer_invE)
qed (rule tick_refines)

text \<open>
  C2. Timers fire on time: on a well-formed server, \<open>k\<close> ticks (with the mutex free, \<open>k\<close> positive, and the
  32-bit tick counter not wrapping) end normally with the counter advanced by \<open>k\<close>; the messages sent meanwhile are those
  of exactly the timers whose expiry time has been reached, each once, to its own port, in order of expiry; the timers
  still running are exactly the others.
\<close>

theorem timers_fire_on_time:
  assumes "timer_inv s" and "unat (ticks s) + k < 2 ^ 32" and "0 < k"
  shows "\<exists>s'. iterate_res k (tickHandlerCallback True) s = Inr s' \<and> timer_inv s' \<and> ticks s' = ticks s + of_nat k
    \<and> pending s' = filter (\<lambda>t. ticks s' < expiryTimeDeciSeconds t) (pending s)
    \<and> outbox s' = outbox s @ map (\<lambda>t. (sourcePort t, expiryMsg t))
        (filter (\<lambda>t. expiryTimeDeciSeconds t \<le> ticks s') (pending s))"
proof -
  obtain j where k: "k = Suc j" using assms(3) by (cases k) auto
  have "unat (now (timer_abs s)) + Suc j < 2 ^ 32" using assms(2) by (simp add: timer_abs_def k)
  from tim.ticks_send [OF assms(1) this] show ?thesis
    by (auto simp: k timer_abs_def due_by_def [abs_def] notice_def [abs_def] not_le)
qed

theorem timers_fire_on_time_witness:
  "\<exists>s'. iterate_res 4 (tickHandlerCallback True) one_each = Inr s' \<and> timer_inv s' \<and> ticks s' = ticks one_each + of_nat 4
    \<and> pending s' = filter (\<lambda>t. ticks s' < expiryTimeDeciSeconds t) (pending one_each)
    \<and> outbox s' = outbox one_each @ map (\<lambda>t. (sourcePort t, expiryMsg t))
        (filter (\<lambda>t. expiryTimeDeciSeconds t \<le> ticks s') (pending one_each))"
  by (rule timers_fire_on_time [OF one_each_inv]) (simp_all add: one_each_def)

end
