(* ===== verification/Rob_System.thy ===== *)
theory Rob_System
  imports Prelude
begin

section \<open>C strings: \<open>shared/src/rob_system.c\<close>\<close>

text \<open>
  C strings as the bytes of the memory they start in, and the two string functions of \<open>rob_system.c\<close> whose results
  are more than printed text: \<open>removeCtrlCharacters\<close> writes to a buffer of its caller, and runs
  past its end when the string is too long.
\<close>

text \<open>\<open>strlen\<close>, and whether there is a terminator in the memory at all.\<close>

definition c_strlen :: "u8 list \<Rightarrow> nat" where
  "c_strlen bs = length (takeWhile (\<lambda>b. b \<noteq> 0) bs)"

definition terminated :: "u8 list \<Rightarrow> bool" where
  "terminated bs \<longleftrightarrow> 0 \<in> set bs"

text \<open>\<open>isprint\<close> in the C locale.\<close>

definition isprint :: "u8 \<Rightarrow> bool" where
  "isprint b \<longleftrightarrow> 0x20 \<le> b \<and> b < 0x7F"

fun remove_loop :: "nat \<Rightarrow> u8 list \<Rightarrow> u8 list \<Rightarrow> u8 list" where
  "remove_loop 0 src dest = dest @ [0]"
| "remove_loop (Suc n) [] dest = dest @ [0]"
| "remove_loop (Suc n) (b # src) dest = remove_loop n src (if isprint b then dest @ [b] else dest)"

text \<open>
  \<open>removeCtrlCharacters\<close> with an output buffer of \<open>room\<close> bytes: what it has written, or a fault when it
  writes past the end of the buffer, or when the input has no terminator.
\<close>

definition removeCtrlCharacters :: "u8 list \<Rightarrow> nat \<Rightarrow> fault + u8 list" where
  "removeCtrlCharacters pInput room =
     (if \<not> terminated pInput then Inl Bad_Access
      else (let out = remove_loop (c_strlen pInput) pInput []
            in if length out > room then Inl Bad_Access else Inr out))"

fun binary_loop :: "nat \<Rightarrow> u8 \<Rightarrow> u8 \<Rightarrow> u8 list" where
  "binary_loop 0 value m = [0]"
| "binary_loop (Suc n) value m = (if and value m > 0 then 0x31 else 0x30) # binary_loop n value (drop_bit 1 m)"

definition binaryString :: "u8 \<Rightarrow> u8 list" where
  "binaryString value = binary_loop 8 value 0x80"

subsection \<open>What they compute\<close>

lemma c_strlen_le: "c_strlen bs \<le> length bs"
  by (simp add: c_strlen_def length_takeWhile_le)

lemma c_strlen_less: "terminated bs \<Longrightarrow> c_strlen bs < length bs"
  by (induction bs) (auto simp: c_strlen_def terminated_def)

lemma c_strlen_append [simp]: "0 \<notin> set s \<Longrightarrow> c_strlen (s @ 0 # bs) = length s"
  by (induction s) (auto simp: c_strlen_def)

lemma terminated_append [simp]: "terminated (s @ 0 # bs)"
  by (simp add: terminated_def)

lemma remove_loop_filter: "n \<le> length src \<Longrightarrow> remove_loop n src dest = dest @ filter isprint (take n src) @ [0]"
  by (induction n src dest rule: remove_loop.induct) simp_all

lemma removeCtrlCharacters_string:
  assumes "0 \<notin> set s"
  shows "removeCtrlCharacters (s @ 0 # bs) room =
    (if length (filter isprint s) < room then Inr (filter isprint s @ [0]) else Inl Bad_Access)"
  using assms by (simp add: removeCtrlCharacters_def remove_loop_filter Let_def)

lemma removeCtrlCharacters_short:
  assumes "terminated bs" and "c_strlen bs < room"
  shows "\<exists>out. removeCtrlCharacters bs room = Inr out"
proof -
  have "length (filter isprint (take (c_strlen bs) bs)) \<le> c_strlen bs"
    using length_filter_le [of isprint "take (c_strlen bs) bs"] by simp
  then show ?thesis
    using assms by (simp add: removeCtrlCharacters_def remove_loop_filter Let_def c_strlen_le)
qed

lemma length_binary_loop [simp]: "length (binary_loop n v m) = Suc n"
  by (induction n arbitrary: m) simp_all

lemma binary_loop_nth: "i < n \<Longrightarrow> binary_loop n v m ! i = (if and v (drop_bit i m) > 0 then 0x31 else 0x30)"
proof (induction n arbitrary: i m)
  case (Suc n)
  then show ?case
    by (cases i) simp_all
qed simp

text \<open>The digits are the bits of the value, the most significant one first, and the string fills the nine bytes
  of \<open>BINARY_STRING_BUFFER_SIZE\<close>.\<close>

lemma binaryString_bits:
  assumes "i < 8"
  shows "binaryString v ! i = (if bit v (7 - i) then 0x31 else 0x30)" "length (binaryString v) = 9"
proof -
  have "drop_bit i (0x80 :: u8) = 2 ^ (7 - i)"
    using assms by (simp add: eval_nat_numeral less_Suc_eq) (elim disjE; simp)
  then show "binaryString v ! i = (if bit v (7 - i) then 0x31 else 0x30)"
    using assms by (simp add: binaryString_def binary_loop_nth word_gt_0 and_exp_eq_0_iff_not_bit)
qed (simp add: binaryString_def)

end
