(* ===== verification/Message_Types.thy ===== *)
theory Message_Types
  imports Client Rob_System
begin

section \<open>Message types\<close>

text \<open>
  The members of the message type enumerations, in the order of the \<open>MSG_DEF\<close> lines of
  \<open>hardware_msgs.h\<close>, \<open>battery_manager_msgs.h\<close>, \<open>state_machine_msgs.h\<close> and
  \<open>task_handler_msgs.h\<close>; the numbers are what travels in the type byte.
\<close>

subsection \<open>Hardware server\<close>

abbreviation (input) HARDWARE_SERVER_START :: nat where "HARDWARE_SERVER_START \<equiv> 0"
abbreviation (input) HARDWARE_SERVER_STOP :: nat where "HARDWARE_SERVER_STOP \<equiv> 1"
abbreviation (input) HARDWARE_READ_MAINS_12V :: nat where "HARDWARE_READ_MAINS_12V \<equiv> 2"
abbreviation (input) HARDWARE_READ_CHARGER_STATE_PINS :: nat where "HARDWARE_READ_CHARGER_STATE_PINS \<equiv> 3"
abbreviation (input) HARDWARE_READ_CHARGER_STATE :: nat where "HARDWARE_READ_CHARGER_STATE \<equiv> 4"
abbreviation (input) HARDWARE_TOGGLE_O_PWR :: nat where "HARDWARE_TOGGLE_O_PWR \<equiv> 5"
abbreviation (input) HARDWARE_READ_O_PWR :: nat where "HARDWARE_READ_O_PWR \<equiv> 6"
abbreviation (input) HARDWARE_TOGGLE_O_RST :: nat where "HARDWARE_TOGGLE_O_RST \<equiv> 7"
abbreviation (input) HARDWARE_READ_O_RST :: nat where "HARDWARE_READ_O_RST \<equiv> 8"
abbreviation (input) HARDWARE_TOGGLE_PI_RST :: nat where "HARDWARE_TOGGLE_PI_RST \<equiv> 9"
abbreviation (input) HARDWARE_SET_RIO_PWR_12V_ON :: nat where "HARDWARE_SET_RIO_PWR_12V_ON \<equiv> 10"
abbreviation (input) HARDWARE_SET_RIO_PWR_12V_OFF :: nat where "HARDWARE_SET_RIO_PWR_12V_OFF \<equiv> 11"
abbreviation (input) HARDWARE_READ_RIO_PWR_12V :: nat where "HARDWARE_READ_RIO_PWR_12V \<equiv> 12"
abbreviation (input) HARDWARE_SET_RIO_PWR_BATT_ON :: nat where "HARDWARE_SET_RIO_PWR_BATT_ON \<equiv> 13"
abbreviation (input) HARDWARE_SET_RIO_PWR_BATT_OFF :: nat where "HARDWARE_SET_RIO_PWR_BATT_OFF \<equiv> 14"
abbreviation (input) HARDWARE_READ_RIO_PWR_BATT :: nat where "HARDWARE_READ_RIO_PWR_BATT \<equiv> 15"
abbreviation (input) HARDWARE_SET_O_PWR_12V_ON :: nat where "HARDWARE_SET_O_PWR_12V_ON \<equiv> 16"
abbreviation (input) HARDWARE_SET_O_PWR_12V_OFF :: nat where "HARDWARE_SET_O_PWR_12V_OFF \<equiv> 17"
abbreviation (input) HARDWARE_READ_O_PWR_12V :: nat where "HARDWARE_READ_O_PWR_12V \<equiv> 18"
abbreviation (input) HARDWARE_SET_O_PWR_BATT_ON :: nat where "HARDWARE_SET_O_PWR_BATT_ON \<equiv> 19"
abbreviation (input) HARDWARE_SET_O_PWR_BATT_OFF :: nat where "HARDWARE_SET_O_PWR_BATT_OFF \<equiv> 20"
abbreviation (input) HARDWARE_READ_O_PWR_BATT :: nat where "HARDWARE_READ_O_PWR_BATT \<equiv> 21"
abbreviation (input) HARDWARE_SET_RIO_BATTERY_CHARGER_ON :: nat where "HARDWARE_SET_RIO_BATTERY_CHARGER_ON \<equiv> 22"
abbreviation (input) HARDWARE_SET_RIO_BATTERY_CHARGER_OFF :: nat where "HARDWARE_SET_RIO_BATTERY_CHARGER_OFF \<equiv> 23"
abbreviation (input) HARDWARE_READ_RIO_BATTERY_CHARGER :: nat where "HARDWARE_READ_RIO_BATTERY_CHARGER \<equiv> 24"
abbreviation (input) HARDWARE_SET_O1_BATTERY_CHARGER_ON :: nat where "HARDWARE_SET_O1_BATTERY_CHARGER_ON \<equiv> 25"
abbreviation (input) HARDWARE_SET_O1_BATTERY_CHARGER_OFF :: nat where "HARDWARE_SET_O1_BATTERY_CHARGER_OFF \<equiv> 26"
abbreviation (input) HARDWARE_READ_O1_BATTERY_CHARGER :: nat where "HARDWARE_READ_O1_BATTERY_CHARGER \<equiv> 27"
abbreviation (input) HARDWARE_SET_O2_BATTERY_CHARGER_ON :: nat where "HARDWARE_SET_O2_BATTERY_CHARGER_ON \<equiv> 28"
abbreviation (input) HARDWARE_SET_O2_BATTERY_CHARGER_OFF :: nat where "HARDWARE_SET_O2_BATTERY_CHARGER_OFF \<equiv> 29"
abbreviation (input) HARDWARE_READ_O2_BATTERY_CHARGER :: nat where "HARDWARE_READ_O2_BATTERY_CHARGER \<equiv> 30"
abbreviation (input) HARDWARE_SET_O3_BATTERY_CHARGER_ON :: nat where "HARDWARE_SET_O3_BATTERY_CHARGER_ON \<equiv> 31"
abbreviation (input) HARDWARE_SET_O3_BATTERY_CHARGER_OFF :: nat where "HARDWARE_SET_O3_BATTERY_CHARGER_OFF \<equiv> 32"
abbreviation (input) HARDWARE_READ_O3_BATTERY_CHARGER :: nat where "HARDWARE_READ_O3_BATTERY_CHARGER \<equiv> 33"
abbreviation (input) HARDWARE_SET_ALL_BATTERY_CHARGERS_ON :: nat where "HARDWARE_SET_ALL_BATTERY_CHARGERS_ON \<equiv> 34"
abbreviation (input) HARDWARE_SET_ALL_BATTERY_CHARGERS_OFF :: nat where "HARDWARE_SET_ALL_BATTERY_CHARGERS_OFF \<equiv> 35"
abbreviation (input) HARDWARE_SET_ALL_O_BATTERY_CHARGERS_ON :: nat where "HARDWARE_SET_ALL_O_BATTERY_CHARGERS_ON \<equiv> 36"
abbreviation (input) HARDWARE_SET_ALL_O_BATTERY_CHARGERS_OFF :: nat where "HARDWARE_SET_ALL_O_BATTERY_CHARGERS_OFF \<equiv> 37"
abbreviation (input) HARDWARE_DISABLE_ON_PCB_RELAYS :: nat where "HARDWARE_DISABLE_ON_PCB_RELAYS \<equiv> 38"
abbreviation (input) HARDWARE_ENABLE_ON_PCB_RELAYS :: nat where "HARDWARE_ENABLE_ON_PCB_RELAYS \<equiv> 39"
abbreviation (input) HARDWARE_DISABLE_EXTERNAL_RELAYS :: nat where "HARDWARE_DISABLE_EXTERNAL_RELAYS \<equiv> 40"
abbreviation (input) HARDWARE_ENABLE_EXTERNAL_RELAYS :: nat where "HARDWARE_ENABLE_EXTERNAL_RELAYS \<equiv> 41"
abbreviation (input) HARDWARE_READ_EXTERNAL_RELAYS_ENABLED :: nat where "HARDWARE_READ_EXTERNAL_RELAYS_ENABLED \<equiv> 42"
abbreviation (input) HARDWARE_READ_ON_PCB_RELAYS_ENABLED :: nat where "HARDWARE_READ_ON_PCB_RELAYS_ENABLED \<equiv> 43"
abbreviation (input) HARDWARE_READ_GENERAL_PURPOSE_IOS :: nat where "HARDWARE_READ_GENERAL_PURPOSE_IOS \<equiv> 44"
abbreviation (input) HARDWARE_READ_RIO_BATT_CURRENT :: nat where "HARDWARE_READ_RIO_BATT_CURRENT \<equiv> 45"
abbreviation (input) HARDWARE_READ_O1_BATT_CURRENT :: nat where "HARDWARE_READ_O1_BATT_CURRENT \<equiv> 46"
abbreviation (input) HARDWARE_READ_O2_BATT_CURRENT :: nat where "HARDWARE_READ_O2_BATT_CURRENT \<equiv> 47"
abbreviation (input) HARDWARE_READ_O3_BATT_CURRENT :: nat where "HARDWARE_READ_O3_BATT_CURRENT \<equiv> 48"
abbreviation (input) HARDWARE_READ_RIO_BATT_VOLTAGE :: nat where "HARDWARE_READ_RIO_BATT_VOLTAGE \<equiv> 49"
abbreviation (input) HARDWARE_READ_O1_BATT_VOLTAGE :: nat where "HARDWARE_READ_O1_BATT_VOLTAGE \<equiv> 50"
abbreviation (input) HARDWARE_READ_O2_BATT_VOLTAGE :: nat where "HARDWARE_READ_O2_BATT_VOLTAGE \<equiv> 51"
abbreviation (input) HARDWARE_READ_O3_BATT_VOLTAGE :: nat where "HARDWARE_READ_O3_BATT_VOLTAGE \<equiv> 52"
abbreviation (input) HARDWARE_READ_RIO_REMAINING_CAPACITY :: nat where "HARDWARE_READ_RIO_REMAINING_CAPACITY \<equiv> 53"
abbreviation (input) HARDWARE_READ_O1_REMAINING_CAPACITY :: nat where "HARDWARE_READ_O1_REMAINING_CAPACITY \<equiv> 54"
abbreviation (input) HARDWARE_READ_O2_REMAINING_CAPACITY :: nat where "HARDWARE_READ_O2_REMAINING_CAPACITY \<equiv> 55"
abbreviation (input) HARDWARE_READ_O3_REMAINING_CAPACITY :: nat where "HARDWARE_READ_O3_REMAINING_CAPACITY \<equiv> 56"
abbreviation (input) HARDWARE_READ_RIO_BATT_LIFETIME_CHARGE_DISCHARGE :: nat where "HARDWARE_READ_RIO_BATT_LIFETIME_CHARGE_DISCHARGE \<equiv> 57"
abbreviation (input) HARDWARE_READ_O1_BATT_LIFETIME_CHARGE_DISCHARGE :: nat where "HARDWARE_READ_O1_BATT_LIFETIME_CHARGE_DISCHARGE \<equiv> 58"
abbreviation (input) HARDWARE_READ_O2_BATT_LIFETIME_CHARGE_DISCHARGE :: nat where "HARDWARE_READ_O2_BATT_LIFETIME_CHARGE_DISCHARGE \<equiv> 59"
abbreviation (input) HARDWARE_READ_O3_BATT_LIFETIME_CHARGE_DISCHARGE :: nat where "HARDWARE_READ_O3_BATT_LIFETIME_CHARGE_DISCHARGE \<equiv> 60"
abbreviation (input) HARDWARE_PERFORM_CAL_ALL_BATTERY_MONITORS :: nat where "HARDWARE_PERFORM_CAL_ALL_BATTERY_MONITORS \<equiv> 61"
abbreviation (input) HARDWARE_PERFORM_CAL_RIO_BATTERY_MONITOR :: nat where "HARDWARE_PERFORM_CAL_RIO_BATTERY_MONITOR \<equiv> 62"
abbreviation (input) HARDWARE_PERFORM_CAL_O1_BATTERY_MONITOR :: nat where "HARDWARE_PERFORM_CAL_O1_BATTERY_MONITOR \<equiv> 63"
abbreviation (input) HARDWARE_PERFORM_CAL_O2_BATTERY_MONITOR :: nat where "HARDWARE_PERFORM_CAL_O2_BATTERY_MONITOR \<equiv> 64"
abbreviation (input) HARDWARE_PERFORM_CAL_O3_BATTERY_MONITOR :: nat where "HARDWARE_PERFORM_CAL_O3_BATTERY_MONITOR \<equiv> 65"
abbreviation (input) HARDWARE_SWAP_RIO_BATTERY :: nat where "HARDWARE_SWAP_RIO_BATTERY \<equiv> 66"
abbreviation (input) HARDWARE_SWAP_O1_BATTERY :: nat where "HARDWARE_SWAP_O1_BATTERY \<equiv> 67"
abbreviation (input) HARDWARE_SWAP_O2_BATTERY :: nat where "HARDWARE_SWAP_O2_BATTERY \<equiv> 68"
abbreviation (input) HARDWARE_SWAP_O3_BATTERY :: nat where "HARDWARE_SWAP_O3_BATTERY \<equiv> 69"
abbreviation (input) HARDWARE_READ_RIO_BATT_TEMPERATURE :: nat where "HARDWARE_READ_RIO_BATT_TEMPERATURE \<equiv> 70"
abbreviation (input) HARDWARE_READ_O1_BATT_TEMPERATURE :: nat where "HARDWARE_READ_O1_BATT_TEMPERATURE \<equiv> 71"
abbreviation (input) HARDWARE_READ_O2_BATT_TEMPERATURE :: nat where "HARDWARE_READ_O2_BATT_TEMPERATURE \<equiv> 72"
abbreviation (input) HARDWARE_READ_O3_BATT_TEMPERATURE :: nat where "HARDWARE_READ_O3_BATT_TEMPERATURE \<equiv> 73"
abbreviation (input) HARDWARE_SEND_O_STRING :: nat where "HARDWARE_SEND_O_STRING \<equiv> 74"

subsection \<open>Battery manager\<close>

abbreviation (input) BATTERY_MANAGER_SERVER_START :: nat where "BATTERY_MANAGER_SERVER_START \<equiv> 0"
abbreviation (input) BATTERY_MANAGER_SERVER_STOP :: nat where "BATTERY_MANAGER_SERVER_STOP \<equiv> 1"
abbreviation (input) BATTERY_MANAGER_DATA_RIO :: nat where "BATTERY_MANAGER_DATA_RIO \<equiv> 2"
abbreviation (input) BATTERY_MANAGER_DATA_O1 :: nat where "BATTERY_MANAGER_DATA_O1 \<equiv> 3"
abbreviation (input) BATTERY_MANAGER_DATA_O2 :: nat where "BATTERY_MANAGER_DATA_O2 \<equiv> 4"
abbreviation (input) BATTERY_MANAGER_DATA_O3 :: nat where "BATTERY_MANAGER_DATA_O3 \<equiv> 5"
abbreviation (input) BATTERY_MANAGER_CHARGING_PERMITTED :: nat where "BATTERY_MANAGER_CHARGING_PERMITTED \<equiv> 6"
abbreviation (input) BATTERY_MANAGER_TIMER_EXPIRY :: nat where "BATTERY_MANAGER_TIMER_EXPIRY \<equiv> 7"

subsection \<open>State machine\<close>

abbreviation (input) STATE_MACHINE_SERVER_NULL :: nat where "STATE_MACHINE_SERVER_NULL \<equiv> 0"
abbreviation (input) STATE_MACHINE_SERVER_START :: nat where "STATE_MACHINE_SERVER_START \<equiv> 1"
abbreviation (input) STATE_MACHINE_SERVER_STOP :: nat where "STATE_MACHINE_SERVER_STOP \<equiv> 2"
abbreviation (input) STATE_MACHINE_SERVER_GET_CONTEXT :: nat where "STATE_MACHINE_SERVER_GET_CONTEXT \<equiv> 3"
abbreviation (input) STATE_MACHINE_EVENT_INIT :: nat where "STATE_MACHINE_EVENT_INIT \<equiv> 4"
abbreviation (input) STATE_MACHINE_EVENT_INIT_FAILURE :: nat where "STATE_MACHINE_EVENT_INIT_FAILURE \<equiv> 5"
abbreviation (input) STATE_MACHINE_EVENT_TIMER_EXPIRY :: nat where "STATE_MACHINE_EVENT_TIMER_EXPIRY \<equiv> 6"
abbreviation (input) STATE_MACHINE_EVENT_TASKS_AVAILABLE :: nat where "STATE_MACHINE_EVENT_TASKS_AVAILABLE \<equiv> 7"
abbreviation (input) STATE_MACHINE_EVENT_NO_TASKS_AVAILABLE :: nat where "STATE_MACHINE_EVENT_NO_TASKS_AVAILABLE \<equiv> 8"
abbreviation (input) STATE_MACHINE_EVENT_MAINS_POWER_AVAILABLE :: nat where "STATE_MACHINE_EVENT_MAINS_POWER_AVAILABLE \<equiv> 9"
abbreviation (input) STATE_MACHINE_EVENT_INSUFFICIENT_POWER :: nat where "STATE_MACHINE_EVENT_INSUFFICIENT_POWER \<equiv> 10"
abbreviation (input) STATE_MACHINE_EVENT_FULLY_CHARGED :: nat where "STATE_MACHINE_EVENT_FULLY_CHARGED \<equiv> 11"
abbreviation (input) STATE_MACHINE_EVENT_INSUFFICIENT_CHARGE :: nat where "STATE_MACHINE_EVENT_INSUFFICIENT_CHARGE \<equiv> 12"
abbreviation (input) STATE_MACHINE_EVENT_SHUTDOWN :: nat where "STATE_MACHINE_EVENT_SHUTDOWN \<equiv> 13"

subsection \<open>Task handler\<close>

abbreviation (input) TASK_HANDLER_SERVER_START :: nat where "TASK_HANDLER_SERVER_START \<equiv> 0"
abbreviation (input) TASK_HANDLER_SERVER_STOP :: nat where "TASK_HANDLER_SERVER_STOP \<equiv> 1"
abbreviation (input) TASK_HANDLER_TICK :: nat where "TASK_HANDLER_TICK \<equiv> 2"
abbreviation (input) TASK_HANDLER_NEW_TASK :: nat where "TASK_HANDLER_NEW_TASK \<equiv> 3"
abbreviation (input) TASK_HANDLER_TASK_IND :: nat where "TASK_HANDLER_TASK_IND \<equiv> 4"

subsection \<open>Strings for the Hindbrain\<close>

text \<open>The structures \<open>OInputContainer\<close> and \<open>OResponseString\<close> of \<open>hardware_server.h\<close> are packed: a flag and 80 characters, and
  80 characters and a length.\<close>

definition MAX_O_STRING_LENGTH :: nat where "MAX_O_STRING_LENGTH = 80"

definition PING_STRING :: "u8 list" where "PING_STRING = [33, 10]"

definition O_START_DELAY_US :: nat where "O_START_DELAY_US = 100000"

definition sizeof_OInputContainer :: nat where "sizeof_OInputContainer = 1 + 80"

definition sizeof_OResponseString :: nat where "sizeof_OResponseString = 80 + 4"

text \<open>\<open>O_CHECK_OK_STRING\<close> on the bytes of an \<open>OResponseString\<close>.\<close>

definition O_CHECK_OK_STRING :: "u8 list \<Rightarrow> bool" where
  "O_CHECK_OK_STRING r \<longleftrightarrow> le32 (drop 80 r) \<ge> 2 \<and> r ! 0 = 79 \<and> r ! 1 = 75"

text \<open>
  What \<open>removeCtrlCharacters\<close> needs of its input to stay within a buffer of \<open>MAX_O_STRING_LENGTH\<close> bytes, the size of all
  the buffers that it is given.
\<close>

definition printable_fits :: "u8 list \<Rightarrow> bool" where
  "printable_fits s \<longleftrightarrow> terminated s \<and> length (filter isprint (take (c_strlen s) s)) < MAX_O_STRING_LENGTH"

lemma removeCtrlCharacters_fits:
  "removeCtrlCharacters s MAX_O_STRING_LENGTH =
     (if printable_fits s then Inr (filter isprint (take (c_strlen s) s) @ [0]) else Inl Bad_Access)"
  by (simp add: removeCtrlCharacters_def printable_fits_def remove_loop_filter c_strlen_le Let_def)

lemma c_strlen_terminated_append:
  "terminated s \<Longrightarrow> c_strlen (s @ t) = c_strlen s \<and> terminated (s @ t)"
  by (induction s) (auto simp: c_strlen_def terminated_def)

lemma printable_fits_append:
  assumes "length t \<le> 79"
  shows "printable_fits (t @ 0 # u)"
proof -
  have le: "c_strlen (t @ 0 # u) \<le> length t"
    by (induction t) (auto simp: c_strlen_def)
  have "length (filter isprint (take (c_strlen (t @ 0 # u)) (t @ 0 # u))) \<le> c_strlen (t @ 0 # u)"
    by (rule order_trans [OF length_filter_le]) simp
  then have "length (filter isprint (take (c_strlen (t @ 0 # u)) (t @ 0 # u))) < 80"
    using le assms by linarith
  then show ?thesis
    by (simp add: printable_fits_def terminated_def MAX_O_STRING_LENGTH_def)
qed

end
