(* ===== verification/World.thy ===== *)
theory World
  imports Message_Types "HOL-Library.State_Monad"
begin

section \<open>The other processes\<close>

text \<open>
  The servers of the robot are processes that call one another through the access functions of
  \<open>Client\<close>.  What a server sees of the others is the sequence of the calls it has made and of what each
  returned: the \<open>history\<close>.  An \<open>env\<close> answers the next call from the history, so it can be any
  deterministic set of peers, whatever state they keep, with any failures of the network; nothing is assumed about it.
  \<open>Requester\<close> is whoever listens on the port and address that came with a task.
  \<open>Malloc n\<close> is a call too: it succeeds or not, and returns the contents of the fresh memory.  \<open>Terminal\<close> is what a
  process asks of its terminal and of the system: a key (\<open>getch\<close>), the settings (\<open>tcgetattr\<close>, which fails where there is
  no terminal), a character (\<open>getchar\<close>), a line of at most the given number of characters (\<open>fgets\<close>, which
  fails at the end of the input) and the time (\<open>getSystemTicks\<close>, as four bytes).

  Code that makes calls is a computation in the state monad over the history.  \<open>emits P m\<close> says that
  \<open>m\<close> only appends to the history, and that what it appends satisfies \<open>P\<close>; the locale \<open>trace_property\<close>
  has the rules that carry such a \<open>P\<close> from the single calls to whole computations.
\<close>

datatype peer = HW_Server | BM_Server | SM_Server | TH_Server | Timer_Srv | Requester u32 string

datatype terminal_call = Get_Key | Get_Settings | Get_Char | Get_Line nat | Get_System_Ticks

datatype call = Call peer nat "u8 list option" | Malloc nat | Terminal terminal_call

type_synonym reply = "bool \<times> u8 list"
type_synonym history = "(call \<times> reply) list"
type_synonym env = "history \<Rightarrow> call \<Rightarrow> reply"

definition exec :: "env \<Rightarrow> call \<Rightarrow> (history, reply) state" where
  "exec E c = State (\<lambda>h. (E h c, h @ [(c, E h c)]))"

text \<open>An access function whose reply body is not wanted: only its success is seen.\<close>

definition send :: "env \<Rightarrow> peer \<Rightarrow> nat \<Rightarrow> u8 list option \<Rightarrow> (history, bool) state" where
  "send E p t body = do { (ok, _) \<leftarrow> exec E (Call p t body); State_Monad.return ok }"

lemma run_exec [simp]: "run_state (exec E c) h = (E h c, h @ [(c, E h c)])"
  by (simp add: exec_def)

lemma run_send [simp]:
  "run_state (send E p t body) h =
     (fst (E h (Call p t body)), h @ [(Call p t body, E h (Call p t body))])"
  by (simp add: send_def split: prod.splits)

definition emits :: "(history \<Rightarrow> bool) \<Rightarrow> (history, 'a) state \<Rightarrow> bool" where
  "emits P m \<longleftrightarrow> (\<forall>h. \<exists>seg. snd (run_state m h) = h @ seg \<and> P seg)"

lemma emitsI: "(\<And>h. \<exists>seg. snd (run_state m h) = h @ seg \<and> P seg) \<Longrightarrow> emits P m"
  by (simp add: emits_def)

lemma emitsE:
  assumes "emits P m" and "run_state m h = (a, h')"
  obtains seg where "h' = h @ seg" and "P seg"
proof -
  from assms(1) obtain seg where "snd (run_state m h) = h @ seg" "P seg"
    unfolding emits_def by blast
  with assms(2) that show thesis by simp
qed

lemma emits_mono: "emits P m \<Longrightarrow> (\<And>seg. P seg \<Longrightarrow> Q seg) \<Longrightarrow> emits Q m"
  unfolding emits_def by blast

named_theorems emits_intros \<open>calls that satisfy a trace property\<close>

locale trace_property =
  fixes P :: "history \<Rightarrow> bool"
  assumes nil: "P []"
    and app: "P xs \<Longrightarrow> P ys \<Longrightarrow> P (xs @ ys)"
begin

lemma emits_return: "emits P (State_Monad.return x)"
  by (rule emitsI) (simp add: nil)

lemma emits_bind:
  assumes "emits P m" and "\<And>a. emits P (f a)"
  shows "emits P (m \<bind> f)"
proof (rule emitsI)
  fix h
  obtain a h1 where m: "run_state m h = (a, h1)" by fastforce
  obtain b h2 where f: "run_state (f a) h1 = (b, h2)" by fastforce
  from emitsE [OF assms(1) m] emitsE [OF assms(2) f] obtain seg1 seg2 where
    "h1 = h @ seg1" "P seg1" "h2 = h1 @ seg2" "P seg2"
    by metis
  then show "\<exists>seg. snd (run_state (m \<bind> f) h) = h @ seg \<and> P seg"
    using m f app by (intro exI [of _ "seg1 @ seg2"]) simp
qed

lemma emits_exec: "(\<And>r. P [(c, r)]) \<Longrightarrow> emits P (exec E c)"
  by (rule emitsI) simp

lemma emits_send: "(\<And>r. P [(Call p t body, r)]) \<Longrightarrow> emits P (send E p t body)"
  by (rule emitsI) simp

lemma emits_if: "(b \<Longrightarrow> emits P m) \<Longrightarrow> (\<not> b \<Longrightarrow> emits P n) \<Longrightarrow> emits P (if b then m else n)"
  by simp

lemma emits_pair: "(\<And>a b. emits P (f a b)) \<Longrightarrow> emits P (case p of (a, b) \<Rightarrow> f a b)"
  by (cases p) simp

lemma emits_let: "emits P (f x) \<Longrightarrow> emits P (let y = x in f y)"
  by simp

lemmas emits_rules = emits_return emits_bind emits_exec emits_send emits_if emits_pair emits_let

end

end
