(* ===== verification/StateMachine.thy ===== *)
theory StateMachine
  imports World
begin

section \<open>The state machine\<close>

text \<open>
  The state machine of the robot: \<open>state_machine.c\<close>, the seven \<open>*_state.c\<close> files, \<open>actions.c\<close>,
  \<open>state_machine_events.c\<close> and \<open>state_machine_server.c\<close> of \<open>RoboOneStateMachine/src\<close>.  A state
  is, as in the code, a name and a table of ten function pointers; a function pointer is the tag of the
  function it points at, and \<open>run_fn\<close>, \<open>run_task_fn\<close> call it.  The entry actions talk to the other
  servers through \<open>World\<close>.

  The name is the C string held by the 25 characters of \<open>name\<close>; what is left of an older, longer
  name behind the terminator is not kept.  The size of a task request and
  the bytes of a context (which holds code addresses) depend on the compiler and on a header that is not in the
  repository: they are fields of \<open>sm_params\<close>.
\<close>

subsection \<open>States\<close>

datatype state_fn =
    Default_Fn
  | To_Init
  | To_Docked
  | To_Docked_MainsIdle
  | To_Docked_Charging
  | To_BatteryIdle
  | To_Shutdown

datatype task_fn = Default_Task_Fn | To_Mobile | Event_Tasks_Available

record robo_state =
  name :: string
  pEventInit :: state_fn
  pEventInitFailure :: state_fn
  pEventTimerExpiry :: state_fn
  pEventTasksAvailable :: task_fn
  pEventNoTasksAvailable :: state_fn
  pEventMainsPowerAvailable :: state_fn
  pEventInsufficientPower :: state_fn
  pEventFullyCharged :: state_fn
  pEventInsufficientCharge :: state_fn
  pEventShutdown :: state_fn

definition defaultImplementation :: "robo_state \<Rightarrow> robo_state" where
  "defaultImplementation st = st
     \<lparr>pEventInit := Default_Fn,
      pEventInitFailure := Default_Fn,
      pEventTimerExpiry := Default_Fn,
      pEventTasksAvailable := Default_Task_Fn,
      pEventNoTasksAvailable := Default_Fn,
      pEventMainsPowerAvailable := Default_Fn,
      pEventInsufficientPower := Default_Fn,
      pEventFullyCharged := Default_Fn,
      pEventInsufficientCharge := Default_Fn,
      pEventShutdown := Default_Fn\<rparr>"

record sm_params =
  smEnv :: env
  sizeofTaskReq :: nat
  contextBytes :: "robo_state \<Rightarrow> u8 list"

subsection \<open>Actions\<close>

text \<open>The ping, in the fresh memory \<open>mem\<close>: the flag and the string with its terminator.\<close>

definition ping_container :: "bool \<Rightarrow> u8 list \<Rightarrow> u8 list" where
  "ping_container waitForResponse mem =
     bool_byte waitForResponse # PING_STRING @ [0] @ drop (Suc (Suc (length PING_STRING))) mem"

definition hw_cmd :: "env \<Rightarrow> nat \<Rightarrow> (history, bool) state" where
  "hw_cmd E t = send E HW_Server t None"

definition actionEnableExternalRelays :: "env \<Rightarrow> (history, bool) state" where
  "actionEnableExternalRelays E = hw_cmd E HARDWARE_ENABLE_EXTERNAL_RELAYS"

definition actionDisableExternalRelays :: "env \<Rightarrow> (history, bool) state" where
  "actionDisableExternalRelays E = hw_cmd E HARDWARE_DISABLE_EXTERNAL_RELAYS"

definition actionEnableOnPCBRelays :: "env \<Rightarrow> (history, bool) state" where
  "actionEnableOnPCBRelays E = hw_cmd E HARDWARE_ENABLE_ON_PCB_RELAYS"

definition actionDisableOnPCBRelays :: "env \<Rightarrow> (history, bool) state" where
  "actionDisableOnPCBRelays E = hw_cmd E HARDWARE_DISABLE_ON_PCB_RELAYS"

definition actionIsMains12VAvailable :: "env \<Rightarrow> (history, bool) state" where
  "actionIsMains12VAvailable E = do {
     (ok, specs) \<leftarrow> exec E (Call HW_Server HARDWARE_READ_MAINS_12V None);
     State_Monad.return (ok \<and> specs \<noteq> [] \<and> hd specs \<noteq> 0)
   }"

text \<open>
  The loop of \<open>actionSwitchOnHindbrain\<close>; the argument counts the tries that are left, \<open>resp\<close> is the
  response buffer, overlaid with what a successful call returns.
\<close>

fun switch_on_loop :: "env \<Rightarrow> u8 list \<Rightarrow> u8 list \<Rightarrow> nat \<Rightarrow> (history, bool) state" where
  "switch_on_loop E inp resp 0 = State_Monad.return False"
| "switch_on_loop E inp resp (Suc n) = do {
     toggled \<leftarrow> hw_cmd E HARDWARE_TOGGLE_O_PWR;
     if toggled then do {
       (ok, specs) \<leftarrow> exec E (Call HW_Server HARDWARE_SEND_O_STRING (Some inp));
       let resp' = (if ok then specs @ drop (length specs) resp else resp);
       if ok \<and> O_CHECK_OK_STRING resp' then State_Monad.return True else switch_on_loop E inp resp' n
     }
     else switch_on_loop E inp resp n
   }"

definition actionSwitchOnHindbrain :: "env \<Rightarrow> (history, bool) state" where
  "actionSwitchOnHindbrain E = do {
     (ok, mem) \<leftarrow> exec E (Malloc sizeof_OInputContainer);
     if ok then do {
       (ok, resp) \<leftarrow> exec E (Malloc sizeof_OResponseString);
       if ok then switch_on_loop E (ping_container True mem) (take 80 resp @ le_bytes32 80) 2
       else State_Monad.return False
     }
     else State_Monad.return False
   }"

fun switch_off_loop :: "env \<Rightarrow> u8 list \<Rightarrow> nat \<Rightarrow> (history, unit) state" where
  "switch_off_loop E inp 0 = State_Monad.return ()"
| "switch_off_loop E inp (Suc n) = do {
     _ \<leftarrow> hw_cmd E HARDWARE_TOGGLE_O_PWR;
     hindbrainOn \<leftarrow> send E HW_Server HARDWARE_SEND_O_STRING (Some inp);
     if hindbrainOn then switch_off_loop E inp n else State_Monad.return ()
   }"

definition actionSwitchOffHindbrain :: "env \<Rightarrow> (history, bool) state" where
  "actionSwitchOffHindbrain E = do {
     (ok, mem) \<leftarrow> exec E (Malloc sizeof_OInputContainer);
     if ok then do {
       _ \<leftarrow> switch_off_loop E (ping_container False mem) 2;
       State_Monad.return False
     }
     else State_Monad.return False
   }"

definition actionSwitchPiRioTo12VMainsPower :: "env \<Rightarrow> (history, bool) state" where
  "actionSwitchPiRioTo12VMainsPower E = do {
     ok \<leftarrow> hw_cmd E HARDWARE_SET_RIO_PWR_12V_ON;
     if ok then hw_cmd E HARDWARE_SET_RIO_PWR_BATT_OFF else State_Monad.return ok
   }"

definition actionSwitchPiRioToBatteryPower :: "env \<Rightarrow> (history, bool) state" where
  "actionSwitchPiRioToBatteryPower E = do {
     ok \<leftarrow> hw_cmd E HARDWARE_SET_RIO_PWR_BATT_ON;
     if ok then hw_cmd E HARDWARE_SET_RIO_PWR_12V_OFF else State_Monad.return ok
   }"

definition actionSwitchHindbrainTo12VMainsPower :: "env \<Rightarrow> (history, bool) state" where
  "actionSwitchHindbrainTo12VMainsPower E = do {
     ok \<leftarrow> hw_cmd E HARDWARE_SET_O_PWR_12V_ON;
     if ok then hw_cmd E HARDWARE_SET_O_PWR_BATT_OFF else State_Monad.return ok
   }"

definition actionSwitchHindbrainToBatteryPower :: "env \<Rightarrow> (history, bool) state" where
  "actionSwitchHindbrainToBatteryPower E = do {
     ok \<leftarrow> hw_cmd E HARDWARE_SET_O_PWR_BATT_ON;
     if ok then hw_cmd E HARDWARE_SET_O_PWR_12V_OFF else State_Monad.return ok
   }"

definition actionStartTimer :: bool where "actionStartTimer = False"

definition actionStopTimer :: bool where "actionStopTimer = False"

subsection \<open>Transitions\<close>

text \<open>Each returns the contents of \<open>*pState\<close> when it ends.\<close>

definition sendInitFailure :: "env \<Rightarrow> (history, bool) state" where
  "sendInitFailure E = send E SM_Server STATE_MACHINE_EVENT_INIT_FAILURE None"

definition sendChargingPermitted :: "env \<Rightarrow> bool \<Rightarrow> (history, bool) state" where
  "sendChargingPermitted E b = send E BM_Server BATTERY_MANAGER_CHARGING_PERMITTED (Some [bool_byte b])"

definition transitionToShutdown :: "env \<Rightarrow> robo_state \<Rightarrow> (history, robo_state) state" where
  "transitionToShutdown E st = do {
     let st1 = (defaultImplementation st)\<lparr>name := ''Shutdown''\<rparr>;
     _ \<leftarrow> sendChargingPermitted E False;
     _ \<leftarrow> actionSwitchOffHindbrain E;
     _ \<leftarrow> actionDisableExternalRelays E;
     _ \<leftarrow> actionDisableOnPCBRelays E;
     State_Monad.return st1
   }"

definition transitionToBatteryIdle :: "env \<Rightarrow> robo_state \<Rightarrow> (history, robo_state) state" where
  "transitionToBatteryIdle E st = do {
     let st1 = (defaultImplementation st)
       \<lparr>name := ''BatteryIdle'', pEventTasksAvailable := To_Mobile, pEventMainsPowerAvailable := To_Docked,
        pEventInsufficientPower := To_Shutdown, pEventShutdown := To_Shutdown\<rparr>;
     _ \<leftarrow> actionSwitchOffHindbrain E;
     State_Monad.return st1
   }"

definition transitionToDocked_Charging :: "env \<Rightarrow> robo_state \<Rightarrow> (history, robo_state) state" where
  "transitionToDocked_Charging E st = State_Monad.return
     ((defaultImplementation st)
       \<lparr>name := ''Docked - Charging'', pEventInsufficientPower := To_Shutdown, pEventShutdown := To_Shutdown,
        pEventFullyCharged := To_Docked_MainsIdle\<rparr>)"

definition transitionToDocked_MainsIdle :: "env \<Rightarrow> robo_state \<Rightarrow> (history, robo_state) state" where
  "transitionToDocked_MainsIdle E st = State_Monad.return
     ((defaultImplementation st)
       \<lparr>name := ''Docked - MainsIdle'', pEventTasksAvailable := To_Mobile, pEventInsufficientPower := To_Shutdown,
        pEventShutdown := To_Shutdown, pEventInsufficientCharge := To_Docked_Charging\<rparr>)"

definition transitionToDocked :: "env \<Rightarrow> robo_state \<Rightarrow> (history, robo_state) state" where
  "transitionToDocked E st = do {
     let st1 = (defaultImplementation st)
       \<lparr>name := ''Docked'', pEventTasksAvailable := To_Mobile, pEventInsufficientPower := To_Shutdown,
        pEventShutdown := To_Shutdown, pEventFullyCharged := To_Docked_MainsIdle,
        pEventInsufficientCharge := To_Docked_Charging\<rparr>;
     ok \<leftarrow> actionEnableExternalRelays E;
     _ \<leftarrow> (if ok then do {
             _ \<leftarrow> actionSwitchPiRioTo12VMainsPower E;
             _ \<leftarrow> actionSwitchHindbrainTo12VMainsPower E;
             actionSwitchOffHindbrain E
           } else State_Monad.return False);
     _ \<leftarrow> sendChargingPermitted E True;
     State_Monad.return st1
   }"

definition transitionToInit :: "env \<Rightarrow> robo_state \<Rightarrow> (history, robo_state) state" where
  "transitionToInit E st = do {
     let st1 = (defaultImplementation st)
       \<lparr>name := ''Init'', pEventInitFailure := To_Shutdown, pEventTimerExpiry := To_BatteryIdle,
        pEventTasksAvailable := To_Mobile, pEventMainsPowerAvailable := To_Docked,
        pEventInsufficientPower := To_Shutdown, pEventShutdown := To_Shutdown\<rparr>;
     _ \<leftarrow> actionSwitchPiRioToBatteryPower E;
     _ \<leftarrow> actionSwitchHindbrainToBatteryPower E;
     ok \<leftarrow> actionEnableOnPCBRelays E;
     ok \<leftarrow> (if ok then actionSwitchOnHindbrain E else State_Monad.return ok);
     _ \<leftarrow> (if \<not> ok then sendInitFailure E else State_Monad.return True);
     State_Monad.return st1
   }"

text \<open>The mobile state; \<open>req\<close> is the task request (the bytes the caller's pointer points at).\<close>

definition eventTasksAvailable :: "sm_params \<Rightarrow> robo_state \<Rightarrow> u8 list \<Rightarrow> (history, robo_state) state" where
  "eventTasksAvailable P st req = do {
     _ \<leftarrow> send (smEnv P) TH_Server TASK_HANDLER_NEW_TASK (Some (take (sizeofTaskReq P) req));
     State_Monad.return st
   }"

definition transitionToMobile :: "sm_params \<Rightarrow> robo_state \<Rightarrow> u8 list \<Rightarrow> (history, robo_state) state" where
  "transitionToMobile P st req = do {
     let E = smEnv P;
     let st1 = (defaultImplementation st)
       \<lparr>name := ''Mobile'', pEventInitFailure := To_Init, pEventTasksAvailable := Event_Tasks_Available,
        pEventNoTasksAvailable := To_BatteryIdle, pEventMainsPowerAvailable := To_Docked,
        pEventShutdown := To_Shutdown\<rparr>;
     _ \<leftarrow> sendChargingPermitted E False;
     ok \<leftarrow> actionSwitchPiRioToBatteryPower E;
     ok \<leftarrow> (if ok then actionSwitchHindbrainToBatteryPower E else State_Monad.return ok);
     ok \<leftarrow> (if ok then actionSwitchOnHindbrain E else State_Monad.return ok);
     if ok then eventTasksAvailable P st1 req
     else do { _ \<leftarrow> sendInitFailure E; State_Monad.return st1 }
   }"

subsection \<open>Events\<close>

definition run_fn :: "sm_params \<Rightarrow> state_fn \<Rightarrow> robo_state \<Rightarrow> (history, robo_state) state" where
  "run_fn P f st =
     (case f of
        Default_Fn \<Rightarrow> State_Monad.return st
      | To_Init \<Rightarrow> transitionToInit (smEnv P) st
      | To_Docked \<Rightarrow> transitionToDocked (smEnv P) st
      | To_Docked_MainsIdle \<Rightarrow> transitionToDocked_MainsIdle (smEnv P) st
      | To_Docked_Charging \<Rightarrow> transitionToDocked_Charging (smEnv P) st
      | To_BatteryIdle \<Rightarrow> transitionToBatteryIdle (smEnv P) st
      | To_Shutdown \<Rightarrow> transitionToShutdown (smEnv P) st)"

definition run_task_fn :: "sm_params \<Rightarrow> task_fn \<Rightarrow> robo_state \<Rightarrow> u8 list \<Rightarrow> (history, robo_state) state" where
  "run_task_fn P f st req =
     (case f of
        Default_Task_Fn \<Rightarrow> State_Monad.return st
      | To_Mobile \<Rightarrow> transitionToMobile P st req
      | Event_Tasks_Available \<Rightarrow> eventTasksAvailable P st req)"

datatype sm_event =
    E_Init
  | E_InitFailure
  | E_TimerExpiry
  | E_TasksAvailable
  | E_NoTasksAvailable
  | E_MainsPowerAvailable
  | E_InsufficientPower
  | E_FullyCharged
  | E_InsufficientCharge
  | E_Shutdown

text \<open>
  \<open>state_machine_events.c\<close>, one case per function.  \<open>eventInsufficientPowerRoboOne\<close> calls the
  handler of the mains power event.
\<close>

definition event_RoboOne :: "sm_params \<Rightarrow> sm_event \<Rightarrow> robo_state \<Rightarrow> u8 list \<Rightarrow> (history, robo_state) state" where
  "event_RoboOne P e st req =
     (case e of
        E_Init \<Rightarrow> run_fn P (pEventInit st) st
      | E_InitFailure \<Rightarrow> run_fn P (pEventInitFailure st) st
      | E_TimerExpiry \<Rightarrow> run_fn P (pEventTimerExpiry st) st
      | E_TasksAvailable \<Rightarrow> run_task_fn P (pEventTasksAvailable st) st req
      | E_NoTasksAvailable \<Rightarrow> run_fn P (pEventNoTasksAvailable st) st
      | E_MainsPowerAvailable \<Rightarrow> run_fn P (pEventMainsPowerAvailable st) st
      | E_InsufficientPower \<Rightarrow> run_fn P (pEventMainsPowerAvailable st) st
      | E_FullyCharged \<Rightarrow> run_fn P (pEventFullyCharged st) st
      | E_InsufficientCharge \<Rightarrow> run_fn P (pEventInsufficientCharge st) st
      | E_Shutdown \<Rightarrow> run_fn P (pEventShutdown st) st)"

subsection \<open>The server\<close>

record sm_server =
  roboOneContext :: "robo_state option"
  calls :: history

text \<open>
  The contents of fresh memory seen as a state: nothing of it survives \<open>transitionToInit\<close>.
\<close>

definition fresh_state :: robo_state where
  "fresh_state =
     \<lparr>name = [], pEventInit = Default_Fn,
      pEventInitFailure = Default_Fn,
      pEventTimerExpiry = Default_Fn,
      pEventTasksAvailable = Default_Task_Fn,
      pEventNoTasksAvailable = Default_Fn,
      pEventMainsPowerAvailable = Default_Fn,
      pEventInsufficientPower = Default_Fn,
      pEventFullyCharged = Default_Fn,
      pEventInsufficientCharge = Default_Fn,
      pEventShutdown = Default_Fn\<rparr>"

text \<open>Each action returns the body it writes to the reply (its bytes that are sent).\<close>

definition actionStateMachineServerStart :: "sm_params \<Rightarrow> sm_server \<Rightarrow> u8 list \<times> sm_server" where
  "actionStateMachineServerStart P s =
     (let ((ok, _), h) = run_state (exec (smEnv P) (Malloc (length (contextBytes P fresh_state)))) (calls s)
      in if ok then
           (let (st, h') = run_state (transitionToInit (smEnv P) fresh_state) h
            in ([1], s\<lparr>roboOneContext := Some st, calls := h'\<rparr>))
         else ([0], s\<lparr>roboOneContext := None, calls := h\<rparr>))"

definition actionStateMachineServerStop :: "sm_server \<Rightarrow> fault + (u8 list \<times> sm_server)" where
  "actionStateMachineServerStop s =
     andthen (assert_that (roboOneContext s \<noteq> None)) (\<lambda>_. Inr ([1], s\<lparr>roboOneContext := None\<rparr>))"

definition actionStateMachineServerGetContext :: "sm_params \<Rightarrow> sm_server \<Rightarrow> fault + u8 list" where
  "actionStateMachineServerGetContext P s =
     (case roboOneContext s of
        None \<Rightarrow> Inl Assert_Failed
      | Some st \<Rightarrow> Inr (1 # contextBytes P st))"

definition event_of_msg :: "nat \<Rightarrow> sm_event option" where
  "event_of_msg t =
     (if t = STATE_MACHINE_EVENT_INIT then Some E_Init
      else if t = STATE_MACHINE_EVENT_INIT_FAILURE then Some E_InitFailure
      else if t = STATE_MACHINE_EVENT_TIMER_EXPIRY then Some E_TimerExpiry
      else if t = STATE_MACHINE_EVENT_TASKS_AVAILABLE then Some E_TasksAvailable
      else if t = STATE_MACHINE_EVENT_NO_TASKS_AVAILABLE then Some E_NoTasksAvailable
      else if t = STATE_MACHINE_EVENT_MAINS_POWER_AVAILABLE then Some E_MainsPowerAvailable
      else if t = STATE_MACHINE_EVENT_INSUFFICIENT_POWER then Some E_InsufficientPower
      else if t = STATE_MACHINE_EVENT_FULLY_CHARGED then Some E_FullyCharged
      else if t = STATE_MACHINE_EVENT_INSUFFICIENT_CHARGE then Some E_InsufficientCharge
      else if t = STATE_MACHINE_EVENT_SHUTDOWN then Some E_Shutdown
      else None)"

definition sm_doAction ::
  "sm_params \<Rightarrow> nat \<Rightarrow> u8 list \<Rightarrow> msg \<Rightarrow> sm_server \<Rightarrow> fault + (server_code \<times> msg \<times> sm_server)" where
  "sm_doAction P t body reply s =
     (if t = STATE_MACHINE_SERVER_START then
        (let (rsp, s') = actionStateMachineServerStart P s
         in Inr (SERVER_SUCCESS_KEEP_RUNNING, reply_with t rsp reply, s'))
      else if t = STATE_MACHINE_SERVER_STOP then
        andthen (actionStateMachineServerStop s) (\<lambda>(rsp, s').
          Inr (SERVER_EXIT_NORMALLY, reply_with t rsp reply, s'))
      else if t = STATE_MACHINE_SERVER_GET_CONTEXT then
        andthen (actionStateMachineServerGetContext P s) (\<lambda>rsp.
          Inr (SERVER_SUCCESS_KEEP_RUNNING, reply_with t rsp reply, s))
      else
        (case event_of_msg t of
           None \<Rightarrow> Inl Assert_Failed
         | Some e \<Rightarrow>
             (case roboOneContext s of
                None \<Rightarrow> Inl Assert_Failed
              | Some st \<Rightarrow>
                  (let (st', h) = run_state (event_RoboOne P e st body) (calls s)
                   in Inr (SERVER_SUCCESS_KEEP_RUNNING, reply\<lparr>msgLength := 0\<rparr>,
                           s\<lparr>roboOneContext := Some st', calls := h\<rparr>)))))"

definition sm_serverHandleMsg :: "sm_params \<Rightarrow> sm_server handler" where
  "sm_serverHandleMsg P m reply s =
     andthen (assert_that (unat (msgType m) < MAX_NUM_STATE_MACHINE_MSGS)) (\<lambda>_.
       sm_doAction P (unat (msgType m)) (msgBody m) reply s)"

end
