(* ===== verification/StateMachine_Properties.thy ===== *)
theory StateMachine_Properties
  imports StateMachine
begin

section \<open>Properties of the state machine\<close>

text \<open>
  The handler tables refine an abstract machine over the seven states: \<open>table m\<close> is the table that
  entering \<open>m\<close> leaves behind, \<open>fsm_next\<close> the abstract step.  The trace properties follow the calls
  to the other servers: power is handed over make-before-break, the Hindbrain ends up as wanted.
\<close>

subsection \<open>The abstract machine\<close>

datatype sm_mode =
  M_Init | M_Docked | M_Docked_MainsIdle | M_Docked_Charging | M_BatteryIdle | M_Mobile | M_Shutdown

definition idle_table :: "string \<Rightarrow> robo_state" where
  "idle_table n = fresh_state\<lparr>name := n\<rparr>"

fun table :: "sm_mode \<Rightarrow> robo_state" where
  "table M_Init = (idle_table ''Init'')
     \<lparr>pEventInitFailure := To_Shutdown, pEventTimerExpiry := To_BatteryIdle, pEventTasksAvailable := To_Mobile,
      pEventMainsPowerAvailable := To_Docked, pEventInsufficientPower := To_Shutdown, pEventShutdown := To_Shutdown\<rparr>"
| "table M_Docked = (idle_table ''Docked'')
     \<lparr>pEventTasksAvailable := To_Mobile, pEventInsufficientPower := To_Shutdown, pEventFullyCharged := To_Docked_MainsIdle,
      pEventInsufficientCharge := To_Docked_Charging, pEventShutdown := To_Shutdown\<rparr>"
| "table M_Docked_MainsIdle = (idle_table ''Docked - MainsIdle'')
     \<lparr>pEventTasksAvailable := To_Mobile, pEventInsufficientPower := To_Shutdown,
      pEventInsufficientCharge := To_Docked_Charging, pEventShutdown := To_Shutdown\<rparr>"
| "table M_Docked_Charging = (idle_table ''Docked - Charging'')
     \<lparr>pEventInsufficientPower := To_Shutdown, pEventFullyCharged := To_Docked_MainsIdle, pEventShutdown := To_Shutdown\<rparr>"
| "table M_BatteryIdle = (idle_table ''BatteryIdle'')
     \<lparr>pEventTasksAvailable := To_Mobile, pEventMainsPowerAvailable := To_Docked,
      pEventInsufficientPower := To_Shutdown, pEventShutdown := To_Shutdown\<rparr>"
| "table M_Mobile = (idle_table ''Mobile'')
     \<lparr>pEventInitFailure := To_Init, pEventTasksAvailable := Event_Tasks_Available, pEventNoTasksAvailable := To_BatteryIdle,
      pEventMainsPowerAvailable := To_Docked, pEventShutdown := To_Shutdown\<rparr>"
| "table M_Shutdown = idle_table ''Shutdown''"

fun fsm_next :: "sm_mode \<Rightarrow> sm_event \<Rightarrow> sm_mode" where
  "fsm_next M_Shutdown e = M_Shutdown"
| "fsm_next m E_Shutdown = M_Shutdown"
| "fsm_next M_Init E_InitFailure = M_Shutdown"
| "fsm_next M_Init E_TimerExpiry = M_BatteryIdle"
| "fsm_next M_Init E_TasksAvailable = M_Mobile"
| "fsm_next M_Init E_MainsPowerAvailable = M_Docked"
| "fsm_next M_Init E_InsufficientPower = M_Docked"
| "fsm_next M_Docked E_TasksAvailable = M_Mobile"
| "fsm_next M_Docked E_FullyCharged = M_Docked_MainsIdle"
| "fsm_next M_Docked E_InsufficientCharge = M_Docked_Charging"
| "fsm_next M_Docked_MainsIdle E_TasksAvailable = M_Mobile"
| "fsm_next M_Docked_MainsIdle E_InsufficientCharge = M_Docked_Charging"
| "fsm_next M_Docked_Charging E_FullyCharged = M_Docked_MainsIdle"
| "fsm_next M_BatteryIdle E_TasksAvailable = M_Mobile"
| "fsm_next M_BatteryIdle E_MainsPowerAvailable = M_Docked"
| "fsm_next M_BatteryIdle E_InsufficientPower = M_Docked"
| "fsm_next M_Mobile E_InitFailure = M_Init"
| "fsm_next M_Mobile E_NoTasksAvailable = M_BatteryIdle"
| "fsm_next M_Mobile E_MainsPowerAvailable = M_Docked"
| "fsm_next M_Mobile E_InsufficientPower = M_Docked"
| "fsm_next m e = m"

text \<open>The result of a computation, whatever the other servers answer.\<close>

definition yields :: "(history, 'a) state \<Rightarrow> 'a \<Rightarrow> bool" where
  "yields m x \<longleftrightarrow> (\<forall>h. fst (run_state m h) = x)"

lemma yields_return: "yields (State_Monad.return x) x"
  by (simp add: yields_def)

lemma yields_bind: "(\<And>a. yields (f a) x) \<Longrightarrow> yields (m \<bind> f) x"
  by (simp add: yields_def split: prod.splits)

lemma yields_if: "(b \<Longrightarrow> yields m x) \<Longrightarrow> (\<not> b \<Longrightarrow> yields n x) \<Longrightarrow> yields (if b then m else n) x"
  by simp

lemma yields_run: "yields m x \<Longrightarrow> \<exists>h'. run_state m h = (x, h')"
  by (metis yields_def prod.collapse)

lemmas yields_rules = yields_return yields_bind yields_if

lemmas table_defs = defaultImplementation_def idle_table_def fresh_state_def

lemma yields_transitions:
  "yields (transitionToInit E st) (table M_Init)"
  "yields (transitionToDocked E st) (table M_Docked)"
  "yields (transitionToDocked_MainsIdle E st) (table M_Docked_MainsIdle)"
  "yields (transitionToDocked_Charging E st) (table M_Docked_Charging)"
  "yields (transitionToBatteryIdle E st) (table M_BatteryIdle)"
  "yields (transitionToShutdown E st) (table M_Shutdown)"
  unfolding transitionToInit_def transitionToDocked_def transitionToDocked_MainsIdle_def
    transitionToDocked_Charging_def transitionToBatteryIdle_def transitionToShutdown_def
  by (auto simp: Let_def table_defs yields_def split: prod.splits)

lemma yields_eventTasksAvailable: "yields (eventTasksAvailable P st req) st"
  unfolding eventTasksAvailable_def by (intro yields_rules)


lemma yields_transitionToMobile: "yields (transitionToMobile P st req) (table M_Mobile)"
  unfolding transitionToMobile_def
  by (auto simp: Let_def table_defs yields_def eventTasksAvailable_def split: prod.splits)

lemma event_yields: "yields (event_RoboOne P e (table m) req) (table (fsm_next m e))"
  by (cases m; cases e)
    (simp_all only: fsm_next.simps event_RoboOne_def sm_event.case table.simps idle_table_def fresh_state_def
      robo_state.simps run_fn_def run_task_fn_def state_fn.case task_fn.case yields_return,
     simp_all only: yields_transitions [unfolded table.simps idle_table_def fresh_state_def robo_state.simps]
       yields_transitionToMobile [unfolded table.simps idle_table_def fresh_state_def robo_state.simps]
       yields_eventTasksAvailable)

declare table.simps [simp del]

definition mode_ok :: "sm_server \<Rightarrow> bool" where
  "mode_ok s \<longleftrightarrow> (case roboOneContext s of None \<Rightarrow> True | Some st \<Rightarrow> \<exists>m. st = table m)"

text \<open>An event message, handled by the server.\<close>

lemma handle_event:
  assumes "event_of_msg (unat (msgType msg)) = Some e" and "roboOneContext s = Some st"
  shows "sm_serverHandleMsg P msg reply s =
    Inr (SERVER_SUCCESS_KEEP_RUNNING, reply\<lparr>msgLength := 0\<rparr>,
      s\<lparr>roboOneContext := Some (fst (run_state (event_RoboOne P e st (msgBody msg)) (calls s))),
        calls := snd (run_state (event_RoboOne P e st (msgBody msg)) (calls s))\<rparr>)"
proof -
  have "unat (msgType msg) \<ge> 4 \<and> unat (msgType msg) < 14"
    using assms(1) by (auto simp: event_of_msg_def split: if_splits)
  then show ?thesis
    using assms by (simp add: sm_serverHandleMsg_def sm_doAction_def MAX_NUM_STATE_MACHINE_MSGS_def split: prod.splits)
qed

lemma event_refines:
  assumes "roboOneContext s = Some (table m)" and "event_of_msg (unat (msgType msg)) = Some e"
  shows "\<exists>s'. sm_serverHandleMsg P msg reply s = Inr (SERVER_SUCCESS_KEEP_RUNNING, reply\<lparr>msgLength := 0\<rparr>, s')
    \<and> roboOneContext s' = Some (table (fsm_next m e))"
  using handle_event [OF assms(2,1), of P reply] event_yields [of P e m "msgBody msg"]
  by (simp add: yields_def)


definition silent_params :: sm_params where
  "silent_params = \<lparr>smEnv = (\<lambda>h c. (False, [])), sizeofTaskReq = 66, contextBytes = (\<lambda>st. replicate 65 0)\<rparr>"

definition in_mode :: "sm_mode \<Rightarrow> sm_server" where
  "in_mode m = \<lparr>roboOneContext = Some (table m), calls = []\<rparr>"


text \<open>
  An \<open>INSUFFICIENT_POWER\<close> event is handled as a mains power event: for every message the two
  handlings agree, so the shutdown that six of the seven states install for insufficient power is never
  run: from any state but Shutdown the event leads to Docked or leaves the state as it is.
\<close>

theorem insufficient_power_is_mains_power:
  assumes "roboOneContext s = Some (table m)" and "unat (msgType msg) = STATE_MACHINE_EVENT_INSUFFICIENT_POWER"
  shows "sm_serverHandleMsg P msg reply s
      = sm_serverHandleMsg P (msg\<lparr>msgType := of_nat STATE_MACHINE_EVENT_MAINS_POWER_AVAILABLE\<rparr>) reply s
    \<and> (\<exists>s' m'. sm_serverHandleMsg P msg reply s = Inr (SERVER_SUCCESS_KEEP_RUNNING, reply\<lparr>msgLength := 0\<rparr>, s')
          \<and> roboOneContext s' = Some (table m') \<and> (m' = M_Docked \<or> m' = m))"
proof -
  have e: "event_of_msg (unat (msgType msg)) = Some E_InsufficientPower"
    "event_of_msg (unat (msgType (msg\<lparr>msgType := of_nat STATE_MACHINE_EVENT_MAINS_POWER_AVAILABLE\<rparr>))) = Some E_MainsPowerAvailable"
    using assms(2) by (simp_all add: event_of_msg_def)
  have "event_RoboOne P E_InsufficientPower (table m) = event_RoboOne P E_MainsPowerAvailable (table m)"
    by (rule ext) (simp add: event_RoboOne_def)
  then have "sm_serverHandleMsg P msg reply s
      = sm_serverHandleMsg P (msg\<lparr>msgType := of_nat STATE_MACHINE_EVENT_MAINS_POWER_AVAILABLE\<rparr>) reply s"
    by (simp only: handle_event [OF e(1) assms(1)] handle_event [OF e(2) assms(1)]) simp
  moreover have "fsm_next m E_InsufficientPower = M_Docked \<or> fsm_next m E_InsufficientPower = m"
    by (cases m) simp_all
  ultimately show ?thesis using event_refines [OF assms(1) e(1), of P reply] by blast
qed

theorem insufficient_power_is_mains_power_witness:
  "sm_serverHandleMsg silent_params \<lparr>msgLength = 1, msgType = 10, msgBody = []\<rparr> empty_reply (in_mode M_BatteryIdle)
      = sm_serverHandleMsg silent_params (\<lparr>msgLength = 1, msgType = 10, msgBody = []\<rparr>
          \<lparr>msgType := of_nat STATE_MACHINE_EVENT_MAINS_POWER_AVAILABLE\<rparr>) empty_reply (in_mode M_BatteryIdle)
    \<and> (\<exists>s' m'. sm_serverHandleMsg silent_params \<lparr>msgLength = 1, msgType = 10, msgBody = []\<rparr> empty_reply (in_mode M_BatteryIdle)
          = Inr (SERVER_SUCCESS_KEEP_RUNNING, empty_reply\<lparr>msgLength := 0\<rparr>, s')
          \<and> roboOneContext s' = Some (table m') \<and> (m' = M_Docked \<or> m' = M_BatteryIdle))"
  by (rule insufficient_power_is_mains_power) (simp_all add: in_mode_def)

subsection \<open>Sequences of messages\<close>

definition is_event :: "msg \<Rightarrow> bool" where
  "is_event m \<longleftrightarrow> 4 \<le> msgType m \<and> msgType m < 14"

lemma event_numbers:
  assumes "4 \<le> n" and "n < 14"
  shows "\<exists>e. event_of_msg n = Some e"
proof -
  have "event_of_msg n \<noteq> None"
    using assms by (simp add: event_of_msg_def) presburger
  then show ?thesis by simp
qed

lemma is_event_of_msg: "is_event m \<Longrightarrow> \<exists>e. event_of_msg (unat (msgType m)) = Some e"
  by (rule event_numbers) (simp_all add: is_event_def word_le_nat_alt word_less_nat_alt)

text \<open>
  Shutdown is final: whatever events arrive after it, in whatever number, each is handled without a
  fault, the state stays Shutdown and not a single call to another server is made.
\<close>

theorem shutdown_absorbing:
  assumes "roboOneContext s = Some (table M_Shutdown)" and "\<forall>m\<in>set ms. is_event m"
  shows "handle_all (sm_serverHandleMsg P) ms s = Inr s"
  using assms(2)
proof (induction ms)
  case (Cons m ms)
  then obtain e where e: "event_of_msg (unat (msgType m)) = Some e"
    using is_event_of_msg by auto
  have "run_state (event_RoboOne P e (table M_Shutdown) (msgBody m)) (calls s) = (table M_Shutdown, calls s)"
    by (cases e) (simp_all add: event_RoboOne_def table.simps idle_table_def fresh_state_def run_fn_def run_task_fn_def)
  then have "sm_serverHandleMsg P m empty_reply s = Inr (SERVER_SUCCESS_KEEP_RUNNING, empty_reply\<lparr>msgLength := 0\<rparr>, s)"
    using handle_event [OF e assms(1), of P empty_reply] assms(1) by simp
  with Cons show ?case by simp
qed simp

theorem shutdown_absorbing_witness:
  "handle_all (sm_serverHandleMsg silent_params) [\<lparr>msgLength = 1, msgType = 9, msgBody = []\<rparr>, \<lparr>msgLength = 1, msgType = 6, msgBody = []\<rparr>]
     (in_mode M_Shutdown) = Inr (in_mode M_Shutdown)"
  by (rule shutdown_absorbing) (simp_all add: in_mode_def is_event_def)

text \<open>The handler keeps the context at one of the seven tables, so every session of the server does.\<close>

lemma handle_cases:
  assumes "sm_serverHandleMsg P m reply s = Inr (code, reply', s')"
  shows "(\<exists>e st. event_of_msg (unat (msgType m)) = Some e \<and> roboOneContext s = Some st)
    \<or> (roboOneContext s' = None \<or> roboOneContext s' = Some (table M_Init) \<or> s' = s)
      \<and> (\<exists>body. reply' = reply_with (unat (msgType m)) body reply \<and>
            (length body = 1 \<or> (\<exists>st. body = 1 # contextBytes P st)))"
proof -
  obtain h where "run_state (transitionToInit (smEnv P) fresh_state)
      (snd (run_state (exec (smEnv P) (Malloc (length (contextBytes P fresh_state)))) (calls s))) = (table M_Init, h)"
    using yields_run [OF yields_transitions(1)] by blast
  then show ?thesis
    using assms
    by (auto simp: sm_serverHandleMsg_def sm_doAction_def andthen_eq_Inr actionStateMachineServerStart_def
        actionStateMachineServerStop_def actionStateMachineServerGetContext_def
        split: if_splits option.splits prod.splits)
qed

lemma handle_mode_ok:
  assumes "mode_ok s" and "sm_serverHandleMsg P m reply s = Inr (code, reply', s')"
  shows "mode_ok s'"
  using handle_cases [OF assms(2)]
proof (elim disjE exE conjE)
  fix e st assume e: "event_of_msg (unat (msgType m)) = Some e" "roboOneContext s = Some st"
  with assms(1) obtain q where "st = table q" by (auto simp: mode_ok_def)
  with handle_event [OF e, of P reply] event_yields [of P e q "msgBody m"] assms(2) show ?thesis
    by (auto simp: mode_ok_def yields_def)
qed (use assms(1) in \<open>auto simp: mode_ok_def\<close>)

definition context_fits :: "sm_params \<Rightarrow> bool" where
  "context_fits P \<longleftrightarrow> (\<forall>st. length (contextBytes P st) = 65)"

interpretation sm: message_handler "sm_serverHandleMsg P" mode_ok for P
  by unfold_locales (rule handle_mode_ok)

interpretation smr: short_reply_handler "sm_serverHandleMsg P" "\<lambda>s. mode_ok s \<and> context_fits P" for P
proof
  fix s m r code reply s'
  assume inv: "mode_ok s \<and> context_fits P" and run: "sm_serverHandleMsg P m r s = Inr (code, reply, s')"
  show "mode_ok s' \<and> context_fits P" using inv handle_mode_ok run by blast
  from handle_cases [OF run] show "unat (msgLength reply) \<le> 254"
  proof (elim disjE exE conjE)
    fix e st assume e: "event_of_msg (unat (msgType m)) = Some e" "roboOneContext s = Some st"
    with handle_event [OF e, of P r] run show ?thesis by auto
  qed (use inv in \<open>auto simp: reply_with_def context_fits_def\<close>)
next
  fix s m r
  show "sm_serverHandleMsg P m r s \<noteq> Inl Bad_Access"
    by (auto simp: sm_serverHandleMsg_def sm_doAction_def andthen_eq_Inl assert_that_def
        actionStateMachineServerStop_def actionStateMachineServerGetContext_def Let_def
        split: if_splits option.splits prod.splits)
qed

text \<open>
  In every session of the server (any clients, any bytes, any network failures, any answers from the
  other servers) that ends or is waiting for the next client, the context is absent or is exactly one of the seven
  handler tables.
\<close>

theorem sm_session_tables:
  assumes "roboOneContext s = None"
    and "runMessagingServer (sm_serverHandleMsg P) os cs s = Inr (code, sents, s')"
  shows "roboOneContext s' = None \<or> (\<exists>m. roboOneContext s' = Some (table m))"
proof -
  have "mode_ok s" using assms(1) by (simp add: mode_ok_def)
  from sm.runMessagingServer_inv [OF this assms(2)] show ?thesis
    by (auto simp: mode_ok_def split: option.splits)
qed

definition one_start :: connection where
  "one_start = \<lparr>memRecv = True, memBuf = 0 # replicate 258 0, memSend = True, memReply = 0 # replicate 258 0,
     recvs = [Recv_Data [1, 1]], sendRet = int\<rparr>"

definition no_context :: sm_server where
  "no_context = \<lparr>roboOneContext = None, calls = []\<rparr>"

definition good_os :: os_setup where
  "good_os = \<lparr>socketRet = 3, setsockoptRet = 0, bindRet = 0, listenRet = 0\<rparr>"

theorem sm_session_tables_witness:
  "\<exists>code sents s'. runMessagingServer (sm_serverHandleMsg silent_params) good_os [(4, one_start)] no_context
       = Inr (code, sents, s')
     \<and> (roboOneContext s' = None \<or> (\<exists>m. roboOneContext s' = Some (table m)))"
proof -
  have n: "roboOneContext no_context = None" by (simp add: no_context_def)
  have "\<exists>code sents s'. runMessagingServer (sm_serverHandleMsg silent_params) good_os [(4, one_start)] no_context
       = Inr (code, sents, s')"
    by (simp add: runMessagingServer_def good_os_def one_start_def handleSendReceive_def fresh_buf_def Let_def
        size_defs sm_serverHandleMsg_def MAX_NUM_STATE_MACHINE_MSGS_def sm_doAction_def send_reply_def reply_with_def
        no_context_def empty_reply_def actionStateMachineServerStart_def silent_params_def)
  with sm_session_tables [OF n] show ?thesis by blast
qed

subsection \<open>Power is handed over make-before-break\<close>

text \<open>The command that must have succeeded just before a power source is switched off.\<close>

fun partner :: "call \<Rightarrow> call option" where
  "partner (Call HW_Server t b) =
     (if t = HARDWARE_SET_RIO_PWR_BATT_OFF then Some (Call HW_Server HARDWARE_SET_RIO_PWR_12V_ON None)
      else if t = HARDWARE_SET_RIO_PWR_12V_OFF then Some (Call HW_Server HARDWARE_SET_RIO_PWR_BATT_ON None)
      else if t = HARDWARE_SET_O_PWR_BATT_OFF then Some (Call HW_Server HARDWARE_SET_O_PWR_12V_ON None)
      else if t = HARDWARE_SET_O_PWR_12V_OFF then Some (Call HW_Server HARDWARE_SET_O_PWR_BATT_ON None)
      else None)"
| "partner c = None"

fun mbb_from :: "(call \<times> bool) option \<Rightarrow> history \<Rightarrow> bool" where
  "mbb_from prev [] = True"
| "mbb_from prev ((c, r) # h) \<longleftrightarrow>
     (case partner c of None \<Rightarrow> True | Some m \<Rightarrow> prev = Some (m, True)) \<and> mbb_from (Some (c, fst r)) h"

definition make_before_break :: "history \<Rightarrow> bool" where
  "make_before_break h = mbb_from None h"

lemma mbb_from_None: "mbb_from None h \<Longrightarrow> mbb_from p h"
  by (cases h) (auto split: option.splits)

lemma mbb_from_append: "mbb_from p xs \<Longrightarrow> mbb_from None ys \<Longrightarrow> mbb_from p (xs @ ys)"
  by (induction p xs rule: mbb_from.induct) (auto intro: mbb_from_None)

interpretation mbb: trace_property make_before_break
  by unfold_locales (simp_all add: make_before_break_def mbb_from_append)

lemma mbb_single: "partner c = None \<Longrightarrow> make_before_break [(c, r)]"
  by (simp add: make_before_break_def)

lemma mbb_exec: "partner c = None \<Longrightarrow> emits make_before_break (exec E c)"
  by (rule mbb.emits_exec) (rule mbb_single)

lemma mbb_send: "partner (Call p t body) = None \<Longrightarrow> emits make_before_break (send E p t body)"
  by (rule mbb.emits_send) (rule mbb_single)

lemma mbb_switches:
  "emits make_before_break (actionSwitchPiRioTo12VMainsPower E)"
  "emits make_before_break (actionSwitchPiRioToBatteryPower E)"
  "emits make_before_break (actionSwitchHindbrainTo12VMainsPower E)"
  "emits make_before_break (actionSwitchHindbrainToBatteryPower E)"
  by (auto intro!: emitsI simp: actionSwitchPiRioTo12VMainsPower_def actionSwitchPiRioToBatteryPower_def
      actionSwitchHindbrainTo12VMainsPower_def actionSwitchHindbrainToBatteryPower_def hw_cmd_def make_before_break_def)

lemma mbb_switch_on_loop: "emits make_before_break (switch_on_loop E inp resp n)"
  by (induction n arbitrary: resp) (auto intro!: mbb.emits_rules mbb_send mbb_exec simp: hw_cmd_def Let_def)

lemma mbb_switch_off_loop: "emits make_before_break (switch_off_loop E inp n)"
  by (induction n) (auto intro!: mbb.emits_rules mbb_send simp: hw_cmd_def)

lemma mbb_actions:
  "emits make_before_break (actionSwitchOnHindbrain E)"
  "emits make_before_break (actionSwitchOffHindbrain E)"
  "emits make_before_break (actionEnableExternalRelays E)"
  "emits make_before_break (actionDisableExternalRelays E)"
  "emits make_before_break (actionEnableOnPCBRelays E)"
  "emits make_before_break (actionDisableOnPCBRelays E)"
  "emits make_before_break (sendInitFailure E)"
  "emits make_before_break (sendChargingPermitted E b)"
  unfolding actionSwitchOnHindbrain_def actionSwitchOffHindbrain_def actionEnableExternalRelays_def
    actionDisableExternalRelays_def actionEnableOnPCBRelays_def actionDisableOnPCBRelays_def
    sendInitFailure_def sendChargingPermitted_def hw_cmd_def
  by (intro mbb.emits_rules mbb_switch_on_loop mbb_switch_off_loop mbb_send mbb_exec; simp)+

lemma mbb_run_fn: "emits make_before_break (run_fn P f st)"
  by (cases f) (simp_all add: run_fn_def transitionToInit_def transitionToDocked_def transitionToDocked_MainsIdle_def
      transitionToDocked_Charging_def transitionToBatteryIdle_def transitionToShutdown_def Let_def
      mbb.emits_rules mbb_actions mbb_switches)

lemma mbb_run_task_fn: "emits make_before_break (run_task_fn P f st req)"
  by (cases f) (simp_all add: run_task_fn_def transitionToMobile_def eventTasksAvailable_def Let_def
      mbb.emits_rules mbb_actions mbb_switches mbb_send)

lemma mbb_event: "emits make_before_break (event_RoboOne P e st req)"
  by (cases e) (simp_all add: event_RoboOne_def mbb_run_fn mbb_run_task_fn)

text \<open>
  C4. Make before break: whatever event is handled in whatever state, and whatever fails, the calls made by the
  handler switch a power source of the Pi or the Hindbrain off only directly after the command that switches its
  other source on has reported success.
\<close>

theorem power_make_before_break:
  assumes "sm_serverHandleMsg P msg reply s = Inr (code, reply', s')"
    and "event_of_msg (unat (msgType msg)) = Some e"
  shows "\<exists>seg. calls s' = calls s @ seg \<and> make_before_break seg"
proof -
  from assms obtain st where st: "roboOneContext s = Some st"
    by (auto simp: sm_serverHandleMsg_def sm_doAction_def andthen_eq_Inr split: if_splits option.splits
        simp: event_of_msg_def)
  have "calls s' = snd (run_state (event_RoboOne P e st (msgBody msg)) (calls s))"
    using handle_event [OF assms(2) st, of P reply] assms(1) by auto
  then show ?thesis
    using mbb_event [of P e st "msgBody msg"] by (auto simp: emits_def)
qed

definition willing_params :: sm_params where
  "willing_params = \<lparr>smEnv = (\<lambda>h c. (True, [])), sizeofTaskReq = 66, contextBytes = (\<lambda>st. replicate 65 0)\<rparr>"

theorem power_make_before_break_witness:
  "\<exists>code reply' s' seg. sm_serverHandleMsg willing_params \<lparr>msgLength = 1, msgType = 9, msgBody = []\<rparr> empty_reply
       (in_mode M_BatteryIdle) = Inr (code, reply', s')
     \<and> calls s' = calls (in_mode M_BatteryIdle) @ seg \<and> make_before_break seg"
proof -
  let ?m = "\<lparr>msgLength = 1, msgType = 9, msgBody = []\<rparr>"
  have e: "event_of_msg (unat (msgType ?m)) = Some E_MainsPowerAvailable" by (simp add: event_of_msg_def)
  obtain code reply' s' where "sm_serverHandleMsg willing_params ?m empty_reply (in_mode M_BatteryIdle) = Inr (code, reply', s')"
    using handle_event [OF e, of "in_mode M_BatteryIdle"] by (auto simp: in_mode_def)
  with power_make_before_break [OF this e] show ?thesis by blast
qed

subsection \<open>The Hindbrain ends up on, or off\<close>

text \<open>
  The power key of the Hindbrain is a toggle.  \<open>hindbrain_on b h\<close>: started as \<open>b\<close>, it is on
  after the calls \<open>h\<close>.  A working Hindbrain answers the ping exactly when it is on, with \<open>OK\<close> when a response is wanted.
\<close>

definition toggles :: "history \<Rightarrow> nat" where
  "toggles h = length (filter (\<lambda>(c, r). c = Call HW_Server HARDWARE_TOGGLE_O_PWR None) h)"

definition hindbrain_on :: "bool \<Rightarrow> history \<Rightarrow> bool" where
  "hindbrain_on b h \<longleftrightarrow> b \<noteq> odd (toggles h)"

definition working_hindbrain :: "bool \<Rightarrow> env \<Rightarrow> bool" where
  "working_hindbrain b E \<longleftrightarrow>
     (\<forall>h n. fst (E h (Malloc n))) \<and>
     (\<forall>h. fst (E h (Call HW_Server HARDWARE_TOGGLE_O_PWR None))) \<and>
     (\<forall>h inp. fst (E h (Call HW_Server HARDWARE_SEND_O_STRING (Some inp))) = hindbrain_on b h) \<and>
     (\<forall>h inp. hindbrain_on b h \<longrightarrow> hd inp = 1 \<longrightarrow>
        (let specs = snd (E h (Call HW_Server HARDWARE_SEND_O_STRING (Some inp)))
         in length specs = sizeof_OResponseString \<and> O_CHECK_OK_STRING specs))"

lemma toggles_simps [simp]:
  "toggles [] = 0"
  "toggles ((c, r) # h) = (if c = Call HW_Server HARDWARE_TOGGLE_O_PWR None then Suc (toggles h) else toggles h)"
  by (simp_all add: toggles_def)

lemma hindbrain_on_append [simp]: "hindbrain_on b (h @ hs) \<longleftrightarrow> hindbrain_on b h \<noteq> odd (toggles hs)"
  by (auto simp: hindbrain_on_def toggles_def)

lemma working_hindbrainE:
  assumes "working_hindbrain b E"
  obtains mem tg pg where "\<And>h n. E h (Malloc n) = (True, mem h n)"
    and "\<And>h. E h (Call HW_Server HARDWARE_TOGGLE_O_PWR None) = (True, tg h)"
    and "\<And>h inp. E h (Call HW_Server HARDWARE_SEND_O_STRING (Some inp)) = (hindbrain_on b h, pg h inp)"
    and "\<And>h inp. hindbrain_on b h \<Longrightarrow> hd inp = 1 \<Longrightarrow>
           length (pg h inp) = sizeof_OResponseString \<and> O_CHECK_OK_STRING (pg h inp)"
proof -
  let ?tg = "\<lambda>h. snd (E h (Call HW_Server HARDWARE_TOGGLE_O_PWR None))"
  let ?pg = "\<lambda>h inp. snd (E h (Call HW_Server HARDWARE_SEND_O_STRING (Some inp)))"
  show thesis
    by (rule that [of "\<lambda>h n. snd (E h (Malloc n))" ?tg ?pg])
      (use assms in \<open>simp_all add: working_hindbrain_def prod_eq_iff Let_def\<close>)
qed

lemma switch_on_loop_works:
  assumes "working_hindbrain b E" and "hd inp = 1" and "length resp \<le> sizeof_OResponseString"
  shows "\<exists>h'. run_state (switch_on_loop E inp resp 2) h = (True, h') \<and> hindbrain_on b h'"
proof -
  obtain tg pg where "\<And>h. E h (Call HW_Server HARDWARE_TOGGLE_O_PWR None) = (True, tg h)"
    and "\<And>h inp. E h (Call HW_Server HARDWARE_SEND_O_STRING (Some inp)) = (hindbrain_on b h, pg h inp)"
    and "\<And>h inp. hindbrain_on b h \<Longrightarrow> hd inp = 1 \<Longrightarrow>
           length (pg h inp) = sizeof_OResponseString \<and> O_CHECK_OK_STRING (pg h inp)"
    by (rule working_hindbrainE [OF assms(1)]) blast
  then show ?thesis
    using assms(2,3) by (simp add: numeral_2_eq_2 hw_cmd_def Let_def)
qed

lemma switch_off_loop_works:
  assumes "working_hindbrain b E"
  shows "\<not> hindbrain_on b (snd (run_state (switch_off_loop E inp 2) h))"
proof -
  obtain tg pg where "\<And>h. E h (Call HW_Server HARDWARE_TOGGLE_O_PWR None) = (True, tg h)"
    and "\<And>h inp. E h (Call HW_Server HARDWARE_SEND_O_STRING (Some inp)) = (hindbrain_on b h, pg h inp)"
    by (rule working_hindbrainE [OF assms(1)]) blast
  then show ?thesis by (simp add: numeral_2_eq_2 hw_cmd_def)
qed

text \<open>
  Switching the Hindbrain on or off works from either position of its toggle: with a working Hindbrain, started
  on or off, \<open>actionSwitchOnHindbrain\<close> returns true and leaves it on, and \<open>actionSwitchOffHindbrain\<close>
  leaves it off; but the latter returns false although it succeeded.
\<close>

theorem hindbrain_switch_correct:
  assumes "working_hindbrain b E"
  shows "(\<exists>h'. run_state (actionSwitchOnHindbrain E) h = (True, h') \<and> hindbrain_on b h')
    \<and> (\<exists>h'. run_state (actionSwitchOffHindbrain E) h = (False, h') \<and> \<not> hindbrain_on b h')"
proof -
  obtain mem where mem: "\<And>h n. E h (Malloc n) = (True, mem h n)"
    by (rule working_hindbrainE [OF assms]) blast
  have hd: "hd (ping_container True m) = 1" for m by (simp add: ping_container_def bool_byte_def)
  have len: "length (take 80 m @ le_bytes32 80) \<le> sizeof_OResponseString" for m
    by (simp add: sizeof_OResponseString_def)
  have "\<exists>h'. run_state (actionSwitchOffHindbrain E) h = (False, h') \<and> \<not> hindbrain_on b h'"
    using switch_off_loop_works [OF assms]
    by (simp add: actionSwitchOffHindbrain_def mem prod_eq_iff split: prod.splits)
  then show ?thesis
    using switch_on_loop_works [OF assms hd len] by (simp add: actionSwitchOnHindbrain_def mem)
qed

definition ideal_hindbrain :: "bool \<Rightarrow> env" where
  "ideal_hindbrain b h c =
     (case c of
        Malloc n \<Rightarrow> (True, replicate n 0)
      | Call p t body \<Rightarrow>
          if t = HARDWARE_SEND_O_STRING
          then (if hindbrain_on b h then (True, 79 # 75 # replicate 78 0 @ le_bytes32 3) else (False, []))
          else (True, [])
      | Terminal t \<Rightarrow> (False, []))"

lemma ok_response: "O_CHECK_OK_STRING (79 # 75 # replicate 78 0 @ le_bytes32 3)"
  using le32_le_bytes32 [of 3 "[]"] by (simp add: O_CHECK_OK_STRING_def)

theorem hindbrain_switch_correct_witness:
  "(\<exists>h'. run_state (actionSwitchOnHindbrain (ideal_hindbrain True)) [] = (True, h') \<and> hindbrain_on True h')
    \<and> (\<exists>h'. run_state (actionSwitchOffHindbrain (ideal_hindbrain True)) [] = (False, h') \<and> \<not> hindbrain_on True h')"
  by (rule hindbrain_switch_correct)
    (simp add: working_hindbrain_def ideal_hindbrain_def sizeof_OResponseString_def ok_response Let_def)

end
