(* ===== verification/BatteryManager.thy ===== *)
theory BatteryManager
  imports World Timer_Server Complex_Main
begin

section \<open>The battery manager\<close>

text \<open>
  \<open>RoboOneBatteryManager/src/battery_manager_server.c\<close>: the charge state of the four batteries, with
  hysteresis, the commands to the chargers, which are spread out in time by a queue and a timer, and the events
  to the state machine.

  The four global containers are one function from \<open>battery\<close>; a pointer to a container is the battery.  A
  temperature is a \<open>double\<close>: \<open>None\<close> stands for a NaN, for which every comparison is false.  How its
  8 bytes encode a number is a parameter.  The queue is the array of \<open>MAX_LEN_HARDWARE_MSG_Q\<close> message types and its length.
\<close>

subsection \<open>Data\<close>

definition MINIMUM_CHARGE_CHARGING_PERMITTED :: u16 where "MINIMUM_CHARGE_CHARGING_PERMITTED = 2000"
definition MINIMUM_CHARGE_CHARGING_NOT_PERMITTED :: u16 where "MINIMUM_CHARGE_CHARGING_NOT_PERMITTED = 1800"
definition FULL_CHARGE :: nat where "FULL_CHARGE = 2150"
definition CHARGE_HYSTERESIS :: nat where "CHARGE_HYSTERESIS = 100"
definition MAXIMUM_TEMPERATURE_C :: real where "MAXIMUM_TEMPERATURE_C = 60"
definition TEMPERATURE_BROKEN_C :: real where "TEMPERATURE_BROKEN_C = -20"
definition TEMPERATURE_HYSTERESIS_C :: real where "TEMPERATURE_HYSTERESIS_C = 10"
definition MAX_LEN_HARDWARE_MSG_Q :: nat where "MAX_LEN_HARDWARE_MSG_Q = 20"
definition SEND_MSG_OFFSET_DURATION_DECISECONDS :: u32 where "SEND_MSG_OFFSET_DURATION_DECISECONDS = 20"

lemmas charge_defs = MINIMUM_CHARGE_CHARGING_PERMITTED_def MINIMUM_CHARGE_CHARGING_NOT_PERMITTED_def
  FULL_CHARGE_def CHARGE_HYSTERESIS_def

lemmas temperature_defs = MAXIMUM_TEMPERATURE_C_def TEMPERATURE_BROKEN_C_def TEMPERATURE_HYSTERESIS_C_def

record battery_data =
  current :: s16
  voltage :: u16
  remainingCapacity :: u16
  charge :: u32
  discharge :: u32
  temperature :: "real option"

record battery_status =
  fullyCharged :: bool
  insufficientCharge :: bool
  chargerOn :: bool
  overTemperature :: bool
  temperatureBroken :: bool

record battery_container =
  updated :: bool
  batteryStatus :: battery_status
  batteryData :: battery_data

datatype battery = Rio | O1 | O2 | O3

record battery_server =
  chargingPermitted :: bool
  allFullyCharged :: bool
  allInsufficientCharge :: bool
  insufficientChargeThreshold :: u16
  batteries :: "battery \<Rightarrow> battery_container"
  hardwareMsgQ :: "nat list"
  hardwareMsgQLen :: nat
  thisServerPort :: s32
  timerExpiryMsg :: msg
  timerRunning :: bool
  bmCalls :: history

record bm_params =
  bmEnv :: env
  decodeDouble :: "u8 list \<Rightarrow> real option"

definition decode_battery_data :: "(u8 list \<Rightarrow> real option) \<Rightarrow> u8 list \<Rightarrow> battery_data" where
  "decode_battery_data dbl bs =
     \<lparr>current = le16 bs, voltage = le16 (drop 2 bs), remainingCapacity = le16 (drop 4 bs), charge = le32 (drop 6 bs),
      discharge = le32 (drop 10 bs), temperature = dbl (take 8 (drop 14 bs))\<rparr>"

definition encode_battery_status :: "battery_status \<Rightarrow> u8 list" where
  "encode_battery_status st =
     map (\<lambda>b. if b then 1 else 0)
       [fullyCharged st, insufficientCharge st, chargerOn st, overTemperature st, temperatureBroken st]"

definition temp_above :: "real option \<Rightarrow> real \<Rightarrow> bool" where
  "temp_above t x = (case t of None \<Rightarrow> False | Some v \<Rightarrow> v > x)"

definition temp_below :: "real option \<Rightarrow> real \<Rightarrow> bool" where
  "temp_below t x = (case t of None \<Rightarrow> False | Some v \<Rightarrow> v < x)"

text \<open>Access to one container.\<close>

definition upd_status ::
  "battery \<Rightarrow> (battery_status \<Rightarrow> battery_status) \<Rightarrow> battery_server \<Rightarrow> battery_server" where
  "upd_status b f s =
     s\<lparr>batteries := (batteries s)(b := (batteries s b)\<lparr>batteryStatus := f (batteryStatus (batteries s b))\<rparr>)\<rparr>"

definition stat :: "battery_server \<Rightarrow> battery \<Rightarrow> battery_status" where
  "stat s b = batteryStatus (batteries s b)"

definition capacity :: "battery_server \<Rightarrow> battery \<Rightarrow> nat" where
  "capacity s b = unat (remainingCapacity (batteryData (batteries s b)))"

definition threshold :: "battery_server \<Rightarrow> nat" where
  "threshold s = unat (insufficientChargeThreshold s)"

subsection \<open>Calls\<close>

definition bm_send :: "bm_params \<Rightarrow> peer \<Rightarrow> nat \<Rightarrow> u8 list option \<Rightarrow> battery_server \<Rightarrow> bool \<times> battery_server" where
  "bm_send P p t body s =
     (let (ok, h) = run_state (send (bmEnv P) p t body) (bmCalls s) in (ok, s\<lparr>bmCalls := h\<rparr>))"

definition start_offset_timer :: "bm_params \<Rightarrow> nat \<Rightarrow> battery_server \<Rightarrow> battery_server" where
  "start_offset_timer P t s =
     (snd (bm_send P Timer_Srv (unat TIMER_START_REQ)
             (Some (encode_start_req SEND_MSG_OFFSET_DURATION_DECISECONDS (of_nat t) (thisServerPort s) (timerExpiryMsg s))) s))
       \<lparr>timerRunning := True\<rparr>"

subsection \<open>The state of charge\<close>

definition signalChargeStateAll :: "bm_params \<Rightarrow> battery_server \<Rightarrow> battery_server" where
  "signalChargeStateAll P s =
     (let s1 =
        (if \<not> allInsufficientCharge s then
           if insufficientCharge (stat s Rio) \<or> insufficientCharge (stat s O1) \<or>
              insufficientCharge (stat s O2) \<or> insufficientCharge (stat s O3)
           then snd (bm_send P SM_Server STATE_MACHINE_EVENT_INSUFFICIENT_CHARGE None (s\<lparr>allInsufficientCharge := True\<rparr>))
           else s
         else
           if capacity s Rio > threshold s + CHARGE_HYSTERESIS \<or> capacity s O1 > threshold s + CHARGE_HYSTERESIS \<or>
              capacity s O2 > threshold s + CHARGE_HYSTERESIS \<or> capacity s O3 > threshold s + CHARGE_HYSTERESIS
           then s\<lparr>allInsufficientCharge := False\<rparr>
           else s)
      in if \<not> allFullyCharged s1 then
           if capacity s1 Rio > FULL_CHARGE \<and> capacity s1 O1 > FULL_CHARGE \<and>
              capacity s1 O2 > FULL_CHARGE \<and> capacity s1 O3 > FULL_CHARGE
           then snd (bm_send P SM_Server STATE_MACHINE_EVENT_FULLY_CHARGED None (s1\<lparr>allFullyCharged := True\<rparr>))
           else s1
         else
           if capacity s1 Rio < FULL_CHARGE - CHARGE_HYSTERESIS \<or> capacity s1 O1 < FULL_CHARGE - CHARGE_HYSTERESIS \<or>
              capacity s1 O2 < FULL_CHARGE - CHARGE_HYSTERESIS \<or> capacity s1 O3 < FULL_CHARGE - CHARGE_HYSTERESIS
           then s1\<lparr>allFullyCharged := False\<rparr>
           else s1)"

text \<open>
  The inner part of \<open>setChargerStatus\<close>, reached when the temperature is in order.  The last branch writes to
  the Rio container, whichever battery is handled.
\<close>

definition judge_charge :: "battery \<Rightarrow> battery_server \<Rightarrow> battery_server" where
  "judge_charge b s =
     (let s1 =
        (if \<not> insufficientCharge (stat s b) then
           if capacity s b < threshold s
           then upd_status b (\<lambda>st. st\<lparr>insufficientCharge := True, chargerOn := True\<rparr>) s
           else s
         else
           if capacity s b > threshold s + CHARGE_HYSTERESIS
           then upd_status b (\<lambda>st. st\<lparr>insufficientCharge := False\<rparr>) s
           else s)
      in if \<not> fullyCharged (stat s1 b) then
           if capacity s1 b > FULL_CHARGE
           then upd_status b (\<lambda>st. st\<lparr>fullyCharged := True, chargerOn := False\<rparr>) s1
           else s1
         else
           if capacity s1 b < FULL_CHARGE - CHARGE_HYSTERESIS
           then upd_status Rio (\<lambda>st. st\<lparr>fullyCharged := False\<rparr>) s1
           else s1)"

definition setChargerStatus :: "battery \<Rightarrow> battery_server \<Rightarrow> bool \<times> battery_server" where
  "setChargerStatus b s =
     (let t = temperature (batteryData (batteries s b));
          s' =
            (if \<not> overTemperature (stat s b) then
               if temp_above t MAXIMUM_TEMPERATURE_C
               then upd_status b (\<lambda>st. st\<lparr>overTemperature := True, chargerOn := False\<rparr>) s
               else if \<not> temperatureBroken (stat s b) then
                 if temp_below t TEMPERATURE_BROKEN_C
                 then upd_status b (\<lambda>st. st\<lparr>temperatureBroken := True, chargerOn := False\<rparr>) s
                 else judge_charge b s
               else
                 if temp_above t (TEMPERATURE_BROKEN_C + TEMPERATURE_HYSTERESIS_C)
                 then upd_status b (\<lambda>st. st\<lparr>temperatureBroken := False\<rparr>) s
                 else s
             else
               if temp_below t (MAXIMUM_TEMPERATURE_C - TEMPERATURE_HYSTERESIS_C)
               then upd_status b (\<lambda>st. st\<lparr>overTemperature := False\<rparr>) s
               else s)
      in (chargerOn (stat s' b), s'))"

subsection \<open>Commands to the chargers\<close>

definition sendMsgOffset :: "bm_params \<Rightarrow> nat \<Rightarrow> battery_server \<Rightarrow> fault + battery_server" where
  "sendMsgOffset P t s =
     (if \<not> timerRunning s then
        Inr (start_offset_timer P t (snd (bm_send P HW_Server t None s)))
      else
        andthen (assert_that (hardwareMsgQLen s < MAX_LEN_HARDWARE_MSG_Q)) (\<lambda>_.
          Inr (s\<lparr>hardwareMsgQ := (hardwareMsgQ s)[hardwareMsgQLen s := t],
                 hardwareMsgQLen := hardwareMsgQLen s + 1\<rparr>)))"

definition set_battery_charger ::
  "battery \<Rightarrow> nat \<Rightarrow> nat \<Rightarrow> bm_params \<Rightarrow> bool \<Rightarrow> battery_server \<Rightarrow> fault + battery_server" where
  "set_battery_charger b onMsg offMsg P forceSendMsg s =
     (let previouslyOn = chargerOn (stat s b); (on, s1) = setChargerStatus b s
      in if on then
           if chargingPermitted s1 \<and> (\<not> previouslyOn \<or> forceSendMsg) then sendMsgOffset P onMsg s1 else Inr s1
         else
           if previouslyOn \<or> forceSendMsg then sendMsgOffset P offMsg s1 else Inr s1)"

definition setRioChargerStatus :: "bm_params \<Rightarrow> bool \<Rightarrow> battery_server \<Rightarrow> fault + battery_server" where
  "setRioChargerStatus =
     set_battery_charger Rio HARDWARE_SET_RIO_BATTERY_CHARGER_ON HARDWARE_SET_RIO_BATTERY_CHARGER_OFF"

definition setO1ChargerStatus :: "bm_params \<Rightarrow> bool \<Rightarrow> battery_server \<Rightarrow> fault + battery_server" where
  "setO1ChargerStatus =
     set_battery_charger O1 HARDWARE_SET_O1_BATTERY_CHARGER_ON HARDWARE_SET_O1_BATTERY_CHARGER_OFF"

definition setO2ChargerStatus :: "bm_params \<Rightarrow> bool \<Rightarrow> battery_server \<Rightarrow> fault + battery_server" where
  "setO2ChargerStatus =
     set_battery_charger O2 HARDWARE_SET_O2_BATTERY_CHARGER_ON HARDWARE_SET_O2_BATTERY_CHARGER_OFF"

definition setO3ChargerStatus :: "bm_params \<Rightarrow> bool \<Rightarrow> battery_server \<Rightarrow> fault + battery_server" where
  "setO3ChargerStatus =
     set_battery_charger O3 HARDWARE_SET_O3_BATTERY_CHARGER_ON HARDWARE_SET_O3_BATTERY_CHARGER_OFF"

subsection \<open>Messages\<close>

definition zero_container :: battery_container where
  "zero_container =
     \<lparr>updated = False,
      batteryStatus = \<lparr>fullyCharged = False, insufficientCharge = False, chargerOn = False, overTemperature = False,
                       temperatureBroken = False\<rparr>,
      batteryData = \<lparr>current = 0, voltage = 0, remainingCapacity = 0, charge = 0, discharge = 0, temperature = Some 0\<rparr>\<rparr>"

text \<open>Each action returns the bytes that it writes into the response; their number is the length it returns.\<close>

definition actionBatteryManagerServerStart :: "battery_server \<Rightarrow> fault + (u8 list \<times> battery_server)" where
  "actionBatteryManagerServerStart s =
     andthen (createTimerExpiryMsg (msgBody (timerExpiryMsg s)) (of_nat BATTERY_MANAGER_TIMER_EXPIRY) None 0) (\<lambda>m.
       Inr ([1], s\<lparr>chargingPermitted := False, allFullyCharged := False, allInsufficientCharge := False,
                   hardwareMsgQLen := 0, thisServerPort := 5232, timerRunning := False,
                   batteries := (\<lambda>_. zero_container), timerExpiryMsg := m\<rparr>))"

definition actionBatteryManagerServerStop :: "battery_server \<Rightarrow> fault + (u8 list \<times> battery_server)" where
  "actionBatteryManagerServerStop s = Inr ([1], s)"

definition store_data :: "battery \<Rightarrow> battery_data \<Rightarrow> battery_server \<Rightarrow> battery_server" where
  "store_data b d s =
     s\<lparr>batteries := (batteries s)(b := (batteries s b)\<lparr>updated := True, batteryData := d\<rparr>)\<rparr>"

definition actionBatteryManagerData ::
  "bm_params \<Rightarrow> nat \<Rightarrow> battery_data \<Rightarrow> battery_server \<Rightarrow> fault + (u8 list \<times> battery_server)" where
  "actionBatteryManagerData P t d s =
     andthen
       (if t = BATTERY_MANAGER_DATA_RIO then
          andthen (setRioChargerStatus P False (store_data Rio d s)) (\<lambda>s'. Inr (encode_battery_status (stat s' Rio), s'))
        else if t = BATTERY_MANAGER_DATA_O1 then
          andthen (setO1ChargerStatus P False (store_data O1 d s)) (\<lambda>s'. Inr (encode_battery_status (stat s' O1), s'))
        else if t = BATTERY_MANAGER_DATA_O2 then
          andthen (setO2ChargerStatus P False (store_data O2 d s)) (\<lambda>s'. Inr (encode_battery_status (stat s' O2), s'))
        else if t = BATTERY_MANAGER_DATA_O3 then
          andthen (setO3ChargerStatus P False (store_data O3 d s)) (\<lambda>s'. Inr (encode_battery_status (stat s' O3), s'))
        else Inl Assert_Failed)
       (\<lambda>(body, s'). Inr (body, signalChargeStateAll P s'))"

definition actionBatteryManagerChargingPermitted ::
  "bm_params \<Rightarrow> bool \<Rightarrow> battery_server \<Rightarrow> fault + (u8 list \<times> battery_server)" where
  "actionBatteryManagerChargingPermitted P isPermitted s =
     (let s1 = s\<lparr>insufficientChargeThreshold :=
                   (if isPermitted then MINIMUM_CHARGE_CHARGING_PERMITTED else MINIMUM_CHARGE_CHARGING_NOT_PERMITTED)\<rparr>;
          justSwitchedToPermitted = (\<not> chargingPermitted s1 \<and> isPermitted)
      in andthen
           (if chargingPermitted s1 \<and> \<not> isPermitted then
              andthen (sendMsgOffset P HARDWARE_SET_RIO_BATTERY_CHARGER_OFF s1) (\<lambda>s2.
              andthen (sendMsgOffset P HARDWARE_SET_O1_BATTERY_CHARGER_OFF s2) (\<lambda>s3.
              andthen (sendMsgOffset P HARDWARE_SET_O2_BATTERY_CHARGER_OFF s3) (\<lambda>s4.
                       sendMsgOffset P HARDWARE_SET_O3_BATTERY_CHARGER_OFF s4)))
            else Inr s1)
           (\<lambda>s2.
           andthen (setRioChargerStatus P justSwitchedToPermitted (s2\<lparr>chargingPermitted := isPermitted\<rparr>)) (\<lambda>s3.
           andthen (setO1ChargerStatus P justSwitchedToPermitted s3) (\<lambda>s4.
           andthen (setO2ChargerStatus P justSwitchedToPermitted s4) (\<lambda>s5.
           andthen (setO3ChargerStatus P justSwitchedToPermitted s5) (\<lambda>s6.
             Inr ([], signalChargeStateAll P s6)))))))"

definition actionBatteryManagerTimerExpiry :: "bm_params \<Rightarrow> battery_server \<Rightarrow> u8 list \<times> battery_server" where
  "actionBatteryManagerTimerExpiry P s =
     (let s1 = s\<lparr>timerRunning := False\<rparr>
      in if hardwareMsgQLen s1 > 0 then
           (let s2 = snd (bm_send P HW_Server (hardwareMsgQ s1 ! (hardwareMsgQLen s1 - 1)) None s1);
                s3 = s2\<lparr>hardwareMsgQLen := hardwareMsgQLen s2 - 1\<rparr>
            in if hardwareMsgQLen s3 > 0
               then ([], start_offset_timer P (hardwareMsgQ s3 ! (hardwareMsgQLen s3 - 1)) s3)
               else ([], s3))
         else ([], s1))"

text \<open>
  \<open>mem\<close> is the body of the fresh response, and the result holds the length that the action returns and the body after it.  The
  pointer that is given to \<open>actionBatteryManagerData\<close> is that of the member \<open>status\<close>, which stands behind
  \<open>success\<close>: the status is written from the second byte on, \<open>success\<close> stays what it was, and the length
  counts only the status.
\<close>

definition bm_doAction ::
  "bm_params \<Rightarrow> nat \<Rightarrow> u8 list \<Rightarrow> u8 list \<Rightarrow> battery_server \<Rightarrow> fault + (server_code \<times> nat \<times> u8 list \<times> battery_server)" where
  "bm_doAction P t body mem s =
     (if t = BATTERY_MANAGER_SERVER_START then
        andthen (actionBatteryManagerServerStart s) (\<lambda>(rsp, s').
          Inr (SERVER_SUCCESS_KEEP_RUNNING, length rsp, rsp @ drop (length rsp) mem, s'))
      else if t = BATTERY_MANAGER_SERVER_STOP then
        andthen (actionBatteryManagerServerStop s) (\<lambda>(rsp, s').
          Inr (SERVER_EXIT_NORMALLY, length rsp, rsp @ drop (length rsp) mem, s'))
      else if t = BATTERY_MANAGER_DATA_RIO \<or> t = BATTERY_MANAGER_DATA_O1 \<or>
              t = BATTERY_MANAGER_DATA_O2 \<or> t = BATTERY_MANAGER_DATA_O3 then
        andthen (actionBatteryManagerData P t (decode_battery_data (decodeDouble P) body) s) (\<lambda>(rsp, s').
          Inr (SERVER_SUCCESS_KEEP_RUNNING, length rsp, take 1 mem @ rsp @ drop (1 + length rsp) mem, s'))
      else if t = BATTERY_MANAGER_CHARGING_PERMITTED then
        andthen (actionBatteryManagerChargingPermitted P (hd body \<noteq> 0) s) (\<lambda>(rsp, s').
          Inr (SERVER_SUCCESS_KEEP_RUNNING, length rsp, mem, s'))
      else if t = BATTERY_MANAGER_TIMER_EXPIRY then
        (let (rsp, s') = actionBatteryManagerTimerExpiry P s in Inr (SERVER_SUCCESS_KEEP_RUNNING, length rsp, mem, s'))
      else Inl Assert_Failed)"

definition bm_serverHandleMsg :: "bm_params \<Rightarrow> battery_server handler" where
  "bm_serverHandleMsg P m reply s =
     andthen (assert_that (unat (msgType m) < MAX_NUM_BATTERY_MANAGER_MSGS)) (\<lambda>_.
     andthen (bm_doAction P (unat (msgType m)) (msgBody m) (msgBody reply) s) (\<lambda>(code, len, body, s').
       Inr (code, \<lparr>msgLength = 1 + of_nat len, msgType = msgType m, msgBody = body\<rparr>, s')))"

end
