(* ===== verification/BatteryManager_Properties.thy ===== *)
theory BatteryManager_Properties
  imports BatteryManager
begin

section \<open>Properties of the battery manager\<close>

text \<open>
  The invariant \<open>bm_inv\<close> of the server, over sessions of the messaging server; what the fully-charged flag
  does for each battery; and the order in which queued commands reach the chargers.
\<close>

subsection \<open>The invariant\<close>

definition status_ok :: "battery \<Rightarrow> battery_status \<Rightarrow> bool" where
  "status_ok b st \<longleftrightarrow>
     (overTemperature st \<or> temperatureBroken st \<longrightarrow> \<not> chargerOn st) \<and>
     (b = Rio \<and> fullyCharged st \<longrightarrow> \<not> chargerOn st)"

definition queue_ok :: "battery_server \<Rightarrow> bool" where
  "queue_ok s \<longleftrightarrow>
     length (hardwareMsgQ s) = MAX_LEN_HARDWARE_MSG_Q \<and> hardwareMsgQLen s \<le> MAX_LEN_HARDWARE_MSG_Q \<and>
     (hardwareMsgQLen s > 0 \<longrightarrow> timerRunning s)"

definition bm_inv :: "battery_server \<Rightarrow> bool" where
  "bm_inv s \<longleftrightarrow> queue_ok s \<and> (\<forall>b. status_ok b (stat s b)) \<and> threshold s \<le> 2000"

lemma upd_status_simps [simp]:
  "stat (upd_status b f s) c = (if c = b then f (stat s b) else stat s c)"
  "batteryData (batteries (upd_status b f s) c) = batteryData (batteries s c)"
  "capacity (upd_status b f s) c = capacity s c"
  "threshold (upd_status b f s) = threshold s"
  "hardwareMsgQ (upd_status b f s) = hardwareMsgQ s"
  "hardwareMsgQLen (upd_status b f s) = hardwareMsgQLen s"
  "timerRunning (upd_status b f s) = timerRunning s"
  "chargingPermitted (upd_status b f s) = chargingPermitted s"
  "bmCalls (upd_status b f s) = bmCalls s"
  by (simp_all add: upd_status_def stat_def capacity_def threshold_def)

lemma judge_charge_frame [simp]:
  "threshold (judge_charge b s) = threshold s"
  "hardwareMsgQ (judge_charge b s) = hardwareMsgQ s"
  "hardwareMsgQLen (judge_charge b s) = hardwareMsgQLen s"
  "timerRunning (judge_charge b s) = timerRunning s"
  "chargingPermitted (judge_charge b s) = chargingPermitted s"
  "bmCalls (judge_charge b s) = bmCalls s"
  by (simp_all add: judge_charge_def Let_def)

lemma judge_charge_status_ok:
  assumes "\<forall>c. status_ok c (stat s c)" and "threshold s \<le> 2000"
    and "\<not> overTemperature (stat s b)" and "\<not> temperatureBroken (stat s b)"
  shows "status_ok c (stat (judge_charge b s) c)"
proof -
  have c: "status_ok c (stat s c)" and r: "status_ok Rio (stat s Rio)" using assms(1) by blast+
  show ?thesis
    using c r assms(2-) by (cases "c = b"; cases "b = Rio") (auto simp: judge_charge_def Let_def status_ok_def charge_defs)
qed

lemma setChargerStatus_frame [simp]:
  "threshold (snd (setChargerStatus b s)) = threshold s"
  "hardwareMsgQ (snd (setChargerStatus b s)) = hardwareMsgQ s"
  "hardwareMsgQLen (snd (setChargerStatus b s)) = hardwareMsgQLen s"
  "timerRunning (snd (setChargerStatus b s)) = timerRunning s"
  "chargingPermitted (snd (setChargerStatus b s)) = chargingPermitted s"
  "bmCalls (snd (setChargerStatus b s)) = bmCalls s"
  by (simp_all add: setChargerStatus_def Let_def)

lemma setChargerStatus_status_ok:
  assumes "\<forall>c. status_ok c (stat s c)" and "threshold s \<le> 2000"
  shows "status_ok c (stat (snd (setChargerStatus b s)) c)"
proof -
  have c: "status_ok c (stat s c)" using assms(1) by blast
  note j = judge_charge_status_ok [OF assms, of b c]
  have upd: "status_ok c (f (stat s c)) \<Longrightarrow> status_ok c (stat (upd_status b f s) c)" for f
    using c by (cases "c = b") simp_all
  show ?thesis
    unfolding setChargerStatus_def Let_def snd_conv
    by (intro if_prop [where P = "\<lambda>s'. status_ok c (stat s' c)"] upd j c) (use c in \<open>auto simp: status_ok_def\<close>)
qed

lemma setChargerStatus_inv: "bm_inv s \<Longrightarrow> bm_inv (snd (setChargerStatus b s))"
  using setChargerStatus_status_ok [of s] by (simp add: bm_inv_def queue_ok_def)

lemma bm_send_simps [simp]:
  "snd (bm_send P p t body s) =
     s\<lparr>bmCalls := bmCalls s @ [(Call p t body, bmEnv P (bmCalls s) (Call p t body))]\<rparr>"
  by (simp add: bm_send_def)

lemma calls_frame [simp]:
  "stat (s\<lparr>bmCalls := h\<rparr>) b = stat s b" "capacity (s\<lparr>bmCalls := h\<rparr>) b = capacity s b"
  "threshold (s\<lparr>bmCalls := h\<rparr>) = threshold s"
  "stat (s\<lparr>timerRunning := r\<rparr>) b = stat s b" "threshold (s\<lparr>timerRunning := r\<rparr>) = threshold s"
  "stat (s\<lparr>hardwareMsgQLen := n\<rparr>) b = stat s b" "threshold (s\<lparr>hardwareMsgQLen := n\<rparr>) = threshold s"
  "stat (s\<lparr>hardwareMsgQ := q\<rparr>) b = stat s b" "threshold (s\<lparr>hardwareMsgQ := q\<rparr>) = threshold s"
  "stat (s\<lparr>allInsufficientCharge := x\<rparr>) b = stat s b" "threshold (s\<lparr>allInsufficientCharge := x\<rparr>) = threshold s"
  "stat (s\<lparr>allFullyCharged := x\<rparr>) b = stat s b" "threshold (s\<lparr>allFullyCharged := x\<rparr>) = threshold s"
  "stat (s\<lparr>chargingPermitted := x\<rparr>) b = stat s b" "threshold (s\<lparr>chargingPermitted := x\<rparr>) = threshold s"
  "stat (s\<lparr>insufficientChargeThreshold := w\<rparr>) b = stat s b"
  by (simp_all add: stat_def capacity_def threshold_def)

lemma start_offset_timer_simps:
  "start_offset_timer P t s = s\<lparr>timerRunning := True, bmCalls := bmCalls (start_offset_timer P t s)\<rparr>"
  by (simp add: start_offset_timer_def)

lemma sendMsgOffset_inv: "bm_inv s \<Longrightarrow> keeps bm_inv (sendMsgOffset P t s)"
  by (auto simp: sendMsgOffset_def start_offset_timer_def bm_inv_def queue_ok_def intro!: keeps_guard)

lemma signal_inv: "bm_inv s \<Longrightarrow> bm_inv (signalChargeStateAll P s)"
  unfolding signalChargeStateAll_def
  by (rule Let_prop [where Q = bm_inv]; intro if_prop [where P = bm_inv]) (auto simp: bm_inv_def queue_ok_def)

lemma set_battery_charger_inv: "bm_inv s \<Longrightarrow> keeps bm_inv (set_battery_charger b on off P force s)"
  using setChargerStatus_inv [of s b] sendMsgOffset_inv
  by (auto simp: set_battery_charger_def Let_def split: prod.splits)

lemma set_charger_inv:
  assumes "bm_inv s"
  shows "keeps bm_inv (setRioChargerStatus P force s)" "keeps bm_inv (setO1ChargerStatus P force s)"
    "keeps bm_inv (setO2ChargerStatus P force s)" "keeps bm_inv (setO3ChargerStatus P force s)"
  unfolding setRioChargerStatus_def setO1ChargerStatus_def setO2ChargerStatus_def setO3ChargerStatus_def
  using set_battery_charger_inv [OF assms] by blast+

lemma store_data_inv: "bm_inv s \<Longrightarrow> bm_inv (store_data b d s)"
  by (simp add: store_data_def bm_inv_def queue_ok_def threshold_def stat_def)

definition reply_inv :: "nat \<Rightarrow> u8 list \<times> battery_server \<Rightarrow> bool" where
  "reply_inv n r \<longleftrightarrow> bm_inv (snd r) \<and> length (fst r) \<le> n"

lemma data_inv:
  assumes "bm_inv s"
  shows "keeps (reply_inv 5) (actionBatteryManagerData P t d s)"
proof -
  have reply: "keeps (reply_inv 5) (andthen r (\<lambda>s'. Inr (encode_battery_status (stat s' b), s')))"
    if "keeps bm_inv r" for r :: "fault + battery_server" and b
    using that by (rule keeps_andthen) (simp add: reply_inv_def encode_battery_status_def)
  show ?thesis
    unfolding actionBatteryManagerData_def
    by (rule keeps_andthen [where J = "reply_inv 5"], intro if_prop [where P = "keeps (reply_inv 5)"] reply set_charger_inv
        store_data_inv assms) (auto simp: reply_inv_def intro: signal_inv)
qed

lemma permitted_inv:
  assumes "bm_inv s"
  shows "keeps (reply_inv 0) (actionBatteryManagerChargingPermitted P ok s)"
proof -
  let ?s1 = "s\<lparr>insufficientChargeThreshold :=
    (if ok then MINIMUM_CHARGE_CHARGING_PERMITTED else MINIMUM_CHARGE_CHARGING_NOT_PERMITTED)\<rparr>"
  have s1: "bm_inv ?s1"
    using assms by (simp add: bm_inv_def queue_ok_def threshold_def charge_defs)
  have perm: "bm_inv x \<Longrightarrow> bm_inv (x\<lparr>chargingPermitted := ok\<rparr>)" for x
    by (simp add: bm_inv_def queue_ok_def)
  show ?thesis
    unfolding actionBatteryManagerChargingPermitted_def
    by (rule Let_prop [where Q = bm_inv, OF s1], unfold Let_def)
      (intro keeps_andthen [where J = bm_inv] if_prop [where P = "keeps bm_inv"] sendMsgOffset_inv set_charger_inv perm;
       simp add: reply_inv_def signal_inv)
qed

lemma expiry_inv: "bm_inv s \<Longrightarrow> reply_inv 0 (actionBatteryManagerTimerExpiry P s)"
  by (auto simp: actionBatteryManagerTimerExpiry_def Let_def start_offset_timer_def bm_inv_def queue_ok_def reply_inv_def)

lemma start_inv: "bm_inv s \<Longrightarrow> keeps (reply_inv 1) (actionBatteryManagerServerStart s)"
  unfolding actionBatteryManagerServerStart_def
  by (rule keeps_andthen [where J = "\<lambda>_. True"])
    (auto simp: bm_inv_def queue_ok_def stat_def threshold_def status_ok_def zero_container_def reply_inv_def keeps_def
      split: sum.splits)

lemma bm_doAction_inv:
  assumes "bm_inv s"
  shows "keeps (\<lambda>(code, len, mem', s'). bm_inv s' \<and> len \<le> 5) (bm_doAction P t body mem s)"
proof -
  note expiry_inv [OF assms, of P]
  then show ?thesis
    unfolding bm_doAction_def
    by (intro if_prop [where P = "keeps (\<lambda>(code, len, mem', s'). bm_inv s' \<and> len \<le> 5)"])
      (auto intro!: keeps_andthen [OF start_inv [OF assms]] keeps_andthen [OF data_inv [OF assms]]
        keeps_andthen [OF permitted_inv [OF assms]]
        simp: actionBatteryManagerServerStop_def reply_inv_def assms split: prod.splits)
qed

lemma bm_handle_inv:
  assumes "bm_inv s" and "bm_serverHandleMsg P m reply s = Inr (code, reply', s')"
  shows "bm_inv s' \<and> unat (msgLength reply') \<le> 254"
proof -
  obtain len mem' where act: "bm_doAction P (unat (msgType m)) (msgBody m) (msgBody reply) s = Inr (code, len, mem', s')"
    and len: "msgLength reply' = 1 + of_nat len"
    using assms(2) by (auto simp: bm_serverHandleMsg_def andthen_eq_Inr)
  from keepsD [OF bm_doAction_inv [OF assms(1)] act] have "bm_inv s'" "len \<le> 5"
    by simp_all
  moreover have "unat (1 + of_nat len :: u8) = (1 + len) mod 256"
    by (simp add: unat_word_ariths unat_of_nat mod_simps)
  ultimately show ?thesis by (simp add: len)
qed

interpretation bm: message_handler "bm_serverHandleMsg P" bm_inv for P
  by unfold_locales (use bm_handle_inv in blast)

text \<open>The globals before the first message.\<close>

definition bm_globals :: "s32 \<Rightarrow> msg \<Rightarrow> battery_server" where
  "bm_globals port m =
     \<lparr>chargingPermitted = False, allFullyCharged = False, allInsufficientCharge = False,
      insufficientChargeThreshold = MINIMUM_CHARGE_CHARGING_NOT_PERMITTED, batteries = (\<lambda>_. zero_container),
      hardwareMsgQ = replicate 20 0, hardwareMsgQLen = 0, thisServerPort = port, timerExpiryMsg = m,
      timerRunning = False, bmCalls = []\<rparr>"

lemma bm_globals_inv: "bm_inv (bm_globals port m)"
  by (simp add: bm_inv_def queue_ok_def bm_globals_def MAX_LEN_HARDWARE_MSG_Q_def status_ok_def stat_def
      zero_container_def threshold_def charge_defs)

text \<open>
  C7. In every session of the battery manager, whatever the clients send and whatever the other servers answer: a battery
  that is flagged as too hot, or whose temperature reading is flagged as broken, is never marked for charging; the Rio
  battery is never marked for charging while it is flagged as full; the queue stays within its 20 places; and
  the queue is only non-empty while the timer that will empty it is marked as running.
\<close>

theorem bm_session_safe:
  assumes "runMessagingServer (bm_serverHandleMsg P) os cs (bm_globals port m) = Inr (code, sents, s')"
  shows "(\<forall>b. overTemperature (stat s' b) \<or> temperatureBroken (stat s' b) \<longrightarrow> \<not> chargerOn (stat s' b))
    \<and> (fullyCharged (stat s' Rio) \<longrightarrow> \<not> chargerOn (stat s' Rio))
    \<and> hardwareMsgQLen s' \<le> 20 \<and> (hardwareMsgQLen s' > 0 \<longrightarrow> timerRunning s')"
  using bm.runMessagingServer_inv [OF bm_globals_inv assms]
  by (auto simp: bm_inv_def queue_ok_def status_ok_def MAX_LEN_HARDWARE_MSG_Q_def)

definition deaf_params :: bm_params where
  "deaf_params = \<lparr>bmEnv = (\<lambda>h c. (False, [])), decodeDouble = (\<lambda>bs. Some 20)\<rparr>"

definition bm_os :: os_setup where
  "bm_os = \<lparr>socketRet = 3, setsockoptRet = 0, bindRet = 0, listenRet = 0\<rparr>"

theorem bm_session_safe_witness:
  "\<exists>code sents s'. runMessagingServer (bm_serverHandleMsg deaf_params) bm_os [] (bm_globals 0 zero_msg) = Inr (code, sents, s')
    \<and> (\<forall>b. overTemperature (stat s' b) \<or> temperatureBroken (stat s' b) \<longrightarrow> \<not> chargerOn (stat s' b))
    \<and> (fullyCharged (stat s' Rio) \<longrightarrow> \<not> chargerOn (stat s' Rio))
    \<and> hardwareMsgQLen s' \<le> 20 \<and> (hardwareMsgQLen s' > 0 \<longrightarrow> timerRunning s')"
proof -
  have r: "runMessagingServer (bm_serverHandleMsg deaf_params) bm_os [] (bm_globals 0 zero_msg)
      = Inr (None, [], bm_globals 0 zero_msg)"
    by (simp add: runMessagingServer_def bm_os_def)
  show ?thesis by (intro exI conjI; (rule r | rule bm_session_safe [OF r, THEN conjunct1]
      | rule bm_session_safe [OF r, THEN conjunct2, THEN conjunct1]
      | rule bm_session_safe [OF r, THEN conjunct2, THEN conjunct2, THEN conjunct1]
      | rule bm_session_safe [OF r, THEN conjunct2, THEN conjunct2, THEN conjunct2]))
qed

subsection \<open>Full batteries\<close>

definition temperature_normal :: "battery_server \<Rightarrow> battery \<Rightarrow> bool" where
  "temperature_normal s b \<longleftrightarrow>
     \<not> overTemperature (stat s b) \<and> \<not> temperatureBroken (stat s b) \<and>
     \<not> temp_above (temperature (batteryData (batteries s b))) MAXIMUM_TEMPERATURE_C \<and>
     \<not> temp_below (temperature (batteryData (batteries s b))) TEMPERATURE_BROKEN_C"

lemma setChargerStatus_normal:
  "temperature_normal s b \<Longrightarrow> setChargerStatus b s = (chargerOn (stat (judge_charge b s) b), judge_charge b s)"
  by (simp add: setChargerStatus_def temperature_normal_def Let_def)

text \<open>
  The Rio charger is switched off when its battery is full: from every state the server can be in, with a temperature
  in order and a remaining capacity above \<open>FULL_CHARGE\<close>, \<open>setChargerStatus\<close> returns false for
  it and flags it as full.
\<close>

theorem rio_charger_stops_when_full:
  assumes "bm_inv s" and "temperature_normal s Rio" and "capacity s Rio > FULL_CHARGE"
  shows "\<not> fst (setChargerStatus Rio s) \<and> fullyCharged (stat (snd (setChargerStatus Rio s)) Rio)"
proof -
  have "status_ok Rio (stat s Rio)" "threshold s \<le> 2000" using assms(1) by (simp_all add: bm_inv_def)
  then show ?thesis
    using assms(2,3) by (auto simp: setChargerStatus_normal judge_charge_def Let_def status_ok_def charge_defs)
qed

text \<open>
  The other chargers are not: the branch that takes the full flag back writes to the Rio container, so the flag of
  O1, O2 and O3 is never cleared, and a battery that is flagged as full and is being charged again
  stays on charge at every remaining capacity, however far above \<open>FULL_CHARGE\<close>.
\<close>

theorem other_chargers_never_stop:
  assumes "b \<noteq> Rio" and "temperature_normal s b" and "fullyCharged (stat s b)" and "chargerOn (stat s b)"
  shows "fst (setChargerStatus b s) \<and> fullyCharged (stat (snd (setChargerStatus b s)) b)"
  using assms by (simp add: setChargerStatus_normal judge_charge_def Let_def)

text \<open>O1, full, then used below the threshold, then reported at each of a list of capacities.\<close>

definition report :: "battery \<Rightarrow> u16 \<Rightarrow> battery_server \<Rightarrow> battery_server" where
  "report b c s = snd (setChargerStatus b
     (store_data b \<lparr>current = 0, voltage = 0, remainingCapacity = c, charge = 0, discharge = 0, temperature = Some 20\<rparr> s))"

lemmas report_defs = report_def setChargerStatus_def judge_charge_def store_data_def Let_def bm_globals_def zero_container_def
  stat_def capacity_def threshold_def upd_status_def charge_defs temp_above_def temp_below_def temperature_defs

definition o1_recharging :: battery_server where
  "o1_recharging = store_data O1
     \<lparr>current = 0, voltage = 0, remainingCapacity = 2500, charge = 0, discharge = 0, temperature = Some 20\<rparr>
     (report O1 1700 (report O1 2200 (bm_globals 0 zero_msg)))"

theorem other_chargers_never_stop_witness:
  "fst (setChargerStatus O1 o1_recharging) \<and> fullyCharged (stat (snd (setChargerStatus O1 o1_recharging)) O1)"
  by (rule other_chargers_never_stop) (simp_all add: o1_recharging_def temperature_normal_def report_defs)

definition rio_full :: battery_server where
  "rio_full = store_data Rio
     \<lparr>current = 0, voltage = 0, remainingCapacity = 2500, charge = 0, discharge = 0, temperature = Some 20\<rparr>
     (bm_globals 0 zero_msg)"

theorem rio_charger_stops_when_full_witness:
  "\<not> fst (setChargerStatus Rio rio_full) \<and> fullyCharged (stat (snd (setChargerStatus Rio rio_full)) Rio)"
proof (rule rio_charger_stops_when_full)
  show "bm_inv rio_full" unfolding rio_full_def by (rule store_data_inv [OF bm_globals_inv])
qed (simp_all add: rio_full_def temperature_normal_def report_defs)

subsection \<open>The order of queued commands\<close>

text \<open>The commands that reached the hardware server, oldest first.\<close>

definition hw_commands :: "history \<Rightarrow> nat list" where
  "hw_commands h = List.map_filter (\<lambda>(c, r). case c of Call HW_Server t None \<Rightarrow> Some t | _ \<Rightarrow> None) h"

fun expiries :: "bm_params \<Rightarrow> nat \<Rightarrow> battery_server \<Rightarrow> battery_server" where
  "expiries P 0 s = s"
| "expiries P (Suc n) s = expiries P n (snd (actionBatteryManagerTimerExpiry P s))"

lemma hw_commands_simps [simp]:
  "hw_commands [] = []"
  "hw_commands (h @ h') = hw_commands h @ hw_commands h'"
  "hw_commands ((Call HW_Server t None, r) # h) = t # hw_commands h"
  "hw_commands ((Call Timer_Srv t body, r) # h) = hw_commands h"
  "hw_commands ((Call SM_Server t body, r) # h) = hw_commands h"
  by (simp_all add: hw_commands_def List.map_filter_def)

lemma expiry_step:
  assumes "hardwareMsgQLen s = Suc n" and "Suc n \<le> length (hardwareMsgQ s)"
    and "s' = snd (actionBatteryManagerTimerExpiry P s)"
  shows "hardwareMsgQLen s' = n" and "hardwareMsgQ s' = hardwareMsgQ s"
    and "hw_commands (bmCalls s') = hw_commands (bmCalls s) @ [hardwareMsgQ s ! n]"
    and "timerRunning s' \<longleftrightarrow> n > 0"
  using assms(1,2) unfolding assms(3)
  by (auto simp: actionBatteryManagerTimerExpiry_def Let_def start_offset_timer_def)

lemma expiries_lifo:
  assumes "hardwareMsgQLen s = n" and "n \<le> length (hardwareMsgQ s)" and "0 < n"
  shows "hardwareMsgQLen (expiries P n s) = 0 \<and> \<not> timerRunning (expiries P n s) \<and>
    hw_commands (bmCalls (expiries P n s)) = hw_commands (bmCalls s) @ rev (take n (hardwareMsgQ s))"
  using assms
proof (induction n arbitrary: s)
  case (Suc n)
  note step = expiry_step [OF Suc.prems(1,2) refl, of P]
  have tk: "take (Suc n) (hardwareMsgQ s) = take n (hardwareMsgQ s) @ [hardwareMsgQ s ! n]"
    using Suc.prems(2) by (simp add: take_Suc_conv_app_nth Suc_le_eq)
  show ?case
  proof (cases n)
    case 0
    with step tk show ?thesis by simp
  next
    case (Suc k)
    then show ?thesis using Suc.IH [OF step(1)] step(2,3) Suc.prems(2) tk by simp
  qed
qed simp

text \<open>
  The queue is emptied, but from its end: with \<open>n\<close> commands queued, \<open>n\<close> expiries of the offset timer send all of
  them, whatever the other servers answer, in the reverse of the order in which they were queued, and leave
  the timer stopped.
\<close>

theorem queue_drains_last_in_first_out:
  assumes "bm_inv s" and "hardwareMsgQLen s = n" and "0 < n"
  shows "hardwareMsgQLen (expiries P n s) = 0 \<and> \<not> timerRunning (expiries P n s) \<and>
    hw_commands (bmCalls (expiries P n s)) = hw_commands (bmCalls s) @ rev (take n (hardwareMsgQ s))"
proof -
  have "n \<le> length (hardwareMsgQ s)" using assms(1,2) by (simp add: bm_inv_def queue_ok_def)
  then show ?thesis by (rule expiries_lifo [OF assms(2) _ assms(3)])
qed

definition two_queued :: battery_server where
  "two_queued = (bm_globals 0 zero_msg)
     \<lparr>hardwareMsgQ := 25 # 26 # replicate 18 0, hardwareMsgQLen := 2, timerRunning := True\<rparr>"

theorem queue_drains_last_in_first_out_witness:
  "hardwareMsgQLen (expiries deaf_params 2 two_queued) = 0 \<and> \<not> timerRunning (expiries deaf_params 2 two_queued) \<and>
    hw_commands (bmCalls (expiries deaf_params 2 two_queued))
      = hw_commands (bmCalls two_queued) @ rev (take 2 (hardwareMsgQ two_queued))"
proof (rule queue_drains_last_in_first_out)
  show "bm_inv two_queued"
    using bm_globals_inv [of 0 zero_msg]
    by (simp add: two_queued_def bm_inv_def queue_ok_def MAX_LEN_HARDWARE_MSG_Q_def bm_globals_def threshold_def stat_def)
qed (simp_all add: two_queued_def)

subsection \<open>Permission given and withdrawn\<close>

text \<open>A battery below both thresholds that is marked for charging stays as it is whenever it is judged again.\<close>


definition needy :: "battery_container \<Rightarrow> bool" where
  "needy c \<longleftrightarrow>
     insufficientCharge (batteryStatus c) \<and> chargerOn (batteryStatus c) \<and> \<not> fullyCharged (batteryStatus c) \<and>
     \<not> overTemperature (batteryStatus c) \<and> \<not> temperatureBroken (batteryStatus c) \<and>
     \<not> temp_above (temperature (batteryData c)) MAXIMUM_TEMPERATURE_C \<and>
     \<not> temp_below (temperature (batteryData c)) TEMPERATURE_BROKEN_C \<and>
     unat (remainingCapacity (batteryData c)) < 1800"

lemma needy_stays:
  "needy (batteries s b) \<Longrightarrow> 1800 \<le> threshold s \<Longrightarrow> setChargerStatus b s = (True, s)"
  by (simp add: needy_def setChargerStatus_def judge_charge_def Let_def stat_def capacity_def charge_defs)

lemma needy_charger:
  assumes "needy (batteries s b)" and "1800 \<le> threshold s"
  shows "set_battery_charger b on off P force s =
    (if chargingPermitted s \<and> force then sendMsgOffset P on s else Inr s)"
  using needy_stays [OF assms] assms(1) by (simp add: set_battery_charger_def needy_def stat_def)

lemma send_queued:
  "timerRunning s \<Longrightarrow> hardwareMsgQLen s < 20 \<Longrightarrow>
   sendMsgOffset P t s = Inr (s\<lparr>hardwareMsgQ := (hardwareMsgQ s)[hardwareMsgQLen s := t], hardwareMsgQLen := hardwareMsgQLen s + 1\<rparr>)"
  by (simp add: sendMsgOffset_def MAX_LEN_HARDWARE_MSG_Q_def)

lemma send_idle:
  assumes "\<not> timerRunning s"
  obtains h where "sendMsgOffset P t s = Inr (s\<lparr>timerRunning := True, bmCalls := h\<rparr>)"
    and "hw_commands h = hw_commands (bmCalls s) @ [t]"
  using assms that by (cases s) (simp add: sendMsgOffset_def start_offset_timer_def)

lemma signal_frame:
  obtains f i h where "signalChargeStateAll P s = s\<lparr>allFullyCharged := f, allInsufficientCharge := i, bmCalls := h\<rparr>"
    and "hw_commands h = hw_commands (bmCalls s)"
proof -
  define Q where "Q = (\<lambda>r. \<exists>f i h. r = s\<lparr>allFullyCharged := f, allInsufficientCharge := i, bmCalls := h\<rparr>
    \<and> hw_commands h = hw_commands (bmCalls s))"
  have Q: "Q r \<Longrightarrow> Q (r\<lparr>allFullyCharged := x\<rparr>)" "Q r \<Longrightarrow> Q (r\<lparr>allInsufficientCharge := y\<rparr>)"
    "Q r \<Longrightarrow> Q (snd (bm_send P SM_Server t None r))" for r :: battery_server and x y t
    by (cases s; force simp: Q_def)+
  have "Q s" unfolding Q_def
    by (rule exI [of _ "allFullyCharged s"], rule exI [of _ "allInsufficientCharge s"], rule exI [of _ "bmCalls s"]) simp
  then have "Q (signalChargeStateAll P s)"
    unfolding signalChargeStateAll_def
    by - (rule Let_prop [where Q = Q]; intro if_prop [where P = Q] Q)
  then show thesis using that by (auto simp: Q_def)
qed

lemma permit_needy:
  assumes "\<forall>b. needy (batteries s b)" and "\<not> chargingPermitted s" and "\<not> timerRunning s"
    and "hardwareMsgQLen s = 0"
  obtains f i h where "actionBatteryManagerChargingPermitted P True s = Inr ([],
      s\<lparr>chargingPermitted := True, insufficientChargeThreshold := 2000, timerRunning := True,
        hardwareMsgQ := (hardwareMsgQ s)[0 := 25, 1 := 28, 2 := 31], hardwareMsgQLen := 3,
        allFullyCharged := f, allInsufficientCharge := i, bmCalls := h\<rparr>)"
    and "hw_commands h = hw_commands (bmCalls s) @ [22]"
proof -
  let ?s1 = "s\<lparr>insufficientChargeThreshold := 2000, chargingPermitted := True\<rparr>"
  obtain h1 where h1: "sendMsgOffset P 22 ?s1 = Inr (?s1\<lparr>timerRunning := True, bmCalls := h1\<rparr>)"
    "hw_commands h1 = hw_commands (bmCalls ?s1) @ [22]"
    by (rule send_idle [of ?s1 P 22]) (use assms(3) in auto)
  let ?s2 = "?s1\<lparr>timerRunning := True, bmCalls := h1, hardwareMsgQ := (hardwareMsgQ s)[0 := 25, 1 := 28, 2 := 31],
    hardwareMsgQLen := 3\<rparr>"
  obtain f i h where sg: "signalChargeStateAll P ?s2 = ?s2\<lparr>allFullyCharged := f, allInsufficientCharge := i, bmCalls := h\<rparr>"
    "hw_commands h = hw_commands (bmCalls ?s2)"
    by (rule signal_frame)
  show thesis
    using assms h1 sg
    by (intro that [where f = f and i = i and h = h]; cases s)
     (simp_all add: actionBatteryManagerChargingPermitted_def setRioChargerStatus_def setO1ChargerStatus_def setO2ChargerStatus_def
      setO3ChargerStatus_def needy_charger send_queued threshold_def charge_defs
      flip: numeral_2_eq_2 numeral_3_eq_3)
qed

lemma forbid_needy:
  assumes "\<forall>b. needy (batteries s b)" and "chargingPermitted s" and "timerRunning s"
    and "hardwareMsgQLen s = 3"
  obtains f i h where "actionBatteryManagerChargingPermitted P False s = Inr ([],
      s\<lparr>chargingPermitted := False, insufficientChargeThreshold := 1800,
        hardwareMsgQ := (hardwareMsgQ s)[3 := 23, 4 := 26, 5 := 29, 6 := 32], hardwareMsgQLen := 7,
        allFullyCharged := f, allInsufficientCharge := i, bmCalls := h\<rparr>)"
    and "hw_commands h = hw_commands (bmCalls s)"
proof -
  let ?s2 = "s\<lparr>insufficientChargeThreshold := 1800, chargingPermitted := False,
    hardwareMsgQ := (hardwareMsgQ s)[3 := 23, 4 := 26, 5 := 29, 6 := 32], hardwareMsgQLen := 7\<rparr>"
  obtain f i h where sg: "signalChargeStateAll P ?s2 = ?s2\<lparr>allFullyCharged := f, allInsufficientCharge := i, bmCalls := h\<rparr>"
    "hw_commands h = hw_commands (bmCalls ?s2)"
    by (rule signal_frame)
  show thesis
    using assms sg
    by (intro that [where f = f and i = i and h = h]; cases s)
     (simp_all add: actionBatteryManagerChargingPermitted_def setRioChargerStatus_def setO1ChargerStatus_def setO2ChargerStatus_def
      setO3ChargerStatus_def needy_charger send_queued threshold_def charge_defs)
qed



text \<open>
  C6. Permission withdrawn, chargers on.  With all four batteries in need of charge, charging permitted and then, before
  the offset timer has expired, forbidden again: both requests are handled without a fault, and seven
  expiries later the queue is empty and charging is not permitted, but, the queue being read from its end, the last
  command that the chargers of O1, O2 and O3 have been sent is ON.
\<close>

theorem forbidden_chargers_left_on:
  assumes "\<forall>b. needy (batteries s b)" and "\<not> chargingPermitted s" and "\<not> timerRunning s"
    and "hardwareMsgQLen s = 0" and "length (hardwareMsgQ s) = 20"
  shows "\<exists>s1 s2. actionBatteryManagerChargingPermitted P True s = Inr ([], s1)
    \<and> actionBatteryManagerChargingPermitted P False s1 = Inr ([], s2)
    \<and> \<not> chargingPermitted (expiries P 7 s2) \<and> hardwareMsgQLen (expiries P 7 s2) = 0
    \<and> hw_commands (bmCalls (expiries P 7 s2)) = hw_commands (bmCalls s) @
        [HARDWARE_SET_RIO_BATTERY_CHARGER_ON,
         HARDWARE_SET_O3_BATTERY_CHARGER_OFF, HARDWARE_SET_O2_BATTERY_CHARGER_OFF,
         HARDWARE_SET_O1_BATTERY_CHARGER_OFF, HARDWARE_SET_RIO_BATTERY_CHARGER_OFF,
         HARDWARE_SET_O3_BATTERY_CHARGER_ON, HARDWARE_SET_O2_BATTERY_CHARGER_ON,
         HARDWARE_SET_O1_BATTERY_CHARGER_ON]"
proof -
  obtain f i h where s1: "actionBatteryManagerChargingPermitted P True s = Inr ([],
      s\<lparr>chargingPermitted := True, insufficientChargeThreshold := 2000, timerRunning := True,
        hardwareMsgQ := (hardwareMsgQ s)[0 := 25, 1 := 28, 2 := 31], hardwareMsgQLen := 3,
        allFullyCharged := f, allInsufficientCharge := i, bmCalls := h\<rparr>)" (is "_ = Inr ([], ?s1)")
    and h: "hw_commands h = hw_commands (bmCalls s) @ [22]"
    by (rule permit_needy [OF assms(1-4)])
  obtain f' i' h' where s2: "actionBatteryManagerChargingPermitted P False ?s1 = Inr ([],
      ?s1\<lparr>chargingPermitted := False, insufficientChargeThreshold := 1800,
        hardwareMsgQ := (hardwareMsgQ ?s1)[3 := 23, 4 := 26, 5 := 29, 6 := 32], hardwareMsgQLen := 7,
        allFullyCharged := f', allInsufficientCharge := i', bmCalls := h'\<rparr>)" (is "_ = Inr ([], ?s2)")
    and h': "hw_commands h' = hw_commands (bmCalls ?s1)"
    by (rule forbid_needy [of ?s1]) (use assms(1) in simp_all)
  have q: "take 7 (hardwareMsgQ ?s2) = [25, 28, 31, 23, 26, 29, 32]"
    using assms(5) by (auto simp: numeral_eq_Suc length_Suc_conv)
  have "chargingPermitted (expiries P n x) = chargingPermitted x" for n x
    by (induction n arbitrary: x) (simp_all add: actionBatteryManagerTimerExpiry_def Let_def start_offset_timer_def)
  then show ?thesis
    using s1 s2 expiries_lifo [of ?s2 7 P] assms(5) q h h' by (intro exI [of _ ?s1] exI [of _ ?s2]) simp
qed

definition all_needy :: battery_server where
  "all_needy = (bm_globals 0 zero_msg)
     \<lparr>batteries := (\<lambda>b. zero_container\<lparr>batteryStatus := (batteryStatus zero_container)
        \<lparr>insufficientCharge := True, chargerOn := True\<rparr>\<rparr>)\<rparr>"

theorem forbidden_chargers_left_on_witness:
  "\<exists>s1 s2. actionBatteryManagerChargingPermitted deaf_params True all_needy = Inr ([], s1)
    \<and> actionBatteryManagerChargingPermitted deaf_params False s1 = Inr ([], s2)
    \<and> \<not> chargingPermitted (expiries deaf_params 7 s2) \<and> hardwareMsgQLen (expiries deaf_params 7 s2) = 0
    \<and> hw_commands (bmCalls (expiries deaf_params 7 s2)) = hw_commands (bmCalls all_needy) @
        [HARDWARE_SET_RIO_BATTERY_CHARGER_ON,
         HARDWARE_SET_O3_BATTERY_CHARGER_OFF, HARDWARE_SET_O2_BATTERY_CHARGER_OFF,
         HARDWARE_SET_O1_BATTERY_CHARGER_OFF, HARDWARE_SET_RIO_BATTERY_CHARGER_OFF,
         HARDWARE_SET_O3_BATTERY_CHARGER_ON, HARDWARE_SET_O2_BATTERY_CHARGER_ON,
         HARDWARE_SET_O1_BATTERY_CHARGER_ON]"
  by (rule forbidden_chargers_left_on)
    (simp_all add: all_needy_def bm_globals_def needy_def zero_container_def temp_above_def temp_below_def temperature_defs)

end
