(* ===== verification/TaskHandler.thy ===== *)
theory TaskHandler
  imports World Rob_System
begin

section \<open>The task handler\<close>

text \<open>
  \<open>task_handler.c\<close>, \<open>hindbrain_direct_task_handler.c\<close>, \<open>motion_task_handler.c\<close> and
  \<open>task_handler_server.c\<close> of \<open>RoboOneTaskHandler/src\<close>: a doubly linked list of tasks on the heap.

  \<open>items\<close> is the heap: \<open>None\<close> at an address that is not allocated or has been freed.  Every access goes through
  \<open>item\<close>, which is \<open>Inl Bad_Access\<close> there, so a use after free is a fault of the model; an address is
  not handed out twice.  The root of the list, a static variable, is at address 0.  The result of a task,
  which only its item points at, is kept in the item.  \<open>guardCounter\<close> counts up to
  \<open>MAX_GUARD_COUNTER\<close> and is asserted to be below it after the loop; here it counts down, and 0 is the failed assertion.

  \<open>motion_task_protocol.h\<close> is not in the repository: the sizes that depend on it, the padding behind
  a Hindbrain indication and the code for a motion failure are fields of \<open>th_params\<close>.
\<close>

subsection \<open>Data\<close>

definition MAX_GUARD_COUNTER :: nat where "MAX_GUARD_COUNTER = 150"

definition TASK_PROTOCOL_HD :: u32 where "TASK_PROTOCOL_HD = 0"
definition TASK_PROTOCOL_MOTION :: u32 where "TASK_PROTOCOL_MOTION = 1"

definition HD_RESULT_SUCCESS :: u32 where "HD_RESULT_SUCCESS = 0"
definition HD_RESULT_GENERAL_FAILURE :: u32 where "HD_RESULT_GENERAL_FAILURE = 1"
definition HD_RESULT_SEND_FAILURE :: u32 where "HD_RESULT_SEND_FAILURE = 2"

definition MAX_LEN_HD_RESPONSE_STRING :: nat where "MAX_LEN_HD_RESPONSE_STRING = 30"

record task_req =
  headerPresent :: bool
  header :: task_req_header
  protocol :: u32
  detail :: "u8 list"

record task_ind =
  indHandle :: u8
  indProtocol :: u32
  indResult :: u32
  indStringLength :: u8
  indString :: "u8 list"

record task_item =
  pPreviousTask :: "nat option"
  pNextTask :: "nat option"
  taskCompleted :: bool
  task :: task_req
  pResult :: "task_ind option"

record th_server =
  items :: "nat \<Rightarrow> task_item option"
  nextAddr :: nat
  thCalls :: history

record th_params =
  thEnv :: env
  sizeofTaskItem :: nat
  sizeofTaskInd :: nat
  sizeofTaskReqBody :: nat
  indPadding :: "u8 list"
  motionGeneralFailure :: u32

text \<open>A request as it is packed into a message.\<close>

definition decode_task_req :: "nat \<Rightarrow> u8 list \<Rightarrow> task_req" where
  "decode_task_req sz bs =
     \<lparr>headerPresent = (bs ! 0 \<noteq> 0),
      header = \<lparr>handle = le32 (drop 1 bs), sourceServerPort = le32 (drop 5 bs),
                sourceServerIpAddressStringPresent = (bs ! 9 \<noteq> 0),
                sourceServerIpAddressString = map (\<lambda>b. char_of (unat b)) (takeWhile (\<lambda>b. b \<noteq> 0) (take 17 (drop 10 bs)))\<rparr>,
      protocol = le32 (drop 27 bs), detail = take sz (drop 31 bs)\<rparr>"

definition encode_task_ind :: "th_params \<Rightarrow> task_ind \<Rightarrow> u8 list" where
  "encode_task_ind P i =
     indHandle i # le_bytes32 (indProtocol i) @ le_bytes32 (indResult i) @ indStringLength i # indString i @ indPadding P"

text \<open>The fresh memory of an indication.\<close>

definition fresh_ind :: "u8 list \<Rightarrow> task_ind" where
  "fresh_ind mem =
     \<lparr>indHandle = mem ! 0, indProtocol = le32 (drop 1 mem), indResult = le32 (drop 5 mem), indStringLength = mem ! 9,
      indString = take 30 (drop 10 mem @ replicate 30 0)\<rparr>"

subsection \<open>Access to the items\<close>

definition root :: nat where "root = 0"

definition item :: "nat \<Rightarrow> th_server \<Rightarrow> fault + task_item" where
  "item a s = (case items s a of None \<Rightarrow> Inl Bad_Access | Some it \<Rightarrow> Inr it)"

definition set_item :: "nat \<Rightarrow> task_item \<Rightarrow> th_server \<Rightarrow> th_server" where
  "set_item a it s = s\<lparr>items := (items s)(a := Some it)\<rparr>"

definition upd_item :: "nat \<Rightarrow> (task_item \<Rightarrow> task_item) \<Rightarrow> th_server \<Rightarrow> fault + th_server" where
  "upd_item a f s = andthen (item a s) (\<lambda>it. Inr (set_item a (f it) s))"

definition free_item :: "nat \<Rightarrow> th_server \<Rightarrow> th_server" where
  "free_item a s = s\<lparr>items := (items s)(a := None)\<rparr>"

definition th_exec :: "th_params \<Rightarrow> call \<Rightarrow> th_server \<Rightarrow> reply \<times> th_server" where
  "th_exec P c s = (let (r, h) = run_state (exec (thEnv P) c) (thCalls s) in (r, s\<lparr>thCalls := h\<rparr>))"

definition initTaskItem :: "task_item \<Rightarrow> task_item" where
  "initTaskItem it = it\<lparr>pNextTask := None, pPreviousTask := None, taskCompleted := False, pResult := None\<rparr>"

subsection \<open>The list\<close>

fun find_last :: "nat \<Rightarrow> nat \<Rightarrow> th_server \<Rightarrow> fault + nat" where
  "find_last 0 t s = Inl Assert_Failed"
| "find_last (Suc n) t s =
     andthen (item t s) (\<lambda>it.
       case pNextTask it of None \<Rightarrow> Inr t | Some t' \<Rightarrow> find_last n t' s)"

definition addTaskToList :: "nat \<Rightarrow> th_server \<Rightarrow> fault + th_server" where
  "addTaskToList a s =
     andthen (item root s) (\<lambda>r.
     andthen (assert_that (pPreviousTask r = None)) (\<lambda>_.
     andthen (item a s) (\<lambda>it.
     andthen (assert_that (pPreviousTask it = None \<and> pNextTask it = None)) (\<lambda>_.
     andthen (find_last MAX_GUARD_COUNTER root s) (\<lambda>t.
     andthen (upd_item a (\<lambda>it. it\<lparr>pPreviousTask := Some t\<rparr>) s) (\<lambda>s1.
     upd_item t (\<lambda>it. it\<lparr>pNextTask := Some a\<rparr>) s1))))))"

text \<open>
  The loop of \<open>walkTaskList\<close>, statement by statement.  In the branch that keeps an item, \<open>pPrevious\<close>
  is set after \<open>pThis\<close> has been moved on, so it is the next item itself.
\<close>

definition to_be_removed :: "bool \<Rightarrow> bool \<Rightarrow> task_item \<Rightarrow> bool" where
  "to_be_removed removeUnusedTasks clearAllTasks it \<longleftrightarrow>
     (taskCompleted it \<and> pResult it = None \<and> removeUnusedTasks) \<or> clearAllTasks"

fun walk_loop :: "bool \<Rightarrow> bool \<Rightarrow> nat \<Rightarrow> nat option \<Rightarrow> nat option \<Rightarrow> nat \<Rightarrow> th_server \<Rightarrow> fault + (nat \<times> th_server)" where
  "walk_loop ru ca 0 pThis pPrevious cnt s = Inl Assert_Failed"
| "walk_loop ru ca (Suc n) None pPrevious cnt s = Inr (cnt, s)"
| "walk_loop ru ca (Suc n) (Some this) pPrevious cnt s =
     andthen (item this s) (\<lambda>it.
     if to_be_removed ru ca it then
       andthen (case pNextTask it of
                  None \<Rightarrow> Inr s
                | Some nx \<Rightarrow> upd_item nx (\<lambda>i. i\<lparr>pPreviousTask := pPreviousTask it\<rparr>) s) (\<lambda>s1.
       case pPrevious of
         None \<Rightarrow> Inl Bad_Access
       | Some pv \<Rightarrow>
           andthen (item this s1) (\<lambda>it1.
           andthen (upd_item pv (\<lambda>i. i\<lparr>pNextTask := pNextTask it1\<rparr>) s1) (\<lambda>s2.
           let s3 = free_item this s2
           in andthen (item pv s3) (\<lambda>p. walk_loop ru ca n (pNextTask p) pPrevious cnt s3))))
     else walk_loop ru ca n (pNextTask it) (pNextTask it) (cnt + 1) s)"

definition walkTaskList :: "bool \<Rightarrow> bool \<Rightarrow> th_server \<Rightarrow> fault + (nat \<times> th_server)" where
  "walkTaskList removeUnusedTasks clearAllTasks s =
     andthen (item root s) (\<lambda>r.
     andthen (assert_that (pPreviousTask r = None)) (\<lambda>_.
     walk_loop removeUnusedTasks clearAllTasks MAX_GUARD_COUNTER (pNextTask r) (Some root) 0 s))"

subsection \<open>Hindbrain and motion tasks\<close>

text \<open>The string that goes to the Hindbrain, in the fresh 80 bytes \<open>mem\<close>.\<close>

definition hd_input :: "u8 list \<Rightarrow> u8 list \<Rightarrow> u8 list" where
  "hd_input mem str =
     (let len = c_strlen str + 1
      in if len > MAX_O_STRING_LENGTH
         then take (MAX_O_STRING_LENGTH - 1) str @ [0]
         else take len str @ drop len mem)"

text \<open>What is copied from a response (80 bytes and a length) into the indication.\<close>

definition hd_output :: "u8 list \<Rightarrow> task_ind \<Rightarrow> task_ind" where
  "hd_output resp ind =
     (let len = unat (le32 (drop MAX_O_STRING_LENGTH resp));
          truncated = len > MAX_LEN_HD_RESPONSE_STRING;
          len' = (if truncated then MAX_LEN_HD_RESPONSE_STRING - 1 else len);
          str = (if truncated then resp[MAX_LEN_HD_RESPONSE_STRING - 1 := 0] else resp)
      in ind\<lparr>indString := take len' str @ drop len' (indString ind), indStringLength := of_nat len'\<rparr>)"

definition handleHDTaskReq ::
  "th_params \<Rightarrow> u8 list \<Rightarrow> task_ind \<Rightarrow> th_server \<Rightarrow> u32 \<times> task_ind \<times> th_server" where
  "handleHDTaskReq P str ind s =
     (let ind0 = ind\<lparr>indString := (indString ind)[0 := 0]\<rparr>;
          ((ok, mem), s1) = th_exec P (Malloc (1 + MAX_O_STRING_LENGTH)) s
      in if ok then
           (let ((ok, mem2), s2) = th_exec P (Malloc (MAX_O_STRING_LENGTH + 4)) s1
            in if ok then
                 (let ((sent, specs), s3) =
                        th_exec P (Call HW_Server HARDWARE_SEND_O_STRING
                          (Some (1 # hd_input (take MAX_O_STRING_LENGTH (drop 1 mem)) str))) s2;
                      resp = take MAX_O_STRING_LENGTH mem2 @ le_bytes32 (of_nat MAX_O_STRING_LENGTH)
                  in if sent then
                       (HD_RESULT_SUCCESS, hd_output (specs @ drop (length specs) resp) ind0, s3)
                     else (HD_RESULT_SEND_FAILURE, ind0, s3))
               else (HD_RESULT_GENERAL_FAILURE, ind0, s2))
         else (HD_RESULT_GENERAL_FAILURE, ind0, s1))"

definition handleMotionTaskReq :: "th_params \<Rightarrow> u32" where
  "handleMotionTaskReq P = motionGeneralFailure P"

definition doHDTask :: "th_params \<Rightarrow> nat \<Rightarrow> th_server \<Rightarrow> fault + (bool \<times> th_server)" where
  "doHDTask P a s =
     andthen (item a s) (\<lambda>it.
     andthen (assert_that (pResult it = None)) (\<lambda>_.
     let ((ok, mem), s1) = th_exec P (Malloc (sizeofTaskInd P)) s
     in if ok then
          (let ind = (fresh_ind mem)\<lparr>indProtocol := TASK_PROTOCOL_HD\<rparr>;
               (res, ind1, s2) = handleHDTaskReq P (detail (task it)) ind s1
           in andthen (upd_item a (\<lambda>i. i\<lparr>pResult := Some (ind1\<lparr>indResult := res\<rparr>)\<rparr>) s2) (\<lambda>s3. Inr (True, s3)))
        else Inr (False, s1)))"

definition doMotionTask :: "th_params \<Rightarrow> nat \<Rightarrow> th_server \<Rightarrow> fault + (bool \<times> th_server)" where
  "doMotionTask P a s =
     andthen (item a s) (\<lambda>it.
     andthen (assert_that (pResult it = None)) (\<lambda>_.
     let ((ok, mem), s1) = th_exec P (Malloc (sizeofTaskInd P)) s
     in if ok then
          (let ind = (fresh_ind mem)\<lparr>indProtocol := TASK_PROTOCOL_MOTION, indResult := handleMotionTaskReq P\<rparr>
           in andthen (upd_item a (\<lambda>i. i\<lparr>pResult := Some ind\<rparr>) s1) (\<lambda>s2. Inr (True, s2)))
        else Inr (False, s1)))"

text \<open>
  The indication goes to the port of the header, at its address or, if it has none, at the local one; the handle is narrowed
  to the 8 bits of the indication.
\<close>

definition doTaskCompleted :: "th_params \<Rightarrow> nat \<Rightarrow> th_server \<Rightarrow> fault + th_server" where
  "doTaskCompleted P a s =
     andthen (item a s) (\<lambda>it.
       case pResult it of
         None \<Rightarrow> Inr s
       | Some ind \<Rightarrow>
           if headerPresent (task it) then
             (let h = header (task it);
                  ind1 = ind\<lparr>indHandle := ucast (handle h)\<rparr>;
                  address = (if sourceServerIpAddressStringPresent h then sourceServerIpAddressString h else ''127.0.0.1'');
                  (_, s1) = th_exec P (Call (Requester (sourceServerPort h) address) TASK_HANDLER_TASK_IND
                              (Some (encode_task_ind P ind1))) s
              in upd_item a (\<lambda>i. i\<lparr>pResult := None\<rparr>) s1)
           else Inr s)"

subsection \<open>Operations\<close>

definition initTaskList :: "th_server \<Rightarrow> fault + th_server" where
  "initTaskList s = upd_item root initTaskItem s"

definition clearTaskList :: "th_server \<Rightarrow> fault + th_server" where
  "clearTaskList s = andthen (walkTaskList False True s) (\<lambda>(n, s'). Inr s')"

definition handleNewTaskReq :: "th_params \<Rightarrow> task_req \<Rightarrow> th_server \<Rightarrow> fault + (bool \<times> th_server)" where
  "handleNewTaskReq P req s =
     (let ((ok, mem), s1) = th_exec P (Malloc (sizeofTaskItem P)) s
      in if ok then
           (let a = nextAddr s1;
                it = \<lparr>pPreviousTask = None, pNextTask = None, taskCompleted = False, task = req, pResult = None\<rparr>;
                s2 = (set_item a (initTaskItem it) s1)\<lparr>nextAddr := a + 1\<rparr>
            in andthen (addTaskToList a s2) (\<lambda>s3. Inr (True, s3)))
         else Inr (False, s1))"

definition do_task :: "th_params \<Rightarrow> nat \<Rightarrow> th_server \<Rightarrow> fault + th_server" where
  "do_task P a s =
     andthen (item a s) (\<lambda>it.
       if taskCompleted it then Inr s
       else
         andthen
           (if protocol (task it) = TASK_PROTOCOL_HD then doHDTask P a s
            else if protocol (task it) = TASK_PROTOCOL_MOTION then doMotionTask P a s
            else Inl Assert_Failed)
           (\<lambda>(done, s1). upd_item a (\<lambda>i. i\<lparr>taskCompleted := done\<rparr>) s1))"

fun tick_tasks :: "th_params \<Rightarrow> nat \<Rightarrow> nat \<Rightarrow> th_server \<Rightarrow> fault + th_server" where
  "tick_tasks P 0 t s = Inl Assert_Failed"
| "tick_tasks P (Suc n) t s =
     andthen (item t s) (\<lambda>it.
       case pNextTask it of
         None \<Rightarrow> Inr s
       | Some t' \<Rightarrow>
           andthen (do_task P t' s) (\<lambda>s1.
           andthen (doTaskCompleted P t' s1) (\<lambda>s2. tick_tasks P n t' s2)))"

definition tickTaskHandler :: "th_params \<Rightarrow> th_server \<Rightarrow> fault + th_server" where
  "tickTaskHandler P s =
     andthen (item root s) (\<lambda>r.
     andthen (assert_that (pPreviousTask r = None)) (\<lambda>_.
     andthen (walkTaskList False False s) (\<lambda>(n, s1).
     andthen (tick_tasks P MAX_GUARD_COUNTER root s1) (\<lambda>s2.
     andthen (walkTaskList True False s2) (\<lambda>(m, s3). Inr s3)))))"

subsection \<open>The server\<close>

definition th_doAction ::
  "th_params \<Rightarrow> nat \<Rightarrow> u8 list \<Rightarrow> th_server \<Rightarrow> fault + (server_code \<times> bool \<times> th_server)" where
  "th_doAction P t body s =
     (if t = TASK_HANDLER_SERVER_START then
        andthen (initTaskList s) (\<lambda>s'. Inr (SERVER_SUCCESS_KEEP_RUNNING, True, s'))
      else if t = TASK_HANDLER_SERVER_STOP then
        andthen (clearTaskList s) (\<lambda>s'. Inr (SERVER_EXIT_NORMALLY, True, s'))
      else if t = TASK_HANDLER_NEW_TASK then
        andthen (handleNewTaskReq P (decode_task_req (sizeofTaskReqBody P) body) s)
          (\<lambda>(ok, s'). Inr (SERVER_SUCCESS_KEEP_RUNNING, ok, s'))
      else if t = TASK_HANDLER_TICK then
        andthen (tickTaskHandler P s) (\<lambda>s'. Inr (SERVER_SUCCESS_KEEP_RUNNING, True, s'))
      else Inl Assert_Failed)"

definition th_serverHandleMsg :: "th_params \<Rightarrow> th_server handler" where
  "th_serverHandleMsg P m reply s =
     andthen (assert_that (unat (msgType m) < MAX_NUM_TASK_HANDLER_MSGS)) (\<lambda>_.
     andthen (th_doAction P (unat (msgType m)) (msgBody m) s) (\<lambda>(code, success, s').
       Inr (code,
            reply\<lparr>msgType := msgType m, msgLength := msgLength reply + 1 + 1,
                  msgBody := (msgBody reply)[0 := (if success then 1 else 0)]\<rparr>, s')))"

end
