(* ===== verification/TaskHandler_Properties.thy ===== *)
theory TaskHandler_Properties
  imports TaskHandler
begin

section \<open>Properties of the task handler\<close>

text \<open>
  \<open>th_ok s as\<close>: the tasks of \<open>s\<close> are the items \<open>as\<close>, linked in this order behind the root, alive,
  and no address from \<open>nextAddr\<close> on is in use.  The lemmas follow the walk over such a list: it works while the
  items to be removed come first, and touches freed memory when one comes after an item that is kept.
\<close>

subsection \<open>Well-formed lists\<close>

fun tlist :: "(nat \<Rightarrow> task_item option) \<Rightarrow> nat \<Rightarrow> nat option \<Rightarrow> nat list \<Rightarrow> bool" where
  "tlist h p x [] \<longleftrightarrow> x = None"
| "tlist h p x (a # as) \<longleftrightarrow>
     x = Some a \<and> (\<exists>it. h a = Some it \<and> pPreviousTask it = Some p \<and> tlist h a (pNextTask it) as)"

definition th_ok :: "th_server \<Rightarrow> nat list \<Rightarrow> bool" where
  "th_ok s as \<longleftrightarrow>
     (\<exists>r. items s root = Some r \<and> pPreviousTask r = None \<and> tlist (items s) root (pNextTask r) as) \<and>
     distinct (root # as) \<and> (\<forall>a\<in>set (root # as). a < nextAddr s) \<and> (\<forall>a\<ge>nextAddr s. items s a = None)"

definition links :: "task_item \<Rightarrow> nat option \<times> nat option" where
  "links it = (pPreviousTask it, pNextTask it)"

lemma tlist_cong:
  "(\<And>a. a \<in> set as \<Longrightarrow> map_option links (h' a) = map_option links (h a)) \<Longrightarrow> tlist h' p x as = tlist h p x as"
proof (induction as arbitrary: p x)
  case (Cons a as)
  then have "map_option links (h' a) = map_option links (h a)" and "\<And>p x. tlist h' p x as = tlist h p x as"
    by auto
  then show ?case by (cases "h a"; cases "h' a") (auto simp: links_def)
qed simp

lemma tlist_upd [simp]: "a \<notin> set as \<Longrightarrow> tlist (h(a := i)) p x as = tlist h p x as"
  by (rule tlist_cong) auto

lemma tlist_alive: "tlist h p x as \<Longrightarrow> a \<in> set as \<Longrightarrow> \<exists>it. h a = Some it"
  by (induction as arbitrary: p x) auto

lemma item_simps [simp]: "items s a = Some it \<Longrightarrow> item a s = Inr it" "items s a = None \<Longrightarrow> item a s = Inl Bad_Access"
  by (simp_all add: item_def)

lemma upd_item_simp [simp]: "items s a = Some it \<Longrightarrow> upd_item a f s = Inr (set_item a (f it) s)"
  by (simp add: upd_item_def)

lemma set_item_simps [simp]:
  "items (set_item a it s) = (items s)(a := Some it)" "nextAddr (set_item a it s) = nextAddr s"
  "thCalls (set_item a it s) = thCalls s"
  by (simp_all add: set_item_def)

lemma free_item_simps [simp]:
  "items (free_item a s) = (items s)(a := None)" "nextAddr (free_item a s) = nextAddr s"
  "thCalls (free_item a s) = thCalls s"
  by (simp_all add: free_item_def)

subsection \<open>The walk\<close>

definition removable :: "bool \<Rightarrow> bool \<Rightarrow> th_server \<Rightarrow> nat \<Rightarrow> bool" where
  "removable ru ca s a \<longleftrightarrow> (\<exists>it. items s a = Some it \<and> to_be_removed ru ca it)"

lemma walk_keeps:
  assumes "tlist (items s) p x as" and "\<forall>a\<in>set as. \<not> removable ru ca s a" and "length as < n"
  shows "walk_loop ru ca n x pv cnt s = Inr (cnt + length as, s)"
  using assms
proof (induction as arbitrary: p x n pv cnt)
  case Nil
  then show ?case by (cases n) auto
next
  case (Cons a as)
  then obtain it m where "items s a = Some it" "x = Some a" "n = Suc m" "\<not> to_be_removed ru ca it"
    "tlist (items s) a (pNextTask it) as" by (cases n) (auto simp: removable_def)
  with Cons show ?case by simp
qed

text \<open>An item to be removed behind one that is kept.\<close>

lemma walk_use_after_free:
  assumes "tlist (items s) p x (ks @ a # zs)" and "\<forall>k\<in>set ks. \<not> removable ru ca s k" and "removable ru ca s a"
    and "distinct (ks @ a # zs)" and "length ks < n" and "ks = [] \<longrightarrow> pv = Some a"
  shows "walk_loop ru ca n x pv cnt s = Inl Bad_Access"
  using assms
proof (induction ks arbitrary: p x n pv cnt)
  case Nil
  then obtain it m where it: "items s a = Some it" "x = Some a" "n = Suc m" "to_be_removed ru ca it"
    "tlist (items s) a (pNextTask it) zs" by (cases n) (auto simp: removable_def)
  show ?case
  proof (cases zs)
    case Nil
    with it \<open>[] = [] \<longrightarrow> pv = Some a\<close> show ?thesis by (simp add: Let_def)
  next
    case (Cons z zs')
    with it(5) obtain zt where "pNextTask it = Some z" "items s z = Some zt" by auto
    with it Nil.prems(4,6) Cons show ?thesis by (simp add: Let_def)
  qed
next
  case (Cons k ks)
  then obtain it m where it: "items s k = Some it" "x = Some k" "n = Suc m" "\<not> to_be_removed ru ca it"
    "tlist (items s) k (pNextTask it) (ks @ a # zs)" by (cases n) (auto simp: removable_def)
  moreover have "ks = [] \<longrightarrow> pNextTask it = Some a" using it(5) by auto
  ultimately show ?case using Cons by simp
qed

text \<open>Removing the first item behind the root.\<close>

definition unlink_first :: "nat \<Rightarrow> th_server \<Rightarrow> th_server \<Rightarrow> bool" where
  "unlink_first a s s' \<longleftrightarrow>
     (\<forall>b. b \<noteq> a \<longrightarrow> map_option (\<lambda>i. (taskCompleted i, task i, pResult i)) (items s' b)
                  = map_option (\<lambda>i. (taskCompleted i, task i, pResult i)) (items s b)) \<and>
     thCalls s' = thCalls s"

lemma walk_first:
  assumes "th_ok s (a # as)" and "removable ru ca s a"
  obtains s' where "\<And>n cnt. walk_loop ru ca (Suc n) (Some a) (Some root) cnt s
      = walk_loop ru ca n (case as of [] \<Rightarrow> None | b # _ \<Rightarrow> Some b) (Some root) cnt s'"
    and "th_ok s' as" and "unlink_first a s s'"
proof -
  obtain r it where r: "items s root = Some r" "pPreviousTask r = None" "pNextTask r = Some a"
    and it: "items s a = Some it" "pPreviousTask it = Some root" "tlist (items s) a (pNextTask it) as"
      "to_be_removed ru ca it"
    and dist: "a \<noteq> root" "root \<notin> set as" "a \<notin> set as" "distinct as"
    and addr: "root < nextAddr s" "a < nextAddr s" "\<forall>b\<in>set as. b < nextAddr s" "\<forall>b\<ge>nextAddr s. items s b = None"
    using assms by (auto simp: th_ok_def removable_def)
  show thesis
  proof (cases as)
    case Nil
    let ?s = "free_item a (set_item root (r\<lparr>pNextTask := None\<rparr>) s)"
    have "th_ok ?s as" using r dist addr Nil by (auto simp: th_ok_def)
    moreover have "unlink_first a s ?s" using r by (auto simp: unlink_first_def)
    ultimately show thesis
      using r it dist Nil by (intro that [of ?s]) (simp_all add: Let_def)
  next
    case (Cons b bs)
    with it obtain bt where b: "items s b = Some bt" "pNextTask it = Some b" "tlist (items s) b (pNextTask bt) bs"
      by auto
    let ?s = "free_item a (set_item root (r\<lparr>pNextTask := Some b\<rparr>) (set_item b (bt\<lparr>pPreviousTask := Some root\<rparr>) s))"
    have "th_ok ?s as" using r dist addr Cons b by (auto simp: th_ok_def)
    moreover have "unlink_first a s ?s" using r b by (auto simp: unlink_first_def)
    ultimately show thesis
      using r it dist Cons b by (intro that [of ?s]) (simp_all add: Let_def)
  qed
qed

lemma unlink_first_removable:
  "unlink_first a s s' \<Longrightarrow> b \<noteq> a \<Longrightarrow> removable ru ca s' b = removable ru ca s b"
  unfolding unlink_first_def removable_def to_be_removed_def
  by (cases "items s b"; cases "items s' b") force+

text \<open>The walk over removable items followed by others: the first ones go.\<close>

lemma walk_prefix:
  assumes "th_ok s (rs @ as)" and "\<forall>a\<in>set rs. removable ru ca s a" and "length rs < n"
  shows "\<exists>s'. walk_loop ru ca n (case rs @ as of [] \<Rightarrow> None | b # _ \<Rightarrow> Some b) (Some root) cnt s
      = walk_loop ru ca (n - length rs) (case as of [] \<Rightarrow> None | b # _ \<Rightarrow> Some b) (Some root) cnt s'
    \<and> th_ok s' as \<and> (\<forall>a\<in>set as. removable ru ca s' a = removable ru ca s a)"
  using assms
proof (induction rs arbitrary: s n)
  case (Cons a rs)
  then obtain m where n: "n = Suc m" by (cases n) auto
  have ok: "th_ok s (a # rs @ as)" and rem: "removable ru ca s a" using Cons.prems by auto
  then have new: "b \<noteq> a" if "b \<in> set (rs @ as)" for b using that by (auto simp: th_ok_def)
  obtain s1 where s1: "\<And>n cnt. walk_loop ru ca (Suc n) (Some a) (Some root) cnt s
      = walk_loop ru ca n (case rs @ as of [] \<Rightarrow> None | b # _ \<Rightarrow> Some b) (Some root) cnt s1"
    "th_ok s1 (rs @ as)" "unlink_first a s s1"
    by (rule walk_first [OF ok rem]) blast
  have same: "removable ru ca s1 b = removable ru ca s b" if "b \<in> set (rs @ as)" for b
    using unlink_first_removable [OF s1(3) new [OF that]] .
  then have "\<forall>b\<in>set rs. removable ru ca s1 b" using Cons.prems(2) by simp
  from Cons.IH [OF s1(2) this, of m] Cons.prems(3) n obtain s' where
    "walk_loop ru ca m (case rs @ as of [] \<Rightarrow> None | b # _ \<Rightarrow> Some b) (Some root) cnt s1
      = walk_loop ru ca (m - length rs) (case as of [] \<Rightarrow> None | b # _ \<Rightarrow> Some b) (Some root) cnt s'"
    "th_ok s' as" "\<forall>a\<in>set as. removable ru ca s' a = removable ru ca s1 a"
    by auto
  with n s1(1) same show ?case by auto
qed auto

lemma th_okE:
  assumes "th_ok s as"
  obtains r where "items s root = Some r" and "pPreviousTask r = None"
    and "pNextTask r = (case as of [] \<Rightarrow> None | a # _ \<Rightarrow> Some a)" and "tlist (items s) root (pNextTask r) as"
    and "distinct as"
  using assms by (cases as) (auto simp: th_ok_def)

lemma walkTaskList_ok:
  assumes "th_ok s (rs @ ks)" and "\<forall>a\<in>set rs. removable ru ca s a" and "\<forall>a\<in>set ks. \<not> removable ru ca s a"
    and "length (rs @ ks) < MAX_GUARD_COUNTER"
  shows "\<exists>s'. walkTaskList ru ca s = Inr (length ks, s') \<and> th_ok s' ks"
proof -
  obtain r where r: "items s root = Some r" "pPreviousTask r = None"
    "pNextTask r = (case rs @ ks of [] \<Rightarrow> None | a # _ \<Rightarrow> Some a)"
    by (rule th_okE [OF assms(1)])
  have "length rs < MAX_GUARD_COUNTER" using assms(4) by simp
  from walk_prefix [OF assms(1,2) this, of 0] obtain s' where
    s': "walk_loop ru ca MAX_GUARD_COUNTER (pNextTask r) (Some root) 0 s
      = walk_loop ru ca (MAX_GUARD_COUNTER - length rs) (case ks of [] \<Rightarrow> None | b # _ \<Rightarrow> Some b) (Some root) 0 s'"
    "th_ok s' ks" "\<forall>a\<in>set ks. removable ru ca s' a = removable ru ca s a"
    unfolding r(3) by blast
  obtain r' where r': "items s' root = Some r'" "pNextTask r' = (case ks of [] \<Rightarrow> None | a # _ \<Rightarrow> Some a)" "tlist (items s') root (pNextTask r') ks"
    by (rule th_okE [OF s'(2)])
  have "walk_loop ru ca (MAX_GUARD_COUNTER - length rs) (pNextTask r') (Some root) 0 s' = Inr (length ks, s')"
    using walk_keeps [OF r'(3), of ru ca "MAX_GUARD_COUNTER - length rs" "Some root" 0] assms(3,4) s'(3) by auto
  with s' r r'(2) show ?thesis by (simp add: walkTaskList_def)
qed

lemma walkTaskList_faults:
  assumes "th_ok s (rs @ k # ks @ a # zs)" and "\<forall>b\<in>set rs. removable ru ca s b"
    and "\<forall>b\<in>set (k # ks). \<not> removable ru ca s b" and "removable ru ca s a"
    and "length rs + length ks + 1 < MAX_GUARD_COUNTER"
  shows "walkTaskList ru ca s = Inl Bad_Access"
proof -
  let ?as = "k # ks @ a # zs"
  obtain r where r: "items s root = Some r" "pPreviousTask r = None"
    "pNextTask r = (case rs @ ?as of [] \<Rightarrow> None | a # _ \<Rightarrow> Some a)"
    by (rule th_okE [OF assms(1)])
  have "length rs < MAX_GUARD_COUNTER" using assms(5) by simp
  from walk_prefix [OF assms(1,2) this, of 0] obtain s' where
    s': "walk_loop ru ca MAX_GUARD_COUNTER (pNextTask r) (Some root) 0 s
      = walk_loop ru ca (MAX_GUARD_COUNTER - length rs) (Some k) (Some root) 0 s'"
    "th_ok s' ?as" "\<forall>b\<in>set ?as. removable ru ca s' b = removable ru ca s b"
    unfolding r(3) by auto
  obtain r' where r': "items s' root = Some r'" "pNextTask r' = (case ?as of [] \<Rightarrow> None | a # _ \<Rightarrow> Some a)"
    "tlist (items s') root (pNextTask r') ?as" "distinct ?as"
    by (rule th_okE [OF s'(2)])
  have l: "tlist (items s') root (Some k) ((k # ks) @ a # zs)" "distinct ((k # ks) @ a # zs)"
    using r' by simp_all
  have "walk_loop ru ca (MAX_GUARD_COUNTER - length rs) (Some k) (Some root) 0 s' = Inl Bad_Access"
    by (rule walk_use_after_free [OF l(1) _ _ l(2)]) (use s'(3) assms(3-5) in auto)
  with s' r show ?thesis by (simp add: walkTaskList_def)
qed

subsection \<open>Adding a task\<close>

lemma find_last_ok:
  assumes "tlist (items s) t (pNextTask it) as" and "items s t = Some it" and "length as < n"
  shows "find_last n t s = Inr (last (t # as))"
  using assms
proof (induction as arbitrary: t it n)
  case Nil
  then show ?case by (cases n) auto
next
  case (Cons a as)
  then obtain m at where "n = Suc m" "items s a = Some at" "pNextTask it = Some a" "tlist (items s) a (pNextTask at) as"
    by (cases n) auto
  with Cons show ?case by simp
qed

lemma find_last_full:
  "tlist (items s) t (pNextTask it) as \<Longrightarrow> items s t = Some it \<Longrightarrow> n \<le> length as \<Longrightarrow>
   find_last n t s = Inl Assert_Failed"
proof (induction as arbitrary: t it n)
  case (Cons a as)
  show ?case
  proof (cases n)
    case (Suc m)
    with Cons obtain at where "items s a = Some at" "pNextTask it = Some a" "tlist (items s) a (pNextTask at) as" by auto
    with Cons Suc show ?thesis by simp
  qed simp
qed simp

lemma tlist_snoc:
  assumes "tlist h p x as" and "distinct as" and "a \<notin> set as" and "as \<noteq> []"
    and "h (last as) = Some lt" and "h' = h(a := Some it, last as := Some (lt\<lparr>pNextTask := Some a\<rparr>))"
    and "pPreviousTask it = Some (last as)" and "pNextTask it = None"
  shows "tlist h' p x (as @ [a])"
  using assms
proof (induction as arbitrary: p x)
  case (Cons b as)
  show ?case
  proof (cases as)
    case Nil
    with Cons.prems show ?thesis by auto
  next
    case (Cons c cs)
    with Cons.prems have "tlist h' b (pNextTask (the (h b))) (as @ [a])"
      by (intro Cons.IH) auto
    moreover have "h' b = h b" using Cons.prems Cons by auto
    ultimately show ?thesis using Cons.prems Cons by auto
  qed
qed simp

text \<open>What the clients of a task see of its item: whether it is completed, the request and the result.\<close>

definition view :: "th_server \<Rightarrow> nat \<Rightarrow> (bool \<times> task_req \<times> task_ind option) option" where
  "view s a = map_option (\<lambda>i. (taskCompleted i, task i, pResult i)) (items s a)"

definition new_item :: "task_req \<Rightarrow> task_item" where
  "new_item req = \<lparr>pPreviousTask = None, pNextTask = None, taskCompleted = False, task = req, pResult = None\<rparr>"

lemma addTaskToList_ok:
  assumes "th_ok s as" and "length as < MAX_GUARD_COUNTER"
    and "s2 = (set_item (nextAddr s) (new_item req) s)\<lparr>nextAddr := nextAddr s + 1\<rparr>"
  shows "\<exists>s'. addTaskToList (nextAddr s) s2 = Inr s' \<and> th_ok s' (as @ [nextAddr s]) \<and> thCalls s' = thCalls s2
    \<and> map (view s') (as @ [nextAddr s]) = map (view s) as @ [Some (False, req, None)]"
proof -
  let ?a = "nextAddr s"
  obtain r where r: "items s root = Some r" "pPreviousTask r = None" "tlist (items s) root (pNextTask r) as"
    and dist: "distinct as"
    by (rule th_okE [OF assms(1)])
  have fresh: "?a \<notin> set (root # as)" "root < ?a" "root \<notin> set as" and addr: "\<forall>b\<in>set as. b < ?a" "\<forall>b\<ge>?a. items s b = None"
    using assms(1) by (auto simp: th_ok_def)
  have it2: "items s2 = (items s)(?a := Some (new_item req))" "nextAddr s2 = Suc ?a"
    by (simp_all add: assms(3))
  have l2: "tlist (items s2) root (pNextTask r) as" and r2: "items s2 root = Some r"
    using r fresh by (simp_all add: it2)
  have last: "find_last MAX_GUARD_COUNTER root s2 = Inr (last (root # as))"
    by (rule find_last_ok [OF l2 r2 assms(2)])
  have links: "pPreviousTask (new_item req) = None" "pNextTask (new_item req) = None"
    by (simp_all add: new_item_def)
  let ?new = "(new_item req)\<lparr>pPreviousTask := Some (last (root # as))\<rparr>"
  show ?thesis
  proof (cases "as = []")
    case True
    let ?s = "set_item root (r\<lparr>pNextTask := Some ?a\<rparr>) (set_item ?a ?new s2)"
    have "addTaskToList ?a s2 = Inr ?s"
      using r2 r(2) last links True fresh by (simp add: addTaskToList_def it2)
    moreover have "th_ok ?s [?a]"
      using fresh addr True by (auto simp: th_ok_def it2 new_item_def r(2))
    moreover have "view ?s ?a = Some (False, req, None)"
      using fresh by (simp add: view_def new_item_def)
    ultimately show ?thesis using True by (intro exI [of _ ?s]) (simp add: assms(3))
  next
    case False
    then obtain lt where lt: "items s (last as) = Some lt" using tlist_alive [OF r(3)] by (meson last_in_set)
    have ne: "last as \<noteq> ?a" "last as \<noteq> root" using False fresh last_in_set by (metis list.set_intros(2))+
    have la: "last as < ?a" using False addr(1) by simp
    let ?s = "set_item (last as) (lt\<lparr>pNextTask := Some ?a\<rparr>) (set_item ?a ?new s2)"
    have run: "addTaskToList ?a s2 = Inr ?s"
      using r2 r(2) last links False lt ne by (simp add: addTaskToList_def it2)
    have "tlist (items ?s) root (pNextTask r) (as @ [?a])"
      using fresh dist False lt by (intro tlist_snoc [OF r(3), where lt = lt and it = ?new]) (auto simp: it2 new_item_def)
    moreover have "items ?s b = None" if "nextAddr ?s \<le> b" for b
    proof -
      have "b \<noteq> ?a" "b \<noteq> last as" "?a \<le> b" using that la by (auto simp: it2)
      then show ?thesis using addr(2) by (simp add: it2)
    qed
    moreover have "\<forall>b\<in>set (root # as @ [?a]). b < nextAddr ?s"
      using fresh addr(1) by (auto simp: it2 less_Suc_eq)
    ultimately have "th_ok ?s (as @ [?a])"
      using r(1,2) fresh dist ne by (simp add: th_ok_def it2)
    moreover have "view ?s b = view s b" if "b \<in> set as" for b
      using that fresh lt by (auto simp: view_def it2)
    moreover have "view ?s ?a = Some (False, req, None)"
      using ne by (simp add: view_def new_item_def)
    ultimately show ?thesis using run by (intro exI [of _ ?s]) (simp add: assms(3))
  qed
qed

lemma addTaskToList_full:
  assumes "th_ok s as" and "MAX_GUARD_COUNTER \<le> length as"
    and "s2 = (set_item (nextAddr s) (new_item req) s)\<lparr>nextAddr := nextAddr s + 1\<rparr>"
  shows "addTaskToList (nextAddr s) s2 = Inl Assert_Failed"
proof -
  obtain r where r: "items s root = Some r" "pPreviousTask r = None" "tlist (items s) root (pNextTask r) as"
    by (rule th_okE [OF assms(1)])
  have fresh: "nextAddr s \<notin> set (root # as)" using assms(1) by (auto simp: th_ok_def)
  have "items s2 root = Some r" "tlist (items s2) root (pNextTask r) as"
    using r fresh by (simp_all add: assms(3))
  with find_last_full [OF this(2,1) assms(2)] r(2) show ?thesis
    by (simp add: addTaskToList_def assms(3) new_item_def)
qed

lemma th_exec_simps [simp]:
  "th_exec P c s = (thEnv P (thCalls s) c, s\<lparr>thCalls := thCalls s @ [(c, thEnv P (thCalls s) c)]\<rparr>)"
  by (simp add: th_exec_def)

lemma th_ok_calls [simp]: "th_ok (s\<lparr>thCalls := h\<rparr>) as = th_ok s as"
  by (simp add: th_ok_def)

lemma view_calls [simp]: "view (s\<lparr>thCalls := h\<rparr>) = view s"
  by (simp add: view_def fun_eq_iff)

text \<open>
  A new task: if there is memory for it and fewer than 150 tasks are in the list, it is appended to them, not
  completed and without a result, and the others are left as they are; with 150 tasks the
  handler ends in the guard's assertion; without memory the list is unchanged and false is returned.
\<close>

theorem new_task_appended:
  assumes "th_ok s as"
  shows "case handleNewTaskReq P req s of
      Inl e \<Rightarrow> e = Assert_Failed \<and> 150 \<le> length as
    | Inr (ok, s') \<Rightarrow>
        if ok then length as < 150 \<and> th_ok s' (as @ [nextAddr s])
                \<and> map (view s') (as @ [nextAddr s]) = map (view s) as @ [Some (False, req, None)]
        else th_ok s' as \<and> map (view s') as = map (view s) as"
proof -
  obtain ok mem where m: "thEnv P (thCalls s) (Malloc (sizeofTaskItem P)) = (ok, mem)" by fastforce
  let ?s1 = "s\<lparr>thCalls := thCalls s @ [(Malloc (sizeofTaskItem P), (ok, mem))]\<rparr>"
  have ok1: "th_ok ?s1 as" using assms by simp
  have init: "initTaskItem \<lparr>pPreviousTask = None, pNextTask = None, taskCompleted = False, task = req, pResult = None\<rparr>
      = new_item req"
    by (simp add: initTaskItem_def new_item_def)
  show ?thesis
  proof (cases ok)
    case False
    with m assms show ?thesis by (simp add: handleNewTaskReq_def Let_def)
  next
    case True
    show ?thesis
    proof (cases "length as < MAX_GUARD_COUNTER")
      case fits: True
      from addTaskToList_ok [OF ok1 fits refl, of req] show ?thesis
        using True m fits by (auto simp: handleNewTaskReq_def Let_def init MAX_GUARD_COUNTER_def)
    next
      case False
      then have "MAX_GUARD_COUNTER \<le> length as" by simp
      from addTaskToList_full [OF ok1 this refl, of req] show ?thesis
        using True m False by (simp add: handleNewTaskReq_def Let_def init MAX_GUARD_COUNTER_def)
    qed
  qed
qed

definition no_tasks :: th_server where
  "no_tasks = \<lparr>items = [root \<mapsto> new_item \<lparr>headerPresent = False,
       header = \<lparr>handle = 0, sourceServerPort = 0, sourceServerIpAddressStringPresent = False,
                 sourceServerIpAddressString = []\<rparr>, protocol = 0, detail = []\<rparr>],
     nextAddr = 1, thCalls = []\<rparr>"

lemma no_tasks_ok: "th_ok no_tasks []"
  by (simp add: th_ok_def no_tasks_def new_item_def root_def)

definition hd_req :: "bool \<Rightarrow> task_req" where
  "hd_req present = \<lparr>headerPresent = present,
     header = \<lparr>handle = 7, sourceServerPort = 5300, sourceServerIpAddressStringPresent = False,
               sourceServerIpAddressString = []\<rparr>, protocol = TASK_PROTOCOL_HD, detail = [33, 10, 0]\<rparr>"

definition th_demo :: th_params where
  "th_demo = \<lparr>thEnv = (\<lambda>h c. (True, replicate 84 0)), sizeofTaskItem = 88, sizeofTaskInd = 40, sizeofTaskReqBody = 35,
              indPadding = [], motionGeneralFailure = 1\<rparr>"

theorem new_task_appended_witness:
  "case handleNewTaskReq th_demo (hd_req True) no_tasks of
      Inl e \<Rightarrow> e = Assert_Failed \<and> 150 \<le> length ([] :: nat list)
    | Inr (ok, s') \<Rightarrow>
        if ok then length ([] :: nat list) < 150 \<and> th_ok s' ([] @ [nextAddr no_tasks])
                \<and> map (view s') ([] @ [nextAddr no_tasks]) = map (view no_tasks) [] @ [Some (False, hd_req True, None)]
        else th_ok s' [] \<and> map (view s') [] = map (view no_tasks) []"
  by (rule new_task_appended [OF no_tasks_ok])

subsection \<open>A tick\<close>

definition item_ok :: "task_item \<Rightarrow> bool" where
  "item_ok it \<longleftrightarrow>
     (if taskCompleted it then pResult it = None \<longleftrightarrow> headerPresent (task it) else pResult it = None) \<and>
     (protocol (task it) = TASK_PROTOCOL_HD \<or> protocol (task it) = TASK_PROTOCOL_MOTION)"

definition finished :: "task_item \<Rightarrow> bool" where
  "finished it \<longleftrightarrow> taskCompleted it \<and> (pResult it = None \<longleftrightarrow> headerPresent (task it))"

definition memory_available :: "th_params \<Rightarrow> bool" where
  "memory_available P \<longleftrightarrow> (\<forall>h n. fst (thEnv P h (Malloc n)))"

lemma handleHDTaskReq_frame:
  assumes "handleHDTaskReq P str ind s = (res, ind', s')"
  shows "items s' = items s" "nextAddr s' = nextAddr s"
  using assms by (auto simp: handleHDTaskReq_def Let_def split: prod.splits if_splits)

text \<open>One task of the loop: done, if it was not, and its indication sent.\<close>

lemma do_and_complete:
  assumes "memory_available P" and "items s a = Some it" and "item_ok it"
  obtains s1 s2 it' where "do_task P a s = Inr s1" and "doTaskCompleted P a s1 = Inr s2"
    and "items s2 = (items s)(a := Some it')" and "links it' = links it" and "task it' = task it" and "finished it'"
    and "nextAddr s2 = nextAddr s"
proof -
  have "\<exists>s1 it1. do_task P a s = Inr s1 \<and> items s1 = (items s)(a := Some it1) \<and> nextAddr s1 = nextAddr s
      \<and> links it1 = links it \<and> task it1 = task it \<and> taskCompleted it1 \<and> (\<not> headerPresent (task it) \<longrightarrow> pResult it1 \<noteq> None)"
  proof (cases "taskCompleted it")
    case True
    with assms(2,3) show ?thesis by (intro exI [of _ s] exI [of _ it]) (auto simp: do_task_def item_ok_def)
  next
    case False
    then have res: "pResult it = None" using assms(3) by (simp add: item_ok_def)
    obtain mem where m: "thEnv P (thCalls s) (Malloc (sizeofTaskInd P)) = (True, mem)"
      using assms(1) by (metis memory_available_def prod.collapse)
    let ?s1 = "s\<lparr>thCalls := thCalls s @ [(Malloc (sizeofTaskInd P), (True, mem))]\<rparr>"
    show ?thesis
    proof (cases "protocol (task it) = TASK_PROTOCOL_HD")
      case True
      obtain r i s2 where hd: "handleHDTaskReq P (detail (task it)) ((fresh_ind mem)\<lparr>indProtocol := TASK_PROTOCOL_HD\<rparr>) ?s1
          = (r, i, s2)" by (cases rule: prod_cases3) blast
      note f = handleHDTaskReq_frame [OF hd]
      show ?thesis
        using assms(2) False res m True hd f
        by (simp add: do_task_def doHDTask_def Let_def links_def)
          (rule exI [of _ "it\<lparr>pResult := Some (i\<lparr>indResult := r\<rparr>), taskCompleted := True\<rparr>"], simp)
    next
      case mp: False
      then have "protocol (task it) = TASK_PROTOCOL_MOTION" using assms(3) by (simp add: item_ok_def)
      with assms(2) False res m mp show ?thesis
        by (simp add: do_task_def doMotionTask_def Let_def links_def)
          (rule exI [of _ "it\<lparr>pResult := Some ((fresh_ind mem)\<lparr>indProtocol := TASK_PROTOCOL_MOTION,
              indResult := handleMotionTaskReq P\<rparr>), taskCompleted := True\<rparr>"], simp)
    qed
  qed
  then obtain s1 it1 where s1: "do_task P a s = Inr s1" "items s1 = (items s)(a := Some it1)" "nextAddr s1 = nextAddr s"
    "links it1 = links it" "task it1 = task it" "taskCompleted it1" "\<not> headerPresent (task it) \<longrightarrow> pResult it1 \<noteq> None"
    by blast
  show thesis
  proof (cases "pResult it1 = None \<or> \<not> headerPresent (task it)")
    case True
    then have "doTaskCompleted P a s1 = Inr s1"
      using s1 by (auto simp: doTaskCompleted_def split: option.splits)
    with s1 True show thesis by (intro that [of s1 s1 it1]) (auto simp: finished_def)
  next
    case False
    then obtain ind where "pResult it1 = Some ind" by auto
    with False s1 have "\<exists>s2. doTaskCompleted P a s1 = Inr s2 \<and> nextAddr s2 = nextAddr s
        \<and> items s2 = (items s)(a := Some (it1\<lparr>pResult := None\<rparr>))"
      by (simp add: doTaskCompleted_def Let_def)
    then obtain s2 where s2: "doTaskCompleted P a s1 = Inr s2" "nextAddr s2 = nextAddr s"
      "items s2 = (items s)(a := Some (it1\<lparr>pResult := None\<rparr>))" by blast
    show thesis
      using False s1(4-6) s2(2) by (intro that [OF s1(1) s2(1,3)]) (simp_all add: finished_def links_def)
  qed
qed

lemma tick_tasks_ok:
  assumes "memory_available P" and "tlist (items s) t (pNextTask it) as" and "items s t = Some it"
    and "distinct (t # as)" and "\<forall>a\<in>set as. \<forall>i. items s a = Some i \<longrightarrow> item_ok i" and "length as < n"
  shows "\<exists>s'. tick_tasks P n t s = Inr s' \<and> nextAddr s' = nextAddr s
    \<and> (\<forall>a. map_option links (items s' a) = map_option links (items s a)
         \<and> map_option task (items s' a) = map_option task (items s a))
    \<and> (\<forall>a\<in>set as. \<exists>i. items s' a = Some i \<and> finished i) \<and> (\<forall>a. a \<notin> set as \<longrightarrow> items s' a = items s a)"
  using assms(2-)
proof (induction as arbitrary: s t it n)
  case Nil
  then show ?case by (cases n) auto
next
  case (Cons a as)
  then obtain m at where n: "n = Suc m" "length as < m" and a: "items s a = Some at" "pNextTask it = Some a"
    "tlist (items s) a (pNextTask at) as" by (cases n) auto
  have "item_ok at" using Cons.prems(4) a(1) by auto
  from do_and_complete [OF assms(1) a(1) this] obtain s1 s2 at' where
    st: "do_task P a s = Inr s1" "doTaskCompleted P a s1 = Inr s2" "items s2 = (items s)(a := Some at')"
    "links at' = links at" "task at' = task at" "finished at'" "nextAddr s2 = nextAddr s"
    by metis
  have "tlist (items s2) a (pNextTask at') as"
    using a(3) Cons.prems(3) st(3,4) by (simp add: links_def)
  moreover have "\<forall>b\<in>set as. \<forall>i. items s2 b = Some i \<longrightarrow> item_ok i"
    using Cons.prems(3,4) st(3) by auto
  moreover have "items s2 a = Some at'" "distinct (a # as)" using st(3) Cons.prems(3) by auto
  ultimately obtain s' where s': "tick_tasks P m a s2 = Inr s'" "nextAddr s' = nextAddr s2"
    "\<forall>b. map_option links (items s' b) = map_option links (items s2 b)
         \<and> map_option task (items s' b) = map_option task (items s2 b)"
    "\<forall>b\<in>set as. \<exists>i. items s' b = Some i \<and> finished i" "\<forall>b. b \<notin> set as \<longrightarrow> items s' b = items s2 b"
    using Cons.IH [of s2 a at' m] n(2) by blast
  have "tick_tasks P n t s = Inr s'"
    using Cons.prems(2) a(2) st(1,2) s'(1) n by simp
  moreover have "a \<notin> set as" using Cons.prems(3) by simp
  ultimately show ?case
    using s' st(3-7) a(1) by (intro exI [of _ s']) auto
qed

definition wants_reply :: "th_server \<Rightarrow> nat \<Rightarrow> bool" where
  "wants_reply s a \<longleftrightarrow> (\<exists>it. items s a = Some it \<and> headerPresent (task it))"

lemma tick_phases:
  assumes "th_ok s as" and "memory_available P" and "\<forall>a\<in>set as. \<forall>i. items s a = Some i \<longrightarrow> item_ok i"
    and "length as < MAX_GUARD_COUNTER"
  obtains s' where "tickTaskHandler P s = andthen (walkTaskList True False s') (\<lambda>(m, s3). Inr s3)"
    and "th_ok s' as" and "\<forall>a\<in>set as. removable True False s' a = wants_reply s a"
proof -
  obtain r where r: "items s root = Some r" "pPreviousTask r = None" "tlist (items s) root (pNextTask r) as"
    by (rule th_okE [OF assms(1)])
  have dist: "distinct (root # as)" using assms(1) by (simp add: th_ok_def)
  have "walkTaskList False False s = Inr (length as, s)"
    using walk_keeps [OF r(3), of False False MAX_GUARD_COUNTER "Some root" 0] assms(4) r
    by (auto simp: walkTaskList_def removable_def to_be_removed_def)
  moreover obtain s' where s': "tick_tasks P MAX_GUARD_COUNTER root s = Inr s'" "nextAddr s' = nextAddr s"
    "\<forall>a. map_option links (items s' a) = map_option links (items s a)
         \<and> map_option task (items s' a) = map_option task (items s a)"
    "\<forall>a\<in>set as. \<exists>i. items s' a = Some i \<and> finished i" "\<forall>a. a \<notin> set as \<longrightarrow> items s' a = items s a"
    using tick_tasks_ok [OF assms(2) r(3,1) dist assms(3,4)] by blast
  ultimately have run: "tickTaskHandler P s = andthen (walkTaskList True False s') (\<lambda>(m, s3). Inr s3)"
    using r by (simp add: tickTaskHandler_def)
  have "tlist (items s') root (pNextTask r) as = tlist (items s) root (pNextTask r) as"
    by (rule tlist_cong) (use s'(3) in blast)
  moreover have "items s' root = Some r" using s'(5) dist r(1) by auto
  moreover have "items s' a = None" if "nextAddr s' \<le> a" for a
  proof -
    have "items s a = None" using that s'(2) assms(1) by (simp add: th_ok_def)
    moreover have "map_option links (items s' a) = map_option links (items s a)" using s'(3) by blast
    ultimately show ?thesis by simp
  qed
  ultimately have "th_ok s' as"
    using r dist assms(1) s'(2) by (simp add: th_ok_def)
  moreover have "removable True False s' a = wants_reply s a" if "a \<in> set as" for a
  proof -
    from bspec [OF s'(4) that] obtain i where i: "items s' a = Some i" "finished i" by (elim exE conjE)
    have "map_option task (items s' a) = map_option task (items s a)" by (rule conjunct2 [OF spec [OF s'(3)]])
    with i(1) obtain j where "items s a = Some j" "task i = task j" by (cases "items s a") auto
    with i show ?thesis by (simp add: removable_def to_be_removed_def wants_reply_def finished_def)
  qed
  ultimately show thesis using run that by blast
qed

text \<open>
  A tick that works: with memory available and the tasks that want an indication (those with a header) all in front of
  those that do not, a tick carries out every task that is not done, removes those that have been
  answered and keeps exactly the others, in order.
\<close>

theorem tick_removes_answered:
  assumes "th_ok s (rs @ ks)" and "memory_available P"
    and "\<forall>a\<in>set (rs @ ks). \<forall>i. items s a = Some i \<longrightarrow> item_ok i" and "length (rs @ ks) < MAX_GUARD_COUNTER"
    and "\<forall>a\<in>set rs. wants_reply s a" and "\<forall>a\<in>set ks. \<not> wants_reply s a"
  shows "\<exists>s'. tickTaskHandler P s = Inr s' \<and> th_ok s' ks"
proof -
  obtain s1 where s1: "tickTaskHandler P s = andthen (walkTaskList True False s1) (\<lambda>(m, s3). Inr s3)"
    "th_ok s1 (rs @ ks)" "\<forall>a\<in>set (rs @ ks). removable True False s1 a = wants_reply s a"
    by (rule tick_phases [OF assms(1-4)]) blast
  have "\<forall>a\<in>set rs. removable True False s1 a" "\<forall>a\<in>set ks. \<not> removable True False s1 a"
    using s1(3) assms(5,6) by auto
  from walkTaskList_ok [OF s1(2) this assms(4)] s1(1) show ?thesis by auto
qed

text \<open>
  C5. A tick that uses freed memory: if a task that wants an indication stands behind one that does not, the walk
  that removes answered tasks frees its item and then reads the next pointer from it, because it has moved \<open>pPrevious\<close>
  on to the item itself.
\<close>

theorem tick_use_after_free:
  assumes "th_ok s (rs @ k # ks @ a # zs)" and "memory_available P"
    and "\<forall>b\<in>set (rs @ k # ks @ a # zs). \<forall>i. items s b = Some i \<longrightarrow> item_ok i"
    and "length (rs @ k # ks @ a # zs) < MAX_GUARD_COUNTER"
    and "\<forall>b\<in>set rs. wants_reply s b" and "\<forall>b\<in>set (k # ks). \<not> wants_reply s b" and "wants_reply s a"
  shows "tickTaskHandler P s = Inl Bad_Access"
proof -
  obtain s1 where s1: "tickTaskHandler P s = andthen (walkTaskList True False s1) (\<lambda>(m, s3). Inr s3)"
    "th_ok s1 (rs @ k # ks @ a # zs)"
    "\<forall>b\<in>set (rs @ k # ks @ a # zs). removable True False s1 b = wants_reply s b"
    by (rule tick_phases [OF assms(1-4)]) blast
  have "\<forall>b\<in>set rs. removable True False s1 b" "\<forall>b\<in>set (k # ks). \<not> removable True False s1 b"
    "removable True False s1 a"
    using s1(3) assms(5-7) by auto
  from walkTaskList_faults [OF s1(2) this] assms(4) s1(1) show ?thesis by simp
qed

definition two_tasks :: "bool \<Rightarrow> bool \<Rightarrow> th_server" where
  "two_tasks p q = \<lparr>items = [root \<mapsto> (new_item (hd_req False))\<lparr>pNextTask := Some 1\<rparr>,
       1 \<mapsto> (new_item (hd_req p))\<lparr>pPreviousTask := Some root, pNextTask := Some 2\<rparr>,
       2 \<mapsto> (new_item (hd_req q))\<lparr>pPreviousTask := Some 1\<rparr>],
     nextAddr = 3, thCalls = []\<rparr>"

lemma two_tasks_ok: "th_ok (two_tasks p q) [1, 2]"
  by (auto simp: th_ok_def two_tasks_def new_item_def root_def)

lemma two_tasks_items: "a \<in> {1, 2} \<Longrightarrow> items (two_tasks p q) a = Some i \<Longrightarrow> item_ok i"
  by (auto simp: two_tasks_def new_item_def root_def item_ok_def hd_req_def)

lemma th_demo_memory: "memory_available th_demo"
  by (simp add: memory_available_def th_demo_def)

theorem tick_removes_answered_witness:
  "\<exists>s'. tickTaskHandler th_demo (two_tasks True False) = Inr s' \<and> th_ok s' [2]"
proof (rule tick_removes_answered [where rs = "[1]" and ks = "[2]"])
  show "th_ok (two_tasks True False) ([1] @ [2])" using two_tasks_ok by simp
qed (use two_tasks_items in \<open>auto simp: th_demo_memory MAX_GUARD_COUNTER_def wants_reply_def two_tasks_def new_item_def
      hd_req_def root_def\<close>)

theorem tick_use_after_free_witness:
  "tickTaskHandler th_demo (two_tasks False True) = Inl Bad_Access"
proof (rule tick_use_after_free [where rs = "[]" and k = 1 and ks = "[]" and a = 2 and zs = "[]"])
  show "th_ok (two_tasks False True) ([] @ 1 # [] @ 2 # [])" using two_tasks_ok by simp
qed (use two_tasks_items in \<open>auto simp: th_demo_memory MAX_GUARD_COUNTER_def wants_reply_def two_tasks_def new_item_def
      hd_req_def root_def\<close>)

subsection \<open>Stopping\<close>



subsection \<open>Strings from the Hindbrain\<close>

text \<open>
  The response of the Hindbrain fits the indication: whatever length the response announces, at most 30 bytes are
  copied, the string stays 30 bytes long and the announced length is at most 30.  A response of up to 30
  bytes arrives whole, but a longer one arrives without its terminator: the byte behind the 29 that
  are copied keeps what was in the memory before.
\<close>

theorem hd_response_fits:
  assumes "length resp = 84" and "length (indString ind) = 30"
  shows "length (indString (hd_output resp ind)) = 30 \<and> unat (indStringLength (hd_output resp ind)) \<le> 30
    \<and> (if unat (le32 (drop 80 resp)) \<le> 30
       then take (unat (le32 (drop 80 resp))) (indString (hd_output resp ind)) = take (unat (le32 (drop 80 resp))) resp
       else take 29 (indString (hd_output resp ind)) = take 29 resp
          \<and> indString (hd_output resp ind) ! 29 = indString ind ! 29
          \<and> indStringLength (hd_output resp ind) = 29)"
proof (cases "unat (le32 (drop 80 resp)) \<le> 30")
  case True
  define n where "n = unat (le32 (drop 80 resp))"
  have n: "n \<le> 30" using True by (simp add: n_def)
  have out: "hd_output resp ind =
      ind\<lparr>indString := take n resp @ drop n (indString ind), indStringLength := of_nat n\<rparr>"
    using n by (simp add: hd_output_def MAX_O_STRING_LENGTH_def MAX_LEN_HD_RESPONSE_STRING_def Let_def flip: n_def)
  have "unat (of_nat n :: u8) = n" using n by (simp add: unat_of_nat)
  then show ?thesis using assms n by (simp add: out flip: n_def)
next
  case False
  then have "hd_output resp ind =
      ind\<lparr>indString := take 29 resp @ drop 29 (indString ind), indStringLength := 29\<rparr>"
    by (simp add: hd_output_def MAX_O_STRING_LENGTH_def MAX_LEN_HD_RESPONSE_STRING_def Let_def)
  then show ?thesis using assms False by (simp add: nth_append)
qed

theorem hd_response_fits_witness:
  "length (indString (hd_output (replicate 80 65 @ le_bytes32 40) (fresh_ind (replicate 40 9)))) = 30
    \<and> unat (indStringLength (hd_output (replicate 80 65 @ le_bytes32 40) (fresh_ind (replicate 40 9)))) \<le> 30
    \<and> indString (hd_output (replicate 80 65 @ le_bytes32 40) (fresh_ind (replicate 40 9))) ! 29 = 9"
proof -
  let ?r = "replicate 80 65 @ le_bytes32 40"
  have l: "length ?r = 84" "length (indString (fresh_ind (replicate 40 9))) = 30"
    by (simp_all add: fresh_ind_def)
  have d: "le32 (drop 80 ?r) = 40" using le32_le_bytes32 [of 40 "[]"] by simp
  have "indString (fresh_ind (replicate 40 9)) ! 29 = 9" by (simp add: fresh_ind_def nth_append)
  with hd_response_fits [OF l] show ?thesis unfolding d by simp
qed

end
