(* ===== verification/Bus.thy ===== *)
theory Bus
  imports Prelude "HOL-Library.State_Monad"
begin

section \<open>The state of the hardware server and what it drives\<close>

text \<open>
  The relays, the chargers, the analogue multiplexer and the battery monitors hang on a OneWire bus: four DS2438
  battery monitors and four DS2408 chips with eight pins each.  \<open>hw_config.h\<close> says what each pin does.  The Hindbrain
  (a microcontroller board called Orangutan) hangs on a serial port.

  The state is \<open>ow_bus\<close>: \<open>gPortNumber\<close>, the member \<open>pinsState\<close> of each entry of \<open>gDeviceStaticConfigList\<close> (the
  shadow of the pins whose read-back cannot be trusted), the two static variables of \<open>readChargerState\<close> (all in
  \<open>ow_bus.c\<close>), \<open>gFd\<close> of \<open>orangutan.c\<close>, and the
  sequence of what has been done on the bus and with the port.  The functions of \<open>ds2408.c\<close>, \<open>ds2438.c\<close> and \<open>utils.c\<close> are the
  operations \<open>bus_op\<close>: a \<open>bus_env\<close> answers the next operation from everything that happened before it, with its
  success and with the values that its out-parameters then hold, whether it succeeds or not (an untouched
  variable that was never initialised can hold anything).  So every theorem holds for whatever the chips and the
  wire do.  The constant members of the table are functions of the device.  Printed text is not modelled, but the
  pin reads that \<open>debugPrintPinsState\<close> makes are.

  \<^item> \<open>Read_Logic\<close>, \<open>Read_Latch\<close>, \<open>Reset_Latch\<close>, \<open>Channel_Write\<close>, \<open>Disable_Test_Mode\<close>, \<open>Write_Control\<close> are
    \<open>readPIOLogicStateDS2408\<close>, \<open>readPIOActivityLatchStateRegisterDS2408\<close>, \<open>resetActivityLatchesDS2408\<close>,
    \<open>channelAccessWriteDS2408\<close>, \<open>disableTestModeDS2408\<close>, \<open>writeControlRegisterDS2408\<close>.
  \<^item> The other operations are the functions of \<open>ds2438.c\<close> of the same names, and \<open>oneWireAccessDevice\<close>.
  \<^item> \<open>Open_Port\<close> to \<open>Close_Port\<close> are the system calls of \<open>orangutan.c\<close>: \<open>open\<close> (its value is the file descriptor),
    \<open>tcgetattr\<close>, \<open>tcflush\<close>, \<open>tcsetattr\<close> with the settings of the port or with the saved ones, \<open>write\<close> (its value
    is the number of bytes written), \<open>read\<close> and \<open>close\<close>.  What successive \<open>read\<close> calls deliver is the list
    \<open>serial_in\<close>; when it is used up the port stays silent, and \<open>read\<close> times out.
\<close>

subsection \<open>Devices and pins\<close>

datatype ow_device =
    RIO_BATTERY_MONITOR | O1_BATTERY_MONITOR | O2_BATTERY_MONITOR | O3_BATTERY_MONITOR
  | CHARGER_STATE_PIO | DARLINGTON_PIO | RELAY_PIO | GENERAL_PURPOSE_PIO

definition all_devices :: "ow_device list" where
  "all_devices = [RIO_BATTERY_MONITOR, O1_BATTERY_MONITOR, O2_BATTERY_MONITOR, O3_BATTERY_MONITOR,
     CHARGER_STATE_PIO, DARLINGTON_PIO, RELAY_PIO, GENERAL_PURPOSE_PIO]"

datatype ow_device_type = DS2408_PIO | DS2438_BATTERY_MONITOR | TYPE_UNKNOWN

fun device_address :: "ow_device \<Rightarrow> u8 list" where
  "device_address RIO_BATTERY_MONITOR = [FAMILY_SBATTERY, 0xcf, 0xe0, 0xa6, 0x01, 0x00, 0x00, 0x0b]"
| "device_address O1_BATTERY_MONITOR = [FAMILY_SBATTERY, 0x69, 0xe0, 0xa6, 0x01, 0x00, 0x00, 0xe5]"
| "device_address O2_BATTERY_MONITOR = [FAMILY_SBATTERY, 0x19, 0xe0, 0xa6, 0x01, 0x00, 0x00, 0x7d]"
| "device_address O3_BATTERY_MONITOR = [FAMILY_SBATTERY, 0x53, 0x20, 0xb3, 0x01, 0x00, 0x00, 0x5c]"
| "device_address CHARGER_STATE_PIO = [FAMILY_PIO, 0xbc, 0xc1, 0x0e, 0x00, 0x00, 0x00, 0xa3]"
| "device_address DARLINGTON_PIO = [FAMILY_PIO, 0xaf, 0xc1, 0x0e, 0x00, 0x00, 0x00, 0xa1]"
| "device_address RELAY_PIO = [FAMILY_PIO, 0xbd, 0xc1, 0x0e, 0x00, 0x00, 0x00, 0x94]"
| "device_address GENERAL_PURPOSE_PIO = [FAMILY_PIO, 0x02, 0x06, 0x0d, 0x00, 0x00, 0x00, 0x4c]"

abbreviation (input) CHARGER_RIO_GREEN :: u8 where "CHARGER_RIO_GREEN \<equiv> 0x01"
abbreviation (input) CHARGER_RIO_RED :: u8 where "CHARGER_RIO_RED \<equiv> 0x02"
abbreviation (input) CHARGER_O1_GREEN :: u8 where "CHARGER_O1_GREEN \<equiv> 0x04"
abbreviation (input) CHARGER_O1_RED :: u8 where "CHARGER_O1_RED \<equiv> 0x08"
abbreviation (input) CHARGER_O2_GREEN :: u8 where "CHARGER_O2_GREEN \<equiv> 0x10"
abbreviation (input) CHARGER_O2_RED :: u8 where "CHARGER_O2_RED \<equiv> 0x20"
abbreviation (input) CHARGER_O3_GREEN :: u8 where "CHARGER_O3_GREEN \<equiv> 0x40"
abbreviation (input) CHARGER_O3_RED :: u8 where "CHARGER_O3_RED \<equiv> 0x80"

abbreviation (input) DARLINGTON_RIO_PWR_12V_ON :: u8 where "DARLINGTON_RIO_PWR_12V_ON \<equiv> 0x01"
abbreviation (input) DARLINGTON_RIO_PWR_BATT_OFF :: u8 where "DARLINGTON_RIO_PWR_BATT_OFF \<equiv> 0x02"
abbreviation (input) DARLINGTON_O_PWR_TOGGLE :: u8 where "DARLINGTON_O_PWR_TOGGLE \<equiv> 0x04"
abbreviation (input) DARLINGTON_O_RESET_TOGGLE :: u8 where "DARLINGTON_O_RESET_TOGGLE \<equiv> 0x08"
abbreviation (input) DARLINGTON_ENABLE_BAR :: u8 where "DARLINGTON_ENABLE_BAR \<equiv> 0x80"

abbreviation (input) RELAY_O_PWR_12V_ON :: u8 where "RELAY_O_PWR_12V_ON \<equiv> 0x01"
abbreviation (input) RELAY_O_PWR_BATT_OFF :: u8 where "RELAY_O_PWR_BATT_OFF \<equiv> 0x02"
abbreviation (input) RELAY_RIO_CHARGER_OFF :: u8 where "RELAY_RIO_CHARGER_OFF \<equiv> 0x04"
abbreviation (input) RELAY_O1_CHARGER_OFF :: u8 where "RELAY_O1_CHARGER_OFF \<equiv> 0x08"
abbreviation (input) RELAY_O2_CHARGER_OFF :: u8 where "RELAY_O2_CHARGER_OFF \<equiv> 0x10"
abbreviation (input) RELAY_O3_CHARGER_OFF :: u8 where "RELAY_O3_CHARGER_OFF \<equiv> 0x20"
abbreviation (input) RELAY_ENABLE_BAR :: u8 where "RELAY_ENABLE_BAR \<equiv> 0x40"
abbreviation (input) RELAY_12V_DETECT :: u8 where "RELAY_12V_DETECT \<equiv> 0x80"

abbreviation (input) GENERAL_PURPOSE_IO_MUX_A0 :: u8 where "GENERAL_PURPOSE_IO_MUX_A0 \<equiv> 0x10"
abbreviation (input) GENERAL_PURPOSE_IO_MUX_A1 :: u8 where "GENERAL_PURPOSE_IO_MUX_A1 \<equiv> 0x20"
abbreviation (input) GENERAL_PURPOSE_IO_MUX_A2 :: u8 where "GENERAL_PURPOSE_IO_MUX_A2 \<equiv> 0x40"
abbreviation (input) GENERAL_PURPOSE_IO_MUX_ENABLE_BAR :: u8 where
  "GENERAL_PURPOSE_IO_MUX_ENABLE_BAR \<equiv> 0x80"

abbreviation (input) TEMPERATURE_SENSOR_RIO_BATT :: u8 where "TEMPERATURE_SENSOR_RIO_BATT \<equiv> 0"
abbreviation (input) TEMPERATURE_SENSOR_O1_BATT :: u8 where "TEMPERATURE_SENSOR_O1_BATT \<equiv> 1"
abbreviation (input) TEMPERATURE_SENSOR_O2_BATT :: u8 where "TEMPERATURE_SENSOR_O2_BATT \<equiv> 2"
abbreviation (input) TEMPERATURE_SENSOR_O3_BATT :: u8 where "TEMPERATURE_SENSOR_O3_BATT \<equiv> 3"

abbreviation (input) mux_address :: u8 where
  "mux_address \<equiv> or GENERAL_PURPOSE_IO_MUX_A0 (or GENERAL_PURPOSE_IO_MUX_A1 GENERAL_PURPOSE_IO_MUX_A2)"

text \<open>The members of \<open>OwDS2408\<close> that never change, and the configuration byte of either type of chip
  (\<open>DEFAULT_DS2438_CONFIG\<close>, \<open>DEFAULT_DS2408_CONFIG\<close>).\<close>

fun readShadowMask :: "ow_device \<Rightarrow> u8" where
  "readShadowMask DARLINGTON_PIO = or DARLINGTON_O_PWR_TOGGLE DARLINGTON_O_RESET_TOGGLE"
| "readShadowMask RELAY_PIO = or RELAY_O_PWR_12V_ON (or RELAY_O_PWR_BATT_OFF (or RELAY_RIO_CHARGER_OFF
     (or RELAY_O1_CHARGER_OFF (or RELAY_O2_CHARGER_OFF RELAY_O3_CHARGER_OFF))))"
| "readShadowMask _ = 0x00"

fun inputMask :: "ow_device \<Rightarrow> u8" where
  "inputMask CHARGER_STATE_PIO = 0xFF"
| "inputMask RELAY_PIO = RELAY_12V_DETECT"
| "inputMask _ = 0x00"

fun initial_pins :: "ow_device \<Rightarrow> u8" where
  "initial_pins CHARGER_STATE_PIO = 0xFF"
| "initial_pins DARLINGTON_PIO = or (not (or DARLINGTON_RIO_PWR_BATT_OFF (or DARLINGTON_RIO_PWR_12V_ON
     (or DARLINGTON_O_PWR_TOGGLE DARLINGTON_O_RESET_TOGGLE)))) DARLINGTON_ENABLE_BAR"
| "initial_pins RELAY_PIO = or RELAY_12V_DETECT RELAY_ENABLE_BAR"
| "initial_pins _ = 0x00"

definition DEFAULT_DS2438_CONFIG :: u8 where
  "DEFAULT_DS2438_CONFIG = or 0x01 (or 0x02 0x04)"

definition DEFAULT_DS2438_THRESHOLD :: u8 where
  "DEFAULT_DS2438_THRESHOLD = 0x40"

definition DEFAULT_DS2408_CONFIG :: u8 where
  "DEFAULT_DS2408_CONFIG = and (not 0x08) (not 0x04)"

subsection \<open>The bus\<close>

datatype bus_op =
    Access_Device
  | Read_Logic | Read_Latch | Reset_Latch | Channel_Write u8 | Disable_Test_Mode | Write_Control u8
  | Read_Vad | Read_Vdd | Read_Current | Read_Capacity bool | Read_Charge_Discharge | Perform_Cal
  | Write_Config_Threshold u8 u8 | Init_Time_Capacity | Write_Time_Capacity u32 "u16 option" bool
  | Write_Charge_Discharge u32 u32

datatype bus_call =
    Start_Bus | Stop_Bus s32 | Find_Devices s32 nat | Dev s32 ow_device bus_op
  | Get_Ticks | Sleep_Us nat | Malloc_Bytes nat
  | Open_Port | Save_Settings s32 | Flush_Port s32 | Set_Port s32 | Restore_Settings s32
  | Write_Port s32 "u8 list" | Read_Port s32 nat | Close_Port s32

type_synonym bus_reply = "bool \<times> u32 \<times> u32"
type_synonym bus_history = "(bus_call \<times> bus_reply) list"
type_synonym bus_env = "bus_history \<Rightarrow> bus_call \<Rightarrow> bus_reply"

record ow_bus =
  gPortNumber :: s32
  pins_state :: "ow_device \<Rightarrow> u8"
  ticksAtLastRead :: u32
  lastPinsEdgeState :: u8
  gFd :: s32
  serial_in :: "u8 list list"
  bus_log :: bus_history

definition initial_bus :: ow_bus where
  "initial_bus =
    \<lparr>gPortNumber = - 1, pins_state = initial_pins, ticksAtLastRead = 0, lastPinsEdgeState = 0,
     gFd = - 1, serial_in = [],
     bus_log = []\<rparr>"

type_synonym 'a ow = "(ow_bus, 'a) state"

definition bus_exec :: "bus_env \<Rightarrow> bus_call \<Rightarrow> bus_reply ow" where
  "bus_exec E c = State (\<lambda>b. (E (bus_log b) c, b\<lparr>bus_log := bus_log b @ [(c, E (bus_log b) c)]\<rparr>))"

definition modify_bus :: "(ow_bus \<Rightarrow> ow_bus) \<Rightarrow> unit ow" where
  "modify_bus f = State (\<lambda>b. ((), f b))"

definition reads :: "(ow_bus \<Rightarrow> 'a) \<Rightarrow> 'a ow" where
  "reads f = State (\<lambda>b. (f b, b))"

definition dev :: "bus_env \<Rightarrow> ow_device \<Rightarrow> bus_op \<Rightarrow> bus_reply ow" where
  "dev E d op = do { p \<leftarrow> reads gPortNumber; bus_exec E (Dev p d op) }"

definition set_shadow :: "ow_device \<Rightarrow> u8 \<Rightarrow> ow_bus \<Rightarrow> ow_bus" where
  "set_shadow d v b = b\<lparr>pins_state := (pins_state b)(d := v)\<rparr>"

definition getSystemTicks :: "bus_env \<Rightarrow> u32 ow" where
  "getSystemTicks E = do { (_, t, _) \<leftarrow> bus_exec E Get_Ticks; State_Monad.return t }"

subsection \<open>Evaluation\<close>

lemma run_modify_bus [simp]: "run_state (modify_bus f) b = ((), f b)"
  by (simp add: modify_bus_def)

lemma run_reads [simp]: "run_state (reads f) b = (f b, b)"
  by (simp add: reads_def)

definition dev_reply :: "bus_env \<Rightarrow> ow_bus \<Rightarrow> ow_device \<Rightarrow> bus_op \<Rightarrow> bus_reply" where
  "dev_reply E b d op = E (bus_log b) (Dev (gPortNumber b) d op)"

definition logged :: "ow_bus \<Rightarrow> bus_history \<Rightarrow> ow_bus" where
  "logged b seg = b\<lparr>bus_log := bus_log b @ seg\<rparr>"

lemma run_bus_exec [simp]:
  "run_state (bus_exec E c) b = (E (bus_log b) c, logged b [(c, E (bus_log b) c)])"
  by (simp add: bus_exec_def logged_def)

lemma logged_sel [simp]:
  "bus_log (logged b seg) = bus_log b @ seg" "gPortNumber (logged b seg) = gPortNumber b"
  "pins_state (logged b seg) = pins_state b" "ticksAtLastRead (logged b seg) = ticksAtLastRead b"
  "lastPinsEdgeState (logged b seg) = lastPinsEdgeState b" "gFd (logged b seg) = gFd b"
  "serial_in (logged b seg) = serial_in b"
  by (simp_all add: logged_def)

lemma logged_logged [simp]: "logged (logged b s) t = logged b (s @ t)"
  by (simp add: logged_def)

lemma run_dev [simp]:
  "run_state (dev E d op) b =
     (dev_reply E b d op, logged b [(Dev (gPortNumber b) d op, dev_reply E b d op)])"
  by (simp add: dev_def dev_reply_def)

lemma set_shadow_sel [simp]:
  "bus_log (set_shadow d v b) = bus_log b" "gPortNumber (set_shadow d v b) = gPortNumber b"
  "pins_state (set_shadow d v b) = (pins_state b)(d := v)"
  "ticksAtLastRead (set_shadow d v b) = ticksAtLastRead b"
  "lastPinsEdgeState (set_shadow d v b) = lastPinsEdgeState b" "gFd (set_shadow d v b) = gFd b"
  "serial_in (set_shadow d v b) = serial_in b"
  by (simp_all add: set_shadow_def)

lemma set_shadow_logged [simp]: "set_shadow d v (logged b seg) = logged (set_shadow d v b) seg"
  by (simp add: set_shadow_def logged_def)

text \<open>The port: its file descriptor and what it still delivers.\<close>

definition set_fd :: "s32 \<Rightarrow> ow_bus \<Rightarrow> ow_bus" where
  "set_fd fd b = b\<lparr>gFd := fd\<rparr>"

lemma set_fd_sel [simp]:
  "bus_log (set_fd fd b) = bus_log b" "gPortNumber (set_fd fd b) = gPortNumber b"
  "pins_state (set_fd fd b) = pins_state b" "ticksAtLastRead (set_fd fd b) = ticksAtLastRead b"
  "lastPinsEdgeState (set_fd fd b) = lastPinsEdgeState b" "gFd (set_fd fd b) = fd"
  "serial_in (set_fd fd b) = serial_in b"
  by (simp_all add: set_fd_def)

lemma set_fd_logged [simp]: "set_fd fd (logged b seg) = logged (set_fd fd b) seg"
  by (simp add: set_fd_def logged_def)

lemma set_fd_same [simp]: "set_fd (gFd b) b = b"
  by (simp add: set_fd_def)

lemma set_fd_twice [simp]: "set_fd fd (set_fd fd' b) = set_fd fd b"
  by (simp add: set_fd_def)

lemma set_shadow_set_fd [simp]: "set_shadow d v (set_fd fd b) = set_fd fd (set_shadow d v b)"
  by (simp add: set_fd_def set_shadow_def)

lemma set_shadow_twice [simp]: "set_shadow d v (set_shadow d w b) = set_shadow d v b"
  by (simp add: set_shadow_def)

text \<open>The pin writes of a log, each with its success.\<close>

fun chip_writes :: "bus_history \<Rightarrow> (ow_device \<times> u8 \<times> bool) list" where
  "chip_writes [] = []"
| "chip_writes ((Dev p d (Channel_Write v), ok, x) # h) = (d, v, ok) # chip_writes h"
| "chip_writes (_ # h) = chip_writes h"

lemma chip_writes_Cons:
  "chip_writes (cr # h) =
     (case cr of (Dev p d (Channel_Write v), ok, x) \<Rightarrow> (d, v, ok) # chip_writes h | _ \<Rightarrow> chip_writes h)"
  by (cases "(cr # h)" rule: chip_writes.cases) auto

lemma chip_writes_append [simp]: "chip_writes (g @ h) = chip_writes g @ chip_writes h"
  by (induction g rule: chip_writes.induct) auto

lemma chip_writes_write [simp]: "chip_writes ((Dev p d (Channel_Write v), r) # h) = (d, v, fst r) # chip_writes h"
  by (cases r) simp

lemma chip_writes_other [simp]:
  "chip_writes ((Dev p d Read_Logic, r) # h) = chip_writes h"
  "chip_writes ((Dev p d Read_Latch, r) # h) = chip_writes h"
  "chip_writes ((Dev p d Reset_Latch, r) # h) = chip_writes h"
  "chip_writes ((Dev p d Disable_Test_Mode, r) # h) = chip_writes h"
  "chip_writes ((Dev p d (Write_Control c), r) # h) = chip_writes h"
  "chip_writes ((Dev p d Access_Device, r) # h) = chip_writes h"
  "chip_writes ((Dev p d Read_Vad, r) # h) = chip_writes h"
  "chip_writes ((Dev p d (Write_Config_Threshold c t), r) # h) = chip_writes h"
  "chip_writes ((Sleep_Us n, r) # h) = chip_writes h"
  "chip_writes ((Get_Ticks, r) # h) = chip_writes h"
  "chip_writes ((Open_Port, r) # h) = chip_writes h"
  "chip_writes ((Save_Settings fd, r) # h) = chip_writes h"
  "chip_writes ((Flush_Port fd, r) # h) = chip_writes h"
  "chip_writes ((Set_Port fd, r) # h) = chip_writes h"
  "chip_writes ((Restore_Settings fd, r) # h) = chip_writes h"
  "chip_writes ((Write_Port fd s, r) # h) = chip_writes h"
  "chip_writes ((Read_Port fd n, r) # h) = chip_writes h"
  "chip_writes ((Close_Port fd, r) # h) = chip_writes h"
  by (simp_all add: chip_writes_Cons split: prod.splits)

end
