(* ===== verification/Orangutan.thy ===== *)
theory Orangutan
  imports Bus Rob_System
begin

section \<open>The serial link to the Hindbrain: \<open>RoboOneHardware/src/orangutan.c\<close>\<close>

text \<open>
  Opening and closing the port, sending a string and receiving one that ends with a carriage return.  A string is
  received into memory of the caller: \<open>mem\<close> is what the memory at \<open>pReceiveString\<close> holds, and the functions
  return what it holds afterwards, with the value of \<open>*pReceiveStringLength\<close>.
\<close>

definition ORANGUTAN_BUFFER_SIZE :: nat where "ORANGUTAN_BUFFER_SIZE = 255"

definition ORANGUTAN_RESPONSE_TERMINATOR :: u8 where "ORANGUTAN_RESPONSE_TERMINATOR = 13"

definition openOrangutan :: "bus_env \<Rightarrow> s32 ow" where
  "openOrangutan E = do {
     (_, fd, _) \<leftarrow> bus_exec E Open_Port;
     modify_bus (set_fd fd);
     (if 0 \<le>s fd then do {
        bus_exec E (Save_Settings fd);
        bus_exec E (Flush_Port fd);
        bus_exec E (Set_Port fd);
        State_Monad.return ()
      } else State_Monad.return ());
     reads gFd
   }"

definition closeOrangutan :: "bus_env \<Rightarrow> unit ow" where
  "closeOrangutan E = do {
     fd \<leftarrow> reads gFd;
     (if 0 \<le>s fd then do {
        bus_exec E (Restore_Settings fd);
        bus_exec E (Close_Port fd);
        modify_bus (set_fd (- 1))
      } else State_Monad.return ())
   }"

text \<open>
  The search for the terminator in the bytes of one \<open>read\<close>: whether it was found, and \<open>bytesReceived\<close>
  after the loop.
\<close>

fun scan_loop :: "nat \<Rightarrow> u8 list \<Rightarrow> nat \<Rightarrow> bool \<times> nat" where
  "scan_loop i [] bytesReceived = (False, bytesReceived)"
| "scan_loop i (b # bs) bytesReceived =
     (if b = ORANGUTAN_RESPONSE_TERMINATOR then (True, i + 1) else scan_loop (i + 1) bs bytesReceived)"

text \<open>\<open>memcpy (mem + pos, src, length src)\<close>.\<close>

definition copy_to :: "u8 list \<Rightarrow> nat \<Rightarrow> u8 list \<Rightarrow> u8 list" where
  "copy_to mem pos src = take pos mem @ src @ drop (pos + length src) mem"

text \<open>
  The loop of \<open>readStringFromOrangutan\<close>, by recursion on what the port still delivers.  \<open>UInt32\<close> and \<open>SInt32\<close>
  have the same width, so the overrun test and the difference are unsigned.
\<close>

fun read_loop :: "bus_env \<Rightarrow> u32 \<Rightarrow> u8 list list \<Rightarrow> u8 list \<Rightarrow> u32 \<Rightarrow> (u8 list \<times> u32) ow" where
  "read_loop E maxBytesToReceive [] mem len = do {
     fd \<leftarrow> reads gFd;
     bus_exec E (Read_Port fd ORANGUTAN_BUFFER_SIZE);
     State_Monad.return (mem, len)
   }"
| "read_loop E maxBytesToReceive (chunk # rest) mem len = do {
     fd \<leftarrow> reads gFd;
     bus_exec E (Read_Port fd ORANGUTAN_BUFFER_SIZE);
     modify_bus (\<lambda>b. b\<lparr>serial_in := rest\<rparr>);
     (let buffer = take ORANGUTAN_BUFFER_SIZE chunk
      in if buffer \<noteq> [] then
           (let (done, n) = scan_loop 0 buffer (length buffer);
                bytesReceived = of_nat n :: u32;
                bytesReceived = (if len + bytesReceived > maxBytesToReceive - 1
                                 then maxBytesToReceive - len - 1 else bytesReceived);
                mem = copy_to mem (unat len) (take (unat bytesReceived) buffer);
                len = len + bytesReceived
            in if done then State_Monad.return (mem, len) else read_loop E maxBytesToReceive rest mem len)
         else State_Monad.return (mem, len))
   }"

text \<open>\<open>readStringFromOrangutan\<close> never sets its result: \<open>success\<close> stays false.\<close>

definition readStringFromOrangutan :: "bus_env \<Rightarrow> u8 list \<Rightarrow> u32 \<Rightarrow> (bool \<times> u8 list \<times> u32) ow" where
  "readStringFromOrangutan E mem len = do {
     fd \<leftarrow> reads gFd;
     (if 0 \<le>s fd \<and> len > 0 then do {
        chunks \<leftarrow> reads serial_in;
        (mem, n) \<leftarrow> read_loop E len chunks mem 0;
        State_Monad.return (False, mem[unat n := 0], n + 1)
      } else State_Monad.return (False, mem, len))
   }"

text \<open>
  \<open>sendStringToOrangutan\<close>; \<open>waiting\<close> is whether \<open>pReceiveString\<close> is not null.
\<close>

definition sendStringToOrangutan ::
  "bus_env \<Rightarrow> u8 list \<Rightarrow> bool \<Rightarrow> u8 list \<Rightarrow> u32 \<Rightarrow> (bool \<times> u8 list \<times> u32) ow" where
  "sendStringToOrangutan E pSendString waiting mem len = do {
     fd \<leftarrow> reads gFd;
     (if 0 \<le>s fd then do {
        let bytesToSend = min (c_strlen pSendString) ORANGUTAN_BUFFER_SIZE;
        bus_exec E (Flush_Port fd);
        (_, written, _) \<leftarrow> bus_exec E (Write_Port fd (take bytesToSend pSendString));
        (if written = of_nat bytesToSend then do {
           (mem, len) \<leftarrow> (if waiting
             then do { (_, mem, len) \<leftarrow> readStringFromOrangutan E mem len; State_Monad.return (mem, len) }
             else State_Monad.return (mem, len));
           State_Monad.return (True, mem, len)
         } else State_Monad.return (False, mem, len))
      } else State_Monad.return (False, mem, len))
   }"

subsection \<open>What the port functions do\<close>

lemma logged_Nil [simp]: "logged b [] = b"
  by (simp add: logged_def)

text \<open>\<open>b'\<close> has been reached from \<open>b\<close> without writing to any pins.\<close>

definition no_writes :: "ow_bus \<Rightarrow> ow_bus \<Rightarrow> bool" where
  "no_writes b b' \<longleftrightarrow> (\<exists>seg. b' = logged b seg \<and> chip_writes seg = [])"

lemma no_writes_logged [simp]: "chip_writes seg = [] \<Longrightarrow> no_writes b (logged b seg)"
  unfolding no_writes_def by blast

lemma no_writes_refl [simp]: "no_writes b b"
  using no_writes_logged [of "[]" b] by simp

lemma run_closeOrangutan:
  "\<exists>c. run_state (closeOrangutan E) b = ((), c) \<and>
     no_writes (set_fd (if 0 \<le>s gFd b then - 1 else gFd b) b) c"
  by (cases "0 \<le>s gFd b") (simp_all add: closeOrangutan_def)

lemma run_openOrangutan:
  "\<exists>fd c. run_state (openOrangutan E) b = (fd, c) \<and> no_writes (set_fd fd b) c"
proof -
  obtain ok fd x where r: "E (bus_log b) Open_Port = (ok, fd, x)"
    by (cases "E (bus_log b) Open_Port")
  show ?thesis
    by (cases "0 \<le>s fd") (simp_all add: openOrangutan_def r)
qed

end
