(* ===== verification/OwBus.thy ===== *)
theory OwBus
  imports Orangutan
begin

section \<open>The hardware of the robot: \<open>RoboOneHardware/src/ow_bus.c\<close>\<close>

text \<open>
  The functions of \<open>ow_bus.c\<close> over the state and the bus of \<open>Bus\<close>: the reads and writes that go through
  the shadow, setting up the devices, and the public functions for the relays, the chargers, the multiplexer and the
  battery monitors.
\<close>

subsection \<open>Static functions\<close>

text \<open>\<open>printAddress\<close>: a C string, so what follows the terminator is not part of the result.\<close>

definition hex_digit :: "nat \<Rightarrow> char" where
  "hex_digit n = ''0123456789abcdef'' ! n"

definition hex_byte :: "u8 \<Rightarrow> string" where
  "hex_byte v = [hex_digit (unat (drop_bit 4 v)), hex_digit (unat (take_bit 4 v))]"

definition printAddress :: "u8 list \<Rightarrow> string" where
  "printAddress address =
     (let s = ''0x'' @ concat (map hex_byte (take 8 address)); x = 2 + 2 * 8
      in take (x - 1) s)"

definition getDeviceType :: "u8 list \<Rightarrow> ow_device_type" where
  "getDeviceType address =
     (if hd address = FAMILY_SBATTERY then DS2438_BATTERY_MONITOR
      else if hd address = FAMILY_PIO then DS2408_PIO
      else TYPE_UNKNOWN)"

text \<open>The loop of \<open>accountForShadow\<close>, with \<open>mask\<close> shifted left at each of its eight turns.\<close>

fun shadow_loop :: "nat \<Rightarrow> u8 \<Rightarrow> u8 \<Rightarrow> u8 \<Rightarrow> u8 \<Rightarrow> u8" where
  "shadow_loop 0 m shadow_mask shadow pins = pins"
| "shadow_loop (Suc n) m shadow_mask shadow pins =
     shadow_loop n (push_bit 1 m) shadow_mask shadow
       (if and shadow_mask m \<noteq> 0
        then if and shadow m \<noteq> 0 then or pins m else and pins (not m)
        else pins)"

definition accountForShadow :: "ow_device \<Rightarrow> u8 \<Rightarrow> u8 ow" where
  "accountForShadow d pins = reads (\<lambda>b. shadow_loop 8 1 (readShadowMask d) (pins_state b d) pins)"

definition debug_read :: "bus_env \<Rightarrow> ow_device \<Rightarrow> unit ow" where
  "debug_read E d = do {
     (ok, v, _) \<leftarrow> dev E d Read_Logic;
     _ \<leftarrow> (if ok then accountForShadow d (ucast v) else State_Monad.return (ucast v));
     State_Monad.return ()
   }"

definition debugPrintPinsState :: "bus_env \<Rightarrow> unit ow" where
  "debugPrintPinsState E = do {
     debug_read E CHARGER_STATE_PIO;
     debug_read E DARLINGTON_PIO;
     debug_read E RELAY_PIO;
     debug_read E GENERAL_PURPOSE_PIO
   }"

text \<open>The readers return their success and what \<open>*pPinsState\<close> then holds.\<close>

definition readPins :: "bus_env \<Rightarrow> ow_device \<Rightarrow> (bool \<times> u8) ow" where
  "readPins E d = do {
     (success, v, _) \<leftarrow> dev E d Read_Logic;
     debugPrintPinsState E;
     State_Monad.return (success, ucast v)
   }"

definition readAndResetRisingEdgePins :: "bus_env \<Rightarrow> ow_device \<Rightarrow> (bool \<times> u8) ow" where
  "readAndResetRisingEdgePins E d = do {
     (success, v, _) \<leftarrow> dev E d Read_Latch;
     success \<leftarrow> (if success
       then do { (ok, _, _) \<leftarrow> dev E d Reset_Latch; State_Monad.return ok }
       else State_Monad.return False);
     debugPrintPinsState E;
     State_Monad.return (success, ucast v)
   }"

definition readPinsWithShadow :: "bus_env \<Rightarrow> ow_device \<Rightarrow> (bool \<times> u8) ow" where
  "readPinsWithShadow E d = do {
     (success, v, _) \<leftarrow> dev E d Read_Logic;
     pins \<leftarrow> (if success then accountForShadow d (ucast v) else State_Monad.return (ucast v));
     debugPrintPinsState E;
     State_Monad.return (success, pins)
   }"

definition setPinsWithShadow :: "bus_env \<Rightarrow> ow_device \<Rightarrow> u8 \<Rightarrow> bool \<Rightarrow> bool ow" where
  "setPinsWithShadow E d pinsMask setPinsTo5Volts = do {
     (_, pins) \<leftarrow> readPinsWithShadow E d;
     let pins = (if setPinsTo5Volts then or pins pinsMask else and pins (not pinsMask));
     let pins = or pins (inputMask d);
     (success, _, _) \<leftarrow> dev E d (Channel_Write pins);
     (if success then modify_bus (set_shadow d pins) else State_Monad.return ());
     debugPrintPinsState E;
     State_Monad.return success
   }"

definition TOGGLE_DELAY_US :: nat where "TOGGLE_DELAY_US = 500000"

fun toggle_loop :: "bus_env \<Rightarrow> ow_device \<Rightarrow> u8 \<Rightarrow> nat \<Rightarrow> u8 \<Rightarrow> bool \<Rightarrow> bool ow" where
  "toggle_loop E d pinsMask 0 pins success = State_Monad.return success"
| "toggle_loop E d pinsMask (Suc n) pins success =
     (if \<not> success then State_Monad.return False
      else do {
        let pins = (if and pins pinsMask \<noteq> 0 then and pins (not pinsMask) else or pins pinsMask);
        let pins = or pins (inputMask d);
        (success, _, _) \<leftarrow> dev E d (Channel_Write pins);
        (if success then modify_bus (set_shadow d pins) else State_Monad.return ());
        debugPrintPinsState E;
        _ \<leftarrow> bus_exec E (Sleep_Us TOGGLE_DELAY_US);
        toggle_loop E d pinsMask n pins success
      })"

definition togglePinsWithShadow :: "bus_env \<Rightarrow> ow_device \<Rightarrow> u8 \<Rightarrow> bool ow" where
  "togglePinsWithShadow E d pinsMask = do {
     (success, pins) \<leftarrow> readPinsWithShadow E d;
     debugPrintPinsState E;
     toggle_loop E d pinsMask 2 pins success
   }"

datatype charge_state =
    CHARGE_STATE_NO_POWER | CHARGE_STATE_OFF | CHARGE_STATE_GREEN | CHARGE_STATE_FLASHING_GREEN
  | CHARGE_STATE_RED | CHARGE_STATE_FLASHING_RED | CHARGE_STATE_UNKNOWN | CHARGE_STATE_BAD

definition getChargeState :: "bool \<Rightarrow> bool \<Rightarrow> u8 \<Rightarrow> u8 \<Rightarrow> u8 \<Rightarrow> charge_state" where
  "getChargeState success poweredOn pins greenMask redMask =
     (let state = CHARGE_STATE_UNKNOWN
      in if success then
           (let state = CHARGE_STATE_NO_POWER
            in if poweredOn then
                 (let state = CHARGE_STATE_OFF;
                      state = (if and pins greenMask \<noteq> 0 then CHARGE_STATE_GREEN else state)
                  in if and pins redMask \<noteq> 0
                     then if state = CHARGE_STATE_GREEN then CHARGE_STATE_BAD else CHARGE_STATE_RED
                     else state)
               else state)
         else state)"

definition getChargeFlashingState :: "charge_state \<Rightarrow> u8 \<Rightarrow> u8 \<Rightarrow> u8 \<Rightarrow> u8 \<Rightarrow> charge_state" where
  "getChargeFlashingState existing lastEdges edges greenMask redMask =
     (let state = existing;
          state = (if and edges greenMask \<noteq> 0 \<and> and lastEdges greenMask \<noteq> 0
                   then CHARGE_STATE_FLASHING_GREEN else state)
      in if and edges redMask \<noteq> 0 \<and> and lastEdges redMask \<noteq> 0 then CHARGE_STATE_FLASHING_RED else state)"

subsection \<open>Starting the bus\<close>

definition startOneWireBus :: "bus_env \<Rightarrow> bool ow" where
  "startOneWireBus E = do {
     (_, port, _) \<leftarrow> bus_exec E Start_Bus;
     modify_bus (gPortNumber_update (\<lambda>_. port));
     State_Monad.return (\<not> sint port < 0)
   }"

definition stopOneWireBus :: "bus_env \<Rightarrow> unit ow" where
  "stopOneWireBus E = do {
     p \<leftarrow> reads gPortNumber;
     (if 0 \<le> sint p
      then do { _ \<leftarrow> bus_exec E (Stop_Bus p); modify_bus (gPortNumber_update (\<lambda>_. - 1)) }
      else State_Monad.return ())
   }"

definition MAX_NUM_DEVICES :: nat where "MAX_NUM_DEVICES = 8"
definition MAX_NUM_BATTERY_DEVICES :: nat where "MAX_NUM_BATTERY_DEVICES = 4"
definition MAX_DEVICES_TO_FIND :: nat where "MAX_DEVICES_TO_FIND = 10"

text \<open>\<open>findAllDevices\<close> allocates room for the addresses, asks for at most \<open>MAX_NUM_DEVICES\<close> of them and prints what
  it gets; its result is the number found.\<close>

definition findAllDevices :: "bus_env \<Rightarrow> u8 ow" where
  "findAllDevices E = do {
     (allocated, _, _) \<leftarrow> bus_exec E (Malloc_Bytes (8 * MAX_DEVICES_TO_FIND));
     (if allocated
      then do {
        p \<leftarrow> reads gPortNumber;
        (_, n, _) \<leftarrow> bus_exec E (Find_Devices p MAX_NUM_DEVICES);
        State_Monad.return (ucast n)
      }
      else State_Monad.return 0)
   }"

definition setup_battery_monitor :: "bus_env \<Rightarrow> ow_device \<Rightarrow> bool ow" where
  "setup_battery_monitor E d = do {
     (ok, _, _) \<leftarrow> dev E d (Write_Config_Threshold DEFAULT_DS2438_CONFIG DEFAULT_DS2438_THRESHOLD);
     (if \<not> ok then State_Monad.return False
      else do {
        (ok, _, _) \<leftarrow> dev E d Init_Time_Capacity;
        (if \<not> ok then State_Monad.return False
         else do {
           elapsedTime \<leftarrow> getSystemTicks E;
           (ok, _, _) \<leftarrow> dev E d (Write_Time_Capacity elapsedTime None True);
           State_Monad.return ok
         })
      })
   }"

definition setup_pio :: "bus_env \<Rightarrow> ow_device \<Rightarrow> bool ow" where
  "setup_pio E d = do {
     (ok, _, _) \<leftarrow> dev E d Disable_Test_Mode;
     debugPrintPinsState E;
     (if \<not> ok then State_Monad.return False
      else do {
        (ok, _, _) \<leftarrow> dev E d (Write_Control DEFAULT_DS2408_CONFIG);
        debugPrintPinsState E;
        ok \<leftarrow> (if ok
          then do {
            shadow \<leftarrow> reads (\<lambda>b. pins_state b d);
            (ok, _, _) \<leftarrow> dev E d (Channel_Write (or shadow (inputMask d)));
            State_Monad.return ok
          }
          else State_Monad.return False);
        debugPrintPinsState E;
        State_Monad.return ok
      })
   }"

text \<open>The \<open>switch\<close> on the type of a device that was found.\<close>

definition setup_device :: "bus_env \<Rightarrow> bool \<Rightarrow> ow_device \<Rightarrow> (fault + bool) ow" where
  "setup_device E batteriesOnly d =
     (case getDeviceType (device_address d) of
        DS2438_BATTERY_MONITOR \<Rightarrow> do { ok \<leftarrow> setup_battery_monitor E d; State_Monad.return (Inr ok) }
      | DS2408_PIO \<Rightarrow>
          (if batteriesOnly then State_Monad.return (Inl Assert_Failed)
           else do { ok \<leftarrow> setup_pio E d; State_Monad.return (Inr ok) })
      | TYPE_UNKNOWN \<Rightarrow> State_Monad.return (Inl Assert_Failed))"

text \<open>The first loop of \<open>setupDevices\<close>: the result is the variable \<open>success\<close> and the array \<open>found\<close>.\<close>

fun setup_loop :: "bus_env \<Rightarrow> bool \<Rightarrow> ow_device list \<Rightarrow> bool \<Rightarrow> (fault + bool \<times> bool list) ow" where
  "setup_loop E batteriesOnly [] success = State_Monad.return (Inr (success, []))"
| "setup_loop E batteriesOnly (d # ds) success = do {
     (found, _, _) \<leftarrow> dev E d Access_Device;
     r \<leftarrow> (if found then setup_device E batteriesOnly d else State_Monad.return (Inr success));
     (case r of
        Inl e \<Rightarrow> State_Monad.return (Inl e)
      | Inr success \<Rightarrow> do {
          rest \<leftarrow> setup_loop E batteriesOnly ds success;
          State_Monad.return (andthen rest (\<lambda>(success, fs). Inr (success, found # fs)))
        })
   }"

definition setupDevices :: "bus_env \<Rightarrow> bool \<Rightarrow> (fault + bool) ow" where
  "setupDevices E batteriesOnly = do {
     let numDevices = (if batteriesOnly then MAX_NUM_BATTERY_DEVICES else MAX_NUM_DEVICES);
     r \<leftarrow> setup_loop E batteriesOnly (take numDevices all_devices) True;
     State_Monad.return (andthen r (\<lambda>(success, found). Inr (if \<forall>f \<in> set found. f then success else False)))
   }"

subsection \<open>Reading and switching pins\<close>

text \<open>
  A \<open>Bool *\<close> argument is an option: \<open>None\<close> for a null pointer, else the contents of what it points to.
  \<open>read_switch\<close> is the body shared by the functions that read one pin; \<open>on_when_set\<close> is false for the relays
  that switch something off when they are on.
\<close>

definition read_switch :: "bus_env \<Rightarrow> ow_device \<Rightarrow> u8 \<Rightarrow> bool \<Rightarrow> bool option \<Rightarrow> (bool \<times> bool option) ow" where
  "read_switch E d m on_when_set pIsOn = do {
     (success, pins) \<leftarrow> readPinsWithShadow E d;
     State_Monad.return (success,
       if success \<and> pIsOn \<noteq> None then Some (if and pins m \<noteq> 0 then on_when_set else \<not> on_when_set) else pIsOn)
   }"

definition readMains12VPin :: "bus_env \<Rightarrow> bool \<Rightarrow> (bool \<times> bool) ow" where
  "readMains12VPin E mains12VIsPresent = do {
     (success, pins) \<leftarrow> readPins E RELAY_PIO;
     State_Monad.return (success, if success then and pins RELAY_12V_DETECT \<noteq> 0 else mains12VIsPresent)
   }"

definition readChargerStatePins :: "bus_env \<Rightarrow> (bool \<times> u8) ow" where
  "readChargerStatePins E = readPins E CHARGER_STATE_PIO"

definition WAIT_BEFORE_ORANGUTAN_OPEN_AFTER_TOGGLE_US :: nat where
  "WAIT_BEFORE_ORANGUTAN_OPEN_AFTER_TOGGLE_US = 100000"

definition toggle_orangutan :: "bus_env \<Rightarrow> u8 \<Rightarrow> bool ow" where
  "toggle_orangutan E m = do {
     closeOrangutan E;
     success \<leftarrow> togglePinsWithShadow E DARLINGTON_PIO m;
     _ \<leftarrow> bus_exec E (Sleep_Us WAIT_BEFORE_ORANGUTAN_OPEN_AFTER_TOGGLE_US);
     _ \<leftarrow> openOrangutan E;
     State_Monad.return success
   }"

definition toggleOPwr :: "bus_env \<Rightarrow> bool ow" where
  "toggleOPwr E = toggle_orangutan E DARLINGTON_O_PWR_TOGGLE"

definition toggleORst :: "bus_env \<Rightarrow> bool ow" where
  "toggleORst E = toggle_orangutan E DARLINGTON_O_RESET_TOGGLE"

definition togglePiRst :: "bus_env \<Rightarrow> bool ow" where
  "togglePiRst E = State_Monad.return True"

definition readOPwr :: "bus_env \<Rightarrow> bool option \<Rightarrow> (bool \<times> bool option) ow" where
  "readOPwr E = read_switch E DARLINGTON_PIO DARLINGTON_O_PWR_TOGGLE True"

definition readORst :: "bus_env \<Rightarrow> bool option \<Rightarrow> (bool \<times> bool option) ow" where
  "readORst E = read_switch E DARLINGTON_PIO DARLINGTON_O_RESET_TOGGLE True"

definition setRioPwr12VOn :: "bus_env \<Rightarrow> bool ow" where
  "setRioPwr12VOn E = setPinsWithShadow E DARLINGTON_PIO DARLINGTON_RIO_PWR_12V_ON True"

definition setRioPwr12VOff :: "bus_env \<Rightarrow> bool ow" where
  "setRioPwr12VOff E = setPinsWithShadow E DARLINGTON_PIO DARLINGTON_RIO_PWR_12V_ON False"

definition readRioPwr12V :: "bus_env \<Rightarrow> bool option \<Rightarrow> (bool \<times> bool option) ow" where
  "readRioPwr12V E = read_switch E DARLINGTON_PIO DARLINGTON_RIO_PWR_12V_ON True"

definition setRioPwrBattOn :: "bus_env \<Rightarrow> bool ow" where
  "setRioPwrBattOn E = setPinsWithShadow E DARLINGTON_PIO DARLINGTON_RIO_PWR_BATT_OFF False"

definition setRioPwrBattOff :: "bus_env \<Rightarrow> bool ow" where
  "setRioPwrBattOff E = setPinsWithShadow E DARLINGTON_PIO DARLINGTON_RIO_PWR_BATT_OFF True"

definition readRioPwrBatt :: "bus_env \<Rightarrow> bool option \<Rightarrow> (bool \<times> bool option) ow" where
  "readRioPwrBatt E = read_switch E DARLINGTON_PIO DARLINGTON_RIO_PWR_BATT_OFF False"

definition setOPwr12VOn :: "bus_env \<Rightarrow> bool ow" where
  "setOPwr12VOn E = setPinsWithShadow E RELAY_PIO RELAY_O_PWR_12V_ON True"

definition setOPwr12VOff :: "bus_env \<Rightarrow> bool ow" where
  "setOPwr12VOff E = setPinsWithShadow E RELAY_PIO RELAY_O_PWR_12V_ON False"

definition readOPwr12V :: "bus_env \<Rightarrow> bool option \<Rightarrow> (bool \<times> bool option) ow" where
  "readOPwr12V E = read_switch E RELAY_PIO RELAY_O_PWR_12V_ON True"

definition setOPwrBattOn :: "bus_env \<Rightarrow> bool ow" where
  "setOPwrBattOn E = setPinsWithShadow E RELAY_PIO RELAY_O_PWR_BATT_OFF False"

definition setOPwrBattOff :: "bus_env \<Rightarrow> bool ow" where
  "setOPwrBattOff E = setPinsWithShadow E RELAY_PIO RELAY_O_PWR_BATT_OFF True"

definition readOPwrBatt :: "bus_env \<Rightarrow> bool option \<Rightarrow> (bool \<times> bool option) ow" where
  "readOPwrBatt E = read_switch E RELAY_PIO RELAY_O_PWR_BATT_OFF False"

definition setRioBatteryChargerOn :: "bus_env \<Rightarrow> bool ow" where
  "setRioBatteryChargerOn E = setPinsWithShadow E RELAY_PIO RELAY_RIO_CHARGER_OFF False"

definition setRioBatteryChargerOff :: "bus_env \<Rightarrow> bool ow" where
  "setRioBatteryChargerOff E = setPinsWithShadow E RELAY_PIO RELAY_RIO_CHARGER_OFF True"

definition readRioBatteryCharger :: "bus_env \<Rightarrow> bool option \<Rightarrow> (bool \<times> bool option) ow" where
  "readRioBatteryCharger E = read_switch E RELAY_PIO RELAY_RIO_CHARGER_OFF False"

definition setO1BatteryChargerOn :: "bus_env \<Rightarrow> bool ow" where
  "setO1BatteryChargerOn E = setPinsWithShadow E RELAY_PIO RELAY_O1_CHARGER_OFF False"

definition setO1BatteryChargerOff :: "bus_env \<Rightarrow> bool ow" where
  "setO1BatteryChargerOff E = setPinsWithShadow E RELAY_PIO RELAY_O1_CHARGER_OFF True"

definition readO1BatteryCharger :: "bus_env \<Rightarrow> bool option \<Rightarrow> (bool \<times> bool option) ow" where
  "readO1BatteryCharger E = read_switch E RELAY_PIO RELAY_O1_CHARGER_OFF False"

definition setO2BatteryChargerOn :: "bus_env \<Rightarrow> bool ow" where
  "setO2BatteryChargerOn E = setPinsWithShadow E RELAY_PIO RELAY_O2_CHARGER_OFF False"

definition setO2BatteryChargerOff :: "bus_env \<Rightarrow> bool ow" where
  "setO2BatteryChargerOff E = setPinsWithShadow E RELAY_PIO RELAY_O2_CHARGER_OFF True"

definition readO2BatteryCharger :: "bus_env \<Rightarrow> bool option \<Rightarrow> (bool \<times> bool option) ow" where
  "readO2BatteryCharger E = read_switch E RELAY_PIO RELAY_O2_CHARGER_OFF False"

definition setO3BatteryChargerOn :: "bus_env \<Rightarrow> bool ow" where
  "setO3BatteryChargerOn E = setPinsWithShadow E RELAY_PIO RELAY_O3_CHARGER_OFF False"

definition setO3BatteryChargerOff :: "bus_env \<Rightarrow> bool ow" where
  "setO3BatteryChargerOff E = setPinsWithShadow E RELAY_PIO RELAY_O3_CHARGER_OFF True"

definition readO3BatteryCharger :: "bus_env \<Rightarrow> bool option \<Rightarrow> (bool \<times> bool option) ow" where
  "readO3BatteryCharger E = read_switch E RELAY_PIO RELAY_O3_CHARGER_OFF False"

text \<open>\<open>all_of\<close>: the nested \<open>if (success)\<close> of the functions that switch several chargers or calibrate several
  monitors: the first failure ends the sequence.\<close>

fun all_of :: "bool ow list \<Rightarrow> bool ow" where
  "all_of [] = State_Monad.return True"
| "all_of (m # ms) = do { success \<leftarrow> m; if success then all_of ms else State_Monad.return False }"

definition setAllBatteryChargersOn :: "bus_env \<Rightarrow> bool ow" where
  "setAllBatteryChargersOn E =
     all_of [setRioBatteryChargerOn E, setO1BatteryChargerOn E, setO2BatteryChargerOn E, setO3BatteryChargerOn E]"

definition setAllBatteryChargersOff :: "bus_env \<Rightarrow> bool ow" where
  "setAllBatteryChargersOff E =
     all_of [setRioBatteryChargerOff E, setO1BatteryChargerOff E, setO2BatteryChargerOff E,
       setO3BatteryChargerOff E]"

definition setAllOChargersOn :: "bus_env \<Rightarrow> bool ow" where
  "setAllOChargersOn E = all_of [setO1BatteryChargerOn E, setO2BatteryChargerOn E, setO3BatteryChargerOn E]"

definition setAllOChargersOff :: "bus_env \<Rightarrow> bool ow" where
  "setAllOChargersOff E = all_of [setO1BatteryChargerOff E, setO2BatteryChargerOff E, setO3BatteryChargerOff E]"

definition disableOnPCBRelays :: "bus_env \<Rightarrow> bool ow" where
  "disableOnPCBRelays E = setPinsWithShadow E DARLINGTON_PIO DARLINGTON_ENABLE_BAR True"

definition enableOnPCBRelays :: "bus_env \<Rightarrow> bool ow" where
  "enableOnPCBRelays E = setPinsWithShadow E DARLINGTON_PIO DARLINGTON_ENABLE_BAR False"

definition readOnPCBRelaysEnabled :: "bus_env \<Rightarrow> bool option \<Rightarrow> (bool \<times> bool option) ow" where
  "readOnPCBRelaysEnabled E = read_switch E DARLINGTON_PIO DARLINGTON_ENABLE_BAR False"

definition disableExternalRelays :: "bus_env \<Rightarrow> bool ow" where
  "disableExternalRelays E = setPinsWithShadow E RELAY_PIO RELAY_ENABLE_BAR True"

definition enableExternalRelays :: "bus_env \<Rightarrow> bool ow" where
  "enableExternalRelays E = setPinsWithShadow E RELAY_PIO RELAY_ENABLE_BAR False"

definition readExternalRelaysEnabled :: "bus_env \<Rightarrow> bool option \<Rightarrow> (bool \<times> bool option) ow" where
  "readExternalRelaysEnabled E = read_switch E RELAY_PIO RELAY_ENABLE_BAR False"

definition readGeneralPurposeIOs :: "bus_env \<Rightarrow> (bool \<times> u8) ow" where
  "readGeneralPurposeIOs E = readPinsWithShadow E GENERAL_PURPOSE_PIO"

subsection \<open>The state of the chargers\<close>

datatype charger = CHARGER_RIO | CHARGER_O1 | CHARGER_O2 | CHARGER_O3

fun green_mask :: "charger \<Rightarrow> u8" where
  "green_mask CHARGER_RIO = CHARGER_RIO_GREEN"
| "green_mask CHARGER_O1 = CHARGER_O1_GREEN"
| "green_mask CHARGER_O2 = CHARGER_O2_GREEN"
| "green_mask CHARGER_O3 = CHARGER_O3_GREEN"

fun red_mask :: "charger \<Rightarrow> u8" where
  "red_mask CHARGER_RIO = CHARGER_RIO_RED"
| "red_mask CHARGER_O1 = CHARGER_O1_RED"
| "red_mask CHARGER_O2 = CHARGER_O2_RED"
| "red_mask CHARGER_O3 = CHARGER_O3_RED"

definition charger_of :: "(bool \<times> bool option) \<Rightarrow> bool \<Rightarrow> u8 \<Rightarrow> charger \<Rightarrow> charge_state" where
  "charger_of r relaysPowered pins c =
     getChargeState (fst r) (\<not> (relaysPowered \<and> \<not> the (snd r))) pins (green_mask c) (red_mask c)"

text \<open>
  \<open>readChargerState\<close> maps the contents of \<open>pState\<close> and \<open>*pFlashDetectPossible\<close> to its success and their new
  contents.  \<open>chargerPowered\<close> is not initialised in the code; it starts as \<open>False\<close> here, which no result depends
  on, since \<open>getChargeState\<close> ignores it when it was not read.
\<close>

definition readChargerState ::
  "bus_env \<Rightarrow> (charger \<Rightarrow> charge_state) \<Rightarrow> bool \<Rightarrow> (bool \<times> (charger \<Rightarrow> charge_state) \<times> bool) ow" where
  "readChargerState E st flashPossible = do {
     last \<leftarrow> reads ticksAtLastRead;
     success \<leftarrow> (if last = 0
       then do {
         (ok, edges) \<leftarrow> readAndResetRisingEdgePins E CHARGER_STATE_PIO;
         modify_bus (lastPinsEdgeState_update (\<lambda>_. edges));
         t \<leftarrow> getSystemTicks E;
         modify_bus (ticksAtLastRead_update (\<lambda>_. t));
         State_Monad.return ok
       }
       else State_Monad.return True);
     (if \<not> success then State_Monad.return (False, st, flashPossible)
      else do {
        ticksNow \<leftarrow> getSystemTicks E;
        (success, pins) \<leftarrow> readPins E CHARGER_STATE_PIO;
        (if \<not> success then State_Monad.return (False, st, flashPossible)
         else do {
           (success, relays) \<leftarrow> readExternalRelaysEnabled E (Some False);
           (if \<not> success then State_Monad.return (False, st, False)
            else do {
              let relaysPowered = the relays;
              rio \<leftarrow> readRioBatteryCharger E (Some False);
              let st = st(CHARGER_RIO := charger_of rio relaysPowered pins CHARGER_RIO);
              o1 \<leftarrow> readO1BatteryCharger E (snd rio);
              let st = st(CHARGER_O1 := charger_of o1 relaysPowered pins CHARGER_O1);
              o2 \<leftarrow> readO2BatteryCharger E (snd o1);
              let st = st(CHARGER_O2 := charger_of o2 relaysPowered pins CHARGER_O2);
              o3 \<leftarrow> readO3BatteryCharger E (snd o2);
              let st = st(CHARGER_O3 := charger_of o3 relaysPowered pins CHARGER_O3);
              last \<leftarrow> reads ticksAtLastRead;
              (if 1 < last - ticksNow
               then do {
                 (success, edges) \<leftarrow> readAndResetRisingEdgePins E CHARGER_STATE_PIO;
                 (if \<not> success then State_Monad.return (False, st, False)
                  else do {
                    lastEdges \<leftarrow> reads lastPinsEdgeState;
                    modify_bus (lastPinsEdgeState_update (\<lambda>_. edges));
                    modify_bus (ticksAtLastRead_update (\<lambda>_. ticksNow));
                    State_Monad.return (True,
                      (\<lambda>c. getChargeFlashingState (st c) lastEdges edges (green_mask c) (red_mask c)), True)
                  })
               }
               else State_Monad.return (fst o3, st, False))
            })
         })
      })
   }"

subsection \<open>The analogue multiplexer and the temperatures\<close>

definition setAnalogueMuxInput :: "bus_env \<Rightarrow> u8 \<Rightarrow> (fault + bool) ow" where
  "setAnalogueMuxInput E input =
     (if \<not> input < 8 then State_Monad.return (Inl Assert_Failed)
      else do {
        (success, pins) \<leftarrow> readPinsWithShadow E GENERAL_PURPOSE_PIO;
        (if \<not> success then State_Monad.return (Inr False)
         else do {
           let pins = or pins GENERAL_PURPOSE_IO_MUX_ENABLE_BAR;
           (success, _, _) \<leftarrow> dev E GENERAL_PURPOSE_PIO (Channel_Write pins);
           (if \<not> success then State_Monad.return (Inr False)
            else do {
              modify_bus (set_shadow GENERAL_PURPOSE_PIO pins);
              let pinsToWrite = or (and pins (not mux_address)) (and (push_bit 4 input) mux_address);
              (success, _, _) \<leftarrow> dev E GENERAL_PURPOSE_PIO (Channel_Write pinsToWrite);
              (if \<not> success then State_Monad.return (Inr False)
               else do {
                 modify_bus (set_shadow GENERAL_PURPOSE_PIO pins);
                 let pins = and pins (not GENERAL_PURPOSE_IO_MUX_ENABLE_BAR);
                 (success, _, _) \<leftarrow> dev E GENERAL_PURPOSE_PIO (Channel_Write pins);
                 (if success then modify_bus (set_shadow GENERAL_PURPOSE_PIO pins) else State_Monad.return ());
                 State_Monad.return (Inr success)
               })
            })
         })
      })"

definition readAnalogueMux :: "bus_env \<Rightarrow> (bool \<times> u16) ow" where
  "readAnalogueMux E = do {
     (success, v, _) \<leftarrow> dev E RIO_BATTERY_MONITOR Read_Vad;
     State_Monad.return (success, ucast v)
   }"

text \<open>\<open>MV_TO_C\<close> is computed on \<open>int\<close>, whose division rounds towards zero.\<close>

definition MV_TO_C :: "u16 \<Rightarrow> int" where
  "MV_TO_C mv = (let x = uint mv - 500 in if x < 0 then - ((- x) div 10) else x div 10)"

definition read_temperature :: "bus_env \<Rightarrow> u8 \<Rightarrow> int option \<Rightarrow> (fault + bool \<times> int option) ow" where
  "read_temperature E sensor pTemperature = do {
     r \<leftarrow> setAnalogueMuxInput E sensor;
     (case r of
        Inl e \<Rightarrow> State_Monad.return (Inl e)
      | Inr success \<Rightarrow>
          (if \<not> success then State_Monad.return (Inr (False, pTemperature))
           else do {
             (success, voltage) \<leftarrow> readAnalogueMux E;
             State_Monad.return (Inr (success,
               if success \<and> pTemperature \<noteq> None then Some (MV_TO_C voltage) else pTemperature))
           }))
   }"

definition readRioBattTemperature :: "bus_env \<Rightarrow> int option \<Rightarrow> (fault + bool \<times> int option) ow" where
  "readRioBattTemperature E = read_temperature E TEMPERATURE_SENSOR_RIO_BATT"

definition readO1BattTemperature :: "bus_env \<Rightarrow> int option \<Rightarrow> (fault + bool \<times> int option) ow" where
  "readO1BattTemperature E = read_temperature E TEMPERATURE_SENSOR_O1_BATT"

definition readO2BattTemperature :: "bus_env \<Rightarrow> int option \<Rightarrow> (fault + bool \<times> int option) ow" where
  "readO2BattTemperature E = read_temperature E TEMPERATURE_SENSOR_O2_BATT"

definition readO3BattTemperature :: "bus_env \<Rightarrow> int option \<Rightarrow> (fault + bool \<times> int option) ow" where
  "readO3BattTemperature E = read_temperature E TEMPERATURE_SENSOR_O3_BATT"

subsection \<open>The battery monitors\<close>

definition read_u16 :: "bus_env \<Rightarrow> ow_device \<Rightarrow> bus_op \<Rightarrow> (bool \<times> u16) ow" where
  "read_u16 E d op = do { (success, v, _) \<leftarrow> dev E d op; State_Monad.return (success, ucast v) }"

definition readRioBattCurrent :: "bus_env \<Rightarrow> (bool \<times> s16) ow" where
  "readRioBattCurrent E = read_u16 E RIO_BATTERY_MONITOR Read_Current"

definition readO1BattCurrent :: "bus_env \<Rightarrow> (bool \<times> s16) ow" where
  "readO1BattCurrent E = read_u16 E O1_BATTERY_MONITOR Read_Current"

definition readO2BattCurrent :: "bus_env \<Rightarrow> (bool \<times> s16) ow" where
  "readO2BattCurrent E = read_u16 E O2_BATTERY_MONITOR Read_Current"

definition readO3BattCurrent :: "bus_env \<Rightarrow> (bool \<times> s16) ow" where
  "readO3BattCurrent E = read_u16 E O3_BATTERY_MONITOR Read_Current"

definition readRioBattVoltage :: "bus_env \<Rightarrow> (bool \<times> u16) ow" where
  "readRioBattVoltage E = read_u16 E RIO_BATTERY_MONITOR Read_Vdd"

definition readO1BattVoltage :: "bus_env \<Rightarrow> (bool \<times> u16) ow" where
  "readO1BattVoltage E = read_u16 E O1_BATTERY_MONITOR Read_Vdd"

definition readO2BattVoltage :: "bus_env \<Rightarrow> (bool \<times> u16) ow" where
  "readO2BattVoltage E = read_u16 E O2_BATTERY_MONITOR Read_Vdd"

definition readO3BattVoltage :: "bus_env \<Rightarrow> (bool \<times> u16) ow" where
  "readO3BattVoltage E = read_u16 E O3_BATTERY_MONITOR Read_Vdd"

definition readRioRemainingCapacity :: "bus_env \<Rightarrow> (bool \<times> u16) ow" where
  "readRioRemainingCapacity E = read_u16 E RIO_BATTERY_MONITOR (Read_Capacity True)"

definition readO1RemainingCapacity :: "bus_env \<Rightarrow> (bool \<times> u16) ow" where
  "readO1RemainingCapacity E = read_u16 E O1_BATTERY_MONITOR (Read_Capacity True)"

definition readO2RemainingCapacity :: "bus_env \<Rightarrow> (bool \<times> u16) ow" where
  "readO2RemainingCapacity E = read_u16 E O2_BATTERY_MONITOR (Read_Capacity True)"

definition readO3RemainingCapacity :: "bus_env \<Rightarrow> (bool \<times> u16) ow" where
  "readO3RemainingCapacity E = read_u16 E O3_BATTERY_MONITOR (Read_Capacity True)"

definition readRioBattLifetimeChargeDischarge :: "bus_env \<Rightarrow> bus_reply ow" where
  "readRioBattLifetimeChargeDischarge E = dev E RIO_BATTERY_MONITOR Read_Charge_Discharge"

definition readO1BattLifetimeChargeDischarge :: "bus_env \<Rightarrow> bus_reply ow" where
  "readO1BattLifetimeChargeDischarge E = dev E O1_BATTERY_MONITOR Read_Charge_Discharge"

definition readO2BattLifetimeChargeDischarge :: "bus_env \<Rightarrow> bus_reply ow" where
  "readO2BattLifetimeChargeDischarge E = dev E O2_BATTERY_MONITOR Read_Charge_Discharge"

definition readO3BattLifetimeChargeDischarge :: "bus_env \<Rightarrow> bus_reply ow" where
  "readO3BattLifetimeChargeDischarge E = dev E O3_BATTERY_MONITOR Read_Charge_Discharge"

definition perform_cal :: "bus_env \<Rightarrow> ow_device \<Rightarrow> bool ow" where
  "perform_cal E d = do { (success, _, _) \<leftarrow> dev E d Perform_Cal; State_Monad.return success }"

definition performCalRioBatteryMonitor :: "bus_env \<Rightarrow> bool ow" where
  "performCalRioBatteryMonitor E = perform_cal E RIO_BATTERY_MONITOR"

definition performCalO1BatteryMonitor :: "bus_env \<Rightarrow> bool ow" where
  "performCalO1BatteryMonitor E = perform_cal E O1_BATTERY_MONITOR"

definition performCalO2BatteryMonitor :: "bus_env \<Rightarrow> bool ow" where
  "performCalO2BatteryMonitor E = perform_cal E O2_BATTERY_MONITOR"

definition performCalO3BatteryMonitor :: "bus_env \<Rightarrow> bool ow" where
  "performCalO3BatteryMonitor E = perform_cal E O3_BATTERY_MONITOR"

definition performCalAllBatteryMonitors :: "bus_env \<Rightarrow> bool ow" where
  "performCalAllBatteryMonitors E =
     all_of [performCalRioBatteryMonitor E, performCalO1BatteryMonitor E, performCalO2BatteryMonitor E,
       performCalO3BatteryMonitor E]"

definition swap_battery :: "bus_env \<Rightarrow> ow_device \<Rightarrow> u32 \<Rightarrow> u16 \<Rightarrow> bool ow" where
  "swap_battery E d systemTime remainingCapacity = do {
     let charge = ucast remainingCapacity;
     (success, _, _) \<leftarrow> dev E d (Write_Time_Capacity systemTime (Some remainingCapacity) True);
     (if success
      then do { (success, _, _) \<leftarrow> dev E d (Write_Charge_Discharge charge 0); State_Monad.return success }
      else State_Monad.return False)
   }"

definition swapRioBattery :: "bus_env \<Rightarrow> u32 \<Rightarrow> u16 \<Rightarrow> bool ow" where
  "swapRioBattery E = swap_battery E RIO_BATTERY_MONITOR"

definition swapO1Battery :: "bus_env \<Rightarrow> u32 \<Rightarrow> u16 \<Rightarrow> bool ow" where
  "swapO1Battery E = swap_battery E O1_BATTERY_MONITOR"

definition swapO2Battery :: "bus_env \<Rightarrow> u32 \<Rightarrow> u16 \<Rightarrow> bool ow" where
  "swapO2Battery E = swap_battery E O2_BATTERY_MONITOR"

definition swapO3Battery :: "bus_env \<Rightarrow> u32 \<Rightarrow> u16 \<Rightarrow> bool ow" where
  "swapO3Battery E = swap_battery E O3_BATTERY_MONITOR"

end
