(* ===== verification/OwBus_Properties.thy ===== *)
theory OwBus_Properties
  imports OwBus
begin

section \<open>What the hardware functions guarantee\<close>

text \<open>
  First the rules that evaluate the operations: each leaves a log that extends the one it started from, and
  \<open>chip_writes\<close> lists the writes to pins that the extension contains.  Then the pins: the shadow, what a switch
  function writes, the refinement of sequences of relay commands, toggling, the multiplexer, the setting up.
\<close>

subsection \<open>Evaluation\<close>

text \<open>The shadow: the pins of the mask come from the stored byte, the others from the chip.\<close>

definition shadow_merge :: "u8 \<Rightarrow> u8 \<Rightarrow> u8 \<Rightarrow> u8" where
  "shadow_merge m shadow pins = or (and pins (not m)) (and shadow m)"

lemma bit_shadow_loop:
  "i < 8 \<Longrightarrow>
   bit (shadow_loop n (2 ^ k) m s p) i =
     (if k \<le> i \<and> i < k + n \<and> bit m i then bit s i else bit p i)"
proof (induction n arbitrary: k p)
  case (Suc n)
  have IH: "bit (shadow_loop n (2 ^ k * 2) m s q) i =
      (if Suc k \<le> i \<and> i < Suc k + n \<and> bit m i then bit s i else bit q i)" for q
    using Suc.IH [OF Suc.prems, of "Suc k" q] by (simp add: mult.commute)
  have i: "bit (2 ^ k :: u8) i \<longleftrightarrow> k = i"
    using Suc.prems by (auto simp: bit_exp_iff possible_bit_word)
  have k: "k \<le> i \<longleftrightarrow> k = i \<or> Suc k \<le> i"
    by auto
  have pow: "bit (2 ^ i :: u8) i"
    using Suc.prems by (simp add: bit_exp_iff possible_bit_word)
  have here: "bit (shadow_loop n (2 ^ i * 2) m s q) i = bit q i" if "k = i" for q
    using IH [of q] that by simp
  show ?case
    using Suc.prems
    by (cases "k = i") (simp_all add: and_exp_eq_0_iff_not_bit i k pow here IH bit_or_iff bit_and_iff bit_not_iff
        possible_bit_word)
qed auto

lemma shadow_loop_merge: "shadow_loop 8 1 m s p = shadow_merge m s p"
proof (rule bit_word_eqI)
  fix n assume "n < LENGTH(8)"
  then show "bit (shadow_loop 8 1 m s p) n \<longleftrightarrow> bit (shadow_merge m s p) n"
    using bit_shadow_loop [of n 8 0 m s p]
    by (auto simp: shadow_merge_def bit_or_iff bit_and_iff bit_not_iff possible_bit_word)
qed

lemma run_accountForShadow [simp]:
  "run_state (accountForShadow d p) b = (shadow_merge (readShadowMask d) (pins_state b d) p, b)"
  by (simp add: accountForShadow_def shadow_loop_merge)

lemma run_debug_read [simp]:
  "run_state (debug_read E d) b =
     ((), logged b [(Dev (gPortNumber b) d Read_Logic, dev_reply E b d Read_Logic)])"
  by (simp add: debug_read_def split: prod.splits)

lemma run_debugPrintPinsState:
  "\<exists>seg. run_state (debugPrintPinsState E) b = ((), logged b seg) \<and> chip_writes seg = []"
  unfolding debugPrintPinsState_def by (simp, intro exI conjI, rule refl, simp)

text \<open>
  What the shadowed read returns: if the chip answered, the shadow merged into its answer, otherwise the
  untouched variable.
\<close>

definition shadowed_read :: "bus_env \<Rightarrow> ow_bus \<Rightarrow> ow_device \<Rightarrow> u8" where
  "shadowed_read E b d =
     (let raw = ucast (fst (snd (dev_reply E b d Read_Logic)))
      in if fst (dev_reply E b d Read_Logic)
         then shadow_merge (readShadowMask d) (pins_state b d) raw else raw)"

definition read_ok :: "bus_env \<Rightarrow> ow_bus \<Rightarrow> ow_device \<Rightarrow> bool" where
  "read_ok E b d \<longleftrightarrow> fst (dev_reply E b d Read_Logic)"

lemma run_readPinsWithShadow:
  "\<exists>seg. run_state (readPinsWithShadow E d) b = ((read_ok E b d, shadowed_read E b d), logged b seg) \<and>
     chip_writes seg = []"
proof -
  let ?r = "dev_reply E b d Read_Logic"
  obtain seg where seg: "run_state (debugPrintPinsState E) (logged b [(Dev (gPortNumber b) d Read_Logic, ?r)]) =
      ((), logged b ((Dev (gPortNumber b) d Read_Logic, ?r) # seg))" "chip_writes seg = []"
    using run_debugPrintPinsState [of E "logged b [(Dev (gPortNumber b) d Read_Logic, ?r)]"] by auto
  show ?thesis
    using seg
    by (cases ?r, intro exI [of _ "(Dev (gPortNumber b) d Read_Logic, ?r) # seg"])
      (auto simp: readPinsWithShadow_def shadowed_read_def read_ok_def Let_def)
qed

lemma run_readPins:
  "\<exists>seg. run_state (readPins E d) b =
       ((read_ok E b d, ucast (fst (snd (dev_reply E b d Read_Logic)))), logged b seg) \<and> chip_writes seg = []"
proof -
  let ?r = "dev_reply E b d Read_Logic"
  obtain seg where seg: "run_state (debugPrintPinsState E) (logged b [(Dev (gPortNumber b) d Read_Logic, ?r)]) =
      ((), logged b ((Dev (gPortNumber b) d Read_Logic, ?r) # seg))" "chip_writes seg = []"
    using run_debugPrintPinsState [of E "logged b [(Dev (gPortNumber b) d Read_Logic, ?r)]"] by auto
  show ?thesis
    using seg
    by (cases ?r, intro exI [of _ "(Dev (gPortNumber b) d Read_Logic, ?r) # seg"])
      (simp add: readPins_def read_ok_def)
qed

text \<open>The byte that a switch function writes.\<close>

definition switched :: "u8 \<Rightarrow> bool \<Rightarrow> ow_device \<Rightarrow> u8 \<Rightarrow> u8" where
  "switched m v d pins = or (if v then or pins m else and pins (not m)) (inputMask d)"

lemma run_setPinsWithShadow:
  "\<exists>ok seg.
     run_state (setPinsWithShadow E d m v) b =
       (ok, logged (if ok then set_shadow d (switched m v d (shadowed_read E b d)) b else b) seg) \<and>
     chip_writes seg = [(d, switched m v d (shadowed_read E b d), ok)] \<and>
     (\<exists>h. ok = fst (E h (Dev (gPortNumber b) d (Channel_Write (switched m v d (shadowed_read E b d))))))"
proof -
  let ?w = "switched m v d (shadowed_read E b d)"
  obtain s1 where s1: "run_state (readPinsWithShadow E d) b = ((read_ok E b d, shadowed_read E b d), logged b s1)"
      "chip_writes s1 = []"
    using run_readPinsWithShadow by blast
  let ?r = "dev_reply E (logged b s1) d (Channel_Write ?w)"
  let ?b = "logged (if fst ?r then set_shadow d ?w b else b) (s1 @ [(Dev (gPortNumber b) d (Channel_Write ?w), ?r)])"
  obtain s2 where s2: "run_state (debugPrintPinsState E) ?b = ((), logged ?b s2)" "chip_writes s2 = []"
    using run_debugPrintPinsState by blast
  have "run_state (setPinsWithShadow E d m v) b =
      (fst ?r, logged (if fst ?r then set_shadow d ?w b else b)
        (s1 @ [(Dev (gPortNumber b) d (Channel_Write ?w), ?r)] @ s2))"
    using s1(1) s2(1)
    by (cases ?r) (simp add: setPinsWithShadow_def Let_def switched_def split: if_splits)
  moreover have "chip_writes (s1 @ [(Dev (gPortNumber b) d (Channel_Write ?w), ?r)] @ s2) = [(d, ?w, fst ?r)]"
    using s1(2) s2(2) by simp
  moreover have "fst ?r = fst (E (bus_log (logged b s1)) (Dev (gPortNumber b) d (Channel_Write ?w)))"
    by (simp add: dev_reply_def)
  ultimately show ?thesis
    by blast
qed

subsection \<open>The shadow and the switches\<close>

text \<open>
  \<open>accountForShadow\<close> takes from the stored byte exactly the pins of the shadow mask and from the chip all the
  others; it changes nothing.
\<close>

theorem shadow_formula:
  "run_state (accountForShadow d pins) b =
     (or (and pins (not (readShadowMask d))) (and (pins_state b d) (readShadowMask d)), b)"
  by (simp add: shadow_merge_def)

text \<open>
  C11.  A switch function writes to the pins of its chip exactly once, whatever the chip answers.  If the
  read before it succeeded, then in the byte it writes the pins of the mask have the wanted level, the inputs
  are high, every shadowed pin that is neither keeps the level last written, and the other pins the level that was
  read.  The stored byte becomes the written byte if and only if the write succeeded, and
  the result says whether it did.
\<close>

theorem switch_writes_once:
  assumes "run_state (setPinsWithShadow E d m v) b = (ok, b')"
  shows "\<exists>w seg. bus_log b' = bus_log b @ seg \<and> chip_writes seg = [(d, w, ok)] \<and>
      pins_state b' = (if ok then (pins_state b)(d := w) else pins_state b) \<and>
      (read_ok E b d \<longrightarrow> (\<forall>i < 8. bit w i \<longleftrightarrow>
         (if bit (inputMask d) i then True else if bit m i then v
          else if bit (readShadowMask d) i then bit (pins_state b d) i
          else bit (fst (snd (dev_reply E b d Read_Logic))) i)))"
proof -
  let ?w = "switched m v d (shadowed_read E b d)"
  obtain seg where seg: "b' = logged (if ok then set_shadow d ?w b else b) seg" "chip_writes seg = [(d, ?w, ok)]"
    using run_setPinsWithShadow [of E d m v b] assms by auto
  have "bit ?w i \<longleftrightarrow>
      (if bit (inputMask d) i then True else if bit m i then v
       else if bit (readShadowMask d) i then bit (pins_state b d) i
       else bit (fst (snd (dev_reply E b d Read_Logic))) i)" if "read_ok E b d" "i < 8" for i
    using that
    by (auto simp: switched_def shadowed_read_def read_ok_def shadow_merge_def Let_def bit_or_iff bit_and_iff
        bit_not_iff bit_ucast_iff possible_bit_word)
  with seg show ?thesis
    by (intro exI [of _ ?w] exI [of _ seg]) auto
qed

text \<open>An ideal chip: it answers every read with the byte last written to it.\<close>

definition last_write :: "bus_history \<Rightarrow> ow_device \<Rightarrow> u8" where
  "last_write h d = (case filter (\<lambda>(d', v, ok). d' = d \<and> ok) (rev (chip_writes h)) of
     [] \<Rightarrow> initial_pins d | (_, v, _) # _ \<Rightarrow> v)"

definition ideal_bus :: bus_env where
  "ideal_bus h c = (case c of Dev p d Read_Logic \<Rightarrow> (True, ucast (last_write h d), 0) | _ \<Rightarrow> (True, 0, 0))"

lemma ideal_reply [simp]:
  "dev_reply ideal_bus b d Read_Logic = (True, ucast (last_write (bus_log b) d), 0)"
  "dev_reply ideal_bus b d (Channel_Write v) = (True, 0, 0)"
  by (simp_all add: dev_reply_def ideal_bus_def)

lemma ideal_read_ok [simp]: "read_ok ideal_bus b d"
  by (simp add: read_ok_def)

theorem switch_writes_once_witness:
  "\<exists>ok b' w. run_state (setPinsWithShadow ideal_bus RELAY_PIO 4 True) initial_bus = (ok, b') \<and>
     chip_writes (bus_log b') = [(RELAY_PIO, w, ok)] \<and> bit w 2 \<and> bit w 7 \<and> \<not> bit w 0"
proof -
  obtain ok b' where r: "run_state (setPinsWithShadow ideal_bus RELAY_PIO 4 True) initial_bus = (ok, b')"
    by fastforce
  obtain w seg where w: "bus_log b' = bus_log initial_bus @ seg" "chip_writes seg = [(RELAY_PIO, w, ok)]"
    "\<forall>i < 8. bit w i \<longleftrightarrow>
       (if bit (inputMask RELAY_PIO) i then True else if bit (4 :: u8) i then True
        else if bit (readShadowMask RELAY_PIO) i then bit (pins_state initial_bus RELAY_PIO) i
        else bit (fst (snd (dev_reply ideal_bus initial_bus RELAY_PIO Read_Logic))) i)"
    using switch_writes_once [OF r] by auto
  have "bit w 2" "bit w 7" "\<not> bit w 0"
    using w(3) [rule_format, of 2] w(3) [rule_format, of 7] w(3) [rule_format, of 0]
    by (simp_all add: initial_bus_def)
  with r w(1,2) show ?thesis
    by (auto simp: initial_bus_def)
qed

subsection \<open>Sequences of relay commands\<close>

text \<open>The functions that switch a relay of the external board, with the pin each drives and its level, and those that
  read one, with the pin and the answer when the pin is high.\<close>

definition relay_functions :: "((bus_env \<Rightarrow> bool ow) \<times> u8 \<times> bool) list" where
  "relay_functions =
     [(setOPwr12VOn, RELAY_O_PWR_12V_ON, True), (setOPwr12VOff, RELAY_O_PWR_12V_ON, False),
      (setOPwrBattOn, RELAY_O_PWR_BATT_OFF, False), (setOPwrBattOff, RELAY_O_PWR_BATT_OFF, True),
      (setRioBatteryChargerOn, RELAY_RIO_CHARGER_OFF, False), (setRioBatteryChargerOff, RELAY_RIO_CHARGER_OFF, True),
      (setO1BatteryChargerOn, RELAY_O1_CHARGER_OFF, False), (setO1BatteryChargerOff, RELAY_O1_CHARGER_OFF, True),
      (setO2BatteryChargerOn, RELAY_O2_CHARGER_OFF, False), (setO2BatteryChargerOff, RELAY_O2_CHARGER_OFF, True),
      (setO3BatteryChargerOn, RELAY_O3_CHARGER_OFF, False), (setO3BatteryChargerOff, RELAY_O3_CHARGER_OFF, True),
      (disableExternalRelays, RELAY_ENABLE_BAR, True), (enableExternalRelays, RELAY_ENABLE_BAR, False)]"

definition relay_readers :: "((bus_env \<Rightarrow> bool option \<Rightarrow> (bool \<times> bool option) ow) \<times> u8 \<times> bool) list" where
  "relay_readers =
     [(readOPwr12V, RELAY_O_PWR_12V_ON, True), (readOPwrBatt, RELAY_O_PWR_BATT_OFF, False),
      (readRioBatteryCharger, RELAY_RIO_CHARGER_OFF, False), (readO1BatteryCharger, RELAY_O1_CHARGER_OFF, False),
      (readO2BatteryCharger, RELAY_O2_CHARGER_OFF, False), (readO3BatteryCharger, RELAY_O3_CHARGER_OFF, False)]"

fun run_switches :: "bus_env \<Rightarrow> ((bus_env \<Rightarrow> bool ow) \<times> u8 \<times> bool) list \<Rightarrow> bool list ow" where
  "run_switches E [] = State_Monad.return []"
| "run_switches E ((f, m, v) # fs) = do { ok \<leftarrow> f E; oks \<leftarrow> run_switches E fs; State_Monad.return (ok # oks) }"

text \<open>The specification: a register of relays, in which a command that succeeds sets its pin and one that fails does
  nothing.\<close>

fun commanded :: "((u8 \<times> bool) \<times> bool) list \<Rightarrow> u8 \<Rightarrow> u8" where
  "commanded [] r = r"
| "commanded (((m, v), ok) # cs) r = commanded cs (if ok then if v then or r m else and r (not m) else r)"

lemma commanded_mask: "and r k = and s k \<Longrightarrow> and (commanded cs r) k = and (commanded cs s) k"
proof (induction cs r arbitrary: s rule: commanded.induct)
  case (2 m v ok cs r)
  have bits: "bit k n \<Longrightarrow> bit r n = bit s n" for n
    using arg_cong [OF 2(2), of "\<lambda>x. bit x n"] by (simp add: bit_and_iff)
  have "and (or r m) k = and (or s m) k" "and (and r (not m)) k = and (and s (not m)) k"
    by (intro bit_word_eqI; use bits in \<open>auto simp: bit_and_iff bit_or_iff bit_not_iff\<close>)+
  then have "and (if ok then if v then or r m else and r (not m) else r) k =
      and (if ok then if v then or s m else and s (not m) else s) k"
    using 2(2) by simp
  from 2(1) [OF this] show ?case by (simp only: commanded.simps)
qed simp

lemma relay_function_cases:
  assumes "(f, m, v) \<in> set relay_functions"
  shows "f E = setPinsWithShadow E RELAY_PIO m v"
  using assms
  by (auto simp: relay_functions_def setOPwr12VOn_def setOPwr12VOff_def setOPwrBattOn_def setOPwrBattOff_def
      setRioBatteryChargerOn_def setRioBatteryChargerOff_def setO1BatteryChargerOn_def setO1BatteryChargerOff_def
      setO2BatteryChargerOn_def setO2BatteryChargerOff_def setO3BatteryChargerOn_def setO3BatteryChargerOff_def
      disableExternalRelays_def enableExternalRelays_def)

lemma relay_reader_cases:
  assumes "(f, m, on) \<in> set relay_readers"
  shows "f E = read_switch E RELAY_PIO m on" and "and m 0x3F = m"
  using assms
  by (auto simp: relay_readers_def readOPwr12V_def readOPwrBatt_def readRioBatteryCharger_def
      readO1BatteryCharger_def readO2BatteryCharger_def readO3BatteryCharger_def)

lemma relay_masks [simp]: "readShadowMask RELAY_PIO = 0x3F" "inputMask RELAY_PIO = 0x80"
  by simp_all

lemma and_submask:
  assumes "and x k = and y k" and "and m k = (m :: u8)"
  shows "and x m = and y m"
proof -
  have sub: "and z m = and (and z k) m" for z
  proof -
    have "and z m = and z (and m k)" by (simp only: assms(2))
    also have "\<dots> = and (and z k) m" by (simp only: ac_simps)
    finally show ?thesis .
  qed
  show ?thesis
    by (simp only: sub [of x] sub [of y] assms(1))
qed

lemma and_shadow_merge: "and (shadow_merge k s p) k = and s k"
  by (rule bit_word_eqI) (auto simp: shadow_merge_def bit_simps)

lemma switched_relay:
  "and (switched m v RELAY_PIO (shadow_merge 0x3F s p)) 0x3F =
     and (if v then or s m else and s (not m)) 0x3F"
proof -
  have "and (or x 0x80) 0x3F = and x (0x3F :: u8)" for x :: u8
    by (simp add: bit.conj_disj_distrib2)
  moreover have "and (if v then or (shadow_merge 0x3F s p) m else and (shadow_merge 0x3F s p) (not m)) 0x3F =
      and (if v then or s m else and s (not m)) (0x3F :: u8)"
    by (rule bit_word_eqI) (auto simp: shadow_merge_def bit_simps)
  ultimately show ?thesis
    by (simp only: switched_def relay_masks)
qed

lemma run_switches_refine:
  assumes "\<And>h p. fst (E h (Dev p RELAY_PIO Read_Logic))"
    and "set fs \<subseteq> set relay_functions"
    and "run_state (run_switches E fs) b = (oks, b')"
  shows "and (pins_state b' RELAY_PIO) 0x3F =
           and (commanded (zip (map snd fs) oks) (pins_state b RELAY_PIO)) 0x3F \<and> length oks = length fs"
  using assms(2,3)
proof (induction fs arbitrary: b oks)
  case (Cons g fs)
  obtain f m v where g: "g = (f, m, v)" by (cases g)
  let ?w = "switched m v RELAY_PIO (shadowed_read E b RELAY_PIO)"
  have f: "f E = setPinsWithShadow E RELAY_PIO m v"
    using Cons.prems(1) g by (intro relay_function_cases) simp
  obtain ok seg where step: "run_state (setPinsWithShadow E RELAY_PIO m v) b =
      (ok, logged (if ok then set_shadow RELAY_PIO ?w b else b) seg)"
    using run_setPinsWithShadow by blast
  let ?b = "logged (if ok then set_shadow RELAY_PIO ?w b else b) seg"
  obtain oks' where rest: "run_state (run_switches E fs) ?b = (oks', b')" and oks: "oks = ok # oks'"
    using Cons.prems(2) by (auto simp: g f step split: prod.splits)
  have "shadowed_read E b RELAY_PIO = shadow_merge 0x3F (pins_state b RELAY_PIO)
      (ucast (fst (snd (dev_reply E b RELAY_PIO Read_Logic))))"
    using assms(1) [of "bus_log b" "gPortNumber b"] by (simp add: shadowed_read_def dev_reply_def Let_def)
  then have "and ?w 0x3F = and (if v then or (pins_state b RELAY_PIO) m else and (pins_state b RELAY_PIO) (not m)) 0x3F"
    by (simp only: switched_relay)
  then have pins: "and (pins_state ?b RELAY_PIO) 0x3F =
      and (if ok then if v then or (pins_state b RELAY_PIO) m else and (pins_state b RELAY_PIO) (not m)
           else pins_state b RELAY_PIO) 0x3F"
    by simp
  have "and (pins_state b' RELAY_PIO) 0x3F =
      and (commanded (zip (map snd fs) oks') (pins_state ?b RELAY_PIO)) 0x3F \<and> length oks' = length fs"
    using Cons.prems(1) rest by (intro Cons.IH) simp_all
  then have "and (pins_state b' RELAY_PIO) 0x3F =
      and (commanded (zip (map snd fs) oks')
        (if ok then if v then or (pins_state b RELAY_PIO) m else and (pins_state b RELAY_PIO) (not m)
         else pins_state b RELAY_PIO)) 0x3F \<and> length oks' = length fs"
    by (simp only: commanded_mask [OF pins])
  then show ?case
    by (simp only: g oks commanded.simps list.map prod.sel zip_Cons_Cons length_Cons)
qed simp

lemma relay_register:
  assumes "\<And>h p. fst (E h (Dev p RELAY_PIO Read_Logic))"
    and "set fs \<subseteq> set relay_functions" and "(rd, m, on) \<in> set relay_readers"
    and "run_state (run_switches E fs) b = (oks, b')"
  shows "fst (run_state (rd E (Some x)) b') =
    (True, Some (if and (commanded (zip (map snd fs) oks) (pins_state b RELAY_PIO)) m \<noteq> 0 then on else \<not> on))"
proof -
  let ?c = "commanded (zip (map snd fs) oks) (pins_state b RELAY_PIO)"
  have state: "and (pins_state b' RELAY_PIO) 0x3F = and ?c 0x3F"
    using run_switches_refine [OF assms(1,2,4)] by simp
  have m: "rd E = read_switch E RELAY_PIO m on" "and m 0x3F = m"
    using relay_reader_cases [OF assms(3)] by simp_all
  have "read_ok E b' RELAY_PIO"
    using assms(1) by (simp add: read_ok_def dev_reply_def)
  moreover have "and (shadowed_read E b' RELAY_PIO) 0x3F = and ?c 0x3F"
    using assms(1) state by (simp add: shadowed_read_def dev_reply_def Let_def and_shadow_merge)
  then have "and (shadowed_read E b' RELAY_PIO) m = and ?c m"
    using m(2) by (rule and_submask)
  moreover obtain seg where "run_state (readPinsWithShadow E RELAY_PIO) b' =
      ((read_ok E b' RELAY_PIO, shadowed_read E b' RELAY_PIO), logged b' seg)"
    using run_readPinsWithShadow by blast
  ultimately show ?thesis
    by (simp add: m read_switch_def)
qed


text \<open>On the ideal bus every switch function succeeds.\<close>

lemma ideal_switch: "fst (run_state (setPinsWithShadow ideal_bus d m v) b)"
proof -
  obtain ok b' h where r: "run_state (setPinsWithShadow ideal_bus d m v) b = (ok, b')"
    and "ok = fst (ideal_bus h (Dev (gPortNumber b) d (Channel_Write (switched m v d (shadowed_read ideal_bus b d)))))"
    using run_setPinsWithShadow [of ideal_bus d m v b] by blast
  then have ok
    by (simp add: ideal_bus_def)
  with r show ?thesis
    by simp
qed


text \<open>
  A switch function does not look at the success of the read that precedes its write.  When that read
  fails, the byte written is built from whatever the variable on the stack held: the function reports success, and
  every other relay of the chip is switched to what the corresponding bit of that byte says, the
  shadow included.
\<close>

theorem blind_switch:
  assumes "\<not> read_ok E b RELAY_PIO" and "junk = ucast (fst (snd (dev_reply E b RELAY_PIO Read_Logic)))"
    and "run_state (setRioBatteryChargerOn E) b = (True, b')"
  shows "pins_state b' RELAY_PIO = or (and junk (not RELAY_RIO_CHARGER_OFF)) RELAY_12V_DETECT \<and>
    (\<exists>seg. bus_log b' = bus_log b @ seg \<and>
      chip_writes seg = [(RELAY_PIO, or (and junk (not RELAY_RIO_CHARGER_OFF)) RELAY_12V_DETECT, True)])"
proof -
  have w: "switched RELAY_RIO_CHARGER_OFF False RELAY_PIO (shadowed_read E b RELAY_PIO) =
      or (and junk (not RELAY_RIO_CHARGER_OFF)) RELAY_12V_DETECT"
    using assms(1,2) by (simp add: switched_def shadowed_read_def read_ok_def Let_def)
  show ?thesis
    using run_setPinsWithShadow [of E RELAY_PIO RELAY_RIO_CHARGER_OFF False b] assms(3)
    unfolding setRioBatteryChargerOn_def w by auto
qed

text \<open>A bus on which reading fails, leaving 3 in the variable, and writing works.\<close>

definition unreadable_bus :: bus_env where
  "unreadable_bus h c = (case c of Dev p d Read_Logic \<Rightarrow> (False, 3, 0) | _ \<Rightarrow> (True, 0, 0))"

lemma unreadable_switch:
  "\<exists>b'. run_state (setPinsWithShadow unreadable_bus d m v) b = (True, b')"
proof -
  obtain ok b' h where r: "run_state (setPinsWithShadow unreadable_bus d m v) b = (ok, b')"
    and "ok = fst (unreadable_bus h (Dev (gPortNumber b) d (Channel_Write (switched m v d (shadowed_read unreadable_bus b d)))))"
    using run_setPinsWithShadow [of unreadable_bus d m v b] by blast
  then have ok
    by (simp add: unreadable_bus_def)
  with r show ?thesis
    by simp
qed

theorem blind_switch_witness:
  "\<exists>b'. run_state (setRioBatteryChargerOn unreadable_bus) initial_bus = (True, b')
     \<and> pins_state initial_bus RELAY_PIO = 0xC0 \<and> pins_state b' RELAY_PIO = 0x83"
proof -
  obtain b' where run: "run_state (setRioBatteryChargerOn unreadable_bus) initial_bus = (True, b')"
    unfolding setRioBatteryChargerOn_def using unreadable_switch by blast
  have "pins_state b' RELAY_PIO = or (and 3 (not RELAY_RIO_CHARGER_OFF)) RELAY_12V_DETECT"
    by (rule blind_switch [OF _ _ run, THEN conjunct1]) (simp_all add: read_ok_def dev_reply_def unreadable_bus_def)
  with run show ?thesis
    by (simp add: initial_bus_def)
qed

subsection \<open>Toggling\<close>

definition toggled :: "u8 \<Rightarrow> ow_device \<Rightarrow> u8 \<Rightarrow> u8" where
  "toggled m d p = or (if and p m \<noteq> 0 then and p (not m) else or p m) (inputMask d)"

lemma run_toggle_step:
  "\<exists>ok seg.
     run_state (toggle_loop E d m (Suc n) p True) b =
       run_state (toggle_loop E d m n (toggled m d p) ok)
         (logged (if ok then set_shadow d (toggled m d p) b else b) seg) \<and>
     chip_writes seg = [(d, toggled m d p, ok)]"
proof -
  let ?w = "toggled m d p"
  let ?r = "dev_reply E b d (Channel_Write ?w)"
  let ?c = "if fst ?r then set_shadow d ?w b else b"
  let ?s1 = "[(Dev (gPortNumber b) d (Channel_Write ?w), ?r)]"
  obtain s2 where s2: "run_state (debugPrintPinsState E) (logged ?c ?s1) = ((), logged ?c (?s1 @ s2))"
      "chip_writes s2 = []"
    using run_debugPrintPinsState [of E "logged ?c ?s1"] by auto
  let ?sleep = "(Sleep_Us TOGGLE_DELAY_US, E (bus_log (logged ?c (?s1 @ s2))) (Sleep_Us TOGGLE_DELAY_US))"
  have "run_state (toggle_loop E d m (Suc n) p True) b =
      run_state (toggle_loop E d m n ?w (fst ?r)) (logged ?c (?s1 @ s2 @ [?sleep]))"
    using s2(1) by (cases ?r) (auto simp: Let_def toggled_def)
  moreover have "chip_writes (?s1 @ s2 @ [?sleep]) = [(d, ?w, fst ?r)]"
    using s2(2) by simp
  ultimately show ?thesis
    by blast
qed

lemma toggled_single:
  assumes "m = 2 ^ k" and "k < 8" and "\<not> bit (inputMask d) k"
  shows "toggled m d p = xor (or p (inputMask d)) m" and "toggled m d (toggled m d p) = or p (inputMask d)"
proof -
  have m: "and q m \<noteq> 0 \<longleftrightarrow> bit q k" "bit m n \<longleftrightarrow> n = k" for q n
    using assms(1,2) by (auto simp: and_exp_eq_0_iff_not_bit bit_exp_iff possible_bit_word)
  have "bit (toggled m d q) n \<longleftrightarrow> bit (xor (or q (inputMask d)) m) n" if "n < 8" for q n
    using that assms(3) by (auto simp: toggled_def m bit_or_iff bit_and_iff bit_not_iff bit_xor_iff possible_bit_word)
  then have eq: "toggled m d q = xor (or q (inputMask d)) m" for q
    by (intro bit_word_eqI) simp
  show "toggled m d p = xor (or p (inputMask d)) m"
    by (rule eq)
  have "bit (xor (or (xor (or p (inputMask d)) m) (inputMask d)) m) n \<longleftrightarrow> bit (or p (inputMask d)) n"
    if "n < 8" for n
    using that assms(3) by (auto simp: m bit_or_iff bit_xor_iff)
  then show "toggled m d (toggled m d p) = or p (inputMask d)"
    by (intro bit_word_eqI) (simp add: eq)
qed

lemma run_togglePins:
  assumes "m = 2 ^ k" and "k < 8" and "\<not> bit (inputMask d) k"
    and "p = or (shadowed_read E b d) (inputMask d)" and "read_ok E b d"
  shows "\<exists>seg.
    (run_state (togglePinsWithShadow E d m) b = (True, logged (set_shadow d p b) seg)
       \<and> chip_writes seg = [(d, xor p m, True), (d, p, True)]) \<or>
    (run_state (togglePinsWithShadow E d m) b = (False, logged b seg)
       \<and> chip_writes seg = [(d, xor p m, False)]) \<or>
    (run_state (togglePinsWithShadow E d m) b = (False, logged (set_shadow d (xor p m) b) seg)
       \<and> chip_writes seg = [(d, xor p m, True), (d, p, False)])"
proof -
  obtain s1 where s1: "run_state (readPinsWithShadow E d) b = ((True, shadowed_read E b d), logged b s1)"
      "chip_writes s1 = []"
    using run_readPinsWithShadow [of E d b] assms(5) by auto
  obtain s2 where s2: "run_state (debugPrintPinsState E) (logged b s1) = ((), logged b s2)" "chip_writes s2 = []"
    using run_debugPrintPinsState [of E "logged b s1"] s1(2) by (auto simp del: chip_writes.simps)
  have t: "toggled m d (shadowed_read E b d) = xor p m" "toggled m d (xor p m) = p"
    using toggled_single [OF assms(1-3), of "shadowed_read E b d"] assms(4) by simp_all
  have start: "run_state (togglePinsWithShadow E d m) b =
      run_state (toggle_loop E d m (Suc (Suc 0)) (shadowed_read E b d) True) (logged b s2)"
    using s1(1) s2(1) by (simp add: togglePinsWithShadow_def numeral_2_eq_2)
  obtain ok1 s3 where one: "run_state (toggle_loop E d m (Suc (Suc 0)) (shadowed_read E b d) True) (logged b s2) =
      run_state (toggle_loop E d m (Suc 0) (xor p m) ok1)
        (logged (if ok1 then set_shadow d (xor p m) (logged b s2) else logged b s2) s3)"
      "chip_writes s3 = [(d, xor p m, ok1)]"
    using run_toggle_step [of E d m "Suc 0" "shadowed_read E b d" "logged b s2", unfolded t(1)] by blast
  show ?thesis
  proof (cases ok1)
    case False
    then show ?thesis
      using start one s2(2) by (intro exI [of _ "s2 @ s3"]) simp
  next
    case True
    let ?c = "logged (set_shadow d (xor p m) (logged b s2)) s3"
    obtain ok2 s4 where two: "run_state (toggle_loop E d m (Suc 0) (xor p m) True) ?c =
        run_state (toggle_loop E d m 0 p ok2) (logged (if ok2 then set_shadow d p ?c else ?c) s4)"
        "chip_writes s4 = [(d, p, ok2)]"
      using run_toggle_step [of E d m 0 "xor p m" ?c, unfolded t(2)] by blast
    show ?thesis
      using start one two True s2(2) by (intro exI [of _ "s2 @ s3 @ s4"]) (cases ok2; simp)
  qed
qed

text \<open>
  Toggling the power or the reset of the Hindbrain writes the pins with the one relay reversed and then the pins as
  they were, and the shadow ends as it began: the other relays of the chip are never touched.  If
  the second write fails the function returns false and the relay stays reversed, which the shadow records.
\<close>

theorem toggle_restores:
  assumes "\<And>h p. fst (E h (Dev p DARLINGTON_PIO Read_Logic))"
    and "(f, k) = (toggleOPwr, 2) \<or> (f, k) = (toggleORst, 3)"
    and "run_state (f E) b = (ok, b')"
  shows "\<exists>p seg. bus_log b' = bus_log b @ seg \<and>
    (\<forall>i \<in> {2, 3}. bit p i \<longleftrightarrow> bit (pins_state b DARLINGTON_PIO) i) \<and>
    ((ok \<and> chip_writes seg = [(DARLINGTON_PIO, xor p (2 ^ k), True), (DARLINGTON_PIO, p, True)]
         \<and> pins_state b' = (pins_state b)(DARLINGTON_PIO := p)) \<or>
     (\<not> ok \<and> chip_writes seg = [(DARLINGTON_PIO, xor p (2 ^ k), False)] \<and> pins_state b' = pins_state b) \<or>
     (\<not> ok \<and> chip_writes seg = [(DARLINGTON_PIO, xor p (2 ^ k), True), (DARLINGTON_PIO, p, False)]
         \<and> pins_state b' = (pins_state b)(DARLINGTON_PIO := xor p (2 ^ k))))"
proof -
  let ?m = "2 ^ k :: u8"
  have f: "f E = toggle_orangutan E ?m" and k: "k < 8"
    using assms(2) by (auto simp: toggleOPwr_def toggleORst_def)
  obtain fd0 s0 where close: "run_state (closeOrangutan E) b = ((), logged (set_fd fd0 b) s0)" "chip_writes s0 = []"
    using run_closeOrangutan [of E b] by (auto simp: no_writes_def)
  let ?b = "logged (set_fd fd0 b) s0"
  let ?p = "or (shadowed_read E ?b DARLINGTON_PIO) (inputMask DARLINGTON_PIO)"
  have bits: "bit ?p i \<longleftrightarrow> bit (pins_state b DARLINGTON_PIO) i" if "i \<in> {2, 3}" for i
    using that assms(1)
    by (auto simp: shadowed_read_def dev_reply_def Let_def shadow_merge_def bit_or_iff bit_and_iff bit_not_iff)
  have ro: "read_ok E ?b DARLINGTON_PIO"
    using assms(1) by (simp add: read_ok_def dev_reply_def)
  obtain c where c: "run_state (togglePinsWithShadow E DARLINGTON_PIO ?m) ?b = (ok, c)"
      and "run_state (openOrangutan E \<bind> (\<lambda>_. State_Monad.return ok))
        (logged c [(Sleep_Us WAIT_BEFORE_ORANGUTAN_OPEN_AFTER_TOGGLE_US,
                     E (bus_log c) (Sleep_Us WAIT_BEFORE_ORANGUTAN_OPEN_AFTER_TOGGLE_US))]) = (ok, b')"
    using assms(3) close(1) by (auto simp: f toggle_orangutan_def split: prod.splits)
  then obtain fd s1 where b': "b' = logged (set_fd fd c) s1" "chip_writes s1 = []"
    using run_openOrangutan [of E "logged c [(Sleep_Us WAIT_BEFORE_ORANGUTAN_OPEN_AFTER_TOGGLE_US,
                     E (bus_log c) (Sleep_Us WAIT_BEFORE_ORANGUTAN_OPEN_AFTER_TOGGLE_US))]"]
    by (auto simp: no_writes_def)
  show ?thesis
    using run_togglePins [OF refl k _ refl ro] c b' bits close(2)
    by (intro exI [of _ ?p]) auto
qed

theorem toggle_restores_witness:
  "\<exists>ok b'. run_state (toggleOPwr ideal_bus) initial_bus = (ok, b') \<and> chip_writes (bus_log b') \<noteq> [] \<and>
     (ok \<longrightarrow> \<not> bit (pins_state b' DARLINGTON_PIO) 2)"
proof -
  obtain ok b' where run: "run_state (toggleOPwr ideal_bus) initial_bus = (ok, b')"
    by fastforce
  have "\<exists>p seg. bus_log b' = bus_log initial_bus @ seg \<and>
    (\<forall>i \<in> {2, 3}. bit p i \<longleftrightarrow> bit (pins_state initial_bus DARLINGTON_PIO) i) \<and>
    ((ok \<and> chip_writes seg = [(DARLINGTON_PIO, xor p (2 ^ 2), True), (DARLINGTON_PIO, p, True)]
         \<and> pins_state b' = (pins_state initial_bus)(DARLINGTON_PIO := p)) \<or>
     (\<not> ok \<and> chip_writes seg = [(DARLINGTON_PIO, xor p (2 ^ 2), False)] \<and> pins_state b' = pins_state initial_bus) \<or>
     (\<not> ok \<and> chip_writes seg = [(DARLINGTON_PIO, xor p (2 ^ 2), True), (DARLINGTON_PIO, p, False)]
         \<and> pins_state b' = (pins_state initial_bus)(DARLINGTON_PIO := xor p (2 ^ 2))))"
    by (rule toggle_restores [where f = toggleOPwr, OF _ _ run]) (simp_all add: ideal_bus_def)
  with run show ?thesis
    by (auto simp: initial_bus_def)
qed

subsection \<open>Reading the state of the chargers\<close>

text \<open>The readers only use the bus.\<close>

definition only_logs :: "'a ow \<Rightarrow> bool" where
  "only_logs m \<longleftrightarrow> (\<forall>b. \<exists>r seg. run_state m b = (r, logged b seg))"

lemma only_logsE:
  assumes "only_logs m"
  obtains r seg where "run_state m b = (r, logged b seg)"
  using assms unfolding only_logs_def by blast

lemma only_logs_readPins: "only_logs (readPins E d)"
  unfolding only_logs_def using run_readPins by blast

lemma only_logs_read_switch: "only_logs (read_switch E d m v p)"
  unfolding only_logs_def
proof
  fix b
  obtain seg where "run_state (readPinsWithShadow E d) b = ((read_ok E b d, shadowed_read E b d), logged b seg)"
    using run_readPinsWithShadow by blast
  then show "\<exists>r seg. run_state (read_switch E d m v p) b = (r, logged b seg)"
    by (auto simp: read_switch_def)
qed

lemma only_logs_edges: "only_logs (readAndResetRisingEdgePins E d)"
  unfolding only_logs_def
proof
  fix b
  let ?c = "logged b [(Dev (gPortNumber b) d Read_Latch, dev_reply E b d Read_Latch)]"
  let ?d = "logged ?c [(Dev (gPortNumber b) d Reset_Latch, dev_reply E ?c d Reset_Latch)]"
  obtain s1 where "run_state (debugPrintPinsState E) ?c = ((), logged ?c s1)"
    using run_debugPrintPinsState by blast
  moreover obtain s2 where "run_state (debugPrintPinsState E) ?d = ((), logged ?d s2)"
    using run_debugPrintPinsState by blast
  ultimately show "\<exists>r seg. run_state (readAndResetRisingEdgePins E d) b = (r, logged b seg)"
    by (cases "dev_reply E b d Read_Latch"; cases "dev_reply E ?c d Reset_Latch")
      (auto simp: readAndResetRisingEdgePins_def)
qed

lemma word_gt_one: "1 < (x :: u32) \<longleftrightarrow> x \<noteq> 0 \<and> x \<noteq> 1"
proof -
  have "x \<le> 1 \<longleftrightarrow> x = 0 \<or> x = 1"
    by unat_arith
  then show ?thesis
    by (metis not_less)
qed

text \<open>The calls of \<open>readChargerState\<close> after the first time, one after the other, and its result from theirs.\<close>

lemma readChargerState_steps:
  assumes "ticksAtLastRead b \<noteq> 0"
  obtains b0 ok1 pins b1 ok2 rel b2 q3 b3 q4 b4 q5 b5 q6 b6 ok7 edges b7 st1 st2 where
    "run_state (readPins E CHARGER_STATE_PIO) b0 = ((ok1, pins), b1)"
    "run_state (readExternalRelaysEnabled E (Some False)) b1 = ((ok2, rel), b2)"
    "run_state (readRioBatteryCharger E (Some False)) b2 = (q3, b3)"
    "run_state (readO1BatteryCharger E (snd q3)) b3 = (q4, b4)"
    "run_state (readO2BatteryCharger E (snd q4)) b4 = (q5, b5)"
    "run_state (readO3BatteryCharger E (snd q5)) b5 = (q6, b6)"
    "run_state (readAndResetRisingEdgePins E CHARGER_STATE_PIO) b6 = ((ok7, edges), b7)"
    "let now = fst (snd (E (bus_log b) Get_Ticks)); look = 1 < ticksAtLastRead b - now
     in fst (run_state (readChargerState E st fl) b) =
        (if \<not> ok1 then (False, st, fl) else if \<not> ok2 then (False, st, False)
         else if look then if ok7 then (True, st1, True) else (False, st2, False) else (fst q6, st2, False)) \<and>
        ticksAtLastRead (snd (run_state (readChargerState E st fl) b)) =
        (if ok1 \<and> ok2 \<and> look \<and> ok7 then now else ticksAtLastRead b)"
proof -
  let ?now = "fst (snd (E (bus_log b) Get_Ticks))"
  let ?b0 = "logged b [(Get_Ticks, E (bus_log b) Get_Ticks)]"
  have ticks: "run_state (getSystemTicks E) b = (?now, ?b0)"
    by (cases "E (bus_log b) Get_Ticks") (simp add: getSystemTicks_def)
  obtain ok1 pins s1 where r1: "run_state (readPins E CHARGER_STATE_PIO) ?b0 = ((ok1, pins), logged ?b0 s1)"
    using only_logsE [OF only_logs_readPins] by (metis prod.collapse)
  let ?b1 = "logged ?b0 s1"
  obtain ok2 rel s2 where r2: "run_state (readExternalRelaysEnabled E (Some False)) ?b1 = ((ok2, rel), logged ?b1 s2)"
    unfolding readExternalRelaysEnabled_def using only_logsE [OF only_logs_read_switch] by (metis prod.collapse)
  let ?b2 = "logged ?b1 s2"
  obtain q3 s3 where r3: "run_state (readRioBatteryCharger E (Some False)) ?b2 = (q3, logged ?b2 s3)"
    unfolding readRioBatteryCharger_def using only_logsE [OF only_logs_read_switch] by metis
  let ?b3 = "logged ?b2 s3"
  obtain q4 s4 where r4: "run_state (readO1BatteryCharger E (snd q3)) ?b3 = (q4, logged ?b3 s4)"
    unfolding readO1BatteryCharger_def using only_logsE [OF only_logs_read_switch] by metis
  let ?b4 = "logged ?b3 s4"
  obtain q5 s5 where r5: "run_state (readO2BatteryCharger E (snd q4)) ?b4 = (q5, logged ?b4 s5)"
    unfolding readO2BatteryCharger_def using only_logsE [OF only_logs_read_switch] by metis
  let ?b5 = "logged ?b4 s5"
  obtain q6 s6 where r6: "run_state (readO3BatteryCharger E (snd q5)) ?b5 = (q6, logged ?b5 s6)"
    unfolding readO3BatteryCharger_def using only_logsE [OF only_logs_read_switch] by metis
  let ?b6 = "logged ?b5 s6"
  obtain ok7 edges s7 where r7: "run_state (readAndResetRisingEdgePins E CHARGER_STATE_PIO) ?b6 =
      ((ok7, edges), logged ?b6 s7)"
    using only_logsE [OF only_logs_edges] by (metis prod.collapse)
  show thesis
    by (rule that [OF r1 r2 r3 r4 r5 r6 r7])
      (use assms ticks r1 r2 r3 r4 r5 r6 r7 in \<open>auto simp: readChargerState_def Let_def simp del: logged_logged\<close>)
qed

text \<open>
  When the flashing of the charger lights can be told.  After the first call, a successful \<open>readChargerState\<close>
  looks for edges unless the clock shows the second of the last successful look, or the second before it, and it
  reports whether it did; the time of the last look moves exactly then.  The operands of the
  subtraction are the wrong way round, which makes one second enough, as the comment of the function says it is.
\<close>

theorem flash_detection_time:
  assumes "ticksAtLastRead b \<noteq> 0" and "ticks_now = fst (snd (E (bus_log b) Get_Ticks))"
    and "run_state (readChargerState E st fl) b = ((True, st', flash), b')"
  shows "(flash \<longleftrightarrow> ticks_now \<noteq> ticksAtLastRead b \<and> ticks_now \<noteq> ticksAtLastRead b - 1)
    \<and> ticksAtLastRead b' = (if flash then ticks_now else ticksAtLastRead b)"
proof -
  have gap: "1 < ticksAtLastRead b - ticks_now \<longleftrightarrow>
      ticks_now \<noteq> ticksAtLastRead b \<and> ticks_now \<noteq> ticksAtLastRead b - 1"
    unfolding word_gt_one by (auto simp: diff_eq_eq eq_diff_eq ac_simps)
  have "(flash \<longleftrightarrow> 1 < ticksAtLastRead b - ticks_now)
    \<and> ticksAtLastRead b' = (if flash then ticks_now else ticksAtLastRead b)"
    by (rule readChargerState_steps [OF assms(1), where E = E and st = st and fl = fl])
      (use assms(2,3) in \<open>auto simp: Let_def split: if_splits\<close>)
  then show ?thesis
    by (simp only: gap)
qed

text \<open>A bus on which every operation succeeds and returns 5.\<close>

definition steady_bus :: bus_env where
  "steady_bus h c = (True, 5, 0)"

lemma steady_reply [simp]: "dev_reply steady_bus b d op = (True, 5, 0)"
  by (simp add: dev_reply_def steady_bus_def)

lemma steady_ok:
  "run_state (readPins steady_bus d) b = ((ok, pins), c) \<Longrightarrow> ok"
  "run_state (readExternalRelaysEnabled steady_bus p) b = ((ok, q), c) \<Longrightarrow> ok"
  "run_state (readAndResetRisingEdgePins steady_bus d) b = ((ok, pins), c) \<Longrightarrow> ok"
  using run_readPins [of steady_bus d b] run_readPinsWithShadow [of steady_bus RELAY_PIO b]
  by (auto simp: read_ok_def readExternalRelaysEnabled_def read_switch_def readAndResetRisingEdgePins_def
      split: prod.splits)

definition nine_seconds :: ow_bus where
  "nine_seconds = initial_bus\<lparr>ticksAtLastRead := 9\<rparr>"

theorem flash_detection_time_witness:
  "\<exists>st' b'. run_state (readChargerState steady_bus (\<lambda>_. CHARGE_STATE_NO_POWER) False) nine_seconds =
       ((True, st', True), b') \<and> ticksAtLastRead b' = 5"
proof -
  have "fst (fst (run_state (readChargerState steady_bus (\<lambda>_. CHARGE_STATE_NO_POWER) False) nine_seconds))"
    by (rule readChargerState_steps [where b = nine_seconds and E = steady_bus
          and st = "\<lambda>_. CHARGE_STATE_NO_POWER" and fl = False])
      (auto simp: Let_def nine_seconds_def steady_bus_def dest!: steady_ok)
  then obtain st' flash b' where run:
    "run_state (readChargerState steady_bus (\<lambda>_. CHARGE_STATE_NO_POWER) False) nine_seconds = ((True, st', flash), b')"
    by (metis prod.collapse)
  have "(flash \<longleftrightarrow> 5 \<noteq> ticksAtLastRead nine_seconds \<and> 5 \<noteq> ticksAtLastRead nine_seconds - 1)
    \<and> ticksAtLastRead b' = (if flash then 5 else ticksAtLastRead nine_seconds)"
    by (rule flash_detection_time [OF _ _ run]) (simp_all add: nine_seconds_def steady_bus_def)
  then have flash "ticksAtLastRead b' = 5"
    by (simp_all add: nine_seconds_def)
  with run show ?thesis
    by auto
qed

subsection \<open>The analogue multiplexer\<close>

lemma push_input:
  assumes "(input :: u8) < 8"
  shows "and (push_bit 4 input) 0x70 = push_bit 4 input" and "and (not (0x70 :: u8)) (push_bit 4 input) = 0"
proof -
  obtain n where n: "input = of_nat n" "n < 8"
    using assms by (intro that [of "unat input"]) (simp_all add: word_less_nat_alt)
  then have "n = 0 \<or> n = 1 \<or> n = 2 \<or> n = 3 \<or> n = 4 \<or> n = 5 \<or> n = 6 \<or> n = 7"
    by arith
  then show "and (push_bit 4 input) 0x70 = push_bit 4 input" "and (not (0x70 :: u8)) (push_bit 4 input) = 0"
    by (elim disjE; simp add: n(1))+
qed
text \<open>
  Selecting an input of the multiplexer has no lasting effect.  A successful \<open>setAnalogueMuxInput\<close> writes the
  pins three times: with the multiplexer disabled, with the wanted input on its address lines, and enabled again; but the
  third byte is built from the first, so the address lines end as they were read at the start, whatever the input.
\<close>

theorem mux_input_lost:
  assumes "run_state (setAnalogueMuxInput E input) b = (Inr True, b')"
  shows "\<exists>pins w seg. bus_log b' = bus_log b @ seg \<and>
    pins = ucast (fst (snd (dev_reply E b GENERAL_PURPOSE_PIO Read_Logic))) \<and>
    chip_writes seg = [(GENERAL_PURPOSE_PIO, or pins 0x80, True), (GENERAL_PURPOSE_PIO, w, True),
      (GENERAL_PURPOSE_PIO, and pins 0x7F, True)] \<and>
    and w mux_address = push_bit 4 input \<and> and (and pins 0x7F) mux_address = and pins mux_address \<and>
    pins_state b' = (pins_state b)(GENERAL_PURPOSE_PIO := and pins 0x7F)"
proof -
  let ?G = GENERAL_PURPOSE_PIO
  let ?p = "ucast (fst (snd (dev_reply E b ?G Read_Logic))) :: u8"
  have input: "input < 8"
    using assms by (auto simp: setAnalogueMuxInput_def split: if_splits)
  obtain s1 where s1: "run_state (readPinsWithShadow E ?G) b = ((read_ok E b ?G, shadowed_read E b ?G), logged b s1)"
      "chip_writes s1 = []"
    using run_readPinsWithShadow by blast
  have p: "shadowed_read E b ?G = ?p"
    by (simp add: shadowed_read_def shadow_merge_def Let_def)
  have third: "and (or x 0x80) (- 129) = and x (0x7F :: u8)" for x
  proof -
    have "(- 129 :: u8) = 0x7F" by simp
    then show ?thesis by (simp only: bit.conj_disj_distrib2) simp
  qed
  have mask: "and (and ?p 0x7F) 0x70 = and ?p (0x70 :: u8)"
    by (simp add: and.assoc)
  let ?b1 = "logged b s1"
  let ?r1 = "dev_reply E ?b1 ?G (Channel_Write (or ?p 0x80))"
  let ?b2 = "logged (set_shadow ?G (or ?p 0x80) b) (s1 @ [(Dev (gPortNumber b) ?G (Channel_Write (or ?p 0x80)), ?r1)])"
  let ?w = "or (and (or ?p 0x80) (not mux_address)) (and (push_bit 4 input) mux_address)"
  let ?r2 = "dev_reply E ?b2 ?G (Channel_Write ?w)"
  let ?s2 = "s1 @ [(Dev (gPortNumber b) ?G (Channel_Write (or ?p 0x80)), ?r1), (Dev (gPortNumber b) ?G (Channel_Write ?w), ?r2)]"
  let ?b3 = "logged (set_shadow ?G (or ?p 0x80) b) ?s2"
  let ?q = "and ?p 0x7F"
  let ?r3 = "dev_reply E ?b3 ?G (Channel_Write ?q)"
  have ok: "read_ok E b ?G" "fst ?r1" "fst ?r2" "fst ?r3"
    and b': "b' = logged (set_shadow ?G ?q b) (?s2 @ [(Dev (gPortNumber b) ?G (Channel_Write ?q), ?r3)])"
    using assms input s1(1) unfolding p
    by (auto simp: setAnalogueMuxInput_def Let_def p third split: prod.splits if_splits)
  have w: "and ?w mux_address = push_bit 4 input"
    using push_input(1) [OF input] by (simp add: bit.conj_disj_distrib2 and.assoc)
  show ?thesis
    by (intro exI [of _ ?p] exI [of _ ?w]
         exI [of _ "?s2 @ [(Dev (gPortNumber b) ?G (Channel_Write ?q), ?r3)]"] conjI)
      (use ok b' w s1(2) mask in simp_all)
qed

theorem mux_input_lost_witness:
  "\<exists>b'. run_state (setAnalogueMuxInput steady_bus TEMPERATURE_SENSOR_O3_BATT) initial_bus = (Inr True, b')
     \<and> map (\<lambda>(d, v, ok). and v mux_address) (chip_writes (bus_log b')) = [0x00, 0x30, 0x00]"
proof -
  obtain seg where "run_state (readPinsWithShadow steady_bus GENERAL_PURPOSE_PIO) initial_bus =
      ((True, shadowed_read steady_bus initial_bus GENERAL_PURPOSE_PIO), logged initial_bus seg)"
    using run_readPinsWithShadow [of steady_bus GENERAL_PURPOSE_PIO initial_bus] by (auto simp: read_ok_def)
  then obtain b' where run: "run_state (setAnalogueMuxInput steady_bus TEMPERATURE_SENSOR_O3_BATT) initial_bus = (Inr True, b')"
    by (simp add: setAnalogueMuxInput_def Let_def)
  from mux_input_lost [OF run] obtain w where
    "chip_writes (bus_log b') = [(GENERAL_PURPOSE_PIO, 0x85, True), (GENERAL_PURPOSE_PIO, w, True),
       (GENERAL_PURPOSE_PIO, 0x05, True)]" "and w mux_address = 0x30"
    by (auto simp: initial_bus_def)
  with run show ?thesis
    by auto
qed

subsection \<open>Setting up the devices\<close>

text \<open>Of the eight device types none is unknown, so setting up the whole bus cannot end in an assertion.\<close>

lemma setup_device_total:
  "\<exists>ok b'. run_state (setup_device E False d) b = (Inr ok, b')"
proof -
  obtain ok b' where "run_state (setup_battery_monitor E d) b = (ok, b')"
    by fastforce
  moreover obtain ok2 b2 where "run_state (setup_pio E d) b = (ok2, b2)"
    by fastforce
  ultimately show ?thesis
    by (cases d) (simp_all add: setup_device_def getDeviceType_def)
qed

lemma setup_loop_total:
  "(\<And>h p d. fst (E h (Dev p d Access_Device))) \<Longrightarrow>
   \<exists>ok fs b'. run_state (setup_loop E False ds s) b = (Inr (ok, fs), b') \<and> (\<forall>f\<in>set fs. f)"
proof (induction ds arbitrary: s b)
  case (Cons d ds)
  let ?r = "dev_reply E b d Access_Device"
  let ?b = "logged b [(Dev (gPortNumber b) d Access_Device, ?r)]"
  have found: "fst ?r"
    using Cons.prems by (simp add: dev_reply_def)
  obtain ok b1 where dv: "run_state (setup_device E False d) ?b = (Inr ok, b1)"
    using setup_device_total by blast
  obtain ok' fs b' where "run_state (setup_loop E False ds ok) b1 = (Inr (ok', fs), b')" "(\<forall>f\<in>set fs. f)"
    using Cons.IH [OF Cons.prems] by blast
  then show ?case
    using found dv by (cases ?r) simp
qed simp

lemma answers_triple:
  fixes q :: "'a \<Rightarrow> bus_reply"
  assumes "\<And>c. fst (q c)"
  shows "\<exists>x. \<forall>c. q c = (True, x c)"
  by (rule exI [where x = "\<lambda>c. snd (q c)"]) (metis assms prod.collapse)

text \<open>One device at a time: the loop is its beginning and then the last device.\<close>

lemma setup_loop_append:
  "run_state (setup_loop E bo (ds @ es) s) b =
     (case run_state (setup_loop E bo ds s) b of
        (Inl e, b1) \<Rightarrow> (Inl e, b1)
      | (Inr (s1, fs), b1) \<Rightarrow>
          (case run_state (setup_loop E bo es s1) b1 of
             (Inl e, b2) \<Rightarrow> (Inl e, b2)
           | (Inr (s2, gs), b2) \<Rightarrow> (Inr (s2, fs @ gs), b2)))"
proof (induction ds arbitrary: s b)
  case Nil
  then show ?case by (simp split: prod.splits sum.splits)
next
  case (Cons d ds)
  obtain r b1 where dv: "run_state (dev E d Access_Device) b = (r, b1)" by fastforce
  obtain q b2 where q: "run_state (if fst r then setup_device E bo d else State_Monad.return (Inr s)) b1 = (q, b2)"
    by fastforce
  show ?case
    using dv q
    by (cases r; cases q) (auto simp: Cons.IH split: prod.splits sum.splits)
qed

text \<open>
  Setting up forgets failures.  The variable that holds the success of one device is overwritten by the next, so when
  all devices answer and the last one, the general purpose chip, can be set up, \<open>setupDevices\<close>
  returns true whatever happened to the other seven: with the battery monitors not configured, and
  with the pins of the relay chips never written.
\<close>

theorem setup_failure_forgotten:
  assumes "\<And>h p d. fst (E h (Dev p d Access_Device))"
    and "\<And>h p. fst (E h (Dev p GENERAL_PURPOSE_PIO Disable_Test_Mode))"
    and "\<And>h p c. fst (E h (Dev p GENERAL_PURPOSE_PIO (Write_Control c)))"
    and "\<And>h p v. fst (E h (Dev p GENERAL_PURPOSE_PIO (Channel_Write v)))"
  shows "\<exists>b'. run_state (setupDevices E False) b = (Inr True, b')"
proof -
  let ?front = "[RIO_BATTERY_MONITOR, O1_BATTERY_MONITOR, O2_BATTERY_MONITOR, O3_BATTERY_MONITOR,
     CHARGER_STATE_PIO, DARLINGTON_PIO, RELAY_PIO]"
  obtain ok fs b1 where front: "run_state (setup_loop E False ?front True) b = (Inr (ok, fs), b1)"
    and fs: "\<forall>f\<in>set fs. f"
    using setup_loop_total [where E = E, OF assms(1)] by blast
  obtain x where x: "\<And>c. dev_reply E c GENERAL_PURPOSE_PIO Disable_Test_Mode = (True, x c)"
    using answers_triple [where q = "\<lambda>c. dev_reply E c GENERAL_PURPOSE_PIO Disable_Test_Mode"] assms(2)
    by (auto simp: dev_reply_def)
  obtain y where y: "\<And>c w. dev_reply E c GENERAL_PURPOSE_PIO (Write_Control w) = (True, y (c, w))"
    using answers_triple [where q = "\<lambda>(c, w). dev_reply E c GENERAL_PURPOSE_PIO (Write_Control w)"] assms(3)
    by (auto simp: dev_reply_def)
  obtain z where z: "\<And>c w. dev_reply E c GENERAL_PURPOSE_PIO (Channel_Write w) = (True, z (c, w))"
    using answers_triple [where q = "\<lambda>(c, w). dev_reply E c GENERAL_PURPOSE_PIO (Channel_Write w)"] assms(4)
    by (auto simp: dev_reply_def)
  obtain u where u: "\<And>c d. dev_reply E c d Access_Device = (True, u (c, d))"
    using answers_triple [where q = "\<lambda>(c, d). dev_reply E c d Access_Device"] assms(1)
    by (auto simp: dev_reply_def)
  have gp: "\<exists>c'. run_state (setup_pio E GENERAL_PURPOSE_PIO) c = (True, c')" for c
    by (simp add: setup_pio_def x y z split: prod.splits)
  obtain b2 where "run_state (setup_loop E False [GENERAL_PURPOSE_PIO] ok) b1 = (Inr (True, [True]), b2)"
    using gp [of "logged b1 [(Dev (gPortNumber b1) GENERAL_PURPOSE_PIO Access_Device, True, u (b1, GENERAL_PURPOSE_PIO))]"]
    by (auto simp: setup_device_def getDeviceType_def u)
  then have "run_state (setup_loop E False (?front @ [GENERAL_PURPOSE_PIO]) True) b = (Inr (True, fs @ [True]), b2)"
    unfolding setup_loop_append front by simp
  then show ?thesis
    using fs by (simp add: setupDevices_def all_devices_def MAX_NUM_DEVICES_def del: setup_loop.simps)
qed

text \<open>A bus on which only the general purpose chip works.\<close>

definition one_chip_bus :: bus_env where
  "one_chip_bus h c = (case c of
     Dev p d op \<Rightarrow> (d = GENERAL_PURPOSE_PIO \<or> op = Access_Device, 0, 0) | _ \<Rightarrow> (True, 0, 0))"

theorem setup_failure_forgotten_witness:
  "\<exists>b'. run_state (setupDevices one_chip_bus False) initial_bus = (Inr True, b')"
  by (rule setup_failure_forgotten) (simp_all add: one_chip_bus_def)

end
