(* ===== verification/Orangutan_Properties.thy ===== *)
theory Orangutan_Properties
  imports Orangutan
begin

section \<open>What is read from the Hindbrain\<close>

text \<open>
  \<open>upto_cr\<close> is a string up to its first carriage return, and \<open>received\<close> what the port delivers before it falls silent.  The
  loop of \<open>readStringFromOrangutan\<close> computes them, whatever the pieces it gets.
\<close>

definition upto_cr :: "u8 list \<Rightarrow> u8 list" where
  "upto_cr s = takeWhile (\<lambda>b. b \<noteq> ORANGUTAN_RESPONSE_TERMINATOR) s @
     (if ORANGUTAN_RESPONSE_TERMINATOR \<in> set s then [ORANGUTAN_RESPONSE_TERMINATOR] else [])"

definition received :: "u8 list list \<Rightarrow> u8 list" where
  "received chunks = concat (takeWhile (\<lambda>c. c \<noteq> []) (map (take ORANGUTAN_BUFFER_SIZE) chunks))"

lemma upto_cr_append:
  "upto_cr (s @ t) = (if ORANGUTAN_RESPONSE_TERMINATOR \<in> set s then upto_cr s else s @ upto_cr t)"
  by (auto simp: upto_cr_def takeWhile_append)

lemma upto_cr_none: "ORANGUTAN_RESPONSE_TERMINATOR \<notin> set s \<Longrightarrow> upto_cr s = s"
  using upto_cr_append [of s "[]"] by (simp add: upto_cr_def)

lemma upto_cr_prefix: "\<exists>t. s = upto_cr s @ t"
proof (cases "ORANGUTAN_RESPONSE_TERMINATOR \<in> set s")
  case True
  then obtain us vs where "s = us @ ORANGUTAN_RESPONSE_TERMINATOR # vs" "ORANGUTAN_RESPONSE_TERMINATOR \<notin> set us"
    by (auto dest: split_list_first)
  then have "takeWhile (\<lambda>b. b \<noteq> ORANGUTAN_RESPONSE_TERMINATOR) s = us" and "s = (us @ [ORANGUTAN_RESPONSE_TERMINATOR]) @ vs"
    by (auto simp: takeWhile_append)
  then show ?thesis
    using True by (intro exI [of _ vs]) (simp add: upto_cr_def)
next
  case False
  then show ?thesis
    by (simp add: upto_cr_none)
qed

lemma take_upto_cr: "take (length (upto_cr s)) s = upto_cr s"
  using upto_cr_prefix [of s] by (metis append_eq_conv_conj)

lemma length_upto_cr: "length (upto_cr s) \<le> length s"
  using upto_cr_prefix [of s] by (metis le_add1 length_append)

lemma scan_loop_upto_cr:
  "scan_loop i s n =
     (if ORANGUTAN_RESPONSE_TERMINATOR \<in> set s then (True, i + length (upto_cr s)) else (False, n))"
  by (induction i s n rule: scan_loop.induct) (auto simp: upto_cr_def)

lemma scan_buffer: "scan_loop 0 s (length s) = (ORANGUTAN_RESPONSE_TERMINATOR \<in> set s, length (upto_cr s))"
  by (simp add: scan_loop_upto_cr upto_cr_none)

lemma received_Cons:
  "received (c # cs) =
     (if take ORANGUTAN_BUFFER_SIZE c = [] then [] else take ORANGUTAN_BUFFER_SIZE c @ received cs)"
  by (simp add: received_def)

lemma copy_to_twice:
  "pos + length s + length t \<le> length mem \<Longrightarrow> copy_to (copy_to mem pos s) (pos + length s) t = copy_to mem pos (s @ t)"
  by (simp add: copy_to_def ac_simps)

lemma unat_add_small: "unat (a :: u32) + n < 2 ^ 32 \<Longrightarrow> unat (a + of_nat n) = unat a + n"
  by (simp add: unat_word_ariths unat_of_nat take_bit_eq_mod)

lemma take_append_rest: "take r (s @ t) = take r s @ take (r - length (take r s)) t"
  by (cases "r \<le> length s") simp_all

text \<open>One chunk fits, or is cut so that the terminator still fits.\<close>

lemma clamp:
  fixes room len :: u32
  assumes "unat len < unat room" and "unat room < 2 ^ 31" and "n \<le> 255"
  shows "unat (if len + of_nat n > room - 1 then room - len - 1 else of_nat n) = min n (unat room - 1 - unat len)"
proof -
  have r: "unat (room - 1) = unat room - 1"
    using assms(1) by (subst unat_sub) (auto simp: word_le_nat_alt)
  have rl: "unat (room - len - 1) = unat room - 1 - unat len"
  proof -
    have "unat (room - 1 - len) = unat room - 1 - unat len"
      using assms(1) r by (subst unat_sub) (auto simp: word_le_nat_alt)
    then show ?thesis by (simp add: algebra_simps)
  qed
  have n: "unat (of_nat n :: u32) = n"
    using assms(3) by (simp add: unat_of_nat take_bit_eq_mod)
  have "unat (len + of_nat n) = unat len + n"
    using assms by (intro unat_add_small) simp
  then have "len + of_nat n > room - 1 \<longleftrightarrow> unat room - 1 < unat len + n"
    by (simp add: word_less_nat_alt r)
  then show ?thesis
    using rl n by auto
qed

lemma run_read_loop_step:
  assumes "take ORANGUTAN_BUFFER_SIZE chunk = buf" and "buf \<noteq> []"
    and "k = (if len + of_nat (length (upto_cr buf)) > room - 1 then room - len - 1 else of_nat (length (upto_cr buf)))"
  shows "run_state (read_loop E room (chunk # chunks) mem len) b =
     run_state (if ORANGUTAN_RESPONSE_TERMINATOR \<in> set buf
                then State_Monad.return (copy_to mem (unat len) (take (unat k) buf), len + k)
                else read_loop E room chunks (copy_to mem (unat len) (take (unat k) buf)) (len + k))
       ((logged b [(Read_Port (gFd b) ORANGUTAN_BUFFER_SIZE, E (bus_log b) (Read_Port (gFd b) ORANGUTAN_BUFFER_SIZE))])
        \<lparr>serial_in := chunks\<rparr>)"
  using assms(2) by (simp only: read_loop.simps assms(1) Let_def scan_buffer assms(3) [symmetric] run_state_bind
      run_reads run_bus_exec run_modify_bus prod.case if_True if_False not_False_eq_True simp_thms)

lemma read_loop_spec:
  assumes "unat len < unat room" and "unat room < 2 ^ 31" and "unat room \<le> length mem"
  shows "\<exists>c. run_state (read_loop E room chunks mem len) b =
     ((copy_to mem (unat len) (take (unat room - 1 - unat len) (upto_cr (received chunks))),
       len + of_nat (length (take (unat room - 1 - unat len) (upto_cr (received chunks))))), c)"
  using assms
proof (induction chunks arbitrary: mem len b)
  case Nil
  then show ?case
    by (simp add: received_def upto_cr_def copy_to_def)
next
  case (Cons chunk chunks)
  let ?buf = "take ORANGUTAN_BUFFER_SIZE chunk"
  let ?n = "length (upto_cr ?buf)"
  let ?room = "unat room - 1 - unat len"
  let ?k = "if len + of_nat ?n > room - 1 then room - len - 1 else of_nat ?n"
  let ?got = "take ?room (upto_cr ?buf)"
  have n: "?n \<le> 255"
    using length_upto_cr [of ?buf] by (simp add: ORANGUTAN_BUFFER_SIZE_def)
  have k: "unat ?k = min ?n ?room"
    by (rule clamp) (use Cons.prems n in auto)
  have got: "take (unat ?k) ?buf = ?got"
    unfolding k using take_upto_cr [of ?buf] by (metis min.commute take_take)
  have len: "?k = of_nat (length ?got)"
    using n by (simp only: word_unat_eq_iff k) (simp add: unat_of_nat take_bit_eq_mod min.commute)
  show ?case
  proof (cases "?buf = []")
    case True
    then show ?thesis
      by (simp add: received_Cons upto_cr_def copy_to_def)
  next
    case False
    let ?mem = "copy_to mem (unat len) ?got"
    let ?c = "(logged b [(Read_Port (gFd b) ORANGUTAN_BUFFER_SIZE, E (bus_log b) (Read_Port (gFd b) ORANGUTAN_BUFFER_SIZE))])
        \<lparr>serial_in := chunks\<rparr>"
    have step: "run_state (read_loop E room (chunk # chunks) mem len) b =
        (if ORANGUTAN_RESPONSE_TERMINATOR \<in> set ?buf then ((?mem, len + ?k), ?c)
         else run_state (read_loop E room chunks ?mem (len + ?k)) ?c)"
      using run_read_loop_step [OF refl False refl, of E room chunks mem len b] unfolding got by simp
    show ?thesis
    proof (cases "ORANGUTAN_RESPONSE_TERMINATOR \<in> set ?buf")
      case True
      then show ?thesis
        using False unfolding step len by (simp add: received_Cons upto_cr_append)
    next
      case no: False
      have fit: "unat len + length ?got < unat room"
        using Cons.prems(1) by simp
      have len': "unat (len + ?k) = unat len + length ?got"
        unfolding len by (rule unat_add_small) (rule less_trans [OF less_trans [OF fit Cons.prems(2)]], simp)
      have mem': "length ?mem = length mem"
        using fit Cons.prems(3) by (simp add: copy_to_def)
      let ?rest = "take (unat room - 1 - (unat len + length ?got)) (upto_cr (received chunks))"
      obtain c where c: "run_state (read_loop E room chunks ?mem (len + ?k)) ?c =
          ((copy_to ?mem (unat len + length ?got) ?rest, len + ?k + of_nat (length ?rest)), c)"
        using Cons.IH [of "len + ?k" ?mem ?c] fit Cons.prems mem' unfolding len' by auto
      have all: "take ?room (upto_cr (received (chunk # chunks))) = ?got @ ?rest"
        using False no take_append_rest [of ?room ?buf "upto_cr (received chunks)"]
        by (simp add: received_Cons upto_cr_append upto_cr_none del: take_take length_take)
      have rest: "length ?rest \<le> unat room - 1 - (unat len + length ?got)"
        by simp
      have "copy_to ?mem (unat len + length ?got) ?rest = copy_to mem (unat len) (?got @ ?rest)"
        by (rule copy_to_twice) (use fit Cons.prems(3) rest in linarith)
      moreover have "len + ?k + of_nat (length ?rest) = len + of_nat (length (?got @ ?rest))"
        unfolding len by (simp only: length_append of_nat_add add.assoc)
      ultimately show ?thesis
        unfolding step all using no c by simp
    qed
  qed
qed

lemma readString_result:
  assumes "0 \<le>s gFd b" and "0 < len" and "unat len < 2 ^ 31" and "unat len \<le> length mem"
    and "s = take (unat len - 1) (upto_cr (received (serial_in b)))"
  shows "\<exists>c. run_state (readStringFromOrangutan E mem len) b =
    ((False, s @ 0 # drop (length s + 1) mem, of_nat (length s + 1)), c)"
proof -
  have pos: "unat (0 :: u32) < unat len"
    using assms(2) by (simp add: word_less_nat_alt)
  have s: "length s < unat len"
    using pos by (simp add: assms(5))
  have n: "unat (of_nat (length s) :: u32) = length s"
    using s assms(3) by (simp add: unat_of_nat take_bit_eq_mod)
  obtain c where "run_state (read_loop E len (serial_in b) mem 0) b = ((copy_to mem 0 s, 0 + of_nat (length s)), c)"
    using read_loop_spec [OF pos assms(3,4), of E "serial_in b" b] by (auto simp: assms(5))
  moreover have "(copy_to mem 0 s)[length s := 0] = s @ 0 # drop (length s + 1) mem"
    using s assms(4) by (simp add: copy_to_def list_update_append Cons_nth_drop_Suc [symmetric])
  ultimately show ?thesis
    using assms(1,2) n by (simp add: readStringFromOrangutan_def add.commute)
qed

text \<open>
  What a string read from the Hindbrain is.  With the port open and room for \<open>len\<close> characters,
  \<open>readStringFromOrangutan\<close> returns, and has stored the bytes that the port delivered up to and including the first carriage
  return, or up to the time-out, however they were split over the \<open>read\<close> calls, cut to \<open>len - 1\<close>
  bytes; a terminator follows, the length counts it, and the memory behind it is untouched.
\<close>

theorem read_string_spec:
  assumes "0 \<le>s gFd b" and "0 < len" and "unat len < 2 ^ 31" and "unat len \<le> length mem"
    and "s = take (unat len - 1) (upto_cr (received (serial_in b)))"
  shows "\<exists>c. run_state (readStringFromOrangutan E mem len) b =
    ((False, s @ 0 # drop (length s + 1) mem, of_nat (length s + 1)), c)"
  by (rule readString_result [OF assms])

theorem read_string_spec_witness:
  "\<exists>c. run_state (readStringFromOrangutan (\<lambda>h c. (True, 0, 0)) (replicate 4 9) 4)
      (initial_bus\<lparr>gFd := 3, serial_in := [[79], [75, 13, 88]]\<rparr>) =
    ((False, [79, 75, 13, 0], 4), c)"
proof -
  let ?b = "initial_bus\<lparr>gFd := 3, serial_in := [[79], [75, 13, 88]]\<rparr>"
  have "received (serial_in ?b) = [79, 75, 13, 88]"
    by (simp add: received_def ORANGUTAN_BUFFER_SIZE_def)
  then have s: "[79, 75, 13] = take (unat (4 :: u32) - 1) (upto_cr (received (serial_in ?b)))"
    by (simp add: upto_cr_def ORANGUTAN_RESPONSE_TERMINATOR_def)
  obtain c where "run_state (readStringFromOrangutan (\<lambda>h c. (True, 0, 0)) (replicate 4 9) 4) ?b =
      ((False, [79, 75, 13] @ 0 # drop (length [79 :: u8, 75, 13] + 1) (replicate 4 9),
        of_nat (length [79 :: u8, 75, 13] + 1)), c)"
    using read_string_spec [OF _ _ _ _ s, of "replicate 4 9" "\<lambda>h c. (True, 0, 0)"] by (auto simp: word_sle_eq)
  then show ?thesis
    by simp
qed

end
