(* ===== verification/HardwareServer.thy ===== *)
theory HardwareServer
  imports OwBus Message_Types
begin

section \<open>The hardware server: \<open>RoboOneHardware/src/hardware_server.c\<close>\<close>

text \<open>
  The messages of the hardware server and what they call.  Each \<open>switch\<close> on the message type is a function from the
  type to the function of \<open>ow_bus.c\<close> that its case calls, \<open>None\<close> where the code reaches
  \<open>ASSERT_ALWAYS_PARAM\<close>.  An action returns the bytes it writes to the start of the body of the response;
  \<open>actionSendOString\<close> sends more than it writes, so it returns the whole body and the length.

  The state is \<open>ow_bus\<close>.  \<open>hw_params\<close> has the environment, and the representation of a \<open>double\<close> that
  holds an integer.  An assertion ends the process, so its state is not kept.
\<close>

record hw_params =
  hwEnv :: bus_env
  doubleBytes :: "int \<Rightarrow> u8 list"

subsection \<open>Start, stop and the charger state\<close>

definition actionHardwareServerStart :: "bus_env \<Rightarrow> bool \<Rightarrow> (fault + u8 list) ow" where
  "actionHardwareServerStart E batteriesOnly = do {
     success \<leftarrow> startOneWireBus E;
     (if success then do {
        r \<leftarrow> setupDevices E batteriesOnly;
        (case r of
           Inl e \<Rightarrow> State_Monad.return (Inl e)
         | Inr success \<Rightarrow> do {
             (if \<not> success then do { findAllDevices E; State_Monad.return () } else State_Monad.return ());
             State_Monad.return (Inr [bool_byte success])
           })
      } else State_Monad.return (Inr [bool_byte False]))
   }"

definition actionHardwareServerStop :: "bus_env \<Rightarrow> u8 list ow" where
  "actionHardwareServerStop E = do {
     stopOneWireBus E;
     closeOrangutan E;
     State_Monad.return [bool_byte True]
   }"

definition actionReadChargerStatePins :: "bus_env \<Rightarrow> u8 list ow" where
  "actionReadChargerStatePins E = do {
     (success, pinsState) \<leftarrow> readChargerStatePins E;
     State_Monad.return [bool_byte success, pinsState]
   }"

text \<open>The values of \<open>ChargeState\<close>; \<open>NUM_CHARGE_STATES\<close> and \<open>CHARGE_STATE_NULL\<close> take up 6 and 8.\<close>

fun charge_state_code :: "charge_state \<Rightarrow> u32" where
  "charge_state_code CHARGE_STATE_NO_POWER = 0"
| "charge_state_code CHARGE_STATE_OFF = 1"
| "charge_state_code CHARGE_STATE_GREEN = 2"
| "charge_state_code CHARGE_STATE_FLASHING_GREEN = 3"
| "charge_state_code CHARGE_STATE_RED = 4"
| "charge_state_code CHARGE_STATE_FLASHING_RED = 5"
| "charge_state_code CHARGE_STATE_UNKNOWN = 7"
| "charge_state_code CHARGE_STATE_BAD = 9"

definition actionReadChargerState :: "bus_env \<Rightarrow> u8 list ow" where
  "actionReadChargerState E = do {
     (success, state, flashDetectPossible) \<leftarrow> readChargerState E (\<lambda>_. CHARGE_STATE_NO_POWER) False;
     State_Monad.return ([bool_byte success, bool_byte flashDetectPossible] @
       concat (map (\<lambda>c. le_bytes32 (charge_state_code (state c))) [CHARGER_RIO, CHARGER_O1, CHARGER_O2, CHARGER_O3]))
   }"

subsection \<open>Messages with a flag\<close>

definition set_function :: "bus_env \<Rightarrow> nat \<Rightarrow> bool ow option" where
  "set_function E t =
     (if t = HARDWARE_TOGGLE_O_PWR then Some (toggleOPwr E)
      else if t = HARDWARE_TOGGLE_O_RST then Some (toggleORst E)
      else if t = HARDWARE_TOGGLE_PI_RST then Some (togglePiRst E)
      else if t = HARDWARE_SET_RIO_PWR_12V_ON then Some (setRioPwr12VOn E)
      else if t = HARDWARE_SET_RIO_PWR_12V_OFF then Some (setRioPwr12VOff E)
      else if t = HARDWARE_SET_RIO_PWR_BATT_ON then Some (setRioPwrBattOn E)
      else if t = HARDWARE_SET_RIO_PWR_BATT_OFF then Some (setRioPwrBattOff E)
      else if t = HARDWARE_SET_O_PWR_12V_ON then Some (setOPwr12VOn E)
      else if t = HARDWARE_SET_O_PWR_12V_OFF then Some (setOPwr12VOff E)
      else if t = HARDWARE_SET_O_PWR_BATT_ON then Some (setOPwrBattOn E)
      else if t = HARDWARE_SET_O_PWR_BATT_OFF then Some (setOPwrBattOff E)
      else if t = HARDWARE_SET_RIO_BATTERY_CHARGER_ON then Some (setRioBatteryChargerOn E)
      else if t = HARDWARE_SET_RIO_BATTERY_CHARGER_OFF then Some (setRioBatteryChargerOff E)
      else if t = HARDWARE_SET_O1_BATTERY_CHARGER_ON then Some (setO1BatteryChargerOn E)
      else if t = HARDWARE_SET_O1_BATTERY_CHARGER_OFF then Some (setO1BatteryChargerOff E)
      else if t = HARDWARE_SET_O2_BATTERY_CHARGER_ON then Some (setO2BatteryChargerOn E)
      else if t = HARDWARE_SET_O2_BATTERY_CHARGER_OFF then Some (setO2BatteryChargerOff E)
      else if t = HARDWARE_SET_O3_BATTERY_CHARGER_ON then Some (setO3BatteryChargerOn E)
      else if t = HARDWARE_SET_O3_BATTERY_CHARGER_OFF then Some (setO3BatteryChargerOff E)
      else if t = HARDWARE_SET_ALL_BATTERY_CHARGERS_ON then Some (setAllBatteryChargersOn E)
      else if t = HARDWARE_SET_ALL_BATTERY_CHARGERS_OFF then Some (setAllBatteryChargersOff E)
      else if t = HARDWARE_DISABLE_ON_PCB_RELAYS then Some (disableOnPCBRelays E)
      else if t = HARDWARE_ENABLE_ON_PCB_RELAYS then Some (enableOnPCBRelays E)
      else if t = HARDWARE_DISABLE_EXTERNAL_RELAYS then Some (disableExternalRelays E)
      else if t = HARDWARE_ENABLE_EXTERNAL_RELAYS then Some (enableExternalRelays E)
      else if t = HARDWARE_PERFORM_CAL_ALL_BATTERY_MONITORS then Some (performCalAllBatteryMonitors E)
      else if t = HARDWARE_PERFORM_CAL_RIO_BATTERY_MONITOR then Some (performCalRioBatteryMonitor E)
      else if t = HARDWARE_PERFORM_CAL_O1_BATTERY_MONITOR then Some (performCalO1BatteryMonitor E)
      else if t = HARDWARE_PERFORM_CAL_O2_BATTERY_MONITOR then Some (performCalO2BatteryMonitor E)
      else if t = HARDWARE_PERFORM_CAL_O3_BATTERY_MONITOR then Some (performCalO3BatteryMonitor E)
      else None)"

text \<open>
  The case of \<open>HARDWARE_PERFORM_CAL_O3_BATTERY_MONITOR\<close> has no \<open>break\<close>: after the calibration the code
  falls through to the assertion of the default case.
\<close>

definition actionSetBool :: "bus_env \<Rightarrow> nat \<Rightarrow> (fault + u8 list) ow" where
  "actionSetBool E t =
     (case set_function E t of
        None \<Rightarrow> State_Monad.return (Inl Assert_Failed)
      | Some f \<Rightarrow> do {
          success \<leftarrow> f;
          State_Monad.return (if t = HARDWARE_PERFORM_CAL_O3_BATTERY_MONITOR then Inl Assert_Failed
                              else Inr [bool_byte success])
        })"

text \<open>\<open>isOn\<close> starts as false, and the address of it is passed.\<close>

definition read_flag :: "(bool option \<Rightarrow> (bool \<times> bool option) ow) \<Rightarrow> (bool \<times> bool) ow" where
  "read_flag f = do { (success, isOn) \<leftarrow> f (Some False); State_Monad.return (success, the isOn) }"

definition bool_function :: "bus_env \<Rightarrow> nat \<Rightarrow> (bool \<times> bool) ow option" where
  "bool_function E t =
     (if t = HARDWARE_READ_MAINS_12V then Some (readMains12VPin E False)
      else if t = HARDWARE_READ_O_PWR then Some (read_flag (readOPwr E))
      else if t = HARDWARE_READ_O_RST then Some (read_flag (readORst E))
      else if t = HARDWARE_READ_RIO_PWR_12V then Some (read_flag (readRioPwr12V E))
      else if t = HARDWARE_READ_RIO_PWR_BATT then Some (read_flag (readRioPwrBatt E))
      else if t = HARDWARE_READ_O_PWR_12V then Some (read_flag (readOPwr12V E))
      else if t = HARDWARE_READ_O_PWR_BATT then Some (read_flag (readOPwrBatt E))
      else if t = HARDWARE_READ_RIO_BATTERY_CHARGER then Some (read_flag (readRioBatteryCharger E))
      else if t = HARDWARE_READ_O1_BATTERY_CHARGER then Some (read_flag (readO1BatteryCharger E))
      else if t = HARDWARE_READ_O2_BATTERY_CHARGER then Some (read_flag (readO2BatteryCharger E))
      else if t = HARDWARE_READ_O3_BATTERY_CHARGER then Some (read_flag (readO3BatteryCharger E))
      else if t = HARDWARE_READ_EXTERNAL_RELAYS_ENABLED then Some (read_flag (readExternalRelaysEnabled E))
      else if t = HARDWARE_READ_ON_PCB_RELAYS_ENABLED then Some (read_flag (readOnPCBRelaysEnabled E))
      else None)"

definition actionReadBool :: "bus_env \<Rightarrow> nat \<Rightarrow> (fault + u8 list) ow" where
  "actionReadBool E t =
     (case bool_function E t of
        None \<Rightarrow> State_Monad.return (Inl Assert_Failed)
      | Some f \<Rightarrow> do {
          (success, isOn) \<leftarrow> f;
          State_Monad.return (Inr [bool_byte success, bool_byte isOn])
        })"

definition actionReadGeneralPurposeIOs :: "bus_env \<Rightarrow> u8 list ow" where
  "actionReadGeneralPurposeIOs E = do {
     (success, pinsState) \<leftarrow> readGeneralPurposeIOs E;
     State_Monad.return [bool_byte success, pinsState]
   }"

subsection \<open>Messages about the batteries\<close>

definition current_function :: "bus_env \<Rightarrow> nat \<Rightarrow> (bool \<times> s16) ow option" where
  "current_function E t =
     (if t = HARDWARE_READ_RIO_BATT_CURRENT then Some (readRioBattCurrent E)
      else if t = HARDWARE_READ_O1_BATT_CURRENT then Some (readO1BattCurrent E)
      else if t = HARDWARE_READ_O2_BATT_CURRENT then Some (readO2BattCurrent E)
      else if t = HARDWARE_READ_O3_BATT_CURRENT then Some (readO3BattCurrent E)
      else None)"

definition actionReadCurrent :: "bus_env \<Rightarrow> nat \<Rightarrow> (fault + u8 list) ow" where
  "actionReadCurrent E t =
     (case current_function E t of
        None \<Rightarrow> State_Monad.return (Inl Assert_Failed)
      | Some f \<Rightarrow> do {
          (success, v) \<leftarrow> f;
          State_Monad.return (Inr (bool_byte success # le_bytes16 v))
        })"

definition voltage_function :: "bus_env \<Rightarrow> nat \<Rightarrow> (bool \<times> u16) ow option" where
  "voltage_function E t =
     (if t = HARDWARE_READ_RIO_BATT_VOLTAGE then Some (readRioBattVoltage E)
      else if t = HARDWARE_READ_O1_BATT_VOLTAGE then Some (readO1BattVoltage E)
      else if t = HARDWARE_READ_O2_BATT_VOLTAGE then Some (readO2BattVoltage E)
      else if t = HARDWARE_READ_O3_BATT_VOLTAGE then Some (readO3BattVoltage E)
      else None)"

definition actionReadVoltage :: "bus_env \<Rightarrow> nat \<Rightarrow> (fault + u8 list) ow" where
  "actionReadVoltage E t =
     (case voltage_function E t of
        None \<Rightarrow> State_Monad.return (Inl Assert_Failed)
      | Some f \<Rightarrow> do {
          (success, v) \<leftarrow> f;
          State_Monad.return (Inr (bool_byte success # le_bytes16 v))
        })"

definition capacity_function :: "bus_env \<Rightarrow> nat \<Rightarrow> (bool \<times> u16) ow option" where
  "capacity_function E t =
     (if t = HARDWARE_READ_RIO_REMAINING_CAPACITY then Some (readRioRemainingCapacity E)
      else if t = HARDWARE_READ_O1_REMAINING_CAPACITY then Some (readO1RemainingCapacity E)
      else if t = HARDWARE_READ_O2_REMAINING_CAPACITY then Some (readO2RemainingCapacity E)
      else if t = HARDWARE_READ_O3_REMAINING_CAPACITY then Some (readO3RemainingCapacity E)
      else None)"

definition actionReadRemainingCapacity :: "bus_env \<Rightarrow> nat \<Rightarrow> (fault + u8 list) ow" where
  "actionReadRemainingCapacity E t =
     (case capacity_function E t of
        None \<Rightarrow> State_Monad.return (Inl Assert_Failed)
      | Some f \<Rightarrow> do {
          (success, v) \<leftarrow> f;
          State_Monad.return (Inr (bool_byte success # le_bytes16 v))
        })"

definition charge_function :: "bus_env \<Rightarrow> nat \<Rightarrow> bus_reply ow option" where
  "charge_function E t =
     (if t = HARDWARE_READ_RIO_BATT_LIFETIME_CHARGE_DISCHARGE then Some (readRioBattLifetimeChargeDischarge E)
      else if t = HARDWARE_READ_O1_BATT_LIFETIME_CHARGE_DISCHARGE then Some (readO1BattLifetimeChargeDischarge E)
      else if t = HARDWARE_READ_O2_BATT_LIFETIME_CHARGE_DISCHARGE then Some (readO2BattLifetimeChargeDischarge E)
      else if t = HARDWARE_READ_O3_BATT_LIFETIME_CHARGE_DISCHARGE then Some (readO3BattLifetimeChargeDischarge E)
      else None)"

definition actionReadChargeDischarge :: "bus_env \<Rightarrow> nat \<Rightarrow> (fault + u8 list) ow" where
  "actionReadChargeDischarge E t =
     (case charge_function E t of
        None \<Rightarrow> State_Monad.return (Inl Assert_Failed)
      | Some f \<Rightarrow> do {
          (success, charge, discharge) \<leftarrow> f;
          State_Monad.return (Inr (bool_byte success # le_bytes32 charge @ le_bytes32 discharge))
        })"

definition swap_function :: "bus_env \<Rightarrow> nat \<Rightarrow> (u32 \<Rightarrow> u16 \<Rightarrow> bool ow) option" where
  "swap_function E t =
     (if t = HARDWARE_SWAP_RIO_BATTERY then Some (swapRioBattery E)
      else if t = HARDWARE_SWAP_O1_BATTERY then Some (swapO1Battery E)
      else if t = HARDWARE_SWAP_O2_BATTERY then Some (swapO2Battery E)
      else if t = HARDWARE_SWAP_O3_BATTERY then Some (swapO3Battery E)
      else None)"

definition actionSwapBattery :: "bus_env \<Rightarrow> nat \<Rightarrow> u8 list \<Rightarrow> (fault + u8 list) ow" where
  "actionSwapBattery E t body =
     (case swap_function E t of
        None \<Rightarrow> State_Monad.return (Inl Assert_Failed)
      | Some f \<Rightarrow> do {
          success \<leftarrow> f (le32 body) (le16 (drop 4 body));
          State_Monad.return (Inr [bool_byte success])
        })"

definition temperature_function :: "bus_env \<Rightarrow> nat \<Rightarrow> (int option \<Rightarrow> (fault + bool \<times> int option) ow) option" where
  "temperature_function E t =
     (if t = HARDWARE_READ_RIO_BATT_TEMPERATURE then Some (readRioBattTemperature E)
      else if t = HARDWARE_READ_O1_BATT_TEMPERATURE then Some (readO1BattTemperature E)
      else if t = HARDWARE_READ_O2_BATT_TEMPERATURE then Some (readO2BattTemperature E)
      else if t = HARDWARE_READ_O3_BATT_TEMPERATURE then Some (readO3BattTemperature E)
      else None)"

definition actionReadTemperature :: "hw_params \<Rightarrow> nat \<Rightarrow> (fault + u8 list) ow" where
  "actionReadTemperature P t =
     (case temperature_function (hwEnv P) t of
        None \<Rightarrow> State_Monad.return (Inl Assert_Failed)
      | Some f \<Rightarrow> do {
          r \<leftarrow> f (Some 0);
          State_Monad.return (andthen r (\<lambda>(success, temperature).
            Inr (bool_byte success # doubleBytes P (the temperature))))
        })"

subsection \<open>Strings for the Hindbrain\<close>

text \<open>
  \<open>actionSendOString\<close> works in the body of the response, \<open>mem\<close>: the flag, the 80 characters and the length of an
  \<open>OResponseString\<close>.  The number of bytes it adds up for the body is that of the string, the length
  and the flag; the string is not followed by the length, though, but by the rest of the 80 characters.
\<close>

definition actionSendOString :: "bus_env \<Rightarrow> u8 list \<Rightarrow> bool \<Rightarrow> u8 list \<Rightarrow> (fault + u8 list \<times> nat) ow" where
  "actionSendOString E pInputString waitForResponse mem =
     (case removeCtrlCharacters pInputString MAX_O_STRING_LENGTH of
        Inl e \<Rightarrow> State_Monad.return (Inl e)
      | Inr _ \<Rightarrow> do {
          let stringLength = (if waitForResponse then of_nat MAX_O_STRING_LENGTH else 0);
          (success, str, stringLength) \<leftarrow>
            sendStringToOrangutan E pInputString waitForResponse (take MAX_O_STRING_LENGTH (tl mem)) stringLength;
          let mem = bool_byte success # str @ le_bytes32 stringLength @ drop (1 + sizeof_OResponseString) mem;
          State_Monad.return
            (andthen (if success \<and> waitForResponse then removeCtrlCharacters (tl mem) MAX_O_STRING_LENGTH else Inr [])
               (\<lambda>_. Inr (mem, 1 + unat stringLength + 4)))
        })"

subsection \<open>Dispatch\<close>

text \<open>The actions whose response is what they write.\<close>

definition hw_action :: "hw_params \<Rightarrow> nat \<Rightarrow> u8 list \<Rightarrow> (fault + u8 list) ow" where
  "hw_action P t body =
     (let E = hwEnv P
      in if t = HARDWARE_SERVER_START then actionHardwareServerStart E (hd body \<noteq> 0)
      else if t = HARDWARE_SERVER_STOP then do { rsp \<leftarrow> actionHardwareServerStop E; State_Monad.return (Inr rsp) }
      else if t = HARDWARE_READ_CHARGER_STATE_PINS
        then do { rsp \<leftarrow> actionReadChargerStatePins E; State_Monad.return (Inr rsp) }
      else if t = HARDWARE_READ_CHARGER_STATE
        then do { rsp \<leftarrow> actionReadChargerState E; State_Monad.return (Inr rsp) }
      else if bool_function E t \<noteq> None then actionReadBool E t
      else if set_function E t \<noteq> None then actionSetBool E t
      else if t = HARDWARE_READ_GENERAL_PURPOSE_IOS
        then do { rsp \<leftarrow> actionReadGeneralPurposeIOs E; State_Monad.return (Inr rsp) }
      else if current_function E t \<noteq> None then actionReadCurrent E t
      else if voltage_function E t \<noteq> None then actionReadVoltage E t
      else if capacity_function E t \<noteq> None then actionReadRemainingCapacity E t
      else if charge_function E t \<noteq> None then actionReadChargeDischarge E t
      else if swap_function E t \<noteq> None then actionSwapBattery E t body
      else if temperature_function E t \<noteq> None then actionReadTemperature P t
      else State_Monad.return (Inl Assert_Failed))"

definition hw_doAction ::
  "hw_params \<Rightarrow> nat \<Rightarrow> u8 list \<Rightarrow> msg \<Rightarrow> ow_bus \<Rightarrow> fault + (server_code \<times> msg \<times> ow_bus)" where
  "hw_doAction P t body reply b =
     (if t = HARDWARE_SEND_O_STRING then
        (let (r, b') = run_state (actionSendOString (hwEnv P) (tl body) (hd body \<noteq> 0) (msgBody reply)) b
         in andthen r (\<lambda>(mem, n). Inr (SERVER_SUCCESS_KEEP_RUNNING,
              reply\<lparr>msgLength := 1 + of_nat n, msgType := of_nat t, msgBody := mem\<rparr>, b')))
      else
        (let (r, b') = run_state (hw_action P t body) b
         in andthen r (\<lambda>rsp. Inr (if t = HARDWARE_SERVER_STOP then SERVER_EXIT_NORMALLY else SERVER_SUCCESS_KEEP_RUNNING,
              reply_with t rsp reply, b'))))"

definition hw_serverHandleMsg :: "hw_params \<Rightarrow> ow_bus handler" where
  "hw_serverHandleMsg P m reply b =
     andthen (assert_that (unat (msgType m) < MAX_NUM_HARDWARE_MSGS)) (\<lambda>_.
       hw_doAction P (unat (msgType m)) (msgBody m) reply b)"

end
