(* ===== verification/OwBus_Safety.thy ===== *)
theory OwBus_Safety
  imports OwBus
begin

section \<open>Invariants of the hardware\<close>

text \<open>
  \<open>keeps_bus I m\<close>: the computation \<open>m\<close> keeps the invariant \<open>I\<close>.  The locale \<open>bus_invariant\<close> says what
  an invariant must allow (any call that does not write pins, if it is one for the type of the chip; writes of pins, and shadows,
  that satisfy \<open>safe\<close>; any change of the other variables), and carries it through every function of \<open>ow_bus.c\<close> and \<open>orangutan.c\<close>, provided that bytes with the
  input pins high are safe.
\<close>

definition keeps_bus :: "(ow_bus \<Rightarrow> bool) \<Rightarrow> 'a ow \<Rightarrow> bool" where
  "keeps_bus I m \<longleftrightarrow> (\<forall>b. I b \<longrightarrow> I (snd (run_state m b)))"

lemma keeps_busI: "(\<And>b. I b \<Longrightarrow> I (snd (run_state m b))) \<Longrightarrow> keeps_bus I m"
  by (simp add: keeps_bus_def)

lemma keeps_busD: "keeps_bus I m \<Longrightarrow> run_state m b = (a, b') \<Longrightarrow> I b \<Longrightarrow> I b'"
  unfolding keeps_bus_def by (metis snd_conv)

lemma keeps_bus_return: "keeps_bus I (State_Monad.return x)"
  by (simp add: keeps_bus_def)

lemma keeps_bus_bind: "keeps_bus I m \<Longrightarrow> (\<And>a. keeps_bus I (f a)) \<Longrightarrow> keeps_bus I (m \<bind> f)"
  by (simp add: keeps_bus_def split: prod.splits) (metis snd_conv)

lemma keeps_bus_reads: "keeps_bus I (reads f)"
  by (simp add: keeps_bus_def)

lemma keeps_bus_if: "keeps_bus I m \<Longrightarrow> keeps_bus I n \<Longrightarrow> keeps_bus I (if c then m else n)"
  by simp

lemma keeps_bus_let: "(\<And>x. keeps_bus I (f x)) \<Longrightarrow> keeps_bus I (let x = e in f x)"
  by simp

lemma keeps_bus_pair: "(\<And>x y. keeps_bus I (f x y)) \<Longrightarrow> keeps_bus I (case p of (x, y) \<Rightarrow> f x y)"
  by (cases p) simp

lemma keeps_bus_sum:
  "(\<And>x. keeps_bus I (f x)) \<Longrightarrow> (\<And>y. keeps_bus I (g y)) \<Longrightarrow> keeps_bus I (case r of Inl x \<Rightarrow> f x | Inr y \<Rightarrow> g y)"
  by (cases r) simp_all

lemma keeps_bus_option:
  "keeps_bus I n \<Longrightarrow> (\<And>y. r = Some y \<Longrightarrow> keeps_bus I (f y)) \<Longrightarrow> keeps_bus I (case r of None \<Rightarrow> n | Some y \<Rightarrow> f y)"
  by (cases r) simp_all

lemma keeps_bus_modify: "(\<And>b. I b \<Longrightarrow> I (f b)) \<Longrightarrow> keeps_bus I (modify_bus f)"
  by (simp add: keeps_bus_def)

lemmas keeps_bus_rules = keeps_bus_return keeps_bus_bind keeps_bus_reads keeps_bus_if keeps_bus_let
  keeps_bus_pair keeps_bus_sum

fun pin_write :: "bus_call \<Rightarrow> (ow_device \<times> u8) option" where
  "pin_write (Dev p d (Channel_Write v)) = Some (d, v)"
| "pin_write _ = None"

text \<open>The operations for each type of chip.\<close>

definition is_pio :: "ow_device \<Rightarrow> bool" where
  "is_pio d \<longleftrightarrow> getDeviceType (device_address d) = DS2408_PIO"

definition is_monitor :: "ow_device \<Rightarrow> bool" where
  "is_monitor d \<longleftrightarrow> getDeviceType (device_address d) = DS2438_BATTERY_MONITOR"

lemma is_pio_simps [simp]:
  "is_pio CHARGER_STATE_PIO" "is_pio DARLINGTON_PIO" "is_pio RELAY_PIO" "is_pio GENERAL_PURPOSE_PIO"
  by (simp_all add: is_pio_def getDeviceType_def)

lemma is_monitor_simps [simp]:
  "is_monitor RIO_BATTERY_MONITOR" "is_monitor O1_BATTERY_MONITOR" "is_monitor O2_BATTERY_MONITOR" "is_monitor O3_BATTERY_MONITOR"
  by (simp_all add: is_monitor_def getDeviceType_def)

fun fits :: "ow_device \<Rightarrow> bus_op \<Rightarrow> bool" where
  "fits d Access_Device = True"
| "fits d Read_Logic = is_pio d"
| "fits d Read_Latch = is_pio d"
| "fits d Reset_Latch = is_pio d"
| "fits d (Channel_Write v) = is_pio d"
| "fits d Disable_Test_Mode = is_pio d"
| "fits d (Write_Control c) = is_pio d"
| "fits d _ = is_monitor d"

fun call_fits :: "bus_call \<Rightarrow> bool" where
  "call_fits (Dev p d op) = fits d op"
| "call_fits _ = True"

locale bus_invariant =
  fixes I :: "ow_bus \<Rightarrow> bool" and safe :: "ow_device \<Rightarrow> u8 \<Rightarrow> bool"
  assumes calls: "I b \<Longrightarrow> call_fits c \<Longrightarrow> (case pin_write c of None \<Rightarrow> True | Some (d, v) \<Rightarrow> safe d v) \<Longrightarrow> I (logged b [(c, r)])"
    and shadows: "I b \<Longrightarrow> safe d v \<Longrightarrow> I (set_shadow d v b)"
    and others: "I b \<Longrightarrow> I (b\<lparr>gPortNumber := p\<rparr>)" "I b \<Longrightarrow> I (b\<lparr>ticksAtLastRead := t\<rparr>)"
      "I b \<Longrightarrow> I (b\<lparr>lastPinsEdgeState := e\<rparr>)" "I b \<Longrightarrow> I (b\<lparr>serial_in := s\<rparr>)" "I b \<Longrightarrow> I (set_fd fd b)"
    and inputs_safe: "safe d (or v (inputMask d))"
begin

lemma exec: "call_fits c \<Longrightarrow> (case pin_write c of None \<Rightarrow> True | Some (d, v) \<Rightarrow> safe d v) \<Longrightarrow> keeps_bus I (bus_exec E c)"
  by (rule keeps_busI) (simp add: calls)

lemma dev_other: "fits d op \<Longrightarrow> (\<And>v. op \<noteq> Channel_Write v) \<Longrightarrow> keeps_bus I (dev E d op)"
  unfolding dev_def by (cases op) (auto intro!: keeps_bus_rules exec)

lemma dev_write: "is_pio d \<Longrightarrow> safe d v \<Longrightarrow> keeps_bus I (dev E d (Channel_Write v))"
  unfolding dev_def by (auto intro!: keeps_bus_rules exec)

lemma modify_shadow: "safe d v \<Longrightarrow> keeps_bus I (modify_bus (set_shadow d v))"
  by (rule keeps_bus_modify) (rule shadows)

lemma modify_others:
  "keeps_bus I (modify_bus (gPortNumber_update (\<lambda>_. p)))" "keeps_bus I (modify_bus (ticksAtLastRead_update (\<lambda>_. t)))"
  "keeps_bus I (modify_bus (lastPinsEdgeState_update (\<lambda>_. e)))" "keeps_bus I (modify_bus (serial_in_update (\<lambda>_. s)))"
  "keeps_bus I (modify_bus (set_fd fd))"
  by (auto intro!: keeps_bus_modify others)

text \<open>The mask of the general purpose chip is empty, so every byte is safe for it.\<close>

lemma general_purpose_safe: "safe GENERAL_PURPOSE_PIO v"
  using inputs_safe [of GENERAL_PURPOSE_PIO v] by simp

lemmas steps = keeps_bus_rules exec dev_other dev_write modify_shadow modify_others inputs_safe general_purpose_safe

lemma getSystemTicks: "keeps_bus I (getSystemTicks E)"
  unfolding getSystemTicks_def by (auto intro!: steps)

lemma accountForShadow: "keeps_bus I (accountForShadow d p)"
  unfolding accountForShadow_def by (auto intro!: steps)

lemma debugPrintPinsState: "keeps_bus I (debugPrintPinsState E)"
  unfolding debugPrintPinsState_def debug_read_def by (auto intro!: steps accountForShadow)

lemma readPins: "is_pio d \<Longrightarrow> keeps_bus I (readPins E d)"
  unfolding readPins_def by (auto intro!: steps debugPrintPinsState)

lemma readAndResetRisingEdgePins: "is_pio d \<Longrightarrow> keeps_bus I (readAndResetRisingEdgePins E d)"
  unfolding readAndResetRisingEdgePins_def by (auto intro!: steps debugPrintPinsState)

lemma readPinsWithShadow: "is_pio d \<Longrightarrow> keeps_bus I (readPinsWithShadow E d)"
  unfolding readPinsWithShadow_def by (auto intro!: steps debugPrintPinsState accountForShadow)

lemma setPinsWithShadow: "is_pio d \<Longrightarrow> keeps_bus I (setPinsWithShadow E d m v)"
  unfolding setPinsWithShadow_def Let_def by (auto intro!: steps debugPrintPinsState readPinsWithShadow)

lemma toggle_loop: "is_pio d \<Longrightarrow> keeps_bus I (toggle_loop E d m n p s)"
  by (induction n arbitrary: p s) (auto simp: Let_def intro!: steps debugPrintPinsState)

lemma openOrangutan: "keeps_bus I (openOrangutan E)"
  unfolding openOrangutan_def by (auto intro!: steps)

lemma closeOrangutan: "keeps_bus I (closeOrangutan E)"
  unfolding closeOrangutan_def by (auto intro!: steps)

lemma read_loop: "keeps_bus I (read_loop E m cs mem n)"
  by (induction cs arbitrary: mem n) (auto simp: Let_def intro!: steps)

lemma sendStringToOrangutan: "keeps_bus I (sendStringToOrangutan E s w mem n)"
  unfolding sendStringToOrangutan_def readStringFromOrangutan_def by (auto simp: Let_def intro!: steps read_loop)

lemma togglePinsWithShadow: "is_pio d \<Longrightarrow> keeps_bus I (togglePinsWithShadow E d m)"
  unfolding togglePinsWithShadow_def by (auto intro!: steps debugPrintPinsState readPinsWithShadow toggle_loop)

lemma toggle_orangutan: "keeps_bus I (toggle_orangutan E m)"
  unfolding toggle_orangutan_def by (auto intro!: steps openOrangutan closeOrangutan togglePinsWithShadow)

lemma read_switch: "is_pio d \<Longrightarrow> keeps_bus I (read_switch E d m l p)"
  unfolding read_switch_def by (auto intro!: steps readPinsWithShadow)

lemma setup_pio: "is_pio d \<Longrightarrow> keeps_bus I (setup_pio E d)"
  unfolding setup_pio_def by (auto intro!: steps debugPrintPinsState)

lemma setup_battery_monitor: "is_monitor d \<Longrightarrow> keeps_bus I (setup_battery_monitor E d)"
  unfolding setup_battery_monitor_def by (auto intro!: steps getSystemTicks)

lemma setup_device: "keeps_bus I (setup_device E bo d)"
  unfolding setup_device_def
  by (auto simp: is_pio_def is_monitor_def intro!: steps setup_pio setup_battery_monitor split: ow_device_type.split)

lemma setup_loop: "keeps_bus I (setup_loop E bo ds s)"
  by (induction ds arbitrary: s) (auto intro!: steps setup_device)

lemma setupDevices: "keeps_bus I (setupDevices E bo)"
  unfolding setupDevices_def Let_def by (auto intro!: steps setup_loop)

lemma all_of: "(\<And>m. m \<in> set ms \<Longrightarrow> keeps_bus I m) \<Longrightarrow> keeps_bus I (all_of ms)"
  by (induction ms rule: all_of.induct) (auto intro!: steps)

lemma setAnalogueMuxInput: "keeps_bus I (setAnalogueMuxInput E n)"
  unfolding setAnalogueMuxInput_def Let_def by (auto intro!: steps readPinsWithShadow)

lemma read_temperature: "keeps_bus I (read_temperature E n p)"
  unfolding read_temperature_def readAnalogueMux_def by (auto intro!: steps setAnalogueMuxInput)

lemma startOneWireBus: "keeps_bus I (startOneWireBus E)"
  unfolding startOneWireBus_def by (auto intro!: steps)

lemma stopOneWireBus: "keeps_bus I (stopOneWireBus E)"
  unfolding stopOneWireBus_def by (auto intro!: steps)

lemma findAllDevices: "keeps_bus I (findAllDevices E)"
  unfolding findAllDevices_def by (auto intro!: steps)

lemma readMains12VPin: "keeps_bus I (readMains12VPin E p)"
  unfolding readMains12VPin_def by (auto intro!: steps readPins)

lemma readChargerState: "keeps_bus I (readChargerState E st f)"
  unfolding readChargerState_def readExternalRelaysEnabled_def readRioBatteryCharger_def readO1BatteryCharger_def
    readO2BatteryCharger_def readO3BatteryCharger_def Let_def
  by (auto intro!: steps readAndResetRisingEdgePins getSystemTicks readPins read_switch)

lemma read_u16: "keeps_bus I (read_u16 E d op)" if "fits d op" and "\<And>v. op \<noteq> Channel_Write v"
  unfolding read_u16_def using that by (auto intro!: steps)

lemma perform_cal: "is_monitor d \<Longrightarrow> keeps_bus I (perform_cal E d)"
  unfolding perform_cal_def by (auto intro!: steps)

lemma swap_battery: "is_monitor d \<Longrightarrow> keeps_bus I (swap_battery E d t c)"
  unfolding swap_battery_def Let_def by (auto intro!: steps)

end

end
