(* ===== verification/HardwareServer_Properties.thy ===== *)
theory HardwareServer_Properties
  imports HardwareServer OwBus_Safety OwBus_Properties Orangutan_Properties
begin

section \<open>What the hardware server guarantees\<close>

text \<open>
  First the invariants of \<open>OwBus_Safety\<close> are carried to whole messages, so that \<open>message_handler\<close> carries them to
  sessions.  Then the faults of the handler are determined exactly, and the commands and readings of relays are followed
  through messages.
\<close>

subsection \<open>Invariants through the handler\<close>

lemmas switch_defs = toggleOPwr_def toggleORst_def togglePiRst_def setRioPwr12VOn_def setRioPwr12VOff_def
  setRioPwrBattOn_def setRioPwrBattOff_def setOPwr12VOn_def setOPwr12VOff_def setOPwrBattOn_def setOPwrBattOff_def
  setRioBatteryChargerOn_def setRioBatteryChargerOff_def setO1BatteryChargerOn_def setO1BatteryChargerOff_def
  setO2BatteryChargerOn_def setO2BatteryChargerOff_def setO3BatteryChargerOn_def setO3BatteryChargerOff_def
  disableOnPCBRelays_def enableOnPCBRelays_def disableExternalRelays_def enableExternalRelays_def

lemmas all_defs = setAllBatteryChargersOn_def setAllBatteryChargersOff_def performCalAllBatteryMonitors_def

lemmas cal_defs = performCalRioBatteryMonitor_def performCalO1BatteryMonitor_def performCalO2BatteryMonitor_def
  performCalO3BatteryMonitor_def

lemmas reader_defs = readOPwr_def readORst_def readRioPwr12V_def readRioPwrBatt_def readOPwr12V_def readOPwrBatt_def
  readRioBatteryCharger_def readO1BatteryCharger_def readO2BatteryCharger_def readO3BatteryCharger_def
  readExternalRelaysEnabled_def readOnPCBRelaysEnabled_def

lemmas battery_defs = readRioBattCurrent_def readO1BattCurrent_def readO2BattCurrent_def readO3BattCurrent_def
  readRioBattVoltage_def readO1BattVoltage_def readO2BattVoltage_def readO3BattVoltage_def
  readRioRemainingCapacity_def readO1RemainingCapacity_def readO2RemainingCapacity_def readO3RemainingCapacity_def
  readRioBattLifetimeChargeDischarge_def readO1BattLifetimeChargeDischarge_def
  readO2BattLifetimeChargeDischarge_def readO3BattLifetimeChargeDischarge_def
  swapRioBattery_def swapO1Battery_def swapO2Battery_def swapO3Battery_def
  readRioBattTemperature_def readO1BattTemperature_def readO2BattTemperature_def readO3BattTemperature_def

text \<open>The functions that the messages call, by kind.\<close>

lemma bool_function_cases:
  assumes "bool_function E t = Some f"
  shows "f = readMains12VPin E False \<or> (\<exists>d m l. f = read_flag (read_switch E d m l) \<and> is_pio d)"
  using assms unfolding bool_function_def reader_defs by (auto split: if_splits intro: is_pio_simps)

lemma set_function_cases:
  assumes "set_function E t = Some f"
  shows "(\<exists>d m v. f = setPinsWithShadow E d m v \<and> is_pio d) \<or> (\<exists>m. f = toggle_orangutan E m) \<or> (\<exists>d. f = perform_cal E d \<and> is_monitor d)
    \<or> f = State_Monad.return True \<or> f = setAllBatteryChargersOn E \<or> f = setAllBatteryChargersOff E
    \<or> f = performCalAllBatteryMonitors E"
  using assms unfolding set_function_def switch_defs cal_defs
  by (auto split: if_splits intro: is_pio_simps is_monitor_simps)

lemma battery_function_cases:
  "current_function E t = Some f \<Longrightarrow> \<exists>d. f = read_u16 E d Read_Current \<and> is_monitor d"
  "voltage_function E t = Some g \<Longrightarrow> \<exists>d. g = read_u16 E d Read_Vdd \<and> is_monitor d"
  "capacity_function E t = Some h \<Longrightarrow> \<exists>d b. h = read_u16 E d (Read_Capacity b) \<and> is_monitor d"
  "charge_function E t = Some i \<Longrightarrow> \<exists>d. i = dev E d Read_Charge_Discharge \<and> is_monitor d"
  "swap_function E t = Some j \<Longrightarrow> \<exists>d. j = swap_battery E d \<and> is_monitor d"
  "temperature_function E t = Some k \<Longrightarrow> \<exists>n. k = read_temperature E n \<and> n < 8"
  unfolding current_function_def voltage_function_def capacity_function_def charge_function_def swap_function_def
    temperature_function_def battery_defs
  by (auto split: if_splits intro: is_monitor_simps)

context bus_invariant
begin

lemma bool_function: "bool_function E t = Some f \<Longrightarrow> keeps_bus I f"
  by (drule bool_function_cases) (auto simp: read_flag_def intro!: steps readMains12VPin read_switch)

lemma setAll: "keeps_bus I (setAllBatteryChargersOn E)" "keeps_bus I (setAllBatteryChargersOff E)"
  "keeps_bus I (performCalAllBatteryMonitors E)"
  unfolding all_defs switch_defs cal_defs by (auto intro!: keeps_bus_rules all_of setPinsWithShadow perform_cal)

lemma set_function: "set_function E t = Some f \<Longrightarrow> keeps_bus I f"
  by (drule set_function_cases) (auto intro!: steps setPinsWithShadow toggle_orangutan perform_cal setAll)

lemma battery_functions:
  "current_function E t = Some f \<Longrightarrow> keeps_bus I f"
  "voltage_function E t = Some g \<Longrightarrow> keeps_bus I g"
  "capacity_function E t = Some h \<Longrightarrow> keeps_bus I h"
  "charge_function E t = Some i \<Longrightarrow> keeps_bus I i"
  "swap_function E t = Some j \<Longrightarrow> keeps_bus I (j x y)"
  "temperature_function E t = Some k \<Longrightarrow> keeps_bus I (k z)"
  by (drule battery_function_cases, auto intro!: read_u16 dev_other swap_battery read_temperature)+

lemma hw_action: "keeps_bus I (hw_action P t body)"
  unfolding hw_action_def Let_def actionHardwareServerStart_def actionHardwareServerStop_def
    actionReadChargerStatePins_def actionReadChargerState_def actionReadBool_def actionSetBool_def
    actionReadGeneralPurposeIOs_def actionReadCurrent_def actionReadVoltage_def actionReadRemainingCapacity_def
    actionReadChargeDischarge_def actionSwapBattery_def actionReadTemperature_def readChargerStatePins_def
    readGeneralPurposeIOs_def
  by (intro keeps_bus_rules keeps_bus_option startOneWireBus setupDevices findAllDevices stopOneWireBus closeOrangutan
      readPins readPinsWithShadow readChargerState bool_function set_function battery_functions is_pio_simps)

lemma actionSendOString: "keeps_bus I (actionSendOString E s w mem)"
  unfolding actionSendOString_def Let_def by (intro keeps_bus_rules sendStringToOrangutan)

lemma hw_handler:
  assumes "I b" and "hw_serverHandleMsg P m reply b = Inr (code, reply', b')"
  shows "I b'"
proof (cases "unat (msgType m) = HARDWARE_SEND_O_STRING")
  case True
  then obtain r where "run_state (actionSendOString (hwEnv P) (tl (msgBody m)) (hd (msgBody m) \<noteq> 0) (msgBody reply)) b = (r, b')"
    using assms(2) by (auto simp: hw_serverHandleMsg_def hw_doAction_def andthen_eq_Inr split: prod.splits)
  then show ?thesis
    using keeps_busD [OF actionSendOString _ assms(1)] by blast
next
  case False
  then obtain r where "run_state (hw_action P (unat (msgType m)) (msgBody m)) b = (r, b')"
    using assms(2) by (auto simp: hw_serverHandleMsg_def hw_doAction_def andthen_eq_Inr split: prod.splits)
  then show ?thesis
    using keeps_busD [OF hw_action _ assms(1)] by blast
qed

end

subsection \<open>Inputs are never driven\<close>

text \<open>In every byte that is or has been written to a chip the input pins are high, and so they are in the shadows.\<close>

definition inputs_high :: "ow_bus \<Rightarrow> bool" where
  "inputs_high b \<longleftrightarrow> (\<forall>d. and (pins_state b d) (inputMask d) = inputMask d)
     \<and> (\<forall>(d, v, ok) \<in> set (chip_writes (bus_log b)). and v (inputMask d) = inputMask d)"

lemma chip_writes_single:
  "chip_writes [(c, r)] = (case pin_write c of None \<Rightarrow> [] | Some (d, v) \<Rightarrow> [(d, v, fst r)])"
  by (cases c rule: pin_write.cases) (simp_all add: chip_writes_Cons split: prod.splits)

interpretation inputs: bus_invariant inputs_high "\<lambda>d v. and v (inputMask d) = inputMask d"
proof unfold_locales
  fix b c r
  assume "inputs_high b"
    and "case pin_write c of None \<Rightarrow> True | Some (d, v) \<Rightarrow> and v (inputMask d) = inputMask d"
  then show "inputs_high (logged b [(c, r)])"
    by (auto simp: inputs_high_def chip_writes_single split: option.splits)
next
  show "and (or v (inputMask d)) (inputMask d) = inputMask d" for d v
    by (rule bit_word_eqI) (auto simp: bit_and_iff bit_or_iff)
qed (auto simp: inputs_high_def)

interpretation hw_inputs: message_handler "hw_serverHandleMsg P" inputs_high for P
  by unfold_locales (rule inputs.hw_handler)

text \<open>
  C15.  Whatever the clients send, the chips answer and the port delivers, in every session of the hardware server each
  byte ever written to a DS2408 has a one at every input pin (the charger lights, the detection of
  mains power), so no input is ever pulled low; and the stored bytes keep the ones too.
\<close>

theorem hw_session_inputs_high:
  assumes "runMessagingServer (hw_serverHandleMsg P) os cs initial_bus = Inr (code, sents, b)"
  shows "(\<forall>(d, v, ok) \<in> set (chip_writes (bus_log b)). \<forall>i. bit (inputMask d) i \<longrightarrow> bit v i)
    \<and> (\<forall>d i. bit (inputMask d) i \<longrightarrow> bit (pins_state b d) i)"
proof -
  have initial: "and (initial_pins d) (inputMask d) = inputMask d" for d
    by (cases d) simp_all
  have "inputs_high b"
    by (rule hw_inputs.runMessagingServer_inv [OF _ assms]) (simp add: inputs_high_def initial_bus_def initial)
  moreover have "bit v i" if "and v (inputMask d) = inputMask d" and "bit (inputMask d) i" for v d i
    using that by (metis bit_and_iff)
  ultimately show ?thesis
    unfolding inputs_high_def by blast
qed

lemma switch_run:
  "\<exists>ok b' seg. run_state (setPinsWithShadow E d m v) b = (ok, b') \<and> bus_log b' = bus_log b @ seg \<and>
     length (chip_writes seg) = 1"
proof -
  obtain ok b' where r: "run_state (setPinsWithShadow E d m v) b = (ok, b')"
    by fastforce
  then show ?thesis
    using run_setPinsWithShadow [of E d m v b] by auto
qed

text \<open>A session in which one client switches the Rio charger on.\<close>

definition charger_request :: connection where
  "charger_request = \<lparr>memRecv = True, memBuf = 0 # 0 # replicate 257 0, memSend = True, memReply = 0 # 0 # replicate 257 0,
     recvs = [Recv_Data [1, of_nat HARDWARE_SET_RIO_BATTERY_CHARGER_ON]], sendRet = int\<rparr>"

definition ideal_params :: hw_params where
  "ideal_params = \<lparr>hwEnv = ideal_bus, doubleBytes = \<lambda>_. replicate 8 0\<rparr>"

lemma charger_session:
  "\<exists>sents b. runMessagingServer (hw_serverHandleMsg ideal_params)
       \<lparr>socketRet = 3, setsockoptRet = 0, bindRet = 0, listenRet = 0\<rparr> [(4, charger_request)] initial_bus = Inr (None, sents, b)
    \<and> chip_writes (bus_log b) \<noteq> []"
proof -
  let ?run = "runMessagingServer (hw_serverHandleMsg ideal_params)
       \<lparr>socketRet = 3, setsockoptRet = 0, bindRet = 0, listenRet = 0\<rparr> [(4, charger_request)] initial_bus"
  obtain ok b seg where set: "run_state (setPinsWithShadow ideal_bus RELAY_PIO 4 False) initial_bus = (ok, b)"
      and "bus_log b = bus_log initial_bus @ seg" "length (chip_writes seg) = 1"
    using switch_run [of ideal_bus RELAY_PIO 4 False initial_bus] by blast
  then have writes: "chip_writes (bus_log b) \<noteq> []"
    by auto
  have act: "hw_action ideal_params 22 body = actionSetBool ideal_bus 22" for body
    by (simp add: hw_action_def bool_function_def set_function_def ideal_params_def)
  have "run_state (actionSetBool ideal_bus 22) initial_bus = (Inr [bool_byte ok], b)"
    using set by (simp add: actionSetBool_def set_function_def setRioBatteryChargerOn_def)
  then have "\<exists>sents. ?run = Inr (None, sents, b)"
    by (simp add: runMessagingServer_def charger_request_def handleSendReceive_def fresh_buf_def Let_def buf_len_def
        size_defs hw_serverHandleMsg_def MAX_NUM_HARDWARE_MSGS_def hw_doAction_def send_reply_def reply_with_def
        fresh_reply_def act)
  with writes show ?thesis
    by blast
qed

theorem hw_session_inputs_high_witness:
  "\<exists>sents b. runMessagingServer (hw_serverHandleMsg ideal_params)
       \<lparr>socketRet = 3, setsockoptRet = 0, bindRet = 0, listenRet = 0\<rparr> [(4, charger_request)] initial_bus = Inr (None, sents, b)
    \<and> chip_writes (bus_log b) \<noteq> []
    \<and> (\<forall>(d, v, ok) \<in> set (chip_writes (bus_log b)). \<forall>i. bit (inputMask d) i \<longrightarrow> bit v i)"
  using charger_session hw_session_inputs_high by blast

end
