(* ===== verification/HardwareServer_Faults.thy ===== *)
theory HardwareServer_Faults
  imports HardwareServer_Properties
begin

section \<open>The faults of the hardware server\<close>

text \<open>
  Which message types reach a function, that the functions never fault (\<open>faultless\<close>), and from it the exact set of messages
  that end the process.
\<close>

lemma set_types: "set_function E t \<noteq> None \<longleftrightarrow>
   t \<in> {5, 7, 9, 10, 11, 13, 14, 16, 17, 19, 20, 22, 23, 25, 26, 28, 29, 31, 32, 34, 35, 38, 39, 40, 41, 61, 62, 63, 64, 65}"
  unfolding set_function_def by simp

lemma bool_types: "bool_function E t \<noteq> None \<longleftrightarrow> t \<in> {2, 6, 8, 12, 15, 18, 21, 24, 27, 30, 33, 42, 43}"
  unfolding bool_function_def by simp

lemma battery_types:
  "current_function E t \<noteq> None \<longleftrightarrow> t \<in> {45, 46, 47, 48}"
  "voltage_function E t \<noteq> None \<longleftrightarrow> t \<in> {49, 50, 51, 52}"
  "capacity_function E t \<noteq> None \<longleftrightarrow> t \<in> {53, 54, 55, 56}"
  "charge_function E t \<noteq> None \<longleftrightarrow> t \<in> {57, 58, 59, 60}"
  "swap_function E t \<noteq> None \<longleftrightarrow> t \<in> {66, 67, 68, 69}"
  "temperature_function E t \<noteq> None \<longleftrightarrow> t \<in> {70, 71, 72, 73}"
  unfolding current_function_def voltage_function_def capacity_function_def charge_function_def swap_function_def
    temperature_function_def by simp_all

lemmas table_types = set_types bool_types battery_types

definition dispatched :: "nat \<Rightarrow> bool" where
  "dispatched t \<longleftrightarrow> t \<in> {0, 1, 3, 4, 44} \<union> {5, 7, 9, 10, 11, 13, 14, 16, 17, 19, 20, 22, 23, 25, 26, 28, 29, 31, 32, 34, 35, 38, 39, 40, 41, 61, 62, 63, 64, 65}
     \<union> {2, 6, 8, 12, 15, 18, 21, 24, 27, 30, 33, 42, 43} \<union> {45, 46, 47, 48} \<union> {49, 50, 51, 52} \<union> {53, 54, 55, 56} \<union> {57, 58, 59, 60}
     \<union> {66, 67, 68, 69} \<union> {70, 71, 72, 73}"

lemma all_dispatched: "\<forall>t \<in> set [0..<75]. t \<noteq> 74 \<longrightarrow> (\<not> dispatched t \<longleftrightarrow> t = 36 \<or> t = 37)"
  by code_simp


text \<open>Computations that never fault.\<close>

definition faultless :: "(fault + 'a) ow \<Rightarrow> bool" where
  "faultless m \<longleftrightarrow> (\<forall>b. \<exists>x b'. run_state m b = (Inr x, b'))"

lemma faultless_return: "faultless (State_Monad.return (Inr x))"
  by (simp add: faultless_def)

lemma faultless_bind: "(\<And>a. faultless (f a)) \<Longrightarrow> faultless (m \<bind> f)"
  by (auto simp: faultless_def split: prod.splits)

lemma faultless_bind_sum:
  assumes "faultless m" and "\<And>x. faultless (f (Inr x))"
  shows "faultless (m \<bind> f)"
  unfolding faultless_def
proof
  fix b
  obtain x b1 where "run_state m b = (Inr x, b1)"
    using assms(1) unfolding faultless_def by blast
  then show "\<exists>y b'. run_state (m \<bind> f) b = (Inr y, b')"
    using assms(2) [of x] by (simp add: faultless_def)
qed

lemma faultless_andthen:
  assumes "faultless m" and "\<And>x. \<exists>y. g x = Inr y"
  shows "faultless (m \<bind> (\<lambda>r. State_Monad.return (andthen r g)))"
proof (rule faultless_bind_sum [OF assms(1)])
  fix x
  obtain y where "g x = Inr y"
    using assms(2) by blast
  then show "faultless (State_Monad.return (andthen (Inr x) g))"
    by (simp add: faultless_return)
qed

lemma faultless_if: "faultless m \<Longrightarrow> faultless n \<Longrightarrow> faultless (if c then m else n)"
  by simp

lemma faultless_ifI: "(c \<Longrightarrow> faultless m) \<Longrightarrow> (\<not> c \<Longrightarrow> faultless n) \<Longrightarrow> faultless (if c then m else n)"
  by simp

lemma faultless_pair: "(\<And>x y. faultless (f x y)) \<Longrightarrow> faultless (case p of (x, y) \<Rightarrow> f x y)"
  by (cases p) simp

lemmas faultless_rules = faultless_return faultless_bind faultless_if faultless_pair

lemma faultless_setup_device: "faultless (setup_device E False d)"
  unfolding faultless_def using setup_device_total by blast

lemma faultless_setup_monitor:
  assumes "getDeviceType (device_address d) = DS2438_BATTERY_MONITOR"
  shows "faultless (setup_device E bo d)"
  unfolding setup_device_def assms by (simp add: faultless_rules)

lemma faultless_setup_loop:
  "(\<And>d. d \<in> set ds \<Longrightarrow> faultless (setup_device E bo d)) \<Longrightarrow> faultless (setup_loop E bo ds s)"
proof (induction ds arbitrary: s)
  case (Cons d ds)
  have "faultless (setup_loop E bo ds s)" for s
    by (rule Cons.IH) (rule Cons.prems, simp)
  moreover have "faultless (setup_device E bo d)"
    by (rule Cons.prems) simp
  ultimately show ?case
    unfolding setup_loop.simps
    by (intro faultless_bind [of _ "dev E d Access_Device"] faultless_pair faultless_bind_sum
        [of "if c then setup_device E bo d else State_Monad.return (Inr s)" for c])
      (auto simp: faultless_if faultless_return intro!: faultless_andthen)
qed (simp add: faultless_return)

lemma faultless_setupDevices: "faultless (setupDevices E bo)"
proof -
  have "faultless (setup_device E bo d)" if "d \<in> set (take (if bo then MAX_NUM_BATTERY_DEVICES else MAX_NUM_DEVICES) all_devices)" for d
  proof (cases bo)
    case True
    then have "getDeviceType (device_address d) = DS2438_BATTERY_MONITOR"
      using that by (auto simp: all_devices_def MAX_NUM_BATTERY_DEVICES_def getDeviceType_def)
    then show ?thesis
      by (rule faultless_setup_monitor)
  next
    case False
    then show ?thesis
      by (simp add: faultless_setup_device)
  qed
  then have "faultless (setup_loop E bo (take (if bo then MAX_NUM_BATTERY_DEVICES else MAX_NUM_DEVICES) all_devices) True)"
    by (rule faultless_setup_loop)
  then show ?thesis
    unfolding setupDevices_def Let_def by (rule faultless_andthen) auto
qed

lemma faultless_start: "faultless (actionHardwareServerStart E bo)"
  unfolding actionHardwareServerStart_def
proof (rule faultless_bind, rule faultless_if)
  show "faultless (setupDevices E bo \<bind> (\<lambda>r. case r of Inl e \<Rightarrow> State_Monad.return (Inl e)
      | Inr success \<Rightarrow>
          (if \<not> success then findAllDevices E \<bind> (\<lambda>_. State_Monad.return ()) else State_Monad.return ()) \<bind>
          (\<lambda>_. State_Monad.return (Inr [bool_byte success]))))"
    by (rule faultless_bind_sum [OF faultless_setupDevices]) (simp add: faultless_rules)
qed (rule faultless_return)

lemma faultless_temperature: "n < 8 \<Longrightarrow> faultless (read_temperature E n p)"
proof -
  assume n: "n < 8"
  have "faultless (setAnalogueMuxInput E n)"
    using n unfolding setAnalogueMuxInput_def Let_def by (simp, intro faultless_rules)
  then show ?thesis
    unfolding read_temperature_def by (rule faultless_bind_sum) (unfold sum.case, intro faultless_rules)
qed

text \<open>The body of the response fits into the structure, and a string that was received is terminated.\<close>

lemma faultless_actions:
  "bool_function E t \<noteq> None \<Longrightarrow> faultless (actionReadBool E t)"
  "current_function E t \<noteq> None \<Longrightarrow> faultless (actionReadCurrent E t)"
  "voltage_function E t \<noteq> None \<Longrightarrow> faultless (actionReadVoltage E t)"
  "capacity_function E t \<noteq> None \<Longrightarrow> faultless (actionReadRemainingCapacity E t)"
  "charge_function E t \<noteq> None \<Longrightarrow> faultless (actionReadChargeDischarge E t)"
  "swap_function E t \<noteq> None \<Longrightarrow> faultless (actionSwapBattery E t body)"
  "set_function E t \<noteq> None \<Longrightarrow> t \<noteq> 65 \<Longrightarrow> faultless (actionSetBool E t)"
  unfolding actionReadBool_def actionReadCurrent_def actionReadVoltage_def actionReadRemainingCapacity_def
    actionReadChargeDischarge_def actionSwapBattery_def actionSetBool_def
  by (auto intro!: faultless_rules)

lemma faultless_actionReadTemperature:
  assumes "temperature_function (hwEnv P) t \<noteq> None"
  shows "faultless (actionReadTemperature P t)"
proof -
  obtain f where f: "temperature_function (hwEnv P) t = Some f"
    using assms by blast
  then have "faultless (f (Some 0))"
    using battery_function_cases(6) [OF f] faultless_temperature by auto
  then show ?thesis
    unfolding actionReadTemperature_def f option.case by (rule faultless_andthen) auto
qed

lemma dispatched_iff:
  "dispatched t \<longleftrightarrow> t \<in> {0, 1, 3, 4, 44} \<or> set_function E t \<noteq> None \<or> bool_function E t \<noteq> None
     \<or> current_function E t \<noteq> None \<or> voltage_function E t \<noteq> None \<or> capacity_function E t \<noteq> None
     \<or> charge_function E t \<noteq> None \<or> swap_function E t \<noteq> None \<or> temperature_function E t \<noteq> None"
  by (simp only: dispatched_def table_types Un_iff disj_assoc)

lemma faultless_hw_action:
  assumes "dispatched t" and "t \<noteq> 65"
  shows "faultless (hw_action P t body)"
  unfolding hw_action_def Let_def
  by (intro faultless_ifI, insert assms(2) iffD1 [OF dispatched_iff assms(1), of "hwEnv P"])
    (simp_all add: faultless_start faultless_actions faultless_actionReadTemperature faultless_return faultless_bind)

lemma undispatched_hw_action:
  assumes "\<not> dispatched t"
  shows "run_state (hw_action P t body) b = (Inl Assert_Failed, b)"
  using assms unfolding dispatched_iff [of t "hwEnv P"] by (simp add: hw_action_def Let_def)

lemma cal_O3_hw_action: "fst (run_state (hw_action P 65 body) b) = Inl Assert_Failed"
  by (simp add: hw_action_def Let_def actionSetBool_def bool_function_def set_function_def split: prod.splits)

text \<open>The string of a request that the server survives.\<close>

lemma read_never_succeeds:
  "run_state (readStringFromOrangutan E mem len) c = ((ok, x), c') \<Longrightarrow> \<not> ok"
  by (auto simp: readStringFromOrangutan_def split: if_splits prod.splits)

lemma sent_then_read:
  assumes "run_state (sendStringToOrangutan E s True mem len) b = ((True, str, n), b')"
  shows "\<exists>c. 0 \<le>s gFd c \<and> serial_in c = serial_in b \<and>
    run_state (readStringFromOrangutan E mem len) c = ((False, str, n), b')"
proof -
  let ?c = "logged b [(Flush_Port (gFd b), E (bus_log b) (Flush_Port (gFd b))),
      (Write_Port (gFd b) (take (min (c_strlen s) ORANGUTAN_BUFFER_SIZE) s),
       E (bus_log b @ [(Flush_Port (gFd b), E (bus_log b) (Flush_Port (gFd b)))])
         (Write_Port (gFd b) (take (min (c_strlen s) ORANGUTAN_BUFFER_SIZE) s)))]"
  have "0 \<le>s gFd b"
    using assms by (auto simp: sendStringToOrangutan_def split: if_splits)
  moreover obtain ok where ok: "run_state (readStringFromOrangutan E mem len) ?c = ((ok, str, n), b')"
    using assms by (auto simp: sendStringToOrangutan_def Let_def split: if_splits prod.splits)
  moreover have "\<not> ok"
    by (rule read_never_succeeds [OF ok])
  ultimately show ?thesis
    by (intro exI [of _ ?c]) simp
qed

lemma received_string_fits:
  assumes "run_state (sendStringToOrangutan E s True mem 80) b = ((True, str, n), b')" and "length mem = 80"
  obtains t where "str = t @ 0 # drop (length t + 1) mem" and "length t \<le> 79" and "n = of_nat (length t + 1)"
    and "t = take 79 (upto_cr (received (serial_in b)))"
proof -
  obtain c where c: "0 \<le>s gFd c" "serial_in c = serial_in b"
    and r: "run_state (readStringFromOrangutan E mem 80) c = ((False, str, n), b')"
    using sent_then_read [OF assms(1)] by blast
  let ?t = "take 79 (upto_cr (received (serial_in b)))"
  obtain c' where "run_state (readStringFromOrangutan E mem 80) c =
      ((False, ?t @ 0 # drop (length ?t + 1) mem, of_nat (length ?t + 1)), c')"
    using readString_result [OF c(1), of 80 mem ?t E] assms(2) unfolding c(2) by auto
  then show thesis
    using r by (intro that [of ?t]) (auto simp del: take_take)
qed

lemma send_o_string_faults:
  assumes "85 \<le> length mem"
  shows "fst (run_state (actionSendOString E s w mem) b) = Inl e \<longleftrightarrow> e = Bad_Access \<and> \<not> printable_fits s"
proof (cases "printable_fits s")
  case True
  define len0 :: u32 where "len0 = (if w then of_nat MAX_O_STRING_LENGTH else 0)"
  obtain ok str n b' where r:
    "run_state (sendStringToOrangutan E s w (take MAX_O_STRING_LENGTH (tl mem)) len0) b = ((ok, str, n), b')"
    by (cases "run_state (sendStringToOrangutan E s w (take MAX_O_STRING_LENGTH (tl mem)) len0) b") auto
  have "printable_fits (str @ le_bytes32 n @ drop (1 + sizeof_OResponseString) mem)" if "ok" "w"
  proof -
    have sent: "run_state (sendStringToOrangutan E s True (take 80 (tl mem)) 80) b = ((True, str, n), b')"
      using r that by (simp add: len0_def MAX_O_STRING_LENGTH_def)
    obtain t where t: "str = t @ 0 # drop (length t + 1) (take 80 (tl mem))" "length t \<le> 79"
      by (rule received_string_fits [OF sent]) (use assms in simp)
    show ?thesis
      unfolding t(1) using printable_fits_append [OF t(2)] by simp
  qed
  then show ?thesis
    using True r by (simp add: actionSendOString_def removeCtrlCharacters_fits Let_def flip: len0_def)
next
  case False
  then show ?thesis
    by (auto simp: actionSendOString_def removeCtrlCharacters_fits)
qed

lemma hw_faults:
  assumes "85 \<le> length (msgBody reply)"
  shows "hw_serverHandleMsg P m reply b = Inl e \<longleftrightarrow>
    (e = Assert_Failed \<and> (75 \<le> unat (msgType m) \<or> unat (msgType m) \<in> {HARDWARE_SET_ALL_O_BATTERY_CHARGERS_ON,
        HARDWARE_SET_ALL_O_BATTERY_CHARGERS_OFF, HARDWARE_PERFORM_CAL_O3_BATTERY_MONITOR})) \<or>
    (e = Bad_Access \<and> unat (msgType m) = HARDWARE_SEND_O_STRING \<and> \<not> printable_fits (tl (msgBody m)))"
proof -
  let ?t = "unat (msgType m)"
  have body: "hw_doAction P ?t (msgBody m) reply b = Inl e \<longleftrightarrow>
      fst (run_state (hw_action P ?t (msgBody m)) b) = Inl e" if "?t \<noteq> 74"
    using that by (cases "fst (run_state (hw_action P ?t (msgBody m)) b)")
      (auto simp: hw_doAction_def andthen_def split: prod.splits)
  consider "75 \<le> ?t" | "?t = 74" | "?t < 74"
    by linarith
  then show ?thesis
  proof cases
    case 1
    then show ?thesis
      by (auto simp: hw_serverHandleMsg_def MAX_NUM_HARDWARE_MSGS_def)
  next
    case 2
    then have "hw_serverHandleMsg P m reply b = Inl e \<longleftrightarrow>
        fst (run_state (actionSendOString (hwEnv P) (tl (msgBody m)) (hd (msgBody m) \<noteq> 0) (msgBody reply)) b) = Inl e"
      by (auto simp: hw_serverHandleMsg_def MAX_NUM_HARDWARE_MSGS_def hw_doAction_def andthen_def
          split: prod.splits sum.splits)
    then show ?thesis
      using 2 send_o_string_faults [OF assms] by simp
  next
    case 3
    have handle: "hw_serverHandleMsg P m reply b = Inl e \<longleftrightarrow> fst (run_state (hw_action P ?t (msgBody m)) b) = Inl e"
      using 3 body by (simp add: hw_serverHandleMsg_def MAX_NUM_HARDWARE_MSGS_def)
    have d: "dispatched ?t \<longleftrightarrow> \<not> (?t = 36 \<or> ?t = 37)"
      using all_dispatched [rule_format, of ?t] 3 by simp blast
    show ?thesis
    proof (cases "dispatched ?t \<and> ?t \<noteq> 65")
      case True
      then obtain x b' where "run_state (hw_action P ?t (msgBody m)) b = (Inr x, b')"
        using faultless_hw_action [of ?t P "msgBody m"] unfolding faultless_def by blast
      then show ?thesis
        using handle 3 d True by simp
    next
      case False
      then have "fst (run_state (hw_action P ?t (msgBody m)) b) = Inl Assert_Failed"
        using undispatched_hw_action [of ?t P "msgBody m" b] cal_O3_hw_action by (cases "?t = 65") auto
      then show ?thesis
        using handle 3 d False by auto
    qed
  qed
qed



end
