(* ===== verification/HardwareServer_Session.thy ===== *)
theory HardwareServer_Session
  imports HardwareServer_Properties
begin

section \<open>Relays through messages\<close>

text \<open>
  The messages that switch the relays of the external board, the messages that read them, and the level a reading reports
  after any sequence of commands.
\<close>

definition relay_messages :: "(nat \<times> (bus_env \<Rightarrow> bool ow) \<times> u8 \<times> bool) list" where
  "relay_messages = zip
     [HARDWARE_SET_O_PWR_12V_ON, HARDWARE_SET_O_PWR_12V_OFF, HARDWARE_SET_O_PWR_BATT_ON, HARDWARE_SET_O_PWR_BATT_OFF,
      HARDWARE_SET_RIO_BATTERY_CHARGER_ON, HARDWARE_SET_RIO_BATTERY_CHARGER_OFF, HARDWARE_SET_O1_BATTERY_CHARGER_ON,
      HARDWARE_SET_O1_BATTERY_CHARGER_OFF, HARDWARE_SET_O2_BATTERY_CHARGER_ON, HARDWARE_SET_O2_BATTERY_CHARGER_OFF,
      HARDWARE_SET_O3_BATTERY_CHARGER_ON, HARDWARE_SET_O3_BATTERY_CHARGER_OFF, HARDWARE_DISABLE_EXTERNAL_RELAYS,
      HARDWARE_ENABLE_EXTERNAL_RELAYS] relay_functions"

definition relay_queries :: "(nat \<times> (bus_env \<Rightarrow> bool option \<Rightarrow> (bool \<times> bool option) ow) \<times> u8 \<times> bool) list" where
  "relay_queries = zip
     [HARDWARE_READ_O_PWR_12V, HARDWARE_READ_O_PWR_BATT, HARDWARE_READ_RIO_BATTERY_CHARGER,
      HARDWARE_READ_O1_BATTERY_CHARGER, HARDWARE_READ_O2_BATTERY_CHARGER, HARDWARE_READ_O3_BATTERY_CHARGER] relay_readers"

lemma relay_message_dispatch:
  assumes "(t, f, m, v) \<in> set relay_messages"
  shows "(f, m, v) \<in> set relay_functions" and "t < 74" and "hw_action P t body = actionSetBool (hwEnv P) t"
    and "actionSetBool E t = do { ok \<leftarrow> f E; State_Monad.return (Inr [bool_byte ok]) }"
  using assms
  by (auto simp: relay_messages_def relay_functions_def hw_action_def actionSetBool_def bool_function_def set_function_def)

lemma relay_query_dispatch:
  assumes "(t, rd, m, on) \<in> set relay_queries"
  shows "(rd, m, on) \<in> set relay_readers" and "t < 74" and "hw_action P t body = actionReadBool (hwEnv P) t"
    and "actionReadBool E t = do { (ok, isOn) \<leftarrow> read_flag (rd E); State_Monad.return (Inr [bool_byte ok, bool_byte isOn]) }"
  using assms
  by (auto simp: relay_queries_def relay_readers_def hw_action_def actionReadBool_def bool_function_def)

lemma handle_action:
  assumes "unat (msgType m) = t" and "t < 74" and "t \<noteq> 1" and "run_state (hw_action P t (msgBody m)) b = (Inr rsp, b')"
  shows "hw_serverHandleMsg P m reply b = Inr (SERVER_SUCCESS_KEEP_RUNNING, reply_with t rsp reply, b')"
  using assms by (simp add: hw_serverHandleMsg_def MAX_NUM_HARDWARE_MSGS_def hw_doAction_def)

definition relay_command :: "msg \<Rightarrow> (bus_env \<Rightarrow> bool ow) \<times> u8 \<times> bool" where
  "relay_command m = the (map_of relay_messages (unat (msgType m)))"

lemma relay_command_in:
  assumes "unat (msgType m) \<in> fst ` set relay_messages"
  shows "(unat (msgType m), relay_command m) \<in> set relay_messages"
proof -
  obtain x where "map_of relay_messages (unat (msgType m)) = Some x"
    using assms by (cases "map_of relay_messages (unat (msgType m))") (auto simp: map_of_eq_None_iff)
  then show ?thesis
    by (simp add: relay_command_def map_of_SomeD)
qed

lemma handle_relay_message:
  assumes "unat (msgType m) \<in> fst ` set relay_messages" and "run_state (fst (relay_command m) (hwEnv P)) b = (ok, b')"
  shows "hw_serverHandleMsg P m reply b = Inr (SERVER_SUCCESS_KEEP_RUNNING, reply_with (unat (msgType m)) [bool_byte ok] reply, b')"
proof -
  obtain f k v where c: "relay_command m = (f, k, v)"
    by (cases "relay_command m")
  note d = relay_message_dispatch [OF relay_command_in [OF assms(1), unfolded c]]
  have "unat (msgType m) \<noteq> 1"
    using assms(1) by (auto simp: relay_messages_def relay_functions_def)
  moreover have "run_state (hw_action P (unat (msgType m)) (msgBody m)) b = (Inr [bool_byte ok], b')"
    using assms(2) c by (simp add: d(3,4))
  ultimately show ?thesis
    by (rule handle_action [OF refl d(2)])
qed

lemma handle_relay_messages:
  "(\<And>m. m \<in> set ms \<Longrightarrow> unat (msgType m) \<in> fst ` set relay_messages) \<Longrightarrow>
   handle_all (hw_serverHandleMsg P) ms b = Inr (snd (run_state (run_switches (hwEnv P) (map relay_command ms)) b))"
proof (induction ms arbitrary: b)
  case (Cons m ms)
  obtain f k v where c: "relay_command m = (f, k, v)"
    by (cases "relay_command m")
  obtain ok b1 where r: "run_state (f (hwEnv P)) b = (ok, b1)"
    by fastforce
  have "hw_serverHandleMsg P m empty_reply b =
      Inr (SERVER_SUCCESS_KEEP_RUNNING, reply_with (unat (msgType m)) [bool_byte ok] empty_reply, b1)"
    by (rule handle_relay_message) (use Cons.prems c r in auto)
  then show ?case
    using Cons.IH [of b1] Cons.prems c r by (simp split: prod.splits)
qed simp

lemma switches_all_succeed:
  assumes "\<And>h p v. fst (E h (Dev p RELAY_PIO (Channel_Write v)))" and "set fs \<subseteq> set relay_functions"
    and "run_state (run_switches E fs) b = (oks, b')"
  shows "oks = replicate (length fs) True"
  using assms(2,3)
proof (induction fs arbitrary: b oks)
  case (Cons g fs)
  obtain f m v where g: "g = (f, m, v)" by (cases g)
  have f: "f E = setPinsWithShadow E RELAY_PIO m v"
    using Cons.prems(1) g by (intro relay_function_cases) simp
  obtain ok b1 where r: "run_state (setPinsWithShadow E RELAY_PIO m v) b = (ok, b1)"
    by fastforce
  then have ok
    using run_setPinsWithShadow [of E RELAY_PIO m v b] assms(1) by auto
  moreover obtain oks' where "run_state (run_switches E fs) b1 = (oks', b')" "oks = ok # oks'"
    using Cons.prems(2) by (auto simp: g f r split: prod.splits)
  ultimately show ?case
    using Cons.IH [of b1 oks'] Cons.prems(1) by simp
qed simp

text \<open>The level of the last command to one relay, \<open>r\<close> if there was none.\<close>

definition last_level :: "u8 \<Rightarrow> (u8 \<times> bool) list \<Rightarrow> bool \<Rightarrow> bool" where
  "last_level k cs r = foldl (\<lambda>l (m, v). if m = k then v else l) r cs"

lemma command_bits:
  fixes r m k :: u8
  shows "and (or r k) k = k" and "and (and r (not k)) k = 0"
    and "and m k = 0 \<Longrightarrow> and (or r m) k = and r k" and "and m k = 0 \<Longrightarrow> and (and r (not m)) k = and r k"
proof -
  show "and (or r k) k = k" "and (and r (not k)) k = 0"
    by (auto intro!: bit_word_eqI simp: bit_simps)
  assume "and m k = 0"
  then have "\<not> (bit m i \<and> bit k i)" for i
    by (metis bit_and_iff bit_0_eq bot_apply bot_bool_def)
  then show "and (or r m) k = and r k" "and (and r (not m)) k = and r k"
    by (auto intro!: bit_word_eqI simp: bit_simps)
qed

lemma commanded_last_level:
  assumes "k \<noteq> 0"
  shows "(\<And>m v. (m, v) \<in> set cs \<Longrightarrow> m = k \<or> and m k = 0) \<Longrightarrow>
    and (commanded (zip cs (replicate (length cs) True)) r) k \<noteq> 0 \<longleftrightarrow> last_level k cs (and r k \<noteq> 0)"
proof (induction cs arbitrary: r)
  case (Cons c cs)
  obtain m v where c: "c = (m, v)" by (cases c)
  let ?r = "if v then or r m else and r (not m)"
  have "and (commanded (zip cs (replicate (length cs) True)) ?r) k \<noteq> 0 \<longleftrightarrow> last_level k cs (and ?r k \<noteq> 0)"
    by (rule Cons.IH) (use Cons.prems in auto)
  moreover have "and ?r k \<noteq> 0 \<longleftrightarrow> (if m = k then v else and r k \<noteq> 0)"
    using Cons.prems [of m v] c assms command_bits [of r k] command_bits(3,4) [of m k r] by auto
  ultimately show ?case
    by (simp add: c last_level_def)
qed (simp add: last_level_def)

lemma relay_masks_disjoint:
  assumes "(f, m, v) \<in> set relay_functions" and "(rd, k, on) \<in> set relay_readers"
  shows "k \<noteq> 0 \<and> (m = k \<or> and m k = 0)"
  using assms by (auto simp: relay_functions_def relay_readers_def)




end
