(* ===== verification/Computations.thy ===== *)
theory Computations
  imports Prelude
begin

section \<open>Computations that have a state and can fail\<close>

text \<open>
  A \<open>driver\<close> is a computation \<open>'s \<Rightarrow> (fault + 'a) \<times> 's\<close>: it ends with a value or with a fault, and either way with a state.  The
  drivers of the chips are such computations over the state of the link, the user interface over the state of its process.  Here are the
  basic computations, their sequencing, and the two judgements of the proofs about them, \<open>gives\<close> and \<open>faults\<close>.
\<close>

type_synonym ('s, 'a) driver = "'s \<Rightarrow> (fault + 'a) \<times> 's"

subsection \<open>Basic computations\<close>

definition ret :: "'a \<Rightarrow> ('s, 'a) driver" where
  "ret x = (\<lambda>s. (Inr x, s))"

definition raise :: "fault \<Rightarrow> ('s, 'a) driver" where
  "raise e = (\<lambda>s. (Inl e, s))"

definition then_do :: "('s, 'a) driver \<Rightarrow> ('a \<Rightarrow> ('s, 'b) driver) \<Rightarrow> ('s, 'b) driver" where
  "then_do m f = (\<lambda>s. case m s of (Inl e, s') \<Rightarrow> (Inl e, s') | (Inr x, s') \<Rightarrow> f x s')"

definition require :: "bool \<Rightarrow> ('s, unit) driver" where
  "require b = (if b then ret () else raise Assert_Failed)"

definition call :: "('s \<Rightarrow> 'a \<times> 's) \<Rightarrow> ('s, 'a) driver" where
  "call f = (\<lambda>s. case f s of (x, s') \<Rightarrow> (Inr x, s'))"

definition act :: "('s \<Rightarrow> 's) \<Rightarrow> ('s, unit) driver" where
  "act f = (\<lambda>s. (Inr (), f s))"

subsection \<open>Running a driver\<close>

text \<open>
  \<open>gives m s Q\<close>: from \<open>s\<close> the driver \<open>m\<close> ends normally, with a value and a state that satisfy \<open>Q\<close>.  \<open>faults F m\<close>: whatever the
  state, \<open>m\<close> ends normally or with one of the faults \<open>F\<close>.
\<close>

definition gives :: "('s, 'a) driver \<Rightarrow> 's \<Rightarrow> ('a \<Rightarrow> 's \<Rightarrow> bool) \<Rightarrow> bool" where
  "gives m s Q = (case m s of (Inl e, s') \<Rightarrow> False | (Inr x, s') \<Rightarrow> Q x s')"

definition faults :: "fault set \<Rightarrow> ('s, 'a) driver \<Rightarrow> bool" where
  "faults F m \<longleftrightarrow> (\<forall>s e s'. m s = (Inl e, s') \<longrightarrow> e \<in> F)"

named_theorems driver_simps \<open>evaluation of drivers\<close>

lemma ret_run [driver_simps]: "ret x s = (Inr x, s)"
  by (simp add: ret_def)

lemma raise_run [driver_simps]: "raise e s = (Inl e, s)"
  by (simp add: raise_def)

lemma require_run [driver_simps]: "require b s = (if b then (Inr (), s) else (Inl Assert_Failed, s))"
  by (simp add: require_def ret_def raise_def)

lemma act_run [driver_simps]: "act f s = (Inr (), f s)"
  by (simp add: act_def)

lemma call_run [driver_simps]: "call f s = (Inr (fst (f s)), snd (f s))"
  by (simp add: call_def split: prod.splits)

lemma then_do_run [driver_simps]:
  "then_do m f s = (case m s of (Inl e, s') \<Rightarrow> (Inl e, s') | (Inr x, s') \<Rightarrow> f x s')"
  by (simp add: then_do_def)

lemma then_do_ret: "then_do (ret x) f = f x"
  by (rule ext) (simp add: then_do_run ret_run)

lemma then_do_assoc: "then_do (then_do m f) g = then_do m (\<lambda>x. then_do (f x) g)"
  by (rule ext) (simp add: then_do_run split: prod.splits sum.splits)

lemma gives_iff: "gives m s Q \<longleftrightarrow> (\<exists>x s'. m s = (Inr x, s') \<and> Q x s')"
  by (auto simp: gives_def split: prod.splits sum.splits)

lemma gives_mono: "gives m s Q \<Longrightarrow> (\<And>x s'. Q x s' \<Longrightarrow> R x s') \<Longrightarrow> gives m s R"
  by (auto simp: gives_iff)

lemma gives_then_do [simp]: "gives (then_do m f) s Q \<longleftrightarrow> gives m s (\<lambda>x s'. gives (f x) s' Q)"
  by (auto simp: gives_def then_do_def split: prod.splits sum.splits)

lemma gives_ret [simp]: "gives (ret x) s Q \<longleftrightarrow> Q x s"
  by (simp add: gives_def ret_def)

lemma gives_require [simp]: "gives (require b) s Q \<longleftrightarrow> b \<and> Q () s"
  by (simp add: gives_def require_def ret_def raise_def)

lemma gives_act [simp]: "gives (act f) s Q \<longleftrightarrow> Q () (f s)"
  by (simp add: gives_def act_def)

lemma gives_call [simp]: "gives (call f) s Q \<longleftrightarrow> Q (fst (f s)) (snd (f s))"
  by (simp add: gives_def call_run)

lemma faults_ret: "faults F (ret x)"
  by (simp add: faults_def ret_def)

lemma faults_raise: "e \<in> F \<Longrightarrow> faults F (raise e)"
  by (simp add: faults_def raise_def)

lemma faults_require: "b \<or> Assert_Failed \<in> F \<Longrightarrow> faults F (require b)"
  by (auto simp: faults_def require_def ret_def raise_def)

lemma faults_act: "faults F (act f)"
  by (simp add: faults_def act_def)

lemma faults_call: "faults F (call f)"
  by (simp add: faults_def call_run)

lemma faults_then_do: "faults F m \<Longrightarrow> (\<And>x. faults F (f x)) \<Longrightarrow> faults F (then_do m f)"
  by (fastforce simp: faults_def then_do_def split: prod.splits sum.splits)

lemma faults_if: "(b \<Longrightarrow> faults F m) \<Longrightarrow> (\<not> b \<Longrightarrow> faults F n) \<Longrightarrow> faults F (if b then m else n)"
  by simp

lemma faults_option: "faults F n \<Longrightarrow> (\<And>y. r = Some y \<Longrightarrow> faults F (f y)) \<Longrightarrow>
    faults F (case r of None \<Rightarrow> n | Some y \<Rightarrow> f y)"
  by (cases r) simp_all

lemma faults_pair: "(\<And>x y. faults F (f x y)) \<Longrightarrow> faults F (case p of (x, y) \<Rightarrow> f x y)"
  by (cases p) simp

lemmas faults_rules = faults_ret faults_require faults_act faults_call faults_then_do faults_if faults_option
  faults_pair

lemma faultsD: "faults F m \<Longrightarrow> e \<notin> F \<Longrightarrow> fst (m s) \<noteq> Inl e"
  unfolding faults_def by (metis prod.collapse)

end
