(* ===== verification/OneWire.thy ===== *)
theory OneWire
  imports Computations
begin

section \<open>The OneWire link: \<open>OneWireLibs\<close> and \<open>OneWire/src/utils.c\<close>\<close>

text \<open>
  The chip drivers talk to a chip through the functions of the OneWire public domain kit (\<open>ownet.h\<close>), which send bits over the
  adapter that the library was built for.  Here that link is a record \<open>wire\<close> of functions over an arbitrary state \<open>'s\<close>, which
  stands for adapter, wire and chips together:

  \<^item> \<open>owSerialNum\<close> makes an address the selected one (\<open>do_read\<close> false), \<open>owReadSerialNum\<close> is the same function with
    \<open>do_read\<close> true;
  \<^item> \<open>owAccess\<close> resets the bus and addresses the selected chip, and says whether it could; \<open>owVerify\<close> asks whether it is there;
  \<^item> \<open>owBlock\<close> sends a block of bytes and overwrites the block with what was on the wire meanwhile;
  \<^item> \<open>owWriteByte\<close>, \<open>owReadByte\<close> transfer one byte, and \<open>msDelay\<close> waits;
  \<^item> \<open>owFirst\<close>, \<open>owNext\<close> search for chips, and \<open>owAcquireEx\<close>, \<open>owRelease\<close> open and close the port.

  A driver is a computation over \<open>'s\<close> (\<open>Computations\<close>).  The checksums of \<open>crcutil.c\<close> are functions of their bytes: every
  driver sets the checksum of its port before it uses it.  What is left of the global arrays is their bound
  \<open>MAX_PORTNUM\<close>, which the index \<open>portnum & 0xFF\<close> can exceed.
\<close>

record 's wire =
  owSerialNum :: "s32 \<Rightarrow> u8 list \<Rightarrow> 's \<Rightarrow> 's"
  owReadSerialNum :: "s32 \<Rightarrow> 's \<Rightarrow> u8 list \<times> 's"
  owAccess :: "s32 \<Rightarrow> 's \<Rightarrow> bool \<times> 's"
  owVerify :: "s32 \<Rightarrow> 's \<Rightarrow> bool \<times> 's"
  owBlock :: "s32 \<Rightarrow> u8 list \<Rightarrow> 's \<Rightarrow> (bool \<times> u8 list) \<times> 's"
  owWriteByte :: "s32 \<Rightarrow> u8 \<Rightarrow> 's \<Rightarrow> bool \<times> 's"
  owReadByte :: "s32 \<Rightarrow> 's \<Rightarrow> u8 \<times> 's"
  msDelay :: "nat \<Rightarrow> 's \<Rightarrow> 's"
  owFirst :: "s32 \<Rightarrow> 's \<Rightarrow> bool \<times> 's"
  owNext :: "s32 \<Rightarrow> 's \<Rightarrow> bool \<times> 's"
  owAcquireEx :: "string \<Rightarrow> 's \<Rightarrow> s32 \<times> 's"
  owRelease :: "s32 \<Rightarrow> 's \<Rightarrow> 's"

subsection \<open>Blocks\<close>

text \<open>The buffer keeps its length; the library overwrites as much of it as there is.\<close>

definition block :: "'s wire \<Rightarrow> s32 \<Rightarrow> u8 list \<Rightarrow> ('s, bool \<times> u8 list) driver" where
  "block W port buffer = call (\<lambda>s. case owBlock W port buffer s of
     ((ok, r), s') \<Rightarrow> ((ok, take (length buffer) r @ drop (length r) buffer), s'))"

lemma gives_block [simp]:
  "gives (block W port buffer) s Q \<longleftrightarrow>
     (case owBlock W port buffer s of ((ok, r), s') \<Rightarrow> Q (ok, take (length buffer) r @ drop (length r) buffer) s')"
  by (simp add: block_def split: prod.splits)

lemma faults_block: "faults F (block W port buffer)"
  by (simp add: block_def faults_call)

lemmas driver_faults = faults_rules faults_block

subsection \<open>Checksums: \<open>OneWireLibs/common/crcutil.c\<close>\<close>

definition MAX_PORTNUM :: nat where
  "MAX_PORTNUM = 16"

definition oddparity :: "nat list" where
  "oddparity = [0, 1, 1, 0, 1, 0, 0, 1, 1, 0, 0, 1, 0, 1, 1, 0]"

definition dscrc_table :: "u8 list" where
  "dscrc_table = [
        0, 94,188,226, 97, 63,221,131,194,156,126, 32,163,253, 31, 65,
      157,195, 33,127,252,162, 64, 30, 95,  1,227,189, 62, 96,130,220,
       35,125,159,193, 66, 28,254,160,225,191, 93,  3,128,222, 60, 98,
      190,224,  2, 92,223,129, 99, 61,124, 34,192,158, 29, 67,161,255,
       70, 24,250,164, 39,121,155,197,132,218, 56,102,229,187, 89,  7,
      219,133,103, 57,186,228,  6, 88, 25, 71,165,251,120, 38,196,154,
      101, 59,217,135,  4, 90,184,230,167,249, 27, 69,198,152,122, 36,
      248,166, 68, 26,153,199, 37,123, 58,100,134,216, 91,  5,231,185,
      140,210, 48,110,237,179, 81, 15, 78, 16,242,172, 47,113,147,205,
       17, 79,173,243,112, 46,204,146,211,141,111, 49,178,236, 14, 80,
      175,241, 19, 77,206,144,114, 44,109, 51,209,143, 12, 82,176,238,
       50,108,142,208, 83, 13,239,177,240,174, 76, 18,145,207, 45,115,
      202,148,118, 40,171,245, 23, 73,  8, 86,180,234,105, 55,213,139,
       87,  9,235,181, 54,104,138,212,149,203, 41,119,244,170, 72, 22,
      233,183, 85, 11,136,214, 52,106, 43,117,151,201, 74, 20,246,168,
      116, 42,200,150, 21, 75,169,247,182,232, 10, 84,215,137,107, 53]"

definition docrc16 :: "u16 \<Rightarrow> u16 \<Rightarrow> u16" where
  "docrc16 utilcrc16 cdata =
     (let cdata = and (xor cdata (and utilcrc16 0xff)) 0xff;
          utilcrc16 = drop_bit 8 utilcrc16;
          utilcrc16 = (if oddparity ! unat (and cdata 0xf) \<noteq> oddparity ! unat (drop_bit 4 cdata)
                       then xor utilcrc16 0xc001 else utilcrc16);
          cdata = push_bit 6 cdata;
          utilcrc16 = xor utilcrc16 cdata;
          cdata = push_bit 1 cdata
      in xor utilcrc16 cdata)"

definition docrc8 :: "u8 \<Rightarrow> u8 \<Rightarrow> u8" where
  "docrc8 utilcrc8 x = dscrc_table ! unat (xor utilcrc8 x)"

text \<open>The loops of the drivers, which start from \<open>setcrc16 (portNumber, 0)\<close> and \<open>setcrc8 (portNumber, 0)\<close>.\<close>

definition crc16 :: "u8 list \<Rightarrow> u16" where
  "crc16 bs = fold (\<lambda>x crc. docrc16 crc (ucast x)) bs 0"

definition crc8 :: "u8 list \<Rightarrow> u8" where
  "crc8 bs = fold (\<lambda>x crc. docrc8 crc x) bs 0"

text \<open>The arrays of checksums have an entry for the port.\<close>

definition check_port :: "s32 \<Rightarrow> ('s, unit) driver" where
  "check_port port = (if unat (and port 0xFF) < MAX_PORTNUM then ret () else raise Bad_Access)"

lemma faults_check_port: "Bad_Access \<in> F \<Longrightarrow> faults F (check_port port)"
  by (simp add: check_port_def faults_ret faults_raise)

lemma gives_check_port [simp]: "gives (check_port port) s Q \<longleftrightarrow> unat (and port 0xFF) < MAX_PORTNUM \<and> Q () s"
  by (simp add: gives_def check_port_def ret_def raise_def)

subsection \<open>\<open>utils.c\<close>\<close>

definition NUM_BYTES_IN_SERIAL_NUM :: nat where
  "NUM_BYTES_IN_SERIAL_NUM = 8"

definition oneWireStartBus :: "'s wire \<Rightarrow> string \<Rightarrow> ('s, s32) driver" where
  "oneWireStartBus W pSerialPortString = call (owAcquireEx W pSerialPortString)"

definition oneWireStopBus :: "'s wire \<Rightarrow> s32 \<Rightarrow> ('s, unit) driver" where
  "oneWireStopBus W port = act (owRelease W port)"

text \<open>
  The search loop: \<open>success\<close> is the result of the last search, and \<open>room\<close> the number of addresses that the memory at \<open>pAddress\<close>
  still holds (it had room for \<open>maxNumAddresses\<close>; for a null pointer, \<open>store\<close> is false).  The first argument bounds the turns.
\<close>

fun find_loop :: "nat \<Rightarrow> 's wire \<Rightarrow> s32 \<Rightarrow> bool \<Rightarrow> u8 \<Rightarrow> bool \<Rightarrow> u8 \<Rightarrow> nat \<Rightarrow> u8 list list \<Rightarrow> ('s, u8 \<times> u8 list list) driver" where
  "find_loop n W port store maxNumAddresses False count room found = ret (count, found)"
| "find_loop 0 W port store maxNumAddresses True count room found = raise Blocked"
| "find_loop (Suc n) W port store maxNumAddresses True count room found =
     (let count = count + 1 in
      if store \<and> count \<le> maxNumAddresses
      then if room = 0 then raise Bad_Access
           else then_do (call (owReadSerialNum W port)) (\<lambda>a.
                then_do (call (owNext W port)) (\<lambda>success.
                find_loop n W port store maxNumAddresses success count (room - 1) (found @ [a])))
      else then_do (call (owNext W port)) (\<lambda>success.
           find_loop n W port store maxNumAddresses success count room found))"

definition oneWireFindAllDevices :: "nat \<Rightarrow> 's wire \<Rightarrow> s32 \<Rightarrow> bool \<Rightarrow> u8 \<Rightarrow> ('s, u8 \<times> u8 list list) driver" where
  "oneWireFindAllDevices turns W port store maxNumAddresses =
     then_do (call (owFirst W port)) (\<lambda>success.
     find_loop turns W port store maxNumAddresses success 0 (unat maxNumAddresses) [])"

definition oneWireAccessDevice :: "'s wire \<Rightarrow> s32 \<Rightarrow> u8 list \<Rightarrow> ('s, bool) driver" where
  "oneWireAccessDevice W port pAddress =
     then_do (act (owSerialNum W port pAddress)) (\<lambda>_. call (owVerify W port))"

end
