(* ===== verification/Ds2438.thy ===== *)
theory Ds2438
  imports OneWire
begin

section \<open>The battery monitor: \<open>OneWire/src/ds2438.c\<close>\<close>

text \<open>
  The driver of the DS2438, which measures voltage, current and temperature, counts time and charge, and keeps eight pages of
  eight bytes.  A page is written to and read from the scratchpad; recalling a page copies the memory into the scratchpad,
  copying writes it back.  Functions with out-parameters return \<open>None\<close> where these are untouched, as in \<open>Ds2408\<close>;
  where they can be set although the result is false, the function returns the result and the optional values.

  The conversions between registers and units are \<open>double\<close> arithmetic with \<open>RSENS\<close> = 0.05, truncated when stored.  They are written as
  the integer division by the exact factor, which gives the same results for all arguments that can occur.  A result that the
  target type cannot hold makes the conversion undefined: \<open>Bad_Conversion\<close>.  A temperature is given in units of \<open>TEMPERATURE_UNIT\<close>
  (1/32 degree), of which its \<open>double\<close> is an exact multiple.
\<close>

abbreviation (input) DS2438_NUM_BYTES_IN_CRC :: nat where "DS2438_NUM_BYTES_IN_CRC \<equiv> 1"
abbreviation (input) DS2438_NUM_BYTES_IN_PAGE :: nat where "DS2438_NUM_BYTES_IN_PAGE \<equiv> 8"
abbreviation (input) DS2438_NUM_PAGES :: u8 where "DS2438_NUM_PAGES \<equiv> 8"
abbreviation (input) DS2438_NUM_USER_DATA_PAGES :: u8 where "DS2438_NUM_USER_DATA_PAGES \<equiv> 4"

definition DS4238_COMMAND_RECALL_MEMORY :: u8 where "DS4238_COMMAND_RECALL_MEMORY = 0xB8"
definition DS4238_COMMAND_READ_SCRATCHPAD :: u8 where "DS4238_COMMAND_READ_SCRATCHPAD = 0xBE"
definition DS4238_COMMAND_WRITE_SCRATCHPAD :: u8 where "DS4238_COMMAND_WRITE_SCRATCHPAD = 0x4E"
definition DS4238_COMMAND_COPY_SCRATCHPAD :: u8 where "DS4238_COMMAND_COPY_SCRATCHPAD = 0x48"
definition DS2438_COMMAND_READ_AD :: u8 where "DS2438_COMMAND_READ_AD = 0xB4"
definition DS2438_COMMAND_READ_TEMPERATURE :: u8 where "DS2438_COMMAND_READ_TEMPERATURE = 0x44"

abbreviation (input) DS2438_CONFIG_PAGE :: u8 where "DS2438_CONFIG_PAGE \<equiv> 0"
abbreviation (input) DS2438_CONFIG_REG_OFFSET :: nat where "DS2438_CONFIG_REG_OFFSET \<equiv> 0"
abbreviation (input) DS2438_TEMPERATURE_REG_OFFSET :: nat where "DS2438_TEMPERATURE_REG_OFFSET \<equiv> 1"
abbreviation (input) DS2438_VOLTAGE_REG_OFFSET :: nat where "DS2438_VOLTAGE_REG_OFFSET \<equiv> 3"
abbreviation (input) DS2438_CURRENT_REG_OFFSET :: nat where "DS2438_CURRENT_REG_OFFSET \<equiv> 5"
abbreviation (input) DS2438_THRESHOLD_REG_OFFSET :: nat where "DS2438_THRESHOLD_REG_OFFSET \<equiv> 7"
abbreviation (input) DS2438_ETM_ICA_OFFSET_PAGE :: u8 where "DS2438_ETM_ICA_OFFSET_PAGE \<equiv> 1"
abbreviation (input) DS2438_ICA_REG_OFFSET :: nat where "DS2438_ICA_REG_OFFSET \<equiv> 4"
abbreviation (input) DS2438_CAL_REG_OFFSET :: nat where "DS2438_CAL_REG_OFFSET \<equiv> 5"
abbreviation (input) DS2438_DISC_EOC_PAGE :: u8 where "DS2438_DISC_EOC_PAGE \<equiv> 2"
abbreviation (input) DS2438_EOC_REG_OFFSET :: nat where "DS2438_EOC_REG_OFFSET \<equiv> 4"
abbreviation (input) DS2438_FIRST_USER_DATA_PAGE :: u8 where "DS2438_FIRST_USER_DATA_PAGE \<equiv> 3"
abbreviation (input) DS2438_USER_DATA_ETM_ICA_PAGE :: u8 where "DS2438_USER_DATA_ETM_ICA_PAGE \<equiv> 0"
abbreviation (input) DS2438_USER_DATA_ETM_ICA_SIZE :: nat where "DS2438_USER_DATA_ETM_ICA_SIZE \<equiv> 5"
abbreviation (input) DS2438_CCA_DCA_PAGE :: u8 where "DS2438_CCA_DCA_PAGE \<equiv> 7"
abbreviation (input) DS2438_CCA_REG_OFFSET :: nat where "DS2438_CCA_REG_OFFSET \<equiv> 4"
abbreviation (input) DS2438_DCA_REG_OFFSET :: nat where "DS2438_DCA_REG_OFFSET \<equiv> 6"

abbreviation (input) DS2438_ADB_IS_BUSY :: u8 where "DS2438_ADB_IS_BUSY \<equiv> 0x40"
abbreviation (input) DS2438_TB_IS_BUSY :: u8 where "DS2438_TB_IS_BUSY \<equiv> 0x10"
abbreviation (input) DS2438_AD_IS_VDD :: u8 where "DS2438_AD_IS_VDD \<equiv> 0x08"
abbreviation (input) DS2438_IAD_IS_ENABLED :: u8 where "DS2438_IAD_IS_ENABLED \<equiv> 0x01"

abbreviation (input) TEMPERATURE_READ_DELAY_MS :: nat where "TEMPERATURE_READ_DELAY_MS \<equiv> 10"
abbreviation (input) VOLTAGE_MAX_MV :: u16 where "VOLTAGE_MAX_MV \<equiv> 10200"
abbreviation (input) MAX_REMAINING_CAPACITY_MAHOURS :: nat where "MAX_REMAINING_CAPACITY_MAHOURS \<equiv> 2200"

definition GUARD_COUNTER :: nat where "GUARD_COUNTER = 255"

subsection \<open>Units\<close>

text \<open>Remaining capacity = ICA / (2048 * RSENS), the accumulators count in units 32 times as large, current = register / (4096 *
  RSENS); 2048 * RSENS is 102.4.\<close>

definition ICA_TO_MAHOURS :: "nat \<Rightarrow> nat" where
  "ICA_TO_MAHOURS x = (x * 10000) div 1024"

definition MAHOURS_TO_ICA :: "nat \<Rightarrow> nat" where
  "MAHOURS_TO_ICA x = (1024 * x) div 10000"

definition XCA_TO_MAHOURS :: "nat \<Rightarrow> nat" where
  "XCA_TO_MAHOURS x = (x * 320000) div 1024"

definition MAHOURS_TO_XCA :: "nat \<Rightarrow> nat" where
  "MAHOURS_TO_XCA x = (1024 * x) div 320000"

definition CURRENT_TO_MA :: "int \<Rightarrow> int" where
  "CURRENT_TO_MA x = sgn x * ((\<bar>x\<bar> * 10000) div 2048)"

definition MAX_REMAINING_CAPACITY_ICA :: u8 where
  "MAX_REMAINING_CAPACITY_ICA = of_nat (MAHOURS_TO_ICA MAX_REMAINING_CAPACITY_MAHOURS)"

text \<open>Storing a converted value in an integer of the given type.\<close>

definition to_u8 :: "nat \<Rightarrow> ('s, u8) driver" where
  "to_u8 n = (if n < 2 ^ 8 then ret (of_nat n) else raise Bad_Conversion)"

definition to_u16 :: "nat \<Rightarrow> ('s, u16) driver" where
  "to_u16 n = (if n < 2 ^ 16 then ret (of_nat n) else raise Bad_Conversion)"

definition to_s16 :: "int \<Rightarrow> ('s, s16) driver" where
  "to_s16 i = (if - (2 ^ 15) \<le> i \<and> i < 2 ^ 15 then ret (word_of_int i) else raise Bad_Conversion)"

text \<open>Two bytes of a page, low byte first.\<close>

definition reg16 :: "u8 list \<Rightarrow> nat \<Rightarrow> u16" where
  "reg16 b i = or (ucast (b ! i)) (push_bit 8 (ucast (b ! (i + 1))))"

subsection \<open>Pages\<close>

definition readSPPageDS2438 :: "'s wire \<Rightarrow> s32 \<Rightarrow> u8 list \<Rightarrow> u8 \<Rightarrow> ('s, u8 list option) driver" where
  "readSPPageDS2438 W port serial page =
     then_do (require (page < DS2438_NUM_PAGES)) (\<lambda>_.
     then_do (require (hd serial = FAMILY_SBATTERY)) (\<lambda>_.
     then_do (act (owSerialNum W port serial)) (\<lambda>_.
     then_do (call (owAccess W port)) (\<lambda>success.
       if success
       then then_do (block W port ([DS4238_COMMAND_READ_SCRATCHPAD, page] @
                      replicate (DS2438_NUM_BYTES_IN_PAGE + DS2438_NUM_BYTES_IN_CRC) 0xFF)) (\<lambda>(ok, buffer).
            if ok
            then then_do (check_port port) (\<lambda>_.
              ret (if crc8 (drop 2 buffer) \<noteq> 0 then None else Some (take DS2438_NUM_BYTES_IN_PAGE (drop 2 buffer))))
            else ret None)
       else ret None))))"

definition writeSPPageDS2438 :: "'s wire \<Rightarrow> s32 \<Rightarrow> u8 list \<Rightarrow> u8 \<Rightarrow> u8 list \<Rightarrow> ('s, bool) driver" where
  "writeSPPageDS2438 W port serial page mem =
     then_do (require (page < DS2438_NUM_PAGES)) (\<lambda>_.
     then_do (require (hd serial = FAMILY_SBATTERY)) (\<lambda>_.
     then_do (require (length mem \<le> DS2438_NUM_BYTES_IN_PAGE)) (\<lambda>_.
     then_do (act (owSerialNum W port serial)) (\<lambda>_.
     then_do (call (owAccess W port)) (\<lambda>success.
       if success
       then then_do (block W port ([DS4238_COMMAND_WRITE_SCRATCHPAD, page] @ mem)) (\<lambda>(ok, _). ret ok)
       else ret False)))))"

definition readNVPageDS2438 :: "'s wire \<Rightarrow> s32 \<Rightarrow> u8 list \<Rightarrow> u8 \<Rightarrow> ('s, u8 list option) driver" where
  "readNVPageDS2438 W port serial page =
     then_do (require (page < DS2438_NUM_PAGES)) (\<lambda>_.
     then_do (require (hd serial = FAMILY_SBATTERY)) (\<lambda>_.
     then_do (act (owSerialNum W port serial)) (\<lambda>_.
     then_do (call (owAccess W port)) (\<lambda>success.
     then_do (if success
              then then_do (block W port [DS4238_COMMAND_RECALL_MEMORY, page]) (\<lambda>(ok, _). ret ok)
              else ret False) (\<lambda>success.
       if success then readSPPageDS2438 W port serial page else ret None)))))"

text \<open>The loop that reads until a byte is not zero, with \<open>guardCounter\<close>; its result is the counter's final value.\<close>

fun await_ready :: "'s wire \<Rightarrow> s32 \<Rightarrow> nat \<Rightarrow> ('s, nat) driver" where
  "await_ready W port 0 = ret 0"
| "await_ready W port (Suc guardCounter) =
     then_do (call (owReadByte W port)) (\<lambda>busyByte.
       if busyByte = 0 then await_ready W port guardCounter else ret guardCounter)"

definition writeNVPageDS2438 :: "'s wire \<Rightarrow> s32 \<Rightarrow> u8 list \<Rightarrow> u8 \<Rightarrow> u8 list \<Rightarrow> ('s, bool) driver" where
  "writeNVPageDS2438 W port serial page mem =
     then_do (require (page < DS2438_NUM_PAGES)) (\<lambda>_.
     then_do (require (hd serial = FAMILY_SBATTERY)) (\<lambda>_.
     then_do (require (length mem \<le> DS2438_NUM_BYTES_IN_PAGE)) (\<lambda>_.
     then_do (writeSPPageDS2438 W port serial page mem) (\<lambda>success.
       if success
       then then_do (call (owAccess W port)) (\<lambda>success.
            if success
            then then_do (block W port [DS4238_COMMAND_COPY_SCRATCHPAD, page]) (\<lambda>(ok, _).
                 if ok
                 then then_do (await_ready W port GUARD_COUNTER) (\<lambda>guardCounter. ret (guardCounter \<noteq> 0))
                 else ret False)
            else ret False)
       else ret False))))"

definition readNVUserDataDS2438 :: "'s wire \<Rightarrow> s32 \<Rightarrow> u8 list \<Rightarrow> u8 \<Rightarrow> ('s, u8 list option) driver" where
  "readNVUserDataDS2438 W port serial blk =
     then_do (require (blk < DS2438_NUM_USER_DATA_PAGES)) (\<lambda>_.
     readNVPageDS2438 W port serial (DS2438_FIRST_USER_DATA_PAGE + blk))"

definition writeNVUserDataDS2438 :: "'s wire \<Rightarrow> s32 \<Rightarrow> u8 list \<Rightarrow> u8 \<Rightarrow> u8 list \<Rightarrow> ('s, bool) driver" where
  "writeNVUserDataDS2438 W port serial blk mem =
     then_do (require (blk < DS2438_NUM_USER_DATA_PAGES)) (\<lambda>_.
     then_do (require (length mem \<le> DS2438_NUM_BYTES_IN_PAGE)) (\<lambda>_.
     writeNVPageDS2438 W port serial (DS2438_FIRST_USER_DATA_PAGE + blk) mem))"

subsection \<open>Voltage and current\<close>

text \<open>
  The loop that \<open>readAdDS2438\<close> and \<open>readBatteryDS2438\<close> share: \<open>select\<close> sets or clears the bit that chooses what to measure, \<open>is_done\<close>
  judges the configuration byte that is read back, and the result has the page on which the loop ended.  A failing \<open>owAccess\<close> skips the
  conversion and leaves \<open>success\<close> true; \<open>guardCounter1\<close> is not set again for the next turn.
\<close>

fun ad_loop :: "'s wire \<Rightarrow> s32 \<Rightarrow> u8 list \<Rightarrow> (u8 \<Rightarrow> u8) \<Rightarrow> (u8 \<Rightarrow> bool) \<Rightarrow> nat \<Rightarrow> nat \<Rightarrow> ('s, bool \<times> u8 list option) driver" where
  "ad_loop W port serial select is_done 0 guardCounter1 = ret (False, None)"
| "ad_loop W port serial select is_done (Suc guardCounter) guardCounter1 =
     then_do (readSPPageDS2438 W port serial DS2438_CONFIG_PAGE) (\<lambda>page.
     then_do (case page of
                None \<Rightarrow> ret False
              | Some buffer \<Rightarrow> writeSPPageDS2438 W port serial DS2438_CONFIG_PAGE [select (buffer ! DS2438_CONFIG_REG_OFFSET)])
       (\<lambda>success.
     then_do (if success
              then then_do (call (owAccess W port)) (\<lambda>accessed.
                   if accessed
                   then then_do (call (owWriteByte W port DS2438_COMMAND_READ_AD)) (\<lambda>written.
                        if written
                        then then_do (await_ready W port guardCounter1) (\<lambda>guardCounter1.
                             ret (guardCounter1 \<noteq> 0, guardCounter1))
                        else ret (False, guardCounter1))
                   else ret (True, guardCounter1))
              else ret (False, guardCounter1)) (\<lambda>(success, guardCounter1).
       if success
       then then_do (readNVPageDS2438 W port serial DS2438_CONFIG_PAGE) (\<lambda>page.
            case page of
              None \<Rightarrow> ret (False, None)
            | Some buffer \<Rightarrow>
                if is_done (buffer ! DS2438_CONFIG_REG_OFFSET) then ret (guardCounter \<noteq> 0, Some buffer)
                else ad_loop W port serial select is_done guardCounter guardCounter1)
       else ret (False, None))))"

definition voltage_mv :: "u8 list \<Rightarrow> u16" where
  "voltage_mv b = (ucast (b ! DS2438_VOLTAGE_REG_OFFSET) + push_bit 8 (ucast (b ! (DS2438_VOLTAGE_REG_OFFSET + 1)))) * 10"

definition readAdDS2438 :: "'s wire \<Rightarrow> s32 \<Rightarrow> u8 list \<Rightarrow> bool \<Rightarrow> ('s, bool \<times> u16 option) driver" where
  "readAdDS2438 W port serial isVdd =
     then_do (require (hd serial = FAMILY_SBATTERY)) (\<lambda>_.
     then_do (ad_loop W port serial
       (\<lambda>config. if isVdd then or config DS2438_AD_IS_VDD else and config (not DS2438_AD_IS_VDD))
       (\<lambda>config. and config (not DS2438_ADB_IS_BUSY) \<noteq> 0 \<and>
          (isVdd \<and> or config DS2438_AD_IS_VDD \<noteq> 0 \<or> \<not> isVdd \<and> and config (not DS2438_AD_IS_VDD) \<noteq> 0))
       GUARD_COUNTER GUARD_COUNTER) (\<lambda>(success, page).
     ret (success, map_option (\<lambda>b. if voltage_mv b > VOLTAGE_MAX_MV then 0 else voltage_mv b) page)))"

definition readVddDS2438 :: "'s wire \<Rightarrow> s32 \<Rightarrow> u8 list \<Rightarrow> ('s, bool \<times> u16 option) driver" where
  "readVddDS2438 W port serial = readAdDS2438 W port serial True"

definition readVadDS2438 :: "'s wire \<Rightarrow> s32 \<Rightarrow> u8 list \<Rightarrow> ('s, bool \<times> u16 option) driver" where
  "readVadDS2438 W port serial = readAdDS2438 W port serial False"

definition readRawCurrentDS2438 :: "'s wire \<Rightarrow> s32 \<Rightarrow> u8 list \<Rightarrow> ('s, s16 option) driver" where
  "readRawCurrentDS2438 W port serial =
     then_do (readNVPageDS2438 W port serial DS2438_CONFIG_PAGE) (\<lambda>page.
     ret (map_option (\<lambda>b. reg16 b DS2438_CURRENT_REG_OFFSET) page))"

text \<open>\<open>wanted\<close> says that \<open>pCurrent\<close> is not null; only then is the value converted.\<close>

definition readCurrentDS2438 :: "'s wire \<Rightarrow> s32 \<Rightarrow> u8 list \<Rightarrow> bool \<Rightarrow> ('s, s16 option) driver" where
  "readCurrentDS2438 W port serial wanted =
     then_do (readRawCurrentDS2438 W port serial) (\<lambda>raw.
       case raw of
         None \<Rightarrow> ret None
       | Some current \<Rightarrow>
           if wanted then then_do (to_s16 (CURRENT_TO_MA (sint current))) (\<lambda>c. ret (Some c)) else ret (Some current))"

definition readBatteryDS2438 :: "'s wire \<Rightarrow> s32 \<Rightarrow> u8 list \<Rightarrow> bool \<Rightarrow> ('s, bool \<times> (u16 \<times> s16) option) driver" where
  "readBatteryDS2438 W port serial wanted =
     then_do (require (hd serial = FAMILY_SBATTERY)) (\<lambda>_.
     then_do (ad_loop W port serial (\<lambda>config. or config DS2438_AD_IS_VDD)
       (\<lambda>config. and config (not DS2438_ADB_IS_BUSY) \<noteq> 0 \<and> or config DS2438_AD_IS_VDD \<noteq> 0)
       GUARD_COUNTER GUARD_COUNTER) (\<lambda>(success, page).
       case page of
         None \<Rightarrow> ret (success, None)
       | Some b \<Rightarrow>
           let current = reg16 b DS2438_CURRENT_REG_OFFSET in
           then_do (if wanted then to_s16 (CURRENT_TO_MA (sint current)) else ret current) (\<lambda>c.
           ret (success, Some (voltage_mv b, c)))))"

subsection \<open>Temperature\<close>

text \<open>The do-while loop that recalls the page until the busy bit is clear.\<close>

fun temperature_loop :: "'s wire \<Rightarrow> s32 \<Rightarrow> u8 list \<Rightarrow> nat \<Rightarrow> ('s, u8 list option) driver" where
  "temperature_loop W port serial 0 = ret None"
| "temperature_loop W port serial (Suc guardCounter) =
     then_do (readNVPageDS2438 W port serial DS2438_CONFIG_PAGE) (\<lambda>page.
       case page of
         None \<Rightarrow> ret None
       | Some buffer \<Rightarrow>
           if and (buffer ! DS2438_CONFIG_REG_OFFSET) DS2438_TB_IS_BUSY \<noteq> 0 \<and> guardCounter > 0
           then temperature_loop W port serial guardCounter
           else ret (if guardCounter = 0 then None else Some buffer))"

definition readTemperatureDS2438 :: "'s wire \<Rightarrow> s32 \<Rightarrow> u8 list \<Rightarrow> ('s, u16 option) driver" where
  "readTemperatureDS2438 W port serial =
     then_do (require (hd serial = FAMILY_SBATTERY)) (\<lambda>_.
     then_do (act (owSerialNum W port serial)) (\<lambda>_.
     then_do (call (owAccess W port)) (\<lambda>success.
     then_do (if success
              then then_do (call (owWriteByte W port DS2438_COMMAND_READ_TEMPERATURE)) (\<lambda>success.
                   then_do (await_ready W port GUARD_COUNTER) (\<lambda>guardCounter. ret (success \<and> guardCounter \<noteq> 0)))
              else ret False) (\<lambda>success.
       if success
       then then_do (act (msDelay W TEMPERATURE_READ_DELAY_MS)) (\<lambda>_.
            then_do (temperature_loop W port serial GUARD_COUNTER) (\<lambda>page.
            ret (map_option (\<lambda>b. drop_bit 3 (reg16 b DS2438_TEMPERATURE_REG_OFFSET)) page)))
       else ret None))))"

subsection \<open>Configuration and threshold\<close>

definition readNVConfigThresholdDS2438 :: "'s wire \<Rightarrow> s32 \<Rightarrow> u8 list \<Rightarrow> ('s, (u8 \<times> u8) option) driver" where
  "readNVConfigThresholdDS2438 W port serial =
     then_do (readNVPageDS2438 W port serial DS2438_CONFIG_PAGE) (\<lambda>page.
     ret (map_option (\<lambda>b. (b ! DS2438_CONFIG_REG_OFFSET, b ! DS2438_THRESHOLD_REG_OFFSET)) page))"

text \<open>
  The case of a null \<open>pThreshold\<close>, which the other case calls.  With a threshold the buffer has six bytes between the two
  values that are not initialised: \<open>stack\<close> says what they hold.
\<close>

definition write_config :: "'s wire \<Rightarrow> s32 \<Rightarrow> u8 list \<Rightarrow> u8 \<Rightarrow> ('s, bool) driver" where
  "write_config W port serial config = writeNVPageDS2438 W port serial DS2438_CONFIG_PAGE [config]"

definition writeNVConfigThresholdDS2438 ::
    "'s wire \<Rightarrow> s32 \<Rightarrow> u8 list \<Rightarrow> (nat \<Rightarrow> u8) \<Rightarrow> u8 \<Rightarrow> u8 option \<Rightarrow> ('s, bool) driver" where
  "writeNVConfigThresholdDS2438 W port serial stack config pThreshold =
     (case pThreshold of
        None \<Rightarrow> write_config W port serial config
      | Some threshold \<Rightarrow>
          then_do (readNVConfigThresholdDS2438 W port serial) (\<lambda>stored.
          then_do (case stored of
                     Some (storedConfig, _) \<Rightarrow>
                       if and storedConfig DS2438_IAD_IS_ENABLED \<noteq> 0
                       then then_do (write_config W port serial (and storedConfig (not DS2438_IAD_IS_ENABLED))) (\<lambda>_.
                            ret (Some storedConfig))
                       else ret None
                   | None \<Rightarrow> ret None) (\<lambda>iadWasEnabled.
          then_do (writeNVPageDS2438 W port serial DS2438_CONFIG_PAGE (config # map stack [1..<7] @ [threshold])) (\<lambda>success.
            case iadWasEnabled of
              None \<Rightarrow> ret success
            | Some storedConfig \<Rightarrow> then_do (write_config W port serial storedConfig) (\<lambda>iadSuccess.
                ret (success \<and> iadSuccess))))))"

subsection \<open>Time, capacity and charge\<close>

text \<open>What both functions that read the capacity do with it: the capacity and the page, limited.\<close>

definition limit_capacity :: "u8 list \<Rightarrow> nat \<times> u8 list" where
  "limit_capacity buffer =
     (let remainingCapacity = ICA_TO_MAHOURS (unat (buffer ! DS2438_ICA_REG_OFFSET)) in
      if remainingCapacity > MAX_REMAINING_CAPACITY_MAHOURS
      then (MAX_REMAINING_CAPACITY_MAHOURS, buffer[DS2438_ICA_REG_OFFSET := MAX_REMAINING_CAPACITY_ICA])
      else (remainingCapacity, buffer))"

definition readTimeCapacityCalDS2438 ::
    "'s wire \<Rightarrow> s32 \<Rightarrow> u8 list \<Rightarrow> bool \<Rightarrow> ('s, bool \<times> (u32 \<times> u16 \<times> s16) option) driver" where
  "readTimeCapacityCalDS2438 W port serial writeShadow =
     then_do (readNVPageDS2438 W port serial DS2438_ETM_ICA_OFFSET_PAGE) (\<lambda>page.
       case page of
         None \<Rightarrow> ret (False, None)
       | Some b \<Rightarrow>
           (case limit_capacity b of (remainingCapacity, buffer) \<Rightarrow>
              let out = (le32 b, of_nat remainingCapacity, reg16 b DS2438_CAL_REG_OFFSET) in
              if writeShadow
              then then_do (writeNVUserDataDS2438 W port serial DS2438_USER_DATA_ETM_ICA_PAGE
                              (take DS2438_USER_DATA_ETM_ICA_SIZE buffer)) (\<lambda>success. ret (success, Some out))
              else ret (True, Some out)))"

definition initTimeCapacityDS2438 :: "'s wire \<Rightarrow> s32 \<Rightarrow> u8 list \<Rightarrow> ('s, bool) driver" where
  "initTimeCapacityDS2438 W port serial =
     then_do (readNVUserDataDS2438 W port serial DS2438_USER_DATA_ETM_ICA_PAGE) (\<lambda>page.
       case page of
         None \<Rightarrow> ret False
       | Some b \<Rightarrow>
           then_do (readTimeCapacityCalDS2438 W port serial False) (\<lambda>(success, out).
             case out of
               Some (volatileElapsedTime, _, _) \<Rightarrow>
                 if success \<and> le32 b > volatileElapsedTime
                 then writeNVPageDS2438 W port serial DS2438_ETM_ICA_OFFSET_PAGE
                        (take DS2438_USER_DATA_ETM_ICA_SIZE (snd (limit_capacity b)))
                 else ret success
             | None \<Rightarrow> ret False))"

definition writeTimeCapacityDS2438 ::
    "'s wire \<Rightarrow> s32 \<Rightarrow> u8 list \<Rightarrow> u32 \<Rightarrow> u16 option \<Rightarrow> bool \<Rightarrow> ('s, bool) driver" where
  "writeTimeCapacityDS2438 W port serial elapsedTime pRemainingCapacity writeShadow =
     then_do (case pRemainingCapacity of
                None \<Rightarrow> ret (le_bytes32 elapsedTime)
              | Some remainingCapacity \<Rightarrow>
                  then_do (to_u8 (MAHOURS_TO_ICA (unat remainingCapacity))) (\<lambda>ica. ret (le_bytes32 elapsedTime @ [ica]))) (\<lambda>buffer.
     then_do (writeNVPageDS2438 W port serial DS2438_ETM_ICA_OFFSET_PAGE buffer) (\<lambda>success.
       if success \<and> writeShadow
       then writeNVUserDataDS2438 W port serial DS2438_USER_DATA_ETM_ICA_PAGE buffer
       else ret success))"

definition readTimePiOffChargingStoppedDS2438 :: "'s wire \<Rightarrow> s32 \<Rightarrow> u8 list \<Rightarrow> ('s, (u32 \<times> u32) option) driver" where
  "readTimePiOffChargingStoppedDS2438 W port serial =
     then_do (readNVPageDS2438 W port serial DS2438_DISC_EOC_PAGE) (\<lambda>page.
     ret (map_option (\<lambda>b. (le32 b, le32 (drop DS2438_EOC_REG_OFFSET b))) page))"

definition readNVChargeDischargeDS2438 :: "'s wire \<Rightarrow> s32 \<Rightarrow> u8 list \<Rightarrow> ('s, (u32 \<times> u32) option) driver" where
  "readNVChargeDischargeDS2438 W port serial =
     then_do (readNVPageDS2438 W port serial DS2438_CCA_DCA_PAGE) (\<lambda>page.
     ret (map_option (\<lambda>b. (of_nat (XCA_TO_MAHOURS (unat (reg16 b DS2438_CCA_REG_OFFSET))),
                           of_nat (XCA_TO_MAHOURS (unat (reg16 b DS2438_DCA_REG_OFFSET))))) page))"

definition writeNVChargeDischargeDS2438 :: "'s wire \<Rightarrow> s32 \<Rightarrow> u8 list \<Rightarrow> u32 \<Rightarrow> u32 option \<Rightarrow> ('s, bool) driver" where
  "writeNVChargeDischargeDS2438 W port serial charge pDischarge =
     then_do (to_u16 (MAHOURS_TO_XCA (unat charge))) (\<lambda>c.
     then_do (case pDischarge of
                None \<Rightarrow> ret []
              | Some discharge \<Rightarrow>
                  then_do (to_u16 (MAHOURS_TO_XCA (unat discharge))) (\<lambda>d. ret [ucast d, ucast (drop_bit 8 d)])) (\<lambda>ds.
     writeNVPageDS2438 W port serial DS2438_CCA_DCA_PAGE ([0, 0, 0, 0, ucast c, ucast (drop_bit 8 c)] @ ds)))"

subsection \<open>Calibration\<close>

definition writeNVCalDS2438 :: "'s wire \<Rightarrow> s32 \<Rightarrow> u8 list \<Rightarrow> s16 \<Rightarrow> ('s, bool) driver" where
  "writeNVCalDS2438 W port serial offsetCal =
     writeNVPageDS2438 W port serial DS2438_ETM_ICA_OFFSET_PAGE
       (replicate DS2438_CAL_REG_OFFSET 0 @ [ucast offsetCal, ucast (drop_bit 8 offsetCal)])"

text \<open>The offset made from the current that is measured when none flows.\<close>

definition cal_offset :: "s16 \<Rightarrow> s16" where
  "cal_offset current =
     (let current = - current;
          current = (if current <s 0 then or current 0x02 else and current (not 0x02))
      in push_bit 3 current)"

text \<open>\<open>wanted\<close> says that \<open>pOffsetCal\<close> is not null; the value stored there is \<open>Some\<close> then.\<close>

definition performCalDS2438 :: "'s wire \<Rightarrow> s32 \<Rightarrow> u8 list \<Rightarrow> bool \<Rightarrow> ('s, bool \<times> s16 option) driver" where
  "performCalDS2438 W port serial wanted =
     then_do (writeNVCalDS2438 W port serial 0) (\<lambda>success.
     if \<not> success then ret (False, None) else
     then_do (readRawCurrentDS2438 W port serial) (\<lambda>raw.
     case raw of None \<Rightarrow> ret (False, None) | Some current \<Rightarrow>
     then_do (readNVConfigThresholdDS2438 W port serial) (\<lambda>stored.
     case stored of None \<Rightarrow> ret (False, None) | Some (storedConfig, _) \<Rightarrow>
     let iadWasEnabled = and storedConfig DS2438_IAD_IS_ENABLED \<noteq> 0 in
     then_do (if iadWasEnabled then write_config W port serial (and storedConfig (not DS2438_IAD_IS_ENABLED))
              else ret True) (\<lambda>success.
     if \<not> success then ret (False, None) else
     then_do (writeNVCalDS2438 W port serial (cal_offset current)) (\<lambda>success.
     then_do (if wanted then then_do (to_s16 (CURRENT_TO_MA (sint (cal_offset current)))) (\<lambda>c. ret (Some c))
              else ret None) (\<lambda>out.
     if iadWasEnabled then then_do (write_config W port serial storedConfig) (\<lambda>success. ret (success, out))
     else ret (success, out)))))))"

end
