(* ===== verification/Ds2408.thy ===== *)
theory Ds2408
  imports OneWire
begin

section \<open>The PIO chip: \<open>OneWire/src/ds2408.c\<close>\<close>

text \<open>
  The driver of the DS2408, a chip with eight pins.  A function with an out-parameter returns \<open>None\<close> where the code returns
  false (the parameter is untouched then), and \<open>Some\<close> of what it stores where it returns true; passing a null pointer
  is ignoring that value.  The asserted pointers are never null here.  \<open>readMemoryDS2408\<close> is only called for a
  single byte, so that the copy stays within what has been received.
\<close>

abbreviation (input) DS2408_NUM_BYTES_IN_CRC :: nat where "DS2408_NUM_BYTES_IN_CRC \<equiv> 2"
abbreviation (input) DS2408_NUM_BYTES_IN_COMMAND :: nat where "DS2408_NUM_BYTES_IN_COMMAND \<equiv> 1"
abbreviation (input) DS2408_NUM_BYTES_IN_PAGE_ADDRESS :: nat where "DS2408_NUM_BYTES_IN_PAGE_ADDRESS \<equiv> 2"
abbreviation (input) DS2408_MINIMUM_BUFFER_SIZE :: nat where "DS2408_MINIMUM_BUFFER_SIZE \<equiv> 5"
abbreviation (input) DS2408_MAX_BYTES_IN_CHANNEL_ACCESS :: nat where "DS2408_MAX_BYTES_IN_CHANNEL_ACCESS \<equiv> 32"

definition DS2408_COMMAND_DISABLE_TEST_MODE :: u8 where "DS2408_COMMAND_DISABLE_TEST_MODE = 0x3C"
definition DS2408_COMMAND_READ_PIO_REGISTERS :: u8 where "DS2408_COMMAND_READ_PIO_REGISTERS = 0xF0"
definition DS2408_COMMAND_CHANNEL_ACCESS_READ :: u8 where "DS2408_COMMAND_CHANNEL_ACCESS_READ = 0xF5"
definition DS2408_COMMAND_CHANNEL_ACCESS_WRITE :: u8 where "DS2408_COMMAND_CHANNEL_ACCESS_WRITE = 0x5A"
definition DS2408_COMMAND_WRITE_CS_REGISTER :: u8 where "DS2408_COMMAND_WRITE_CS_REGISTER = 0xCC"
definition DS2408_COMMAND_RESET_ACTIVITY_LATCHES :: u8 where "DS2408_COMMAND_RESET_ACTIVITY_LATCHES = 0xC3"
definition DS2408_CONFIRM_VALUE :: u8 where "DS2408_CONFIRM_VALUE = 0xAA"

lemmas ds2408_commands = DS2408_COMMAND_DISABLE_TEST_MODE_def DS2408_COMMAND_READ_PIO_REGISTERS_def
  DS2408_COMMAND_CHANNEL_ACCESS_READ_def DS2408_COMMAND_CHANNEL_ACCESS_WRITE_def DS2408_COMMAND_WRITE_CS_REGISTER_def
  DS2408_COMMAND_RESET_ACTIVITY_LATCHES_def DS2408_CONFIRM_VALUE_def

abbreviation (input) DS2408_FIRST_PAGE :: u16 where "DS2408_FIRST_PAGE \<equiv> 0x0088"
abbreviation (input) DS2408_PIO_LOGIC_STATE_PAGE :: u16 where "DS2408_PIO_LOGIC_STATE_PAGE \<equiv> 0x0088"
abbreviation (input) DS2408_PIO_OUTPUT_LATCH_STATE_REGISTER_PAGE :: u16 where
  "DS2408_PIO_OUTPUT_LATCH_STATE_REGISTER_PAGE \<equiv> 0x0089"
abbreviation (input) DS2408_PIO_ACTIVITY_LATCH_STATE_REGISTER_PAGE :: u16 where
  "DS2408_PIO_ACTIVITY_LATCH_STATE_REGISTER_PAGE \<equiv> 0x008A"
abbreviation (input) DS2408_CS_CHANNEL_SELECTION_MASK_PAGE :: u16 where
  "DS2408_CS_CHANNEL_SELECTION_MASK_PAGE \<equiv> 0x008B"
abbreviation (input) DS2408_FIRST_WRITEABLE_PAGE :: u16 where "DS2408_FIRST_WRITEABLE_PAGE \<equiv> 0x008B"
abbreviation (input) DS2408_CS_CHANNEL_POLARITY_SELECTION_PAGE :: u16 where
  "DS2408_CS_CHANNEL_POLARITY_SELECTION_PAGE \<equiv> 0x008C"
abbreviation (input) DS2408_CONTROL_STATUS_REGISTER_PAGE :: u16 where "DS2408_CONTROL_STATUS_REGISTER_PAGE \<equiv> 0x008D"
abbreviation (input) DS2408_LAST_USEFUL_PAGE :: u16 where "DS2408_LAST_USEFUL_PAGE \<equiv> 0x008D"
abbreviation (input) DS2408_NUM_USEFUL_PAGES :: nat where "DS2408_NUM_USEFUL_PAGES \<equiv> 6"
abbreviation (input) DS2408_LAST_PAGE :: u16 where "DS2408_LAST_PAGE \<equiv> 0x008F"

subsection \<open>Static functions\<close>

text \<open>The last two bytes of a received block are the inverted checksum of the bytes before them, low byte first.\<close>

definition crc16_accepts :: "u8 list \<Rightarrow> bool" where
  "crc16_accepts buffer =
     (let count = length buffer;
          lastCrc16 = crc16 (take (count - DS2408_NUM_BYTES_IN_CRC) buffer)
      in xor lastCrc16 (ucast (buffer ! (count - 2)) + push_bit 8 (ucast (buffer ! (count - 1)))) = 0xFFFF)"

definition readMemoryDS2408 :: "'s wire \<Rightarrow> s32 \<Rightarrow> u8 list \<Rightarrow> u16 \<Rightarrow> nat \<Rightarrow> ('s, u8 list option) driver" where
  "readMemoryDS2408 W port serial page num =
     then_do (require (page \<ge> DS2408_FIRST_PAGE)) (\<lambda>_.
     then_do (require (page \<le> DS2408_LAST_USEFUL_PAGE)) (\<lambda>_.
     then_do (require (hd serial = FAMILY_PIO)) (\<lambda>_.
     then_do (require (num \<le> DS2408_NUM_USEFUL_PAGES)) (\<lambda>_.
     then_do (act (owSerialNum W port serial)) (\<lambda>_.
     then_do (call (owAccess W port)) (\<lambda>success.
       if success
       then then_do (block W port ([DS2408_COMMAND_READ_PIO_REGISTERS, ucast page, ucast (drop_bit 8 page)] @
                      replicate ((unat DS2408_LAST_PAGE - unat page) + 1 + DS2408_NUM_BYTES_IN_CRC) 0xFF)) (\<lambda>(ok, buffer).
            if ok
            then then_do (check_port port) (\<lambda>_.
              ret (if crc16_accepts buffer
                   then Some (take num (drop (DS2408_NUM_BYTES_IN_COMMAND + DS2408_NUM_BYTES_IN_PAGE_ADDRESS) buffer))
                   else None))
            else ret None)
       else ret None))))))"

definition writeMemoryDS2408 :: "'s wire \<Rightarrow> s32 \<Rightarrow> u8 list \<Rightarrow> u16 \<Rightarrow> u8 list \<Rightarrow> ('s, bool) driver" where
  "writeMemoryDS2408 W port serial page mem =
     then_do (require (page \<ge> DS2408_FIRST_WRITEABLE_PAGE)) (\<lambda>_.
     then_do (require (page \<le> DS2408_LAST_PAGE)) (\<lambda>_.
     then_do (require (hd serial = FAMILY_PIO)) (\<lambda>_.
     then_do (require (length mem \<le> DS2408_NUM_USEFUL_PAGES)) (\<lambda>_.
     then_do (act (owSerialNum W port serial)) (\<lambda>_.
     then_do (call (owAccess W port)) (\<lambda>success.
       if success
       then then_do (block W port ([DS2408_COMMAND_WRITE_CS_REGISTER, ucast page, ucast (drop_bit 8 page)] @ mem)) (\<lambda>(ok, _).
            ret ok)
       else ret False))))))"

subsection \<open>Public functions\<close>

definition disableTestModeDS2408 :: "'s wire \<Rightarrow> s32 \<Rightarrow> u8 list \<Rightarrow> ('s, bool) driver" where
  "disableTestModeDS2408 W port serial =
     then_do (require (hd serial = FAMILY_PIO)) (\<lambda>_.
     then_do (act (owSerialNum W port serial)) (\<lambda>_.
     then_do (call (owAccess W port)) (\<lambda>success.
       if success
       then then_do (block W port [DS2408_COMMAND_DISABLE_TEST_MODE]) (\<lambda>(ok, _). ret ok)
       else ret False)))"

text \<open>Reading one register.\<close>

definition read_register :: "'s wire \<Rightarrow> s32 \<Rightarrow> u8 list \<Rightarrow> u16 \<Rightarrow> ('s, u8 option) driver" where
  "read_register W port serial page =
     then_do (readMemoryDS2408 W port serial page 1) (\<lambda>r. ret (map_option hd r))"

definition readControlRegisterDS2408 :: "'s wire \<Rightarrow> s32 \<Rightarrow> u8 list \<Rightarrow> ('s, u8 option) driver" where
  "readControlRegisterDS2408 W port serial = read_register W port serial DS2408_CONTROL_STATUS_REGISTER_PAGE"

definition writeControlRegisterDS2408 :: "'s wire \<Rightarrow> s32 \<Rightarrow> u8 list \<Rightarrow> u8 \<Rightarrow> ('s, bool) driver" where
  "writeControlRegisterDS2408 W port serial data =
     then_do (writeMemoryDS2408 W port serial DS2408_CONTROL_STATUS_REGISTER_PAGE [data]) (\<lambda>success.
       if success
       then then_do (readControlRegisterDS2408 W port serial) (\<lambda>readback.
            ret (case readback of None \<Rightarrow> False | Some readbackValue \<Rightarrow> and readbackValue 0x0f = and data 0x0f))
       else ret False)"

definition readPIOLogicStateDS2408 :: "'s wire \<Rightarrow> s32 \<Rightarrow> u8 list \<Rightarrow> ('s, u8 option) driver" where
  "readPIOLogicStateDS2408 W port serial = read_register W port serial DS2408_PIO_LOGIC_STATE_PAGE"

text \<open>
  The result is the number of bytes read and, when the checksum is right, the bytes copied to \<open>pData\<close>.
\<close>

definition channelAccessReadDS2408 :: "'s wire \<Rightarrow> s32 \<Rightarrow> u8 list \<Rightarrow> nat \<Rightarrow> ('s, nat \<times> u8 list option) driver" where
  "channelAccessReadDS2408 W port serial numBytesToRead =
     then_do (require (hd serial = FAMILY_PIO)) (\<lambda>_.
     then_do (require (numBytesToRead \<le> DS2408_MAX_BYTES_IN_CHANNEL_ACCESS)) (\<lambda>_.
     then_do (act (owSerialNum W port serial)) (\<lambda>_.
     then_do (call (owAccess W port)) (\<lambda>success.
       if success
       then then_do (block W port (DS2408_COMMAND_CHANNEL_ACCESS_READ #
                      replicate (DS2408_MAX_BYTES_IN_CHANNEL_ACCESS + DS2408_NUM_BYTES_IN_CRC) 0xFF)) (\<lambda>(ok, buffer).
            if ok
            then then_do (check_port port) (\<lambda>_.
              ret (if crc16_accepts buffer
                   then (let bytesRead = DS2408_MAX_BYTES_IN_CHANNEL_ACCESS;
                             bytesRead = (if bytesRead > numBytesToRead then numBytesToRead else bytesRead)
                         in (bytesRead, Some (take numBytesToRead (drop DS2408_NUM_BYTES_IN_COMMAND buffer))))
                   else (0, None)))
            else ret (0, None))
       else ret (0, None)))))"

definition channelAccessWriteDS2408 :: "'s wire \<Rightarrow> s32 \<Rightarrow> u8 list \<Rightarrow> u8 \<Rightarrow> ('s, u8 option) driver" where
  "channelAccessWriteDS2408 W port serial data =
     then_do (require (hd serial = FAMILY_PIO)) (\<lambda>_.
     then_do (act (owSerialNum W port serial)) (\<lambda>_.
     then_do (call (owAccess W port)) (\<lambda>success.
       if success
       then then_do (block W port ([DS2408_COMMAND_CHANNEL_ACCESS_WRITE, data, not data] @
                      replicate (DS2408_MINIMUM_BUFFER_SIZE - 3) 0xFF)) (\<lambda>(ok, buffer).
            ret (if ok then if buffer ! 3 \<noteq> DS2408_CONFIRM_VALUE then None else Some (buffer ! 4) else None))
       else ret None)))"

definition readPIOOutputLatchStateRegisterDS2408 :: "'s wire \<Rightarrow> s32 \<Rightarrow> u8 list \<Rightarrow> ('s, u8 option) driver" where
  "readPIOOutputLatchStateRegisterDS2408 W port serial =
     read_register W port serial DS2408_PIO_OUTPUT_LATCH_STATE_REGISTER_PAGE"

definition readPIOActivityLatchStateRegisterDS2408 :: "'s wire \<Rightarrow> s32 \<Rightarrow> u8 list \<Rightarrow> ('s, u8 option) driver" where
  "readPIOActivityLatchStateRegisterDS2408 W port serial =
     read_register W port serial DS2408_PIO_ACTIVITY_LATCH_STATE_REGISTER_PAGE"

definition resetActivityLatchesDS2408 :: "'s wire \<Rightarrow> s32 \<Rightarrow> u8 list \<Rightarrow> ('s, bool) driver" where
  "resetActivityLatchesDS2408 W port serial =
     then_do (require (hd serial = FAMILY_PIO)) (\<lambda>_.
     then_do (act (owSerialNum W port serial)) (\<lambda>_.
     then_do (call (owAccess W port)) (\<lambda>success.
       if success
       then then_do (block W port (DS2408_COMMAND_RESET_ACTIVITY_LATCHES #
                      replicate (DS2408_MINIMUM_BUFFER_SIZE - 1) 0xFF)) (\<lambda>(ok, buffer).
            ret (if ok then if buffer ! 1 \<noteq> DS2408_CONFIRM_VALUE then False else True else False))
       else ret False)))"

definition readCSChannelSelectionMaskRegisterDS2408 :: "'s wire \<Rightarrow> s32 \<Rightarrow> u8 list \<Rightarrow> ('s, u8 option) driver" where
  "readCSChannelSelectionMaskRegisterDS2408 W port serial =
     read_register W port serial DS2408_CS_CHANNEL_SELECTION_MASK_PAGE"

definition writeCSChannelSelectionMaskRegisterDS2408 :: "'s wire \<Rightarrow> s32 \<Rightarrow> u8 list \<Rightarrow> u8 \<Rightarrow> ('s, bool) driver" where
  "writeCSChannelSelectionMaskRegisterDS2408 W port serial data =
     then_do (writeMemoryDS2408 W port serial DS2408_CS_CHANNEL_SELECTION_MASK_PAGE [data]) (\<lambda>success.
       if success
       then then_do (readCSChannelSelectionMaskRegisterDS2408 W port serial) (\<lambda>readback.
            ret (case readback of None \<Rightarrow> False | Some readbackValue \<Rightarrow> readbackValue = data))
       else ret False)"

definition readCSChannelPolaritySelectionRegisterDS2408 :: "'s wire \<Rightarrow> s32 \<Rightarrow> u8 list \<Rightarrow> ('s, u8 option) driver" where
  "readCSChannelPolaritySelectionRegisterDS2408 W port serial =
     read_register W port serial DS2408_CS_CHANNEL_POLARITY_SELECTION_PAGE"

definition writeCSChannelPolaritySelectionRegisterDS2408 :: "'s wire \<Rightarrow> s32 \<Rightarrow> u8 list \<Rightarrow> u8 \<Rightarrow> ('s, bool) driver" where
  "writeCSChannelPolaritySelectionRegisterDS2408 W port serial data =
     then_do (writeMemoryDS2408 W port serial DS2408_CS_CHANNEL_POLARITY_SELECTION_PAGE [data]) (\<lambda>success.
       if success
       then then_do (readCSChannelPolaritySelectionRegisterDS2408 W port serial) (\<lambda>readback.
            ret (case readback of None \<Rightarrow> False | Some readbackValue \<Rightarrow> readbackValue = data))
       else ret False)"

end
