(* ===== verification/OneWire_Properties.thy ===== *)
theory OneWire_Properties
  imports OneWire
begin

section \<open>The checksums of the OneWire link\<close>

text \<open>
  The two checksums are looked up in tables; here they are shown to be the remainders that shifting bit by bit computes, for
  the polynomials X^8 + X^5 + X^4 + 1 and X^16 + X^15 + X^2 + 1 with the lowest bit first.  A step of either shift register
  loses nothing, so two messages that differ in one byte only have different checksums.
\<close>

subsection \<open>The shift registers\<close>

definition crc8_step :: "u8 \<Rightarrow> u8" where
  "crc8_step x = xor (drop_bit 1 x) (if bit x 0 then 0x8C else 0)"

definition crc16_step :: "u16 \<Rightarrow> u16" where
  "crc16_step x = xor (drop_bit 1 x) (if bit x 0 then 0xA001 else 0)"

definition eight_times :: "('a \<Rightarrow> 'a) \<Rightarrow> 'a \<Rightarrow> 'a" where
  "eight_times f x = f (f (f (f (f (f (f (f x)))))))"

lemma word_xor_eq_0: "xor x y = 0 \<longleftrightarrow> x = (y :: 'a::len word)"
proof
  assume "xor x y = 0"
  then have "xor (xor x y) y = y"
    by simp
  then show "x = y"
    by (simp add: xor.assoc)
qed simp

text \<open>What is true of both registers, for a polynomial whose top bit is set.\<close>

locale shift_register =
  fixes step :: "'a::len word \<Rightarrow> 'a word" and poly :: "'a word"
  assumes step: "step x = xor (drop_bit 1 x) (if bit x 0 then poly else 0)"
    and top: "bit poly (LENGTH('a) - 1)"
begin

lemma step_xor: "step (xor x y) = xor (step x) (step y)"
  by (rule bit_word_eqI) (auto simp: step bit_simps)

lemma step_eq_0: "step x = 0 \<Longrightarrow> x = 0"
proof -
  assume eq: "step x = 0"
  have "bit (step x) (LENGTH('a) - 1) \<longleftrightarrow> bit x 0"
    using top by (auto simp: step bit_simps dest: bit_imp_le_length)
  then have "\<not> bit x 0"
    using eq by simp
  then have "drop_bit 1 x = 0"
    using eq by (simp add: step)
  then have "\<not> bit x (Suc n)" for n
    by (metis bit_0_eq bit_drop_bit_eq bot_apply bot_bool_def comp_apply plus_1_eq_Suc)
  with \<open>\<not> bit x 0\<close> show "x = 0"
    by (intro bit_word_eqI) (metis bit_0_eq bot_apply bot_bool_def not0_implies_Suc)
qed

lemma eight_xor: "eight_times step (xor x y) = xor (eight_times step x) (eight_times step y)"
  by (simp add: eight_times_def step_xor)

lemma eight_eq_0: "eight_times step x = 0 \<Longrightarrow> x = 0"
  unfolding eight_times_def by (drule step_eq_0)+

lemma eight_inj: "eight_times step x = eight_times step y \<longleftrightarrow> x = y"
  using eight_xor [of x y] eight_eq_0 [of "xor x y"] by (auto simp: word_xor_eq_0)

end

interpretation crc8: shift_register crc8_step "0x8C"
  by unfold_locales (simp_all add: crc8_step_def bit_numeral_rec)

interpretation crc16: shift_register crc16_step "0xA001"
  by unfold_locales (simp_all add: crc16_step_def)

subsection \<open>The tables\<close>

text \<open>A byte is the exclusive or of its halves, so the sixteen values of each half determine all.\<close>

definition low_half :: "u8 \<Rightarrow> nat" where "low_half x = unat x mod 16"

definition high_half :: "u8 \<Rightarrow> nat" where "high_half x = unat x div 16"

lemma half_less: "low_half x < 16" "high_half x < 16"
  using unat_u8_less [of x] by (simp_all add: low_half_def high_half_def less_mult_imp_div_less)

lemma halves: "unat x = 16 * high_half x + low_half x"
  by (simp add: low_half_def high_half_def)

lemma half_words: "low_half x = unat (take_bit 4 x)" "high_half x = unat (drop_bit 4 x)"
  by (simp_all add: low_half_def high_half_def take_bit_eq_mod drop_bit_eq_div unat_mod_distrib unat_div_distrib)

lemma byte_halves: "x = xor (push_bit 4 (word_of_nat (high_half x))) (word_of_nat (low_half x))"
  unfolding half_words by (rule bit_word_eqI) (auto simp: bit_simps)

text \<open>An element of a table of sixteen rows of sixteen.\<close>

lemma nth_concat_rows:
  "\<forall>r\<in>set rows. length r = m \<Longrightarrow> k < length rows \<Longrightarrow> i < m \<Longrightarrow> concat rows ! (m * k + i) = rows ! k ! i"
proof (induction rows arbitrary: k)
  case (Cons r rows)
  then show ?case
    by (cases k) (simp_all add: nth_append algebra_simps)
qed simp

definition crc8_high :: "u8 list" where
  "crc8_high = [0, 157, 35, 190, 70, 219, 101, 248, 140, 17, 175, 50, 202, 87, 233, 116]"

definition crc8_low :: "u8 list" where
  "crc8_low = [0, 94, 188, 226, 97, 63, 221, 131, 194, 156, 126, 32, 163, 253, 31, 65]"

lemma dscrc_table_rows: "dscrc_table = concat (map (\<lambda>h. map (xor h) crc8_low) crc8_high)"
  by (simp add: dscrc_table_def crc8_high_def crc8_low_def)

lemma crc8_high_steps: "map (\<lambda>n. eight_times crc8_step (push_bit 4 (word_of_nat n))) [0..<16] = crc8_high"
  by (simp add: upt_rec eight_times_def crc8_step_def crc8_high_def)

lemma crc8_low_steps: "map (\<lambda>n. eight_times crc8_step (word_of_nat n)) [0..<16] = crc8_low"
  by (simp add: upt_rec eight_times_def crc8_step_def crc8_low_def)

lemma nth_upt_map: "map f [0..<n] = ys \<Longrightarrow> i < n \<Longrightarrow> ys ! i = f i"
  by auto

lemma dscrc_table_steps: "dscrc_table ! unat x = eight_times crc8_step x"
proof -
  have "length crc8_high = 16" and "length crc8_low = 16"
    by (simp_all add: crc8_high_def crc8_low_def)
  then have "dscrc_table ! unat x = xor (crc8_high ! high_half x) (crc8_low ! low_half x)"
    unfolding dscrc_table_rows halves using half_less [of x] by (subst nth_concat_rows) simp_all
  also have "\<dots> = eight_times crc8_step (xor (push_bit 4 (word_of_nat (high_half x))) (word_of_nat (low_half x)))"
    using half_less [of x] nth_upt_map [OF crc8_high_steps] nth_upt_map [OF crc8_low_steps] by (simp add: crc8.eight_xor)
  also have "\<dots> = eight_times crc8_step x"
    using byte_halves [of x] by simp
  finally show ?thesis .
qed

text \<open>The other checksum: what the code adds for a byte \<open>i\<close> of the register and the data.\<close>

definition crc16_byte :: "u8 \<Rightarrow> u16" where
  "crc16_byte i =
     xor (if oddparity ! low_half i \<noteq> oddparity ! high_half i then 0xc001 else 0)
       (xor (push_bit 6 (ucast i)) (push_bit 7 (ucast i)))"

lemma bit_low_masks: "bit (255 :: int) n \<longleftrightarrow> n < 8" "bit (15 :: int) n \<longleftrightarrow> n < 4"
proof -
  have masks: "(255 :: int) = Bit_Operations.mask 8" "(15 :: int) = Bit_Operations.mask 4"
    by (simp_all add: mask_eq_exp_minus_1)
  show "bit (255 :: int) n \<longleftrightarrow> n < 8" "bit (15 :: int) n \<longleftrightarrow> n < 4"
    unfolding masks bit_mask_iff by simp_all
qed

lemma unat_ucast_u8: "unat (ucast y :: u16) = unat y" for y :: u8
  using unat_u8_less [of y] by (simp add: unsigned_ucast_eq take_bit_eq_mod)

lemma docrc16_byte: "docrc16 crc (ucast x) = xor (drop_bit 8 crc) (crc16_byte (xor x (ucast crc)))" for x :: u8
proof -
  let ?i = "xor x (ucast crc)"
  have data: "and (xor (ucast x) (and crc 255)) 255 = (ucast ?i :: u16)"
    by (rule bit_word_eqI) (auto simp: bit_simps bit_low_masks dest: bit_imp_le_length)
  have "and (ucast ?i) 15 = (ucast (take_bit 4 ?i) :: u16)"
    by (rule bit_word_eqI) (auto simp: bit_simps bit_low_masks)
  then have low: "unat (and (ucast ?i) 15 :: u16) = low_half ?i"
    by (simp only: unat_ucast_u8 half_words)
  have "drop_bit 4 (ucast ?i) = (ucast (drop_bit 4 ?i) :: u16)"
    by (rule bit_word_eqI) (auto simp: bit_simps dest: bit_imp_le_length)
  then have high: "unat (drop_bit 4 (ucast ?i) :: u16) = high_half ?i"
    by (simp only: unat_ucast_u8 half_words)
  have twice: "push_bit 1 (push_bit 6 y) = push_bit 7 y" for y :: u16
    by simp
  show ?thesis
    unfolding docrc16_def Let_def data low high twice crc16_byte_def by (simp add: xor.assoc)
qed

text \<open>The halves of that byte contribute separately.\<close>

definition parity_word :: "nat \<Rightarrow> u16" where
  "parity_word n = (if oddparity ! n = 1 then 0xc001 else 0)"

lemma oddparity_01: "n < 16 \<Longrightarrow> oddparity ! n = 0 \<or> oddparity ! n = 1"
  by (auto simp: oddparity_def less_Suc_eq numeral_eq_Suc)

lemma parity_words:
  "a < 16 \<Longrightarrow> b < 16 \<Longrightarrow>
   (if oddparity ! a \<noteq> oddparity ! b then 0xc001 else 0) = xor (parity_word a) (parity_word b)"
  using oddparity_01 [of a] oddparity_01 [of b] by (auto simp: parity_word_def)

lemma crc16_low_steps:
  "map (\<lambda>n. eight_times crc16_step (word_of_nat n)) [0..<16] =
   map (\<lambda>n. xor (parity_word n) (xor (push_bit 6 (word_of_nat n)) (push_bit 7 (word_of_nat n)))) [0..<16]"
  by (simp add: upt_rec eight_times_def crc16_step_def parity_word_def oddparity_def)

lemma crc16_high_steps:
  "map (\<lambda>n. eight_times crc16_step (push_bit 4 (word_of_nat n))) [0..<16] =
   map (\<lambda>n. xor (parity_word n) (xor (push_bit 10 (word_of_nat n)) (push_bit 11 (word_of_nat n)))) [0..<16]"
  by (simp add: upt_rec eight_times_def crc16_step_def parity_word_def oddparity_def)

lemma ucast_halves:
  "(ucast x :: u16) = xor (push_bit 4 (word_of_nat (high_half x))) (word_of_nat (low_half x))"
  "push_bit 6 (ucast x :: u16) = xor (push_bit 10 (word_of_nat (high_half x))) (push_bit 6 (word_of_nat (low_half x)))"
  "push_bit 7 (ucast x :: u16) = xor (push_bit 11 (word_of_nat (high_half x))) (push_bit 7 (word_of_nat (low_half x)))"
  unfolding half_words by (auto intro!: bit_word_eqI simp: bit_simps dest: bit_imp_le_length)

lemma xor_regroup: "xor (xor a b) (xor (xor c d) (xor e f)) = xor (xor a (xor c e)) (xor b (xor d f))" for a :: u16
  by (simp add: ac_simps)

lemma crc16_byte_steps: "crc16_byte x = eight_times crc16_step (ucast x)"
proof -
  let ?h = "high_half x" and ?l = "low_half x"
  have "crc16_byte x =
      xor (xor (parity_word ?h) (xor (push_bit 10 (word_of_nat ?h)) (push_bit 11 (word_of_nat ?h))))
        (xor (parity_word ?l) (xor (push_bit 6 (word_of_nat ?l)) (push_bit 7 (word_of_nat ?l))))"
    unfolding crc16_byte_def parity_words [OF half_less] ucast_halves xor_regroup [symmetric]
    by (simp add: ac_simps)
  also have "\<dots> = eight_times crc16_step (xor (push_bit 4 (word_of_nat ?h)) (word_of_nat ?l))"
    using nth_upt_map [OF crc16_high_steps half_less(2) [of x]] nth_upt_map [OF crc16_low_steps half_less(1) [of x]]
      half_less [of x] by (simp add: crc16.eight_xor)
  finally show ?thesis
    by (simp add: ucast_halves(1))
qed

lemma crc16_even: "\<not> bit x 0 \<Longrightarrow> crc16_step x = drop_bit 1 x"
  by (simp add: crc16_step_def)

lemma crc16_high_byte:
  assumes "take_bit 8 x = 0"
  shows "eight_times crc16_step x = drop_bit 8 x"
proof -
  have low: "\<not> bit x n" if "n < 8" for n
    using assms that by (metis bit_0_eq bit_take_bit_iff bot_apply bot_bool_def)
  then show ?thesis
    by (simp add: eight_times_def crc16_even bit_drop_bit_eq eval_nat_numeral)
qed

lemma docrc16_steps: "docrc16 crc (ucast x) = eight_times crc16_step (xor crc (ucast x))" for x :: u8
proof -
  let ?high = "push_bit 8 (drop_bit 8 crc)"
  have split: "xor crc (ucast x) = xor ?high (ucast (xor x (ucast crc)))"
    by (rule bit_word_eqI) (auto simp: bit_simps dest: bit_imp_le_length)
  have "take_bit 8 ?high = 0" and "drop_bit 8 ?high = drop_bit 8 crc"
    by (rule bit_word_eqI; auto simp: bit_simps dest: bit_imp_le_length)+
  then show ?thesis
    unfolding docrc16_byte split crc16.eight_xor crc16_byte_steps by (simp add: crc16_high_byte)
qed

text \<open>
  C33.  The checksums computed with tables are the ones of the data sheets: each byte of data is added to the register, which is then
  shifted by eight bits, the polynomial being added whenever a one drops out.
\<close>

theorem checksums_are_remainders:
  "docrc8 crc x = eight_times crc8_step (xor crc x)
   \<and> docrc16 crc' (ucast x) = eight_times crc16_step (xor crc' (ucast x))"
  by (simp_all add: docrc8_def dscrc_table_steps docrc16_steps)

subsection \<open>Detection of errors\<close>

lemma docrc8_inj: "docrc8 c x = docrc8 d y \<longleftrightarrow> xor c x = xor d y"
  by (simp add: docrc8_def dscrc_table_steps crc8.eight_inj)

lemma docrc16_inj: "docrc16 c (ucast x) = docrc16 d (ucast y) \<longleftrightarrow> xor c (ucast x) = xor d (ucast y)" for x y :: u8
  by (simp add: docrc16_steps crc16.eight_inj)

text \<open>A step of a checksum keeps different registers apart, and different bytes too.\<close>

locale checksum =
  fixes add :: "u8 \<Rightarrow> 'a \<Rightarrow> 'a"
  assumes add_register: "add x c = add x d \<longleftrightarrow> c = d"
    and add_byte: "add x c = add y c \<longleftrightarrow> x = y"
begin

lemma fold_inj: "fold add bs c = fold add bs d \<longleftrightarrow> c = d"
  by (induction bs arbitrary: c d) (simp_all add: add_register)

lemma corrupted_byte:
  assumes "i < length bs"
  shows "fold add (bs[i := y]) c = fold add bs c \<longleftrightarrow> y = bs ! i"
proof -
  have "bs[i := y] = take i bs @ y # drop (Suc i) bs" and "bs = take i bs @ bs ! i # drop (Suc i) bs"
    using assms by (simp_all add: upd_conv_take_nth_drop id_take_nth_drop)
  then have "fold add (bs[i := y]) c = fold add (drop (Suc i) bs) (add y (fold add (take i bs) c))"
    and "fold add bs c = fold add (drop (Suc i) bs) (add (bs ! i) (fold add (take i bs) c))"
    by (metis fold_append fold_simps(2) comp_apply)+
  then show ?thesis
    by (simp add: fold_inj add_byte)
qed

end

lemma xor_cancel_right: "xor c x = xor d x \<longleftrightarrow> c = d" for c d x :: "'a::len word"
proof
  assume "xor c x = xor d x"
  then have "xor (xor c x) x = xor (xor d x) x"
    by simp
  then show "c = d"
    by (simp add: xor.assoc)
qed simp

lemma xor_cancel_left: "xor c x = xor c y \<longleftrightarrow> x = y" for c x y :: "'a::len word"
  using xor_cancel_right [of x c y] by (simp add: xor.commute)

interpretation sum8: checksum "\<lambda>x crc. docrc8 crc x"
  by unfold_locales (simp_all add: docrc8_inj xor_cancel_left xor_cancel_right)

lemma ucast_u8_inj: "(ucast x :: u16) = ucast y \<longleftrightarrow> x = y" for x y :: u8
  by (metis unat_ucast_u8 word_unat_eq_iff)

interpretation sum16: checksum "\<lambda>x crc. docrc16 crc (ucast x)"
  by unfold_locales (simp_all add: docrc16_inj xor_cancel_left xor_cancel_right ucast_u8_inj)

end
