(* ===== verification/Ds2408_Properties.thy ===== *)
theory Ds2408_Properties
  imports Ds2408 OneWire_Properties
begin

section \<open>The driver of the PIO chip is right\<close>

subsection \<open>Calls of the drivers never run into an assertion\<close>

lemma faults_ds2408:
  assumes "hd serial = FAMILY_PIO"
  shows "faults {Bad_Access} (readPIOLogicStateDS2408 W port serial)"
    and "faults {Bad_Access} (readPIOActivityLatchStateRegisterDS2408 W port serial)"
    and "faults {Bad_Access} (resetActivityLatchesDS2408 W port serial)"
    and "faults {Bad_Access} (channelAccessWriteDS2408 W port serial v)"
    and "faults {Bad_Access} (disableTestModeDS2408 W port serial)"
    and "faults {Bad_Access} (writeControlRegisterDS2408 W port serial v)"
  unfolding readPIOLogicStateDS2408_def readPIOActivityLatchStateRegisterDS2408_def resetActivityLatchesDS2408_def
    channelAccessWriteDS2408_def disableTestModeDS2408_def writeControlRegisterDS2408_def readControlRegisterDS2408_def
    read_register_def readMemoryDS2408_def writeMemoryDS2408_def
  using assms by (auto intro!: driver_faults faults_check_port)

subsection \<open>A chip that obeys its data sheet\<close>

text \<open>
  What the driver relies on.  \<open>regs s a\<close> is the register at address \<open>a\<close>.  A chip that has been selected can be accessed; then it
  answers a read from an address with the registers up to the last one and the inverted checksum of command and
  data; it takes a byte for the two masks, and the lower half of a byte for the control register; and it confirms
  a channel access write by 0xAA and the state of the pins, having set its output latch.
\<close>

definition read_command :: "u16 \<Rightarrow> u8 list" where
  "read_command page = [0xF0, ucast page, ucast (drop_bit 8 page)]"

definition registers_from :: "(u16 \<Rightarrow> u8) \<Rightarrow> u16 \<Rightarrow> u8 list" where
  "registers_from r page = map (\<lambda>k. r (page + of_nat k)) [0..<(0x8F - unat page) + 1]"

definition crc16_bytes :: "u8 list \<Rightarrow> u8 list" where
  "crc16_bytes bs = [ucast (not (crc16 bs)), ucast (drop_bit 8 (not (crc16 bs)))]"

definition written_register :: "(u16 \<Rightarrow> u8) \<Rightarrow> u16 \<Rightarrow> u8 \<Rightarrow> u16 \<Rightarrow> u8" where
  "written_register r page v = r(page := if page = 0x8D then or (and (r page) 0xF0) (and v 0x0F) else v)"

definition obeys_ds2408 :: "'s wire \<Rightarrow> s32 \<Rightarrow> u8 list \<Rightarrow> ('s \<Rightarrow> u16 \<Rightarrow> u8) \<Rightarrow> bool" where
  "obeys_ds2408 W port serial regs \<longleftrightarrow> (\<forall>s t ok.
     owAccess W port (owSerialNum W port serial s) = (ok, t) \<longrightarrow>
       ok \<and> regs t = regs s
     \<and> (\<forall>page\<in>{0x88..0x8F}. \<exists>u.
          owBlock W port (read_command page @ replicate ((0x8F - unat page) + 1 + 2) 0xFF) t =
            ((True, read_command page @ registers_from (regs s) page @
                crc16_bytes (read_command page @ registers_from (regs s) page)), u) \<and> regs u = regs s)
     \<and> (\<forall>page\<in>{0x8B..0x8D}. \<forall>v. \<exists>r u.
          owBlock W port [0xCC, ucast page, ucast (drop_bit 8 page), v] t = ((True, r), u)
          \<and> regs u = written_register (regs s) page v)
     \<and> (\<forall>v. \<exists>u. owBlock W port [0x5A, v, not v, 0xFF, 0xFF] t = ((True, [0x5A, v, not v, 0xAA, regs u 0x88]), u)
          \<and> regs u 0x89 = v))"

text \<open>A received block that ends in the inverted checksum of the rest is accepted.\<close>

lemma crc16_accepts_crc: "crc16_accepts (bs @ crc16_bytes bs)"
proof -
  have halves: "ucast (ucast w :: u8) + push_bit 8 (ucast (ucast (drop_bit 8 w) :: u8)) = w" for w :: u16
  proof -
    have "ucast (ucast w :: u8) + push_bit 8 (ucast (ucast (drop_bit 8 w) :: u8)) =
        or (ucast (ucast w :: u8)) (push_bit 8 (ucast (ucast (drop_bit 8 w) :: u8)))"
      by (rule disjunctive_add) (auto simp: bit_simps)
    also have "\<dots> = w"
      by (rule bit_word_eqI) (auto simp: bit_simps)
    finally show ?thesis .
  qed
  show ?thesis
    by (simp add: crc16_accepts_def crc16_bytes_def nth_append halves)
qed

lemma length_parts [simp]: "length (read_command page) = 3" "length (registers_from r page) = (0x8F - unat page) + 1"
  "length (crc16_bytes bs) = 2"
  by (simp_all add: read_command_def registers_from_def crc16_bytes_def)

lemma hd_registers [simp]: "hd (registers_from r page) = r page"
  by (simp add: registers_from_def upt_conv_Cons del: upt_Suc)

lemma read_register_obeys:
  assumes chip: "obeys_ds2408 W port serial regs" and port: "unat (and port 0xFF) < MAX_PORTNUM"
    and serial: "hd serial = FAMILY_PIO" and page: "0x88 \<le> page" "page \<le> 0x8D"
  shows "gives (read_register W port serial page) s (\<lambda>r s'. r = Some (regs s page) \<and> regs s' = regs s)"
proof -
  obtain ok t where access: "owAccess W port (owSerialNum W port serial s) = (ok, t)"
    by fastforce
  have "page \<le> 0x8F"
    by (rule order_trans [OF page(2)]) simp
  with chip access page obtain u where "ok"
    and read: "owBlock W port (read_command page @ replicate ((0x8F - unat page) + 1 + 2) 0xFF) t =
       ((True, read_command page @ registers_from (regs s) page @
          crc16_bytes (read_command page @ registers_from (regs s) page)), u)" "regs u = regs s"
    unfolding obeys_ds2408_def by (metis atLeastAtMost_iff)
  have cmd: "[0xF0, ucast page, ucast (drop_bit 8 page)] = read_command page"
    by (simp add: read_command_def)
  have accepted: "crc16_accepts (read_command page @ registers_from (regs s) page @
          crc16_bytes (read_command page @ registers_from (regs s) page))"
    using crc16_accepts_crc [of "read_command page @ registers_from (regs s) page"] by simp
  show ?thesis
    unfolding read_register_def readMemoryDS2408_def ds2408_commands cmd
    using access \<open>ok\<close> page serial port read accepted by simp
qed

lemma write_register_obeys:
  assumes chip: "obeys_ds2408 W port serial regs"
    and serial: "hd serial = FAMILY_PIO" and page: "0x8B \<le> page" "page \<le> 0x8D"
  shows "gives (writeMemoryDS2408 W port serial page [v]) s (\<lambda>ok s'. ok \<and> regs s' = written_register (regs s) page v)"
proof -
  obtain ok t where access: "owAccess W port (owSerialNum W port serial s) = (ok, t)"
    by fastforce
  with chip page obtain r u where "ok" "owBlock W port [0xCC, ucast page, ucast (drop_bit 8 page), v] t = ((True, r), u)"
      "regs u = written_register (regs s) page v"
    unfolding obeys_ds2408_def by (metis atLeastAtMost_iff)
  moreover have "page \<le> 0x8F"
    by (rule order_trans [OF page(2)]) simp
  ultimately show ?thesis
    unfolding writeMemoryDS2408_def ds2408_commands using access page serial by simp
qed

lemma written_register_simps [simp]: "written_register r page v page = (if page = 0x8D then or (and (r page) 0xF0) (and v 0x0F) else v)"
  by (simp add: written_register_def)

lemma low_half_kept: "and (or (and x 0xF0) (and v 0x0F)) 0x0F = and v (0x0F :: u8)"
  by (simp add: bit.conj_disj_distrib2 and.assoc)


text \<open>A chip whose state is its registers.\<close>

definition ideal_ds2408 :: "(u16 \<Rightarrow> u8) wire" where
  "ideal_ds2408 = \<lparr>
     owSerialNum = \<lambda>_ _ r. r, owReadSerialNum = \<lambda>_ r. ([], r), owAccess = \<lambda>_ r. (True, r), owVerify = \<lambda>_ r. (True, r),
     owBlock = \<lambda>_ b r.
       (let page = or (ucast (b ! 1)) (push_bit 8 (ucast (b ! 2))) in
        if hd b = 0xF0 then
          ((True, take 3 b @ registers_from r page @ crc16_bytes (take 3 b @ registers_from r page)), r)
        else if hd b = 0xCC then ((True, b), written_register r page (b ! 3))
        else ((True, take 3 b @ [0xAA, r 0x88]), r(0x89 := b ! 1))),
     owWriteByte = \<lambda>_ _ r. (True, r), owReadByte = \<lambda>_ r. (0xFF, r), msDelay = \<lambda>_ r. r,
     owFirst = \<lambda>_ r. (False, r), owNext = \<lambda>_ r. (False, r), owAcquireEx = \<lambda>_ r. (0, r), owRelease = \<lambda>_ r. r\<rparr>"

lemma ideal_ds2408_obeys: "obeys_ds2408 ideal_ds2408 port serial (\<lambda>r. r)"
proof -
  have page: "or (ucast (ucast w :: u8)) (push_bit 8 (ucast (ucast (drop_bit 8 w) :: u8))) = w" for w :: u16
    by (rule bit_word_eqI) (auto simp: bit_simps)
  show ?thesis
    by (auto simp: obeys_ds2408_def ideal_ds2408_def page read_command_def Let_def)
qed


subsection \<open>A corrupted byte is noticed\<close>

text \<open>The wire on which bit errors \<open>e\<close> hit byte \<open>i\<close> of what is received in a block.\<close>

definition noisy :: "nat \<Rightarrow> u8 \<Rightarrow> 's wire \<Rightarrow> 's wire" where
  "noisy i e W = W\<lparr>owBlock := \<lambda>port b s. case owBlock W port b s of ((ok, r), s') \<Rightarrow>
     let received = take (length b) r @ drop (length r) b in ((ok, received[i := xor (received ! i) e]), s')\<rparr>"

lemma noisy_sel [simp]:
  "owSerialNum (noisy i e W) = owSerialNum W" "owAccess (noisy i e W) = owAccess W"
  by (simp_all add: noisy_def)

text \<open>What the driver finds in its buffer.\<close>

lemma block_noisy:
  assumes "block W port b s = (Inr (ok, r), s')"
  shows "block (noisy i e W) port b s = (Inr (ok, r[i := xor (r ! i) e]), s')" and "length r = length b"
  using assms by (auto simp: block_def noisy_def driver_simps Let_def split: prod.splits)

lemma crc_tail_inj:
  "ucast a + push_bit 8 (ucast b) = (ucast c + push_bit 8 (ucast d) :: u16) \<longleftrightarrow> a = c \<and> b = d" for a b c d :: u8
proof
  assume eq: "ucast a + push_bit 8 (ucast b) = (ucast c + push_bit 8 (ucast d) :: u16)"
  have join: "(ucast x + push_bit 8 (ucast y) :: u16) = or (ucast x) (push_bit 8 (ucast y))" for x y :: u8
    by (rule disjunctive_add) (auto simp: bit_simps dest: bit_imp_le_length)
  have low: "ucast (or (ucast x) (push_bit 8 (ucast y)) :: u16) = x" for x y :: u8
    by (rule bit_word_eqI) (auto simp: bit_simps)
  have high: "ucast (drop_bit 8 (or (ucast x) (push_bit 8 (ucast y)) :: u16)) = y" for x y :: u8
    by (rule bit_word_eqI) (auto simp: bit_simps dest: bit_imp_le_length)
  show "a = c \<and> b = d"
    using eq low high unfolding join by metis
qed simp

lemma crc16_accepts_corrupted:
  assumes "crc16_accepts bs" and "i < length bs" and "y \<noteq> bs ! i" and "2 \<le> length bs"
  shows "\<not> crc16_accepts (bs[i := y])"
proof (cases "i < length bs - 2")
  case True
  then have "take (length bs - 2) (bs[i := y]) = (take (length bs - 2) bs)[i := y]"
    by (simp add: take_update_swap)
  moreover have "crc16 ((take (length bs - 2) bs)[i := y]) \<noteq> crc16 (take (length bs - 2) bs)"
    unfolding crc16_def using True assms(3) by (subst sum16.corrupted_byte) auto
  ultimately show ?thesis
    using assms(1) True by (auto simp: crc16_accepts_def Let_def dest: xor_cancel_right [THEN iffD1, OF trans, OF _ sym])
next
  case False
  then have same: "take (length bs - 2) (bs[i := y]) = take (length bs - 2) bs"
    by (simp add: take_update_swap list_update_beyond)
  have last: "i = length bs - 2 \<or> i = length bs - 1"
    using False assms(2) by linarith
  show ?thesis
  proof
    assume "crc16_accepts (bs[i := y])"
    then have "bs ! (length bs - 2) = bs[i := y] ! (length bs - 2) \<and> bs ! (length bs - 1) = bs[i := y] ! (length bs - 1)"
      using assms(1) unfolding crc16_accepts_def Let_def length_list_update same
      by (metis xor_cancel_left crc_tail_inj)
    then show False
      using last assms by auto
  qed
qed

lemma xor_noise [simp]: "xor x e = x \<longleftrightarrow> e = 0" for x e :: u8
  using xor_cancel_left [of x e 0] by simp

lemma block_run: "\<exists>ok r s'. block W port b s = (Inr (ok, r), s')"
  by (auto simp: block_def driver_simps split: prod.splits)

lemma readMemoryDS2408_noisy:
  assumes "e \<noteq> 0" and i: "i < (0x8F - unat page) + 6"
    and run: "readMemoryDS2408 W port serial page num s = (Inr (Some mem), t)"
  shows "readMemoryDS2408 (noisy i e W) port serial page num s = (Inr None, t)"
proof -
  let ?b = "[DS2408_COMMAND_READ_PIO_REGISTERS, ucast page, ucast (drop_bit 8 page)] @ replicate ((0x8F - unat page) + 1 + 2) 0xFF"
  obtain ok t0 where access: "owAccess W port (owSerialNum W port serial s) = (ok, t0)"
    by fastforce
  obtain ok' r t1 where block: "block W port ?b t0 = (Inr (ok', r), t1)"
    using block_run [of W port ?b t0] by blast
  have "ok" "ok'" "crc16_accepts r" "t1 = t"
    using run access block unfolding readMemoryDS2408_def
    by (auto simp: driver_simps check_port_def split: if_splits)
  moreover have "\<not> crc16_accepts (r[i := xor (r ! i) e])"
    using \<open>crc16_accepts r\<close> block_noisy(2) [OF block] i assms(1) by (intro crc16_accepts_corrupted) simp_all
  ultimately show ?thesis
    using run access block block_noisy(1) [OF block, of i e] unfolding readMemoryDS2408_def
    by (auto simp: driver_simps check_port_def split: if_splits)
qed

end
