(* ===== verification/Ds2438_Properties.thy ===== *)
theory Ds2438_Properties
  imports Ds2438 Ds2408_Properties
begin

section \<open>What the driver of the battery monitor achieves\<close>

subsection \<open>A chip that obeys its data sheet\<close>

text \<open>
  The memory of the chip: eight pages, and the scratchpad through which they are read and written.  In the page of the
  configuration only the lower half of the configuration byte and the threshold can be written, the rest are measurements.
\<close>

record ds2438 =
  pages :: "u8 \<Rightarrow> u8 list"
  scratchpad :: "u8 \<Rightarrow> u8 list"

definition write_mask :: "u8 \<Rightarrow> nat \<Rightarrow> u8" where
  "write_mask page i = (if page = 0 then if i = 0 then 0x0F else if i = 7 then 0xFF else 0 else 0xFF)"

definition overwrite :: "u8 \<Rightarrow> u8 list \<Rightarrow> u8 list \<Rightarrow> u8 list" where
  "overwrite page data old =
     map (\<lambda>i. if i < length data then or (and (old ! i) (not (write_mask page i))) (and (data ! i) (write_mask page i)) else old ! i)
       [0..<8]"

definition recall :: "u8 \<Rightarrow> ds2438 \<Rightarrow> ds2438" where
  "recall page m = m\<lparr>scratchpad := (scratchpad m)(page := pages m page)\<rparr>"

definition write_pad :: "u8 \<Rightarrow> u8 list \<Rightarrow> ds2438 \<Rightarrow> ds2438" where
  "write_pad page data m = m\<lparr>scratchpad := (scratchpad m)(page := overwrite page data (scratchpad m page))\<rparr>"

definition copy_pad :: "u8 \<Rightarrow> ds2438 \<Rightarrow> ds2438" where
  "copy_pad page m = m\<lparr>pages := (pages m)(page := scratchpad m page)\<rparr>"

text \<open>
  What the driver relies on.  \<open>mem s\<close> is the memory, \<open>sel s\<close> says that the chip is the one selected, and \<open>busy s\<close> how often it
  will still answer a read by zero because it is busy.  A selected chip can be accessed.  Then it obeys the commands to recall, read, write
  and copy a page (each page with its checksum); it is never busy for more than 253 reads.  The clock and the measured
  quantities stand still meanwhile, so a conversion leaves the registers as they are.
\<close>

definition takes_commands :: "'s wire \<Rightarrow> s32 \<Rightarrow> ('s \<Rightarrow> ds2438) \<Rightarrow> ('s \<Rightarrow> bool) \<Rightarrow> ('s \<Rightarrow> nat) \<Rightarrow> ds2438 \<Rightarrow> 's \<Rightarrow> bool" where
  "takes_commands W port mem sel busy m t \<longleftrightarrow>
     (\<forall>p<8. (\<exists>r u. owBlock W port [0xB8, p] t = ((True, r), u) \<and> sel u \<and> mem u = recall p m)
       \<and> (\<exists>u. owBlock W port ([0xBE, p] @ replicate 9 0xFF) t =
             ((True, [0xBE, p] @ scratchpad m p @ [crc8 (scratchpad m p)]), u) \<and> sel u \<and> mem u = m)
       \<and> (\<forall>data. length data \<le> 8 \<longrightarrow>
             (\<exists>r u. owBlock W port ([0x4E, p] @ data) t = ((True, r), u) \<and> sel u \<and> mem u = write_pad p data m))
       \<and> (\<exists>r u. owBlock W port [0x48, p] t = ((True, r), u) \<and> sel u \<and> mem u = copy_pad p m \<and> busy u \<le> 253))
   \<and> (\<forall>c\<in>{0x44, 0xB4}. \<exists>u. owWriteByte W port c t = (True, u) \<and> sel u \<and> mem u = m \<and> busy u \<le> 253)"

definition obeys_ds2438 :: "'s wire \<Rightarrow> s32 \<Rightarrow> u8 list \<Rightarrow> ('s \<Rightarrow> ds2438) \<Rightarrow> ('s \<Rightarrow> bool) \<Rightarrow> ('s \<Rightarrow> nat) \<Rightarrow> bool" where
  "obeys_ds2438 W port serial mem sel busy \<longleftrightarrow>
     (\<forall>s p. length (scratchpad (mem s) p) = 8 \<and> length (pages (mem s) p) = 8)
   \<and> (\<forall>s. sel (owSerialNum W port serial s) \<and> mem (owSerialNum W port serial s) = mem s)
   \<and> (\<forall>s. sel s \<longrightarrow> (\<exists>t. owAccess W port s = (True, t) \<and> sel t \<and> mem t = mem s
         \<and> takes_commands W port mem sel busy (mem s) t))
   \<and> (\<forall>s. sel s \<longrightarrow> (\<exists>b u. owReadByte W port s = (b, u) \<and> sel u \<and> mem u = mem s
         \<and> (if busy s = 0 then b \<noteq> 0 else b = 0 \<and> busy u = busy s - 1)))
   \<and> (\<forall>s n. mem (msDelay W n s) = mem s)"

definition chip_port :: "s32 \<Rightarrow> u8 list \<Rightarrow> bool" where
  "chip_port port serial \<longleftrightarrow> unat (and port 0xFF) < MAX_PORTNUM \<and> hd serial = FAMILY_SBATTERY"

subsection \<open>Pages\<close>

lemmas ds2438_commands = DS4238_COMMAND_RECALL_MEMORY_def DS4238_COMMAND_READ_SCRATCHPAD_def
  DS4238_COMMAND_WRITE_SCRATCHPAD_def DS4238_COMMAND_COPY_SCRATCHPAD_def DS2438_COMMAND_READ_AD_def
  DS2438_COMMAND_READ_TEMPERATURE_def

lemma docrc8_same: "docrc8 c c = 0"
  by (simp add: docrc8_def dscrc_table_def)

lemma crc8_append: "crc8 (bs @ [crc8 bs]) = 0"
  by (simp add: crc8_def docrc8_same)

lemma obeysD:
  assumes "obeys_ds2438 W port serial mem sel busy"
  shows length_pages: "length (scratchpad (mem s) p) = 8" "length (pages (mem s) p) = 8"
    and select: "sel (owSerialNum W port serial s)" "mem (owSerialNum W port serial s) = mem s"
    and delay: "mem (msDelay W n s) = mem s"
  using assms unfolding obeys_ds2438_def by blast+

lemma access:
  assumes "obeys_ds2438 W port serial mem sel busy" and "sel s"
  obtains t where "owAccess W port s = (True, t)" "sel t" "mem t = mem s" "takes_commands W port mem sel busy (mem s) t"
  using assms unfolding obeys_ds2438_def by blast

lemma select_access:
  assumes "obeys_ds2438 W port serial mem sel busy"
  obtains t where "owAccess W port (owSerialNum W port serial s) = (True, t)" "sel t" "mem t = mem s"
    "takes_commands W port mem sel busy (mem s) t"
  using access [OF assms select(1) [OF assms]] select(2) [OF assms] by metis

lemma readSP_obeys:
  assumes chip: "obeys_ds2438 W port serial mem sel busy" and port: "chip_port port serial" and "page < 8"
  shows "gives (readSPPageDS2438 W port serial page) s (\<lambda>r s'. r = Some (scratchpad (mem s) page) \<and> mem s' = mem s \<and> sel s')"
proof -
  obtain t where t: "owAccess W port (owSerialNum W port serial s) = (True, t)" "takes_commands W port mem sel busy (mem s) t"
    by (rule select_access [OF chip])
  then obtain u where "owBlock W port ([0xBE, page] @ replicate 9 0xFF) t =
      ((True, [0xBE, page] @ scratchpad (mem s) page @ [crc8 (scratchpad (mem s) page)]), u)" "sel u" "mem u = mem s"
    using \<open>page < 8\<close> unfolding takes_commands_def by blast
  with t show ?thesis
    using port \<open>page < 8\<close> length_pages [OF chip, of s page]
    by (simp add: readSPPageDS2438_def chip_port_def ds2438_commands crc8_append)
qed

lemma writeSP_obeys:
  assumes chip: "obeys_ds2438 W port serial mem sel busy" and port: "chip_port port serial" and "page < 8" "length data \<le> 8"
  shows "gives (writeSPPageDS2438 W port serial page data) s (\<lambda>ok s'. ok \<and> mem s' = write_pad page data (mem s) \<and> sel s')"
proof -
  obtain t where t: "owAccess W port (owSerialNum W port serial s) = (True, t)" "takes_commands W port mem sel busy (mem s) t"
    by (rule select_access [OF chip])
  then obtain r u where "owBlock W port ([0x4E, page] @ data) t = ((True, r), u)" "sel u" "mem u = write_pad page data (mem s)"
    using assms(3,4) unfolding takes_commands_def by blast
  with t show ?thesis
    using port assms(3,4) by (simp add: writeSPPageDS2438_def chip_port_def ds2438_commands)
qed

lemma readNV_obeys:
  assumes chip: "obeys_ds2438 W port serial mem sel busy" and port: "chip_port port serial" and "page < 8"
  shows "gives (readNVPageDS2438 W port serial page) s
    (\<lambda>r s'. r = Some (pages (mem s) page) \<and> mem s' = recall page (mem s) \<and> sel s')"
proof -
  obtain t where t: "owAccess W port (owSerialNum W port serial s) = (True, t)" "takes_commands W port mem sel busy (mem s) t"
    by (rule select_access [OF chip])
  then obtain r u where "owBlock W port [0xB8, page] t = ((True, r), u)" "sel u" "mem u = recall page (mem s)"
    using \<open>page < 8\<close> unfolding takes_commands_def by blast
  with t show ?thesis
    using port \<open>page < 8\<close> readSP_obeys [OF assms, of u]
    by (simp add: readNVPageDS2438_def chip_port_def ds2438_commands) (simp add: recall_def)
qed

lemma await_obeys:
  assumes chip: "obeys_ds2438 W port serial mem sel busy"
  shows "sel s \<Longrightarrow> busy s + 1 < guard \<Longrightarrow>
    gives (await_ready W port guard) s (\<lambda>g s'. g \<noteq> 0 \<and> mem s' = mem s \<and> sel s')"
proof (induction guard arbitrary: s)
  case (Suc guard)
  obtain b u where r: "owReadByte W port s = (b, u)" "sel u" "mem u = mem s"
      "if busy s = 0 then b \<noteq> 0 else b = 0 \<and> busy u = busy s - 1"
    using chip Suc.prems(1) unfolding obeys_ds2438_def by blast
  show ?case
  proof (cases "busy s = 0")
    case False
    then have "gives (await_ready W port guard) u (\<lambda>g s'. g \<noteq> 0 \<and> mem s' = mem u \<and> sel s')"
      using r Suc.prems(2) by (intro Suc.IH) auto
    then show ?thesis
      using r False by simp
  qed (use r Suc.prems in auto)
qed simp

lemma writeNV_obeys:
  assumes chip: "obeys_ds2438 W port serial mem sel busy" and port: "chip_port port serial" and "page < 8" "length data \<le> 8"
  shows "gives (writeNVPageDS2438 W port serial page data) s
    (\<lambda>ok s'. ok \<and> mem s' = copy_pad page (write_pad page data (mem s)) \<and> sel s')"
proof -
  have copy: "gives (then_do (call (owAccess W port)) (\<lambda>success.
            if success
            then then_do (block W port [DS4238_COMMAND_COPY_SCRATCHPAD, page]) (\<lambda>(ok, _).
                 if ok
                 then then_do (await_ready W port GUARD_COUNTER) (\<lambda>guardCounter. ret (guardCounter \<noteq> 0))
                 else ret False)
            else ret False)) s' (\<lambda>ok u. ok \<and> mem u = copy_pad page (mem s') \<and> sel u)" if selected: "sel s'" for s'
  proof -
    obtain t where t: "owAccess W port s' = (True, t)" "takes_commands W port mem sel busy (mem s') t"
      by (rule access [OF chip selected])
    then obtain r u where "owBlock W port [0x48, page] t = ((True, r), u)" "sel u" "mem u = copy_pad page (mem s')" "busy u \<le> 253"
      using \<open>page < 8\<close> unfolding takes_commands_def by blast
    with t show ?thesis
      using await_obeys [OF chip, of u GUARD_COUNTER] by (simp add: ds2438_commands GUARD_COUNTER_def)
  qed
  show ?thesis
    unfolding writeNVPageDS2438_def gives_then_do
    using port assms(3,4)
    by (auto simp: chip_port_def intro!: gives_mono [OF writeSP_obeys [OF assms]] simp del: gives_then_do)
      (rule gives_mono [OF copy], auto)
qed

subsection \<open>Words of a page\<close>

lemma byte_masks [simp]: "and x (255 :: u8) = x" "(- 256 :: u8) = 0" "(- 16 :: u8) = 0xF0"
proof -
  have "(255 :: u8) = - 1"
    by simp
  then show "and x (255 :: u8) = x"
    by (simp only: and.right_neutral)
qed simp_all

lemma overwrite_plain:
  assumes "page \<noteq> 0" and "length old = 8" and "length data \<le> 8"
  shows "overwrite page data old = data @ drop (length data) old"
  by (rule nth_equalityI) (use assms in \<open>auto simp: overwrite_def write_mask_def nth_append\<close>)

lemma halves_kept:
  "or (and (or (and a 0xF0) (and b 0x0F)) 0xF0) (and c 0x0F) = or (and a 0xF0) (and c (0x0F :: u8))"
  "or (and a 0xF0) (and a 0x0F) = (a :: u8)"
proof -
  show "or (and (or (and a 0xF0) (and b 0x0F)) 0xF0) (and c 0x0F) = or (and a 0xF0) (and c (0x0F :: u8))"
    by (simp add: bit.conj_disj_distrib2 and.assoc)
  have "(0xF0 :: u8) = not 0x0F"
    by simp
  then show "or (and a 0xF0) (and a 0x0F) = (a :: u8)"
    by (simp flip: bit.conj_disj_distrib)
qed

lemma overwrite_config:
  assumes "length old = 8"
  shows "overwrite 0 [v] old = (or (and (old ! 0) 0xF0) (and v 0x0F)) # tl old"
    and "length ms = 6 \<Longrightarrow> overwrite 0 (v # ms @ [t]) old = (or (and (old ! 0) 0xF0) (and v 0x0F)) # butlast (tl old) @ [t]"
proof -
  obtain a b c d e f g h where old: "old = [a, b, c, d, e, f, g, h]"
    using assms by (auto simp: length_Suc_conv numeral_eq_Suc)
  show "overwrite 0 [v] old = (or (and (old ! 0) 0xF0) (and v 0x0F)) # tl old"
    unfolding overwrite_def write_mask_def old by (simp add: upt_rec)
  show "overwrite 0 (v # ms @ [t]) old = (or (and (old ! 0) 0xF0) (and v 0x0F)) # butlast (tl old) @ [t]"
    if six: "length ms = 6"
  proof -
    obtain m1 m2 m3 m4 m5 m6 where ms: "ms = [m1, m2, m3, m4, m5, m6]"
      using six by (auto simp: length_Suc_conv numeral_eq_Suc)
    show ?thesis
      unfolding overwrite_def write_mask_def old ms by (simp add: upt_rec)
  qed
qed

lemma user_page:
  assumes "blk < 4"
  shows "3 + blk < (8 :: u8)" and "3 + blk \<noteq> (0 :: u8)"
proof -
  have "unat blk < 4"
    using assms by (simp add: word_less_nat_alt)
  then have sum: "unat (3 + blk) = 3 + unat blk"
    by (simp add: unat_word_ariths)
  with \<open>unat blk < 4\<close> show "3 + blk < (8 :: u8)"
    by (simp add: word_less_nat_alt)
  show "3 + blk \<noteq> (0 :: u8)"
  proof
    assume "3 + blk = 0"
    then have "unat (3 + blk) = 0"
      by (simp only: unat_0)
    with sum show False
      by simp
  qed
qed

text \<open>
  User data that is written to one of the four blocks is read back, followed by what the scratchpad held behind it.
\<close>

theorem user_data_roundtrip:
  assumes chip: "obeys_ds2438 W port serial mem sel busy" and port: "chip_port port serial"
    and "blk < 4" and "length data \<le> 8"
  shows "gives (then_do (writeNVUserDataDS2438 W port serial blk data) (\<lambda>ok.
           then_do (readNVUserDataDS2438 W port serial blk) (\<lambda>r. ret (ok, r)))) s
     (\<lambda>(ok, r) s'. ok \<and> r = Some (data @ drop (length data) (scratchpad (mem s) (3 + blk))))"
proof -
  have page: "3 + blk < 8" "3 + blk \<noteq> 0"
    using user_page [OF assms(3)] by simp_all
  have writing: "gives (writeNVUserDataDS2438 W port serial blk data) s
     (\<lambda>ok u. ok \<and> mem u = copy_pad (3 + blk) (write_pad (3 + blk) data (mem s)) \<and> sel u)"
    unfolding writeNVUserDataDS2438_def using assms(3,4) writeNV_obeys [OF chip port page(1) assms(4)] by simp
  have reading: "gives (readNVUserDataDS2438 W port serial blk) u (\<lambda>r s'. r = Some (pages (mem u) (3 + blk)))" for u
    unfolding readNVUserDataDS2438_def using assms(3) 
    by (auto intro: gives_mono [OF readNV_obeys [OF chip port page(1)]])
  show ?thesis
    unfolding gives_then_do
    by (rule gives_mono [OF writing], rule gives_mono [OF reading])
      (simp add: copy_pad_def write_pad_def overwrite_plain page(2) length_pages [OF chip] assms(4))
qed

lemma write_config_obeys:
  assumes chip: "obeys_ds2438 W port serial mem sel busy" and port: "chip_port port serial"
  shows "gives (write_config W port serial v) s (\<lambda>ok s'. ok \<and> mem s' = copy_pad 0 (write_pad 0 [v] (mem s)) \<and> sel s')"
  unfolding write_config_def by (rule writeNV_obeys [OF chip port]) simp_all

lemma readConfig_obeys:
  assumes chip: "obeys_ds2438 W port serial mem sel busy" and port: "chip_port port serial"
  shows "gives (readNVConfigThresholdDS2438 W port serial) s (\<lambda>r s'.
     r = Some (pages (mem s) 0 ! 0, pages (mem s) 0 ! 7) \<and> mem s' = recall 0 (mem s) \<and> sel s')"
  unfolding readNVConfigThresholdDS2438_def gives_then_do
  by (rule gives_mono [OF readNV_obeys [OF chip port]]) simp_all

text \<open>
  C30.  Writing configuration and threshold while current measurement is on succeeds without writing the configuration: what is
  stored at the end is the old one, since it is put back to switch the measurement on again.  Only the threshold is written.  When the
  measurement is off, both are written.
\<close>

theorem config_lost:
  assumes chip: "obeys_ds2438 W port serial mem sel busy" and port: "chip_port port serial"
  shows "gives (writeNVConfigThresholdDS2438 W port serial stack config (Some threshold)) s
     (\<lambda>ok s'. ok \<and> pages (mem s') 0 =
        (if and (pages (mem s) 0 ! 0) 0x01 \<noteq> 0 then (pages (mem s) 0)[7 := threshold]
         else (pages (mem s) 0)[7 := threshold, 0 := or (and (pages (mem s) 0 ! 0) 0xF0) (and config 0x0F)]))"
proof -
  obtain a b c d e f g h where old: "pages (mem s) 0 = [a, b, c, d, e, f, g, h]"
    using length_pages(2) [OF chip, of s 0] by (auto simp: length_Suc_conv numeral_eq_Suc)
  have writing: "gives (writeNVPageDS2438 W port serial 0 (config # map stack [Suc 0..<7] @ [threshold])) u
     (\<lambda>ok s'. ok \<and> mem s' = copy_pad 0 (write_pad 0 (config # map stack [Suc 0..<7] @ [threshold]) (mem u)) \<and> sel s')" for u
    by (rule writeNV_obeys [OF chip port]) simp_all
  note steps = gives_mono [OF readConfig_obeys [OF chip port]] gives_mono [OF write_config_obeys [OF chip port]]
    gives_mono [OF writing]
  show ?thesis
  proof (cases "and a 0x01 = 0")
    case True
    then show ?thesis
      unfolding writeNVConfigThresholdDS2438_def option.case gives_then_do
      by (rule_tac steps, simp add: old, rule_tac steps)
        (simp add: copy_pad_def write_pad_def recall_def overwrite_config old)
  next
    case False
    then show ?thesis
      unfolding writeNVConfigThresholdDS2438_def option.case gives_then_do
      by (rule_tac steps, simp add: old, rule_tac steps, simp, rule_tac steps, simp, rule_tac steps)
        (simp add: copy_pad_def write_pad_def recall_def overwrite_config old halves_kept)
  qed
qed

end
