(* ===== verification/Ds2438_Battery.thy ===== *)
theory Ds2438_Battery
  imports Ds2438_Properties
begin

section \<open>Time, capacity, calibration and temperature of a battery monitor\<close>

text \<open>
  What the functions of the driver that convert quantities do on a chip that obeys its data sheet.
\<close>

subsection \<open>Elapsed time and remaining capacity\<close>

lemma limit_capacity_snd:
  assumes "length b = 8"
  shows "take 5 (snd (limit_capacity b)) = take 4 b @ [min (b ! 4) 225]"
    and "fst (limit_capacity b) = min (ICA_TO_MAHOURS (unat (b ! 4))) 2200"
proof -
  obtain a1 a2 a3 a4 x a5 a6 a7 where b: "b = [a1, a2, a3, a4, x, a5, a6, a7]"
    using assms by (auto simp: length_Suc_conv numeral_eq_Suc)
  have "(unat x * 10000) div 1024 > 2200 \<longleftrightarrow> 2201 * 1024 \<le> unat x * 10000"
    by (simp only: less_eq_div_iff_mult_less_eq flip: Suc_le_eq) simp
  then have "(unat x * 10000) div 1024 > 2200 \<longleftrightarrow> \<not> unat x \<le> 225"
    by linarith
  then have "ICA_TO_MAHOURS (unat x) > 2200 \<longleftrightarrow> \<not> x \<le> 225"
    by (simp add: ICA_TO_MAHOURS_def word_le_nat_alt)
  then show "take 5 (snd (limit_capacity b)) = take 4 b @ [min (b ! 4) 225]"
    by (simp add: b limit_capacity_def Let_def MAX_REMAINING_CAPACITY_ICA_def MAHOURS_TO_ICA_def min_def)
  show "fst (limit_capacity b) = min (ICA_TO_MAHOURS (unat (b ! 4))) 2200"
    by (simp add: limit_capacity_def Let_def)
qed

lemma le32_take: "length b = 8 \<Longrightarrow> le32 (take 4 b @ bs) = le32 b"
  by (auto simp: length_Suc_conv numeral_eq_Suc)

lemma readTimeCapacityCal_obeys:
  assumes chip: "obeys_ds2438 W port serial mem sel busy" and port: "chip_port port serial"
  shows "gives (readTimeCapacityCalDS2438 W port serial False) s
     (\<lambda>(ok, out) s'. ok \<and> out = Some (le32 (pages (mem s) 1), of_nat (min (ICA_TO_MAHOURS (unat (pages (mem s) 1 ! 4))) 2200),
         reg16 (pages (mem s) 1) 5) \<and> mem s' = recall 1 (mem s) \<and> sel s')"
  unfolding readTimeCapacityCalDS2438_def gives_then_do
  by (rule gives_mono [OF readNV_obeys [OF chip port]])
    (auto simp: Let_def length_pages [OF chip] simp flip: limit_capacity_snd split: prod.splits)

text \<open>
  C31.  After a power loss the time and the capacity are restored: the later of the elapsed times in the volatile and in the shadow page
  becomes the volatile one, a newer shadow also brings its capacity, limited to 225 units (2200 mAh),
  and the calibration stays.
\<close>

theorem initTimeCapacity_max:
  assumes chip: "obeys_ds2438 W port serial mem sel busy" and port: "chip_port port serial"
  shows "gives (initTimeCapacityDS2438 W port serial) s (\<lambda>ok s'. ok
     \<and> le32 (pages (mem s') 1) = max (le32 (pages (mem s) 3)) (le32 (pages (mem s) 1))
     \<and> pages (mem s') 1 ! 4 = (if le32 (pages (mem s) 3) > le32 (pages (mem s) 1) then min (pages (mem s) 3 ! 4) 225
                               else pages (mem s) 1 ! 4)
     \<and> drop 5 (pages (mem s') 1) = drop 5 (pages (mem s) 1))"
proof -
  let ?b = "pages (mem s) 3" and ?e = "pages (mem s) 1"
  have len: "length ?b = 8" "length ?e = 8"
    by (rule length_pages [OF chip])+
  have shadow: "gives (readNVUserDataDS2438 W port serial 0) s (\<lambda>r s'. r = Some ?b \<and> mem s' = recall 3 (mem s) \<and> sel s')"
    unfolding readNVUserDataDS2438_def using readNV_obeys [OF chip port, of 3 s] by simp
  have restore: "gives (writeNVPageDS2438 W port serial 1 (take 4 ?b @ [min (?b ! 4) 225])) u
     (\<lambda>ok s'. ok \<and> mem s' = copy_pad 1 (write_pad 1 (take 4 ?b @ [min (?b ! 4) 225]) (mem u)) \<and> sel s')" for u
    by (rule writeNV_obeys [OF chip port]) simp_all
  note steps = gives_mono [OF shadow] gives_mono [OF readTimeCapacityCal_obeys [OF chip port]] gives_mono [OF restore]
  show ?thesis
  proof (cases "le32 ?e < le32 ?b")
    case True
    then show ?thesis
      unfolding initTimeCapacityDS2438_def gives_then_do
      by (rule_tac steps, simp, rule_tac steps)
        (clarsimp simp: recall_def limit_capacity_snd len, rule_tac steps,
          simp add: copy_pad_def write_pad_def overwrite_plain len le32_take nth_append)
  next
    case False
    then show ?thesis
      unfolding initTimeCapacityDS2438_def gives_then_do
      by (rule_tac steps, simp, rule_tac steps) (clarsimp simp: recall_def)
  qed
qed

lemma div_between: "k \<le> x div n \<longleftrightarrow> k * n \<le> x" if "n > 0" for k x n :: nat
  using that by (rule less_eq_div_iff_mult_less_eq)

lemma ica_loss:
  assumes "c \<le> 2200"
  shows "MAHOURS_TO_ICA c \<le> 225" and "ICA_TO_MAHOURS (MAHOURS_TO_ICA c) \<le> c"
    and "c \<le> ICA_TO_MAHOURS (MAHOURS_TO_ICA c) + 10"
proof -
  let ?i = "MAHOURS_TO_ICA c" and ?d = "ICA_TO_MAHOURS (MAHOURS_TO_ICA c)"
  have i: "?i * 10000 \<le> 1024 * c" "1024 * c < ?i * 10000 + 10000"
    unfolding MAHOURS_TO_ICA_def
    using div_mult_mod_eq [of "1024 * c" 10000] mod_less_divisor [of 10000 "1024 * c"] by linarith+
  have d: "?d * 1024 \<le> ?i * 10000" "?i * 10000 < ?d * 1024 + 1024"
    unfolding ICA_TO_MAHOURS_def
    using div_mult_mod_eq [of "?i * 10000" 1024] mod_less_divisor [of 1024 "?i * 10000"] by linarith+
  show "?i \<le> 225" "?d \<le> c" "c \<le> ?d + 10"
    using i d assms by linarith+
qed

lemma xca_loss: "XCA_TO_MAHOURS (MAHOURS_TO_XCA c) \<le> c" "c \<le> XCA_TO_MAHOURS (MAHOURS_TO_XCA c) + 313"
proof -
  let ?i = "MAHOURS_TO_XCA c" and ?d = "XCA_TO_MAHOURS (MAHOURS_TO_XCA c)"
  have i: "?i * 320000 \<le> 1024 * c" "1024 * c < ?i * 320000 + 320000"
    unfolding MAHOURS_TO_XCA_def
    using div_mult_mod_eq [of "1024 * c" 320000] mod_less_divisor [of 320000 "1024 * c"] by linarith+
  have d: "?d * 1024 \<le> ?i * 320000" "?i * 320000 < ?d * 1024 + 1024"
    unfolding XCA_TO_MAHOURS_def
    using div_mult_mod_eq [of "?i * 320000" 1024] mod_less_divisor [of 1024 "?i * 320000"] by linarith+
  show "?d \<le> c" "c \<le> ?d + 313"
    using i d by linarith+
qed

lemma to_u8_limit: "to_u8 (MAHOURS_TO_ICA c) = (if c < 2500 then ret (of_nat (MAHOURS_TO_ICA c)) else raise Bad_Conversion)"
proof -
  have "256 \<le> MAHOURS_TO_ICA c \<longleftrightarrow> 2500 \<le> c"
    unfolding MAHOURS_TO_ICA_def by (subst div_between) auto
  then show ?thesis
    by (auto simp: to_u8_def)
qed

text \<open>
  C36.  A remaining capacity of up to 2200 mAh that is written together with a time is read back at most 10 mAh smaller, and the
  time exactly.  From 2500 mAh on, the conversion for the one-byte register is undefined.
\<close>

theorem capacity_roundtrip:
  assumes chip: "obeys_ds2438 W port serial mem sel busy" and port: "chip_port port serial"
  shows "(unat c \<le> 2200 \<longrightarrow>
       gives (then_do (writeTimeCapacityDS2438 W port serial t (Some c) False) (\<lambda>ok.
              then_do (readTimeCapacityCalDS2438 W port serial False) (\<lambda>r. ret (ok, r)))) s
         (\<lambda>(ok, ok', out) s'. ok \<and> ok' \<and> (\<exists>d cal. out = Some (t, d, cal) \<and> d \<le> c \<and> unat c \<le> unat d + 10)))
    \<and> (unat c \<ge> 2500 \<longrightarrow> fst (writeTimeCapacityDS2438 W port serial t (Some c) shadow s) = Inl Bad_Conversion)"
proof (intro conjI impI)
  assume "2500 \<le> unat c"
  then show "fst (writeTimeCapacityDS2438 W port serial t (Some c) shadow s) = Inl Bad_Conversion"
    by (simp add: writeTimeCapacityDS2438_def to_u8_limit driver_simps)
next
  assume c: "unat c \<le> 2200"
  let ?i = "MAHOURS_TO_ICA (unat c)" and ?m = "pages (mem s) 1"
  let ?data = "le_bytes32 t @ [of_nat ?i]"
  have i: "?i < 256" "unat (of_nat ?i :: u8) = ?i"
    using ica_loss(1) [OF c] by (simp_all add: unat_of_nat)
  have writing: "gives (writeNVPageDS2438 W port serial 1 ?data) s
     (\<lambda>ok s'. ok \<and> mem s' = copy_pad 1 (write_pad 1 ?data (mem s)) \<and> sel s')"
    by (rule writeNV_obeys [OF chip port]) simp_all
  have d: "min (ICA_TO_MAHOURS ?i) 2200 = ICA_TO_MAHOURS ?i" "ICA_TO_MAHOURS ?i < 65536"
    using ica_loss [OF c] c by linarith+
  show "gives (then_do (writeTimeCapacityDS2438 W port serial t (Some c) False) (\<lambda>ok.
              then_do (readTimeCapacityCalDS2438 W port serial False) (\<lambda>r. ret (ok, r)))) s
         (\<lambda>(ok, ok', out) s'. ok \<and> ok' \<and> (\<exists>d cal. out = Some (t, d, cal) \<and> d \<le> c \<and> unat c \<le> unat d + 10))"
    unfolding writeTimeCapacityDS2438_def gives_then_do using c
    by (simp add: to_u8_limit, rule_tac gives_mono [OF writing], simp,
        rule_tac gives_mono [OF readTimeCapacityCal_obeys [OF chip port]], insert ica_loss [OF c] d)
      (auto simp: copy_pad_def write_pad_def overwrite_plain length_pages [OF chip] nth_append i word_le_nat_alt unat_of_nat)
qed

subsection \<open>Accumulated charge\<close>

lemma reg16_stored:
  "reg16 [x0, x1, x2, x3, ucast w, ucast (drop_bit 8 w), x6, x7] 4 = w"
  "reg16 [x0, x1, x2, x3, x4, x5, ucast w, ucast (drop_bit 8 w)] 6 = w"
  unfolding reg16_def by (rule bit_word_eqI; simp add: bit_simps; auto)+

lemma to_u16_limit: "to_u16 (MAHOURS_TO_XCA c) = (if c < 20480000 then ret (of_nat (MAHOURS_TO_XCA c)) else raise Bad_Conversion)"
proof -
  have "65536 \<le> MAHOURS_TO_XCA c \<longleftrightarrow> 20480000 \<le> c"
    unfolding MAHOURS_TO_XCA_def by (subst div_between) auto
  then show ?thesis
    by (auto simp: to_u16_def)
qed

text \<open>
  Accumulated charge and discharge below 20480 Ah are read back as they were written, less at most 313 mAh.
\<close>

theorem charge_roundtrip:
  assumes chip: "obeys_ds2438 W port serial mem sel busy" and port: "chip_port port serial"
    and "unat charge < 20480000" and "unat discharge < 20480000"
  shows "gives (then_do (writeNVChargeDischargeDS2438 W port serial charge (Some discharge)) (\<lambda>ok.
              then_do (readNVChargeDischargeDS2438 W port serial) (\<lambda>r. ret (ok, r)))) s
         (\<lambda>(ok, out) s'. ok \<and> (\<exists>c d. out = Some (c, d) \<and> c \<le> charge \<and> unat charge \<le> unat c + 313
            \<and> d \<le> discharge \<and> unat discharge \<le> unat d + 313))"
proof -
  let ?c = "MAHOURS_TO_XCA (unat charge)" and ?d = "MAHOURS_TO_XCA (unat discharge)"
  let ?w = "word_of_nat :: nat \<Rightarrow> u16"
  let ?data = "[0, 0, 0, 0, ucast (?w ?c), ucast (drop_bit 8 (?w ?c)), ucast (?w ?d), ucast (drop_bit 8 (?w ?d))]"
  have fits: "?c < 65536" "?d < 65536"
    using assms(3,4) div_between [of 320000 65536 "1024 * unat charge"] div_between [of 320000 65536 "1024 * unat discharge"]
    by (simp_all add: MAHOURS_TO_XCA_def)
  have big: "XCA_TO_MAHOURS ?c < 4294967296" "XCA_TO_MAHOURS ?d < 4294967296"
    using xca_loss(1) [of "unat charge"] xca_loss(1) [of "unat discharge"] assms(3,4) by linarith+
  have writing: "gives (writeNVPageDS2438 W port serial 7 ?data) s
     (\<lambda>ok s'. ok \<and> mem s' = copy_pad 7 (write_pad 7 ?data (mem s)) \<and> sel s')"
    by (rule writeNV_obeys [OF chip port]) simp_all
  show ?thesis
    unfolding writeNVChargeDischargeDS2438_def readNVChargeDischargeDS2438_def gives_then_do
    using assms(3,4)
    by (simp add: to_u16_limit, rule_tac gives_mono [OF writing], simp, rule_tac gives_mono [OF readNV_obeys [OF chip port]],
        insert xca_loss [of "unat charge"] xca_loss [of "unat discharge"] big fits)
      (auto simp: copy_pad_def write_pad_def overwrite_plain length_pages [OF chip] reg16_stored word_le_nat_alt unat_of_nat)
qed

subsection \<open>Calibration\<close>

lemma readRawCurrent_obeys:
  assumes chip: "obeys_ds2438 W port serial mem sel busy" and port: "chip_port port serial"
  shows "gives (readRawCurrentDS2438 W port serial) s (\<lambda>r s'. r = Some (reg16 (pages (mem s) 0) 5) \<and> mem s' = recall 0 (mem s) \<and> sel s')"
  unfolding readRawCurrentDS2438_def gives_then_do
  by (rule gives_mono [OF readNV_obeys [OF chip port]]) simp_all

lemma five_zeros: "replicate 5 (0 :: u8) = [0, 0, 0, 0, 0]"
  by (simp add: numeral_eq_Suc)

lemma writeNVCal_obeys:
  assumes chip: "obeys_ds2438 W port serial mem sel busy" and port: "chip_port port serial"
  shows "gives (writeNVCalDS2438 W port serial v) s (\<lambda>ok s'. ok \<and>
     mem s' = copy_pad 1 (write_pad 1 [0, 0, 0, 0, 0, ucast v, ucast (drop_bit 8 v)] (mem s)) \<and> sel s')"
  unfolding writeNVCalDS2438_def five_zeros
  using writeNV_obeys [OF chip port, of 1 "[0, 0, 0, 0, 0, ucast v, ucast (drop_bit 8 v)]" s] by simp


subsection \<open>Temperature\<close>

lemma temperature_loop_obeys:
  assumes chip: "obeys_ds2438 W port serial mem sel busy" and port: "chip_port port serial"
    and "and (pages (mem s) 0 ! 0) 0x10 = 0" and "guard > 1"
  shows "gives (temperature_loop W port serial guard) s (\<lambda>r s'. r = Some (pages (mem s) 0))"
proof -
  obtain n where "guard = Suc n" "n > 0"
    using assms(4) by (cases guard) auto
  then show ?thesis
    by (simp, rule_tac gives_mono [OF readNV_obeys [OF chip port]]) (use assms(3) in simp_all)
qed

text \<open>The register as the data sheet defines it, in units of 1/32 degree.\<close>

definition true_temperature :: "u8 list \<Rightarrow> int" where
  "true_temperature page = sint (reg16 page 1) div 8"

lemma unsigned_shift: "int (unat (drop_bit 3 w)) = (if sint w < 0 then sint w div 8 + 8192 else sint w div 8)" for w :: u16
proof -
  have shifted: "int (unat (drop_bit 3 w)) = uint w div 8"
    by (simp add: drop_bit_eq_div uint_div_distrib)
  have "- 32768 \<le> sint w" and "sint w < 32768"
    using sint_greater_eq [of w] sint_less [of w] by simp_all
  moreover have "uint w = sint w mod 65536"
    by (simp add: uint_sint take_bit_eq_mod)
  moreover have "sint w mod 65536 = sint w + 65536" if "sint w < 0"
    using mod_pos_pos_trivial [of "sint w + 65536" 65536] that \<open>- 32768 \<le> sint w\<close> by simp
  ultimately have "uint w = (if sint w < 0 then sint w + 65536 else sint w)"
    using mod_pos_pos_trivial [of "sint w" 65536] by auto
  then show ?thesis
    unfolding shifted by auto
qed

text \<open>
  Reading the temperature gives the register of the chip when it is not negative.  The sign is lost: below zero, the
  result is 256 degrees too high.
\<close>

theorem negative_temperature:
  assumes chip: "obeys_ds2438 W port serial mem sel busy" and port: "chip_port port serial"
    and idle: "and (pages (mem s) 0 ! 0) 0x10 = 0"
  shows "gives (readTemperatureDS2438 W port serial) s (\<lambda>r s'. \<exists>t. r = Some t \<and> int (unat t) =
     (if true_temperature (pages (mem s) 0) < 0 then true_temperature (pages (mem s) 0) + 256 * 32
      else true_temperature (pages (mem s) 0)))"
proof -
  let ?t = "drop_bit 3 (reg16 (pages (mem s) 0) 1)"
  obtain t where t: "owAccess W port (owSerialNum W port serial s) = (True, t)" "takes_commands W port mem sel busy (mem s) t"
    by (rule select_access [OF chip])
  then obtain u where u: "owWriteByte W port 0x44 t = (True, u)" "sel u" "mem u = mem s" "busy u \<le> 253"
    unfolding takes_commands_def by blast
  have sign: "true_temperature (pages (mem s) 0) < 0 \<longleftrightarrow> sint (reg16 (pages (mem s) 0) 1) < 0"
    unfolding true_temperature_def by linarith
  have ready: "gives (await_ready W port GUARD_COUNTER) u (\<lambda>g s'. g \<noteq> 0 \<and> mem s' = mem s \<and> sel s')"
    using await_obeys [OF chip, of u GUARD_COUNTER] u by (simp add: GUARD_COUNTER_def)
  have "gives (readTemperatureDS2438 W port serial) s (\<lambda>r s'. r = Some ?t)"
    unfolding readTemperatureDS2438_def using t u port
    by (simp add: chip_port_def ds2438_commands, rule_tac gives_mono [OF ready], simp,
        rule_tac gives_mono [OF temperature_loop_obeys [OF chip port]], insert idle)
      (auto simp: delay [OF chip] GUARD_COUNTER_def)
  then show ?thesis
    by (rule gives_mono) (use unsigned_shift [of "reg16 (pages (mem s) 0) 1"] sign in \<open>simp add: true_temperature_def\<close>)
qed

subsection \<open>A chip that only has its memory\<close>

definition fit :: "ds2438 \<Rightarrow> ds2438" where
  "fit m = \<lparr>pages = \<lambda>p. take 8 (pages m p @ replicate 8 0), scratchpad = \<lambda>p. take 8 (scratchpad m p @ replicate 8 0)\<rparr>"

definition ideal_ds2438 :: "ds2438 wire" where
  "ideal_ds2438 = \<lparr>
     owSerialNum = \<lambda>_ _ m. m, owReadSerialNum = \<lambda>_ m. ([], m), owAccess = \<lambda>_ m. (True, m), owVerify = \<lambda>_ m. (True, m),
     owBlock = \<lambda>_ b m.
       (let page = b ! 1 in
        if b ! 0 = 0xB8 then ((True, b), recall page (fit m))
        else if b ! 0 = 0xBE then
          ((True, take 2 b @ scratchpad (fit m) page @ [crc8 (scratchpad (fit m) page)]), m)
        else if b ! 0 = 0x4E then ((True, b), write_pad page (drop 2 b) (fit m))
        else ((True, b), copy_pad page (fit m))),
     owWriteByte = \<lambda>_ _ m. (True, m), owReadByte = \<lambda>_ m. (0xFF, m), msDelay = \<lambda>_ m. m,
     owFirst = \<lambda>_ m. (False, m), owNext = \<lambda>_ m. (False, m), owAcquireEx = \<lambda>_ m. (0, m), owRelease = \<lambda>_ m. m\<rparr>"

lemma fit_idem: "(\<And>p. length (pages m p) = 8) \<Longrightarrow> (\<And>p. length (scratchpad m p) = 8) \<Longrightarrow> fit m = m"
  by (simp add: fit_def)

lemma length_overwrite [simp]: "length (overwrite p data old) = 8"
  by (simp add: overwrite_def)

lemma fit_steps:
  "fit (recall p (fit m)) = recall p (fit m)" "fit (write_pad p data (fit m)) = write_pad p data (fit m)"
  "fit (copy_pad p (fit m)) = copy_pad p (fit m)" "length (pages (fit m) p) = 8" "length (scratchpad (fit m) p) = 8"
proof -
  show len: "length (pages (fit m) p) = 8" "length (scratchpad (fit m) p) = 8" for p
    by (simp_all add: fit_def)
  show "fit (recall p (fit m)) = recall p (fit m)" "fit (write_pad p data (fit m)) = write_pad p data (fit m)"
    "fit (copy_pad p (fit m)) = copy_pad p (fit m)"
    by (rule fit_idem; simp add: recall_def write_pad_def copy_pad_def len)+
qed

lemma ideal_ds2438_obeys: "obeys_ds2438 ideal_ds2438 port serial fit (\<lambda>_. True) (\<lambda>_. 0)"
  by (simp add: obeys_ds2438_def takes_commands_def ideal_ds2438_def fit_steps)

definition monitor_address :: "u8 list" where
  "monitor_address = [0x26, 0xcf, 0xe0, 0xa6, 0x01, 0x00, 0x00, 0x0b]"

lemma ideal_port: "chip_port 0 monitor_address"
  by (simp add: chip_port_def monitor_address_def MAX_PORTNUM_def)

text \<open>A monitor with current measurement on, at -1 degree, and a shadow page that is newer than the volatile page.\<close>

definition example_memory :: ds2438 where
  "example_memory = \<lparr>pages = (\<lambda>_. [0, 0, 0, 0, 0, 0, 0, 0])(0 := [0x07, 0x00, 0xFF, 0, 0, 0xFD, 0xFF, 0x40], 3 := [0, 1, 0, 0, 0xFF, 0, 0, 0]),
     scratchpad = \<lambda>_. [0, 0, 0, 0, 0, 0, 0, 0]\<rparr>"

lemma fit_example: "fit example_memory = example_memory"
  by (rule fit_idem) (simp_all add: example_memory_def)

lemmas ideal = ideal_ds2438_obeys [of 0 monitor_address] ideal_port

theorem user_data_roundtrip_witness:
  "gives (then_do (writeNVUserDataDS2438 ideal_ds2438 0 monitor_address 2 [7, 8]) (\<lambda>ok.
           then_do (readNVUserDataDS2438 ideal_ds2438 0 monitor_address 2) (\<lambda>r. ret (ok, r)))) example_memory
     (\<lambda>(ok, r) s'. ok \<and> r = Some [7, 8, 0, 0, 0, 0, 0, 0])"
  using user_data_roundtrip [OF ideal, of 2 "[7, 8]" example_memory] unfolding fit_example
  by (simp add: example_memory_def)

theorem config_lost_witness:
  "gives (writeNVConfigThresholdDS2438 ideal_ds2438 0 monitor_address (\<lambda>_. 0) 0x0F (Some 0x80)) example_memory
     (\<lambda>ok m. ok \<and> pages (fit m) 0 = [0x07, 0x00, 0xFF, 0, 0, 0xFD, 0xFF, 0x80])"
  using config_lost [OF ideal, where s = example_memory and stack = "\<lambda>_. 0" and config = "0x0F" and threshold = "0x80"] unfolding fit_example
  by (simp add: example_memory_def)

theorem initTimeCapacity_max_witness:
  "gives (initTimeCapacityDS2438 ideal_ds2438 0 monitor_address) example_memory
     (\<lambda>ok m. ok \<and> le32 (pages (fit m) 1) = 256 \<and> pages (fit m) 1 ! 4 = 225)"
  by (rule gives_mono [OF initTimeCapacity_max [OF ideal, of example_memory, unfolded fit_example]])
    (simp add: example_memory_def min_def)

theorem capacity_roundtrip_witness:
  "gives (then_do (writeTimeCapacityDS2438 ideal_ds2438 0 monitor_address 77 (Some 1500) False) (\<lambda>ok.
              then_do (readTimeCapacityCalDS2438 ideal_ds2438 0 monitor_address False) (\<lambda>r. ret (ok, r)))) example_memory
         (\<lambda>(ok, ok', out) s'. ok \<and> ok' \<and> (\<exists>d cal. out = Some (77, d, cal) \<and> d \<le> 1500 \<and> 1490 \<le> unat d))
   \<and> fst (writeTimeCapacityDS2438 ideal_ds2438 0 monitor_address 77 (Some 2500) False example_memory) = Inl Bad_Conversion"
proof
  show "gives (then_do (writeTimeCapacityDS2438 ideal_ds2438 0 monitor_address 77 (Some 1500) False) (\<lambda>ok.
              then_do (readTimeCapacityCalDS2438 ideal_ds2438 0 monitor_address False) (\<lambda>r. ret (ok, r)))) example_memory
         (\<lambda>(ok, ok', out) s'. ok \<and> ok' \<and> (\<exists>d cal. out = Some (77, d, cal) \<and> d \<le> 1500 \<and> 1490 \<le> unat d))"
    by (rule gives_mono [OF capacity_roundtrip [OF ideal, of 1500 77 example_memory False, THEN conjunct1, THEN mp]]) auto
  show "fst (writeTimeCapacityDS2438 ideal_ds2438 0 monitor_address 77 (Some 2500) False example_memory) = Inl Bad_Conversion"
    using capacity_roundtrip [OF ideal, of 2500 77 example_memory False] by simp
qed

theorem charge_roundtrip_witness:
  "gives (then_do (writeNVChargeDischargeDS2438 ideal_ds2438 0 monitor_address 100000 (Some 5000)) (\<lambda>ok.
              then_do (readNVChargeDischargeDS2438 ideal_ds2438 0 monitor_address) (\<lambda>r. ret (ok, r)))) example_memory
         (\<lambda>(ok, out) s'. ok \<and> (\<exists>c d. out = Some (c, d) \<and> 99687 \<le> unat c \<and> d \<le> 5000))"
  by (rule gives_mono [OF charge_roundtrip [OF ideal, of 100000 5000 example_memory]]) auto

lemma cal_example: "cal_offset (reg16 [0x07, 0x00, 0xFF, 0, 0, 0xFD, 0xFF, 0x40] 5) = 8"
  by code_simp


theorem negative_temperature_witness:
  "gives (readTemperatureDS2438 ideal_ds2438 0 monitor_address) example_memory (\<lambda>r m. \<exists>t. r = Some t \<and> int (unat t) = 255 * 32)"
  by (rule gives_mono [OF negative_temperature [OF ideal, of example_memory, unfolded fit_example]])
    (auto simp: example_memory_def true_temperature_def reg16_def)

end
