(* ===== verification/OneWire_Drivers.thy ===== *)
theory OneWire_Drivers
  imports Ds2438_Battery HardwareServer_Properties
begin

section \<open>The chip drivers under the hardware server\<close>

text \<open>
  The bus operations of \<open>Bus\<close> are calls of the chip drivers.  Here they are joined: which driver function carries out each
  operation, with the arguments that \<open>ow_bus.c\<close> passes, and that no call the hardware server ever makes runs into an assertion of a driver.
\<close>

subsection \<open>A corrupted byte is noticed\<close>

lemma readSPPageDS2438_noisy:
  assumes "e \<noteq> 0" and i: "2 \<le> i" "i < 11"
    and run: "readSPPageDS2438 W port serial page s = (Inr (Some b), t)"
  shows "readSPPageDS2438 (noisy i e W) port serial page s = (Inr None, t)"
proof -
  let ?b = "[DS4238_COMMAND_READ_SCRATCHPAD, page] @ replicate (8 + 1) 0xFF"
  obtain ok t0 where access: "owAccess W port (owSerialNum W port serial s) = (ok, t0)"
    by fastforce
  obtain ok' r t1 where block: "block W port ?b t0 = (Inr (ok', r), t1)"
    using block_run [of W port ?b t0] by blast
  have "ok" "ok'" "crc8 (drop 2 r) = 0" "t1 = t"
    using run access block unfolding readSPPageDS2438_def
    by (auto simp: driver_simps check_port_def split: if_splits)
  moreover have "crc8 (drop 2 (r[i := xor (r ! i) e])) \<noteq> crc8 (drop 2 r)"
    unfolding crc8_def drop_update_swap [OF i(1)]
    using block_noisy(2) [OF block] i assms(1) le_add_diff_inverse [OF i(1)] by (subst sum8.corrupted_byte) auto
  ultimately show ?thesis
    using run access block block_noisy(1) [OF block, of i e] unfolding readSPPageDS2438_def
    by (auto simp: driver_simps check_port_def split: if_splits)
qed



subsection \<open>The driver of each operation\<close>

definition discard :: "('s, 'a) driver \<Rightarrow> ('s, unit) driver" where
  "discard m = then_do m (\<lambda>_. ret ())"

text \<open>The two pointers for elapsed time and charge are never null; \<open>stack\<close> is the memory that is not initialised.\<close>

fun op_driver :: "'s wire \<Rightarrow> (nat \<Rightarrow> u8) \<Rightarrow> s32 \<Rightarrow> u8 list \<Rightarrow> bus_op \<Rightarrow> ('s, unit) driver" where
  "op_driver W stack port address Access_Device = discard (oneWireAccessDevice W port address)"
| "op_driver W stack port address Read_Logic = discard (readPIOLogicStateDS2408 W port address)"
| "op_driver W stack port address Read_Latch = discard (readPIOActivityLatchStateRegisterDS2408 W port address)"
| "op_driver W stack port address Reset_Latch = discard (resetActivityLatchesDS2408 W port address)"
| "op_driver W stack port address (Channel_Write v) = discard (channelAccessWriteDS2408 W port address v)"
| "op_driver W stack port address Disable_Test_Mode = discard (disableTestModeDS2408 W port address)"
| "op_driver W stack port address (Write_Control c) = discard (writeControlRegisterDS2408 W port address c)"
| "op_driver W stack port address Read_Vad = discard (readVadDS2438 W port address)"
| "op_driver W stack port address Read_Vdd = discard (readVddDS2438 W port address)"
| "op_driver W stack port address Read_Current = discard (readCurrentDS2438 W port address True)"
| "op_driver W stack port address (Read_Capacity shadow) = discard (readTimeCapacityCalDS2438 W port address shadow)"
| "op_driver W stack port address Read_Charge_Discharge = discard (readNVChargeDischargeDS2438 W port address)"
| "op_driver W stack port address Perform_Cal = discard (performCalDS2438 W port address False)"
| "op_driver W stack port address (Write_Config_Threshold c t) =
     discard (writeNVConfigThresholdDS2438 W port address stack c (Some t))"
| "op_driver W stack port address Init_Time_Capacity = discard (initTimeCapacityDS2438 W port address)"
| "op_driver W stack port address (Write_Time_Capacity t c shadow) = discard (writeTimeCapacityDS2438 W port address t c shadow)"
| "op_driver W stack port address (Write_Charge_Discharge c d) =
     discard (writeNVChargeDischargeDS2438 W port address c (Some d))"

subsection \<open>Faults of the battery monitor's driver\<close>

lemma faults_await: "faults F (await_ready W port g)"
  by (induction g) (auto intro!: driver_faults)

lemma faults_convert:
  "Bad_Conversion \<in> F \<Longrightarrow> faults F (to_u8 n)" "Bad_Conversion \<in> F \<Longrightarrow> faults F (to_u16 n)"
  "Bad_Conversion \<in> F \<Longrightarrow> faults F (to_s16 i)"
  by (simp_all add: to_u8_def to_u16_def to_s16_def faults_ret faults_raise)

abbreviation (input) undefined_values :: "fault set" where
  "undefined_values \<equiv> {Bad_Access, Bad_Conversion}"

lemma faults_pages:
  assumes "hd address = FAMILY_SBATTERY" and "page < 8"
  shows "faults undefined_values (readSPPageDS2438 W port address page)"
    and "length data \<le> 8 \<Longrightarrow> faults undefined_values (writeSPPageDS2438 W port address page data)"
    and "faults undefined_values (readNVPageDS2438 W port address page)"
    and "length data \<le> 8 \<Longrightarrow> faults undefined_values (writeNVPageDS2438 W port address page data)"
  unfolding readSPPageDS2438_def writeSPPageDS2438_def readNVPageDS2438_def writeNVPageDS2438_def
  using assms by (auto intro!: driver_faults faults_check_port faults_await)

lemma faults_ad_loop:
  assumes "hd address = FAMILY_SBATTERY"
  shows "faults undefined_values (ad_loop W port address sel dn g g1)"
  by (induction g arbitrary: g1) (auto intro!: driver_faults faults_pages faults_await simp: assms)

lemma faults_ds2438:
  assumes "hd address = FAMILY_SBATTERY"
  shows "faults undefined_values (readAdDS2438 W port address v)"
    and "faults undefined_values (readCurrentDS2438 W port address w)"
    and "faults undefined_values (readTimeCapacityCalDS2438 W port address sh)"
    and "faults undefined_values (readNVChargeDischargeDS2438 W port address)"
    and "faults undefined_values (performCalDS2438 W port address w)"
    and "faults undefined_values (writeNVConfigThresholdDS2438 W port address stack c pt)"
    and "faults undefined_values (initTimeCapacityDS2438 W port address)"
    and "faults undefined_values (writeTimeCapacityDS2438 W port address t pc sh)"
    and "faults undefined_values (writeNVChargeDischargeDS2438 W port address ch pd)"
proof -
  note rules = driver_faults faults_pages faults_convert faults_ad_loop [OF assms]
  have user: "faults undefined_values (readNVUserDataDS2438 W port address 0)"
      "length data \<le> 8 \<Longrightarrow> faults undefined_values (writeNVUserDataDS2438 W port address 0 data)" for data
    unfolding readNVUserDataDS2438_def writeNVUserDataDS2438_def using assms by (auto intro!: rules)
  have config: "faults undefined_values (write_config W port address x)"
    "faults undefined_values (readNVConfigThresholdDS2438 W port address)"
    "faults undefined_values (readRawCurrentDS2438 W port address)"
    "faults undefined_values (writeNVCalDS2438 W port address o')" for x o'
    unfolding write_config_def readNVConfigThresholdDS2438_def readRawCurrentDS2438_def writeNVCalDS2438_def
    using assms by (auto intro!: rules)
  show "faults undefined_values (readAdDS2438 W port address v)"
    unfolding readAdDS2438_def using assms by (auto intro!: rules)
  show "faults undefined_values (readCurrentDS2438 W port address w)"
    unfolding readCurrentDS2438_def using assms by (auto intro!: rules config)
  show cap: "faults undefined_values (readTimeCapacityCalDS2438 W port address sh)" for sh
    unfolding readTimeCapacityCalDS2438_def Let_def using assms by (auto intro!: rules user)
  show "faults undefined_values (readNVChargeDischargeDS2438 W port address)"
    unfolding readNVChargeDischargeDS2438_def using assms by (auto intro!: rules)
  show "faults undefined_values (performCalDS2438 W port address w)"
    unfolding performCalDS2438_def Let_def using assms by (auto intro!: rules config)
  show "faults undefined_values (writeNVConfigThresholdDS2438 W port address stack c pt)"
    unfolding writeNVConfigThresholdDS2438_def using assms by (auto intro!: rules config)
  show "faults undefined_values (initTimeCapacityDS2438 W port address)"
    unfolding initTimeCapacityDS2438_def using assms by (auto intro!: rules user cap)
  show "faults undefined_values (writeTimeCapacityDS2438 W port address t pc sh)"
    unfolding writeTimeCapacityDS2438_def using assms
    by (cases pc) (auto simp: then_do_ret then_do_assoc intro!: rules user)
  show "faults undefined_values (writeNVChargeDischargeDS2438 W port address ch pd)"
    unfolding writeNVChargeDischargeDS2438_def using assms
    by (cases pd) (auto simp: then_do_ret then_do_assoc intro!: rules)
qed

subsection \<open>No assertion can fail\<close>

lemma faults_discard: "faults F m \<Longrightarrow> faults F (discard m)"
  unfolding discard_def by (intro driver_faults)

lemma faults_mono: "faults F m \<Longrightarrow> F \<subseteq> G \<Longrightarrow> faults G m"
  unfolding faults_def by blast

lemma is_pio_family: "is_pio d \<Longrightarrow> hd (device_address d) = FAMILY_PIO"
  by (simp add: is_pio_def getDeviceType_def split: if_splits)

lemma is_monitor_family: "is_monitor d \<Longrightarrow> hd (device_address d) = FAMILY_SBATTERY"
  by (simp add: is_monitor_def getDeviceType_def split: if_splits)

lemma op_driver_faults:
  assumes "fits d op"
  shows "faults undefined_values (op_driver W stack port (device_address d) op)"
proof (cases "is_pio d")
  case True
  then have "\<not> is_monitor d"
    by (simp add: is_pio_def is_monitor_def)
  note pio = faults_ds2408 [OF is_pio_family [OF True], THEN faults_mono]
  show ?thesis
    using assms True \<open>\<not> is_monitor d\<close>
    by (cases op) (auto simp: oneWireAccessDevice_def intro!: faults_discard driver_faults pio)
next
  case False
  show ?thesis
    using assms False
    by (cases op) (auto simp: oneWireAccessDevice_def readVadDS2438_def readVddDS2438_def
        intro!: faults_discard driver_faults faults_ds2438 is_monitor_family)
qed

definition calls_fit :: "ow_bus \<Rightarrow> bool" where
  "calls_fit b \<longleftrightarrow> (\<forall>(c, r) \<in> set (bus_log b). call_fits c)"

interpretation fitting: bus_invariant calls_fit "\<lambda>_ _. True"
  by unfold_locales (auto simp: calls_fit_def)

interpretation hw_fitting: message_handler "hw_serverHandleMsg P" calls_fit for P
  by unfold_locales (rule fitting.hw_handler)

text \<open>
  C28.  Whatever the clients send and the chips answer, no call that the hardware server makes of a chip driver fails
  an assertion of the driver, on any wire: each operation goes to a chip of its type, with sizes and pages in range.
\<close>

theorem driver_assertions_hold:
  assumes "runMessagingServer (hw_serverHandleMsg P) os cs initial_bus = Inr (code, sents, b)"
    and "(Dev port d op, r) \<in> set (bus_log b)"
  shows "fst (op_driver W stack port (device_address d) op s) \<noteq> Inl Assert_Failed"
proof -
  have "calls_fit b"
    by (rule hw_fitting.runMessagingServer_inv [OF _ assms(1)]) (simp add: calls_fit_def initial_bus_def)
  then have "fits d op"
    using assms(2) by (auto simp: calls_fit_def)
  then show ?thesis
    by (intro faultsD [OF op_driver_faults]) simp_all
qed

lemma chip_writes_source: "chip_writes h \<noteq> [] \<Longrightarrow> \<exists>cr \<in> set h. \<exists>p d v. fst cr = Dev p d (Channel_Write v)"
  by (induction h rule: chip_writes.induct) auto

theorem driver_assertions_hold_witness:
  "\<exists>sents b port d v r. runMessagingServer (hw_serverHandleMsg ideal_params)
       \<lparr>socketRet = 3, setsockoptRet = 0, bindRet = 0, listenRet = 0\<rparr> [(4, charger_request)] initial_bus = Inr (None, sents, b)
    \<and> (Dev port d (Channel_Write v), r) \<in> set (bus_log b)
    \<and> fst (op_driver ideal_ds2408 (\<lambda>_. 0) port (device_address d) (Channel_Write v) (\<lambda>_. 0)) \<noteq> Inl Assert_Failed"
proof -
  obtain sents b where run: "runMessagingServer (hw_serverHandleMsg ideal_params)
       \<lparr>socketRet = 3, setsockoptRet = 0, bindRet = 0, listenRet = 0\<rparr> [(4, charger_request)] initial_bus = Inr (None, sents, b)"
      and "chip_writes (bus_log b) \<noteq> []"
    using charger_session by blast
  then obtain port d v r where "(Dev port d (Channel_Write v), r) \<in> set (bus_log b)"
    using chip_writes_source [of "bus_log b"] by (metis prod.collapse)
  with run driver_assertions_hold [OF run this, of ideal_ds2408 "\<lambda>_. 0" "\<lambda>_. 0"] show ?thesis
    by blast
qed

end
