(* ===== verification/LocalServer.thy ===== *)
theory LocalServer
  imports TaskHandler
begin

section \<open>The local server of RoboOne\<close>

text \<open>
  \<open>RoboOne/src/local_server.c\<close>: a thread of the user interface that receives the progress indications of the task handler and
  keeps the last one for the dashboard, in the structure \<open>roboOneTaskInfo\<close> of the globals (\<open>RoboOne/src/main.h\<close>).

  An indication is packed: a handle (1 byte), the protocol (4), the result (4), the length of the string (1) and the string.  The
  body of the message is what is left of the receive buffer, so a string without terminator is read to the end of this body; what
  lies behind it is \<open>Bad_Access\<close>, as is a string that does not fit the 80 bytes of \<open>lastIndString\<close>.
\<close>

definition LOCAL_SERVER_PORT :: u32 where "LOCAL_SERVER_PORT = 5230"

record task_info =
  taskCounter :: u32
  lastTaskSent :: "u8 list"
  lastResultReceivedIsValid :: bool
  lastResultReceived :: u32
  lastIndString :: "u8 list"

text \<open>A string is written over the start of a buffer.\<close>

definition write_over :: "'a list \<Rightarrow> 'a list \<Rightarrow> 'a list" where
  "write_over new old = new @ drop (length new) old"

definition handleHDTaskInd :: "u8 list \<Rightarrow> task_info \<Rightarrow> fault + task_info" where
  "handleHDTaskInd ind g =
     (let result = le32 ind;
          g' = g\<lparr>lastResultReceived := result, lastResultReceivedIsValid := True, lastIndString := (lastIndString g)[0 := 0]\<rparr>
      in if result = HD_RESULT_SUCCESS then
           andthen (removeCtrlCharacters (drop 5 ind) MAX_O_STRING_LENGTH) (\<lambda>out.
             Inr (g'\<lparr>lastIndString := write_over out (lastIndString g')\<rparr>))
         else if result = HD_RESULT_SEND_FAILURE then Inr g'
         else if result = HD_RESULT_GENERAL_FAILURE then Inr g'
         else Inl Assert_Failed)"

definition handleTaskInd :: "u8 list \<Rightarrow> task_info \<Rightarrow> fault + task_info" where
  "handleTaskInd ind g = (if le32 (drop 1 ind) = TASK_PROTOCOL_HD then handleHDTaskInd (drop 5 ind) g else Inl Assert_Failed)"

definition ro_doAction :: "nat \<Rightarrow> u8 list \<Rightarrow> task_info \<Rightarrow> fault + (server_code \<times> task_info)" where
  "ro_doAction t body g =
     (if t = TASK_HANDLER_TASK_IND then andthen (handleTaskInd body g) (\<lambda>g'. Inr (SERVER_SUCCESS_KEEP_RUNNING, g'))
      else Inl Assert_Failed)"

definition ro_serverHandleMsg :: "task_info handler" where
  "ro_serverHandleMsg m reply g =
     andthen (assert_that (unat (msgType m) < MAX_NUM_TASK_HANDLER_MSGS)) (\<lambda>_.
     andthen (ro_doAction (unat (msgType m)) (msgBody m) g) (\<lambda>(code, g'). Inr (code, reply\<lparr>msgLength := 0\<rparr>, g')))"

text \<open>\<open>initGlobals\<close> of \<open>main.c\<close>; the globals are zero before.\<close>

definition initial_info :: task_info where
  "initial_info = \<lparr>taskCounter = 0, lastTaskSent = replicate MAX_O_STRING_LENGTH 0, lastResultReceivedIsValid = False,
     lastResultReceived = 0, lastIndString = replicate MAX_O_STRING_LENGTH 0\<rparr>"

subsection \<open>What is kept is safe to display\<close>

text \<open>A buffer of 80 bytes whose string is terminated and printable.\<close>

definition displayable :: "u8 list \<Rightarrow> bool" where
  "displayable bs \<longleftrightarrow> length bs = MAX_O_STRING_LENGTH \<and> (\<exists>s rest. bs = s @ 0 # rest \<and> (\<forall>b \<in> set s. isprint b))"

definition info_ok :: "task_info \<Rightarrow> bool" where
  "info_ok g \<longleftrightarrow> displayable (lastTaskSent g) \<and> displayable (lastIndString g) \<and>
     (lastResultReceivedIsValid g \<longrightarrow>
        lastResultReceived g \<in> {HD_RESULT_SUCCESS, HD_RESULT_GENERAL_FAILURE, HD_RESULT_SEND_FAILURE})"

lemma displayableI:
  "bs = s @ 0 # rest \<Longrightarrow> length bs = MAX_O_STRING_LENGTH \<Longrightarrow> (\<And>b. b \<in> set s \<Longrightarrow> isprint b) \<Longrightarrow> displayable bs"
  by (auto simp: displayable_def)

lemma displayable_zeros: "displayable (replicate MAX_O_STRING_LENGTH 0)"
  by (rule displayableI [of _ "[]" "replicate 79 0"]) (simp_all add: MAX_O_STRING_LENGTH_def flip: replicate_Suc)

lemma displayable_cleared: "length bs = MAX_O_STRING_LENGTH \<Longrightarrow> displayable (bs[0 := 0])"
  by (cases bs) (auto simp: MAX_O_STRING_LENGTH_def intro: displayableI [of _ "[]"])

lemma displayable_written:
  assumes "removeCtrlCharacters s MAX_O_STRING_LENGTH = Inr out" and "length bs = MAX_O_STRING_LENGTH"
  shows "displayable (write_over out bs)"
proof -
  have out: "out = filter isprint (take (c_strlen s) s) @ [0]" and "printable_fits s"
    using assms(1) by (auto simp: removeCtrlCharacters_fits split: if_splits)
  then have "length out \<le> 80"
    by (simp add: printable_fits_def MAX_O_STRING_LENGTH_def)
  then show ?thesis
    by (intro displayableI [of _ "filter isprint (take (c_strlen s) s)" "drop (length out) bs"])
      (simp_all add: write_over_def out assms(2) [unfolded MAX_O_STRING_LENGTH_def] MAX_O_STRING_LENGTH_def)
qed

lemma displayableD: "displayable bs \<Longrightarrow> length bs = MAX_O_STRING_LENGTH" "displayable bs \<Longrightarrow> terminated bs"
  by (auto simp: displayable_def terminated_def)

lemma initial_info_ok: "info_ok initial_info"
  by (simp add: info_ok_def initial_info_def displayable_zeros)

lemma handleHDTaskInd_ok: "info_ok g \<Longrightarrow> handleHDTaskInd ind g = Inr g' \<Longrightarrow> info_ok g'"
  by (auto simp: handleHDTaskInd_def info_ok_def Let_def andthen_eq_Inr displayable_cleared displayableD(1)
      intro!: displayable_written split: if_splits)

lemma ro_handle_ok:
  assumes "info_ok g" and "ro_serverHandleMsg m reply g = Inr (code, reply', g')"
  shows "info_ok g'"
  using assms handleHDTaskInd_ok [OF assms(1)]
  by (auto simp: ro_serverHandleMsg_def ro_doAction_def handleTaskInd_def andthen_eq_Inr split: if_splits)

interpretation ro: message_handler ro_serverHandleMsg info_ok
  by unfold_locales (rule ro_handle_ok)

text \<open>
  C17.  Whatever is sent to the local server of RoboOne, what it keeps for the dashboard is safe to display: the last answer and
  the last task are terminated strings of printable characters within their 80 bytes, and a result that is
  marked as valid is one of the three that the dashboard knows (it asserts this).
\<close>

theorem local_server_displayable:
  assumes "runMessagingServer ro_serverHandleMsg os cs initial_info = Inr (code, sents, g)"
  shows "displayable (lastIndString g) \<and> displayable (lastTaskSent g) \<and>
    (lastResultReceivedIsValid g \<longrightarrow>
      lastResultReceived g \<in> {HD_RESULT_SUCCESS, HD_RESULT_GENERAL_FAILURE, HD_RESULT_SEND_FAILURE})"
  using ro.runMessagingServer_inv [OF initial_info_ok assms] by (simp add: info_ok_def)

text \<open>The indication that carries the string \<open>OK\<close> arrives in one piece.\<close>

definition ok_indication :: connection where
  "ok_indication = \<lparr>memRecv = True, memBuf = replicate 20 0, memSend = True, memReply = [0, 0],
     recvs = [Recv_Data [14, 4, 0, 0, 0, 0, 0, 0, 0, 0, 0, 3, 79, 75, 0]], sendRet = int\<rparr>"

lemma ok_message_handled:
  "ro_serverHandleMsg \<lparr>msgLength = 14, msgType = 4, msgBody = [0, 0, 0, 0, 0, 0, 0, 0, 0, 3, 79, 75, 0] @ rest\<rparr> reply g =
    Inr (SERVER_SUCCESS_KEEP_RUNNING, reply\<lparr>msgLength := 0\<rparr>,
      g\<lparr>lastResultReceived := 0, lastResultReceivedIsValid := True, lastIndString := write_over [79, 75, 0] ((lastIndString g)[0 := 0])\<rparr>)"
proof -
  have "terminated ([79, 75, 0] @ rest)" "c_strlen ([79, 75, 0] @ rest) = 2"
    by (simp_all add: terminated_def c_strlen_def)
  then have "removeCtrlCharacters ([79, 75, 0] @ rest) MAX_O_STRING_LENGTH = Inr [79, 75, 0]"
    unfolding removeCtrlCharacters_fits by (simp add: printable_fits_def isprint_def MAX_O_STRING_LENGTH_def)
  then show ?thesis
    by (simp add: ro_serverHandleMsg_def ro_doAction_def handleTaskInd_def handleHDTaskInd_def MAX_NUM_TASK_HANDLER_MSGS_def
        TASK_PROTOCOL_HD_def HD_RESULT_SUCCESS_def)
qed

theorem local_server_displayable_witness:
  "\<exists>code sents g. runMessagingServer ro_serverHandleMsg \<lparr>socketRet = 3, setsockoptRet = 0, bindRet = 0, listenRet = 0\<rparr>
      [(4, ok_indication)] initial_info = Inr (code, sents, g)
    \<and> take 3 (lastIndString g) = [79, 75, 0] \<and> displayable (lastIndString g)"
proof -
  let ?body = "[0, 0, 0, 0, 0, 0, 0, 0, 0, 3, 79, 75, 0] :: u8 list"
  let ?g = "initial_info\<lparr>lastResultReceived := 0, lastResultReceivedIsValid := True,
    lastIndString := write_over [79, 75, 0] ((lastIndString initial_info)[0 := 0])\<rparr>"
  have "handleSendReceive ro_serverHandleMsg ok_indication initial_info =
      andthen (ro_serverHandleMsg (msg_of_bytes (14 # (4 # ?body) @ drop (Suc (length (4 # ?body))) (fresh_buf ok_indication)))
        (fresh_reply ok_indication) initial_info)
        (\<lambda>(code, reply, s'). andthen (send_reply ok_indication code reply) (\<lambda>(code', sent). Inr (code', sent, s')))"
    by (rule handle_single_chunk [where rs = "[]"]) (simp_all add: ok_indication_def)
  then have run: "runMessagingServer ro_serverHandleMsg \<lparr>socketRet = 3, setsockoptRet = 0, bindRet = 0, listenRet = 0\<rparr>
      [(4, ok_indication)] initial_info = Inr (None, [None], ?g)"
    by (simp add: runMessagingServer_def ok_message_handled [simplified] send_reply_def fresh_reply_def)
  have "take 3 (lastIndString ?g) = [79, 75, 0]"
    by (simp add: write_over_def)
  then show ?thesis
    using local_server_displayable [OF run] run by blast
qed

subsection \<open>Which messages end the program\<close>

text \<open>
  The assertions are those of the whole process, so they end the user interface, too.
\<close>

lemma local_server_faults:
  "ro_serverHandleMsg m reply g = Inl e \<longleftrightarrow>
     (e = Assert_Failed \<and> (unat (msgType m) \<noteq> TASK_HANDLER_TASK_IND \<or> le32 (drop 1 (msgBody m)) \<noteq> TASK_PROTOCOL_HD \<or>
        le32 (drop 5 (msgBody m)) \<notin> {HD_RESULT_SUCCESS, HD_RESULT_GENERAL_FAILURE, HD_RESULT_SEND_FAILURE})) \<or>
     (e = Bad_Access \<and> unat (msgType m) = TASK_HANDLER_TASK_IND \<and> le32 (drop 1 (msgBody m)) = TASK_PROTOCOL_HD \<and>
        le32 (drop 5 (msgBody m)) = HD_RESULT_SUCCESS \<and> \<not> printable_fits (drop 10 (msgBody m)))"
  by (cases "unat (msgType m) < 5")
    (auto simp: ro_serverHandleMsg_def ro_doAction_def handleTaskInd_def handleHDTaskInd_def MAX_NUM_TASK_HANDLER_MSGS_def
      removeCtrlCharacters_fits andthen_eq_Inl Let_def HD_RESULT_SUCCESS_def HD_RESULT_SEND_FAILURE_def
      HD_RESULT_GENERAL_FAILURE_def)

end
