(* ===== verification/Startup.thy ===== *)
theory Startup
  imports Computations LocalServer StateMachine Timer_Server
begin

section \<open>The programs that start the servers\<close>

text \<open>
  \<open>RoboOne/src/main.c\<close>, which launches the five servers one inside the other, runs the dashboard in the middle and stops the servers
  in the reverse order, and \<open>RoboOneHardware/src/remaining_capacity_sync.c\<close>, which launches the hardware server alone to save the capacities
  of the batteries when the Pi goes up or down.

  The state is the sequence of calls to the system and to the servers with their answers, each a number and some bytes.  \<open>Fork\<close> is
  answered with 0 in the child, and the text after it is run by both processes; \<open>Exec\<close> only returns if it fails, with a
  negative number.  The result is the exit status, \<open>None\<close> in a process that has become a server.  \<open>Access\<close> is a call of the
  access function of a server (\<open>Client\<close>), whose number is 0 if it failed; for the state machine the bytes are the type and
  the body of the confirmation.  The dashboard (\<open>Monitor\<close>) is one call here.
\<close>

subsection \<open>Calls\<close>

datatype baud = B0 | B300 | B1200 | B2400 | B4800 | B9600 | B19200 | B38400 | B57600 | B115200 | B230400

datatype start_call =
    Open_Terminal string
  | Fork peer
  | Exec peer
  | Start_Delay peer
  | Access peer nat "u8 list option"
  | Wait_Exit peer
  | Get_Memory
  | Create_Thread u32
  | Cancel_Thread
  | Run_Monitor "string option" baud

type_synonym start_history = "(start_call \<times> int \<times> u8 list) list"
type_synonym start_env = "start_history \<Rightarrow> start_call \<Rightarrow> int \<times> u8 list"
type_synonym 'a startup = "(start_history, 'a) driver"

definition os_call :: "start_env \<Rightarrow> start_call \<Rightarrow> (int \<times> u8 list) startup" where
  "os_call E c = call (\<lambda>h. (E h c, h @ [(c, E h c)]))"

definition access_server :: "start_env \<Rightarrow> peer \<Rightarrow> nat \<Rightarrow> u8 list option \<Rightarrow> bool startup" where
  "access_server E p t body = then_do (os_call E (Access p t body)) (\<lambda>(r, _). ret (r \<noteq> 0))"

subsection \<open>Starting and stopping a server\<close>

definition startHardwareServer :: "start_env \<Rightarrow> bool \<Rightarrow> bool startup" where
  "startHardwareServer E batteriesOnly = access_server E HW_Server HARDWARE_SERVER_START (Some [bool_byte batteriesOnly])"

definition stopHardwareServer :: "start_env \<Rightarrow> bool startup" where
  "stopHardwareServer E = access_server E HW_Server HARDWARE_SERVER_STOP None"

definition startTaskHandlerServer :: "start_env \<Rightarrow> bool startup" where
  "startTaskHandlerServer E = access_server E TH_Server TASK_HANDLER_SERVER_START None"

definition stopTaskHandlerServer :: "start_env \<Rightarrow> bool startup" where
  "stopTaskHandlerServer E = access_server E TH_Server TASK_HANDLER_SERVER_STOP None"

definition startBatteryManagerServer :: "start_env \<Rightarrow> bool startup" where
  "startBatteryManagerServer E = access_server E BM_Server BATTERY_MANAGER_SERVER_START None"

definition stopBatteryManagerServer :: "start_env \<Rightarrow> bool startup" where
  "stopBatteryManagerServer E = access_server E BM_Server BATTERY_MANAGER_SERVER_STOP None"

definition startTimerServer :: "start_env \<Rightarrow> bool startup" where
  "startTimerServer E = access_server E Timer_Srv (unat TIMER_SERVER_START_REQ) None"

definition stopTimerServer :: "start_env \<Rightarrow> bool startup" where
  "stopTimerServer E = access_server E Timer_Srv (unat TIMER_SERVER_STOP_REQ) None"

text \<open>
  The two confirmations of the state machine are a flag in one byte of fresh memory, which the body of the reply is copied to; the type is
  \<open>STATE_MACHINE_SERVER_NULL\<close>, 0, before.
\<close>

definition confirmed_by_state_machine :: "start_env \<Rightarrow> nat \<Rightarrow> bool startup" where
  "confirmed_by_state_machine E t =
     then_do (os_call E Get_Memory) (\<lambda>(memory, _).
       if memory \<noteq> 0 then
         then_do (os_call E (Access SM_Server t None)) (\<lambda>(success, rsp).
           if length (tl rsp) \<le> 1 then
             ret (success \<noteq> 0 \<and> unat (hd (rsp @ [0])) = t \<and> hd (tl rsp @ [0]) \<noteq> 0)
           else raise Bad_Access)
       else ret False)"

definition startStateMachineServer :: "start_env \<Rightarrow> bool startup" where
  "startStateMachineServer E = confirmed_by_state_machine E STATE_MACHINE_SERVER_START"

definition stopStateMachineServer :: "start_env \<Rightarrow> bool startup" where
  "stopStateMachineServer E = confirmed_by_state_machine E STATE_MACHINE_SERVER_STOP"

text \<open>Cancelling a thread that could not be created reads the variable that should hold it before it has a value.\<close>

definition startLocalServerThread :: "start_env \<Rightarrow> u32 \<Rightarrow> bool startup" where
  "startLocalServerThread E port = then_do (os_call E (Create_Thread port)) (\<lambda>(r, _). ret (r = 0))"

definition stopLocalServerThread :: "start_env \<Rightarrow> bool \<Rightarrow> bool startup" where
  "stopLocalServerThread E created =
     (if created then then_do (os_call E Cancel_Thread) (\<lambda>(r, _). ret (r = 0)) else raise Bad_Access)"

subsection \<open>The command line\<close>

text \<open>\<open>strstr (s, p) == s\<close>: the string starts with \<open>p\<close>.\<close>

definition starts_with :: "string \<Rightarrow> string \<Rightarrow> bool" where
  "starts_with p s \<longleftrightarrow> take (length p) s = p"

definition setBaudRate :: "string \<Rightarrow> baud \<Rightarrow> bool \<times> baud" where
  "setBaudRate s b =
     (if starts_with ''300'' s then (True, B300)
      else if starts_with ''1200'' s then (True, B1200)
      else if starts_with ''2400'' s then (True, B2400)
      else if starts_with ''4800'' s then (True, B4800)
      else if starts_with ''9600'' s then (True, B9600)
      else if starts_with ''19200'' s then (True, B19200)
      else if starts_with ''38400'' s then (True, B38400)
      else if starts_with ''57600'' s then (True, B57600)
      else if starts_with ''115200'' s then (True, B115200)
      else if starts_with ''230400'' s then (True, B230400)
      else (False, b))"

text \<open>The arguments without the name of the program; the result is the success and the settings, the terminal and the baud rate.\<close>

definition parseParameters :: "start_env \<Rightarrow> string list \<Rightarrow> (bool \<times> string option \<times> baud) startup" where
  "parseParameters E args =
     then_do (if args \<noteq> [] then
         then_do (os_call E (Open_Terminal (hd args))) (\<lambda>(fd, _).
           ret (if fd < 0 then (False, None) else (True, Some (hd args))))
       else ret (True, None)) (\<lambda>(success, pTerminal).
     let (success, baudRate) = (if 2 \<le> length args then setBaudRate (args ! 1) B0 else (success, B0));
         success = (if 3 \<le> length args then False else success)
     in ret (success, pTerminal, baudRate))"

subsection \<open>The programs\<close>

text \<open>
  One server: fork, become the server in the child, start it in the parent, run what is inside if it has started, then stop it and wait
  for its end.  The source has this text once for each server.  \<open>success\<close> is the variable of \<open>main\<close>.
\<close>

definition with_server ::
  "start_env \<Rightarrow> peer \<Rightarrow> bool startup \<Rightarrow> bool startup \<Rightarrow> bool \<Rightarrow> bool option startup \<Rightarrow> bool option startup" where
  "with_server E p start stop success inside =
     then_do (os_call E (Fork p)) (\<lambda>(pid, _).
       if pid = 0 then then_do (os_call E (Exec p)) (\<lambda>(r, _). ret (if r < 0 then Some success else None))
       else if pid < 0 then ret (Some success)
       else
         then_do (os_call E (Start_Delay p)) (\<lambda>_.
         then_do start (\<lambda>success.
         then_do (if success then inside else ret (Some False)) (\<lambda>result. case result of
             None \<Rightarrow> ret None
           | Some success \<Rightarrow>
               then_do stop (\<lambda>_.
               then_do (os_call E (Wait_Exit p)) (\<lambda>_. ret (Some success)))))))"

definition exit_status :: "bool option \<Rightarrow> int option" where
  "exit_status result = map_option (\<lambda>success. if success then 1 else - 1) result"

definition run_dashboard :: "start_env \<Rightarrow> string option \<Rightarrow> baud \<Rightarrow> bool option startup" where
  "run_dashboard E pTerminal baudRate =
     then_do (startLocalServerThread E LOCAL_SERVER_PORT) (\<lambda>created.
     then_do (if created then then_do (os_call E (Run_Monitor pTerminal baudRate)) (\<lambda>(r, _). ret (r \<noteq> 0)) else ret False) (\<lambda>success.
     then_do (stopLocalServerThread E created) (\<lambda>_. ret (Some success))))"

definition roboone_main :: "start_env \<Rightarrow> string list \<Rightarrow> int option startup" where
  "roboone_main E args =
     then_do (parseParameters E args) (\<lambda>(success, pTerminal, baudRate).
     then_do (if success then
         with_server E Timer_Srv (startTimerServer E) (stopTimerServer E) True
           (with_server E HW_Server (startHardwareServer E False) (stopHardwareServer E) True
             (with_server E TH_Server (startTaskHandlerServer E) (stopTaskHandlerServer E) True
               (with_server E BM_Server (startBatteryManagerServer E) (stopBatteryManagerServer E) True
                 (with_server E SM_Server (startStateMachineServer E) (stopStateMachineServer E) True
                   (run_dashboard E pTerminal baudRate)))))
       else ret (Some False)) (\<lambda>result. ret (exit_status result)))"

text \<open>The four readings, each of which may fail; what they print is left out.\<close>

fun read_capacities :: "start_env \<Rightarrow> nat list \<Rightarrow> unit startup" where
  "read_capacities E [] = ret ()"
| "read_capacities E (t # ts) = then_do (access_server E HW_Server t None) (\<lambda>_. read_capacities E ts)"

definition sync_main :: "start_env \<Rightarrow> int option startup" where
  "sync_main E =
     then_do (with_server E HW_Server (startHardwareServer E True) (stopHardwareServer E) False
         (then_do (read_capacities E [HARDWARE_READ_RIO_REMAINING_CAPACITY, HARDWARE_READ_O1_REMAINING_CAPACITY,
              HARDWARE_READ_O2_REMAINING_CAPACITY, HARDWARE_READ_O3_REMAINING_CAPACITY]) (\<lambda>_. ret (Some True))))
       (\<lambda>result. ret (exit_status result))"

end
