(* ===== verification/Menu.thy ===== *)
theory Menu
  imports LocalServer Computations
begin

section \<open>The menu of RoboOne\<close>

text \<open>
  \<open>RoboOne/src/menu.c\<close>: the commands that the user types, one key at a time, and what they do: readings that are displayed,
  relay and charger commands, calibration and the exchange of a battery, strings and tasks for the Hindbrain.

  The state \<open>ui\<close> holds the calls to other processes and to the terminal (\<open>World\<close>), what has been printed, the globals of
  \<open>main.c\<close> and the static variables of \<open>handleUserCmdMenu\<close> and (for \<open>Monitor\<close>) of \<open>updatePowerWindow\<close>.
  What is printed is a list of items with the window they go to: the position of the cursor, its moves and the
  refreshing of windows are left out, and so are the quotes around a string.  A local variable is the list of its bytes; what an uninitialised one holds is the
  parameter \<open>uninitialised\<close>.  Where a reply does not fit the variable that it is copied to, the copy is a
  \<open>Bad_Access\<close>.  The size of \<open>RoboOneTaskUnion\<close> depends on a header that is not in the repository and is a parameter, as
  is the size of the confirmation with the state machine's context.

  The functions that send one command have the names of functions of \<open>ow_bus.c\<close>, which carry the command out in the hardware
  server; here they are called \<open>cmd_*\<close>.
\<close>

subsection \<open>State and basic operations\<close>

datatype window = Output_Win | Rio_Win | O_Win | Power_Win | Charger_Win | State_Win | Command_Win

datatype out = Text string | Number int | Bytes "u8 list" | Newline

record ui =
  uiCalls :: history
  printed :: "(window \<times> out) list"
  taskInfo :: task_info
  numEntries :: u8
  entry :: "u8 list"
  previousMains12VPresent :: bool

record ui_params =
  uiEnv :: env
  uninitialised :: "string \<Rightarrow> nat \<Rightarrow> u8"
  sizeofTaskUnion :: nat
  sizeofContextCnf :: nat

type_synonym 'a interface = "(ui, 'a) driver"

definition ui_exec :: "ui_params \<Rightarrow> call \<Rightarrow> reply interface" where
  "ui_exec P c = call (\<lambda>s. (uiEnv P (uiCalls s) c, s\<lparr>uiCalls := uiCalls s @ [(c, uiEnv P (uiCalls s) c)]\<rparr>))"

definition say :: "window \<Rightarrow> out list \<Rightarrow> unit interface" where
  "say w outs = act (\<lambda>s. s\<lparr>printed := printed s @ map (Pair w) outs\<rparr>)"

definition info :: "(task_info \<Rightarrow> 'a) \<Rightarrow> 'a interface" where
  "info f = call (\<lambda>s. (f (taskInfo s), s))"

definition set_info :: "(task_info \<Rightarrow> task_info) \<Rightarrow> unit interface" where
  "set_info f = act (\<lambda>s. s\<lparr>taskInfo := f (taskInfo s)\<rparr>)"

definition lift_fault :: "fault + 'a \<Rightarrow> 'a interface" where
  "lift_fault r = (case r of Inl e \<Rightarrow> raise e | Inr x \<Rightarrow> ret x)"

text \<open>The bytes of an uninitialised local variable, and \<open>memcpy\<close> to an offset of one.\<close>

definition local_var :: "ui_params \<Rightarrow> string \<Rightarrow> nat \<Rightarrow> u8 list" where
  "local_var P v n = map (uninitialised P v) [0..<n]"

definition place :: "nat \<Rightarrow> u8 list \<Rightarrow> u8 list \<Rightarrow> u8 list interface" where
  "place off bs var =
     (if off + length bs \<le> length var then ret (take off var @ bs @ drop (off + length bs) var) else raise Bad_Access)"

definition malloc :: "ui_params \<Rightarrow> nat \<Rightarrow> u8 list option interface" where
  "malloc P n = then_do (ui_exec P (Malloc n)) (\<lambda>(ok, mem). ret (if ok then Some (take n (mem @ replicate n 0)) else None))"

text \<open>The access functions without a place for the rest of the reply, and with one.\<close>

definition hw_send :: "ui_params \<Rightarrow> nat \<Rightarrow> u8 list option \<Rightarrow> bool interface" where
  "hw_send P t body = then_do (ui_exec P (Call HW_Server t body)) (\<lambda>(ok, _). ret ok)"

definition sm_send :: "ui_params \<Rightarrow> nat \<Rightarrow> u8 list option \<Rightarrow> bool interface" where
  "sm_send P t body = then_do (ui_exec P (Call SM_Server t body)) (\<lambda>(ok, _). ret ok)"

definition hw_read :: "ui_params \<Rightarrow> nat \<Rightarrow> nat \<Rightarrow> u8 list \<Rightarrow> (bool \<times> u8 list) interface" where
  "hw_read P t off var =
     then_do (ui_exec P (Call HW_Server t None)) (\<lambda>(ok, specs).
       if ok then then_do (place off specs var) (\<lambda>var'. ret (True, var')) else ret (False, var))"

text \<open>A chain of readings, each of which is only made if the one before was successful.\<close>

fun hw_reads :: "ui_params \<Rightarrow> (nat \<times> u8 list) list \<Rightarrow> (bool \<times> u8 list list) interface" where
  "hw_reads P [] = ret (True, [])"
| "hw_reads P ((t, var) # rs) =
     then_do (hw_read P t 0 var) (\<lambda>(ok, v).
       if ok then then_do (hw_reads P rs) (\<lambda>(ok', vs). ret (ok', v # vs))
       else ret (False, v # map snd rs))"

subsection \<open>Input\<close>

definition toUpper :: "u8 \<Rightarrow> u8" where
  "toUpper digit = (if 97 \<le> digit \<and> digit \<le> 122 then and digit (not 0x20) else digit)"

definition getYesInput :: "ui_params \<Rightarrow> window \<Rightarrow> string \<Rightarrow> bool interface" where
  "getYesInput P w prompt =
     then_do (ui_exec P (Terminal Get_Settings)) (\<lambda>(ok, _).
       if ok then
         then_do (say w [Text prompt]) (\<lambda>_.
         then_do (ui_exec P (Terminal Get_Char)) (\<lambda>(_, c).
         ret (toUpper (hd (c @ [255])) = 89)))
       else ret False)"

text \<open>\<open>fgets\<close> stores at most one character less than the buffer has, and a terminator.  The result is \<open>None\<close> for a null pointer.\<close>

definition getStringInput :: "ui_params \<Rightarrow> window \<Rightarrow> string \<Rightarrow> u8 list \<Rightarrow> u8 list option interface" where
  "getStringInput P w prompt pString =
     then_do (require (0 < length pString)) (\<lambda>_.
     then_do (ui_exec P (Terminal Get_Settings)) (\<lambda>(tty, _).
       if tty then
         then_do (say w [Text prompt]) (\<lambda>_.
         then_do (ui_exec P (Terminal (Get_Line (length pString)))) (\<lambda>(ok, line).
           if ok then ret (Some (write_over (take (length pString - 1) line @ [0]) pString)) else ret None))
       else ret None))"

subsection \<open>Readings\<close>

definition GENERIC_FAILURE_MSG :: string where "GENERIC_FAILURE_MSG = ''Failed!''"
definition READ_FAILURE_MSG :: string where "READ_FAILURE_MSG = ''Read failure.''"

text \<open>The four functions that display one kind of reading of all batteries; \<open>int\<close> sums for the Hindbrain's three batteries.\<close>

definition displayCurrents :: "ui_params \<Rightarrow> window \<Rightarrow> bool interface" where
  "displayCurrents P w =
     then_do (hw_reads P [(HARDWARE_READ_RIO_BATT_CURRENT, local_var P ''rioCurrent'' 2),
                          (HARDWARE_READ_O1_BATT_CURRENT, local_var P ''o1Current'' 2),
                          (HARDWARE_READ_O2_BATT_CURRENT, local_var P ''o2Current'' 2),
                          (HARDWARE_READ_O3_BATT_CURRENT, local_var P ''o3Current'' 2)]) (\<lambda>(success, vs).
     let c = map (\<lambda>v. sint (le16 v)) vs
     in then_do
       (if success then
          say w [Text ''Currents (mA): Pi/RIO '', Number (c ! 0), Text '', Ox '', Number (c ! 1 + c ! 2 + c ! 3), Text '', O1 '',
            Number (c ! 1), Text '', O2 '', Number (c ! 2), Text '', O3 '', Number (c ! 3), Text '' (-ve is discharge).'', Newline]
        else say w [Text READ_FAILURE_MSG, Newline])
       (\<lambda>_. ret success))"

definition displayVoltages :: "ui_params \<Rightarrow> window \<Rightarrow> bool interface" where
  "displayVoltages P w =
     then_do (hw_reads P [(HARDWARE_READ_RIO_BATT_VOLTAGE, local_var P ''rioVoltage'' 2),
                          (HARDWARE_READ_O1_BATT_VOLTAGE, local_var P ''o1Voltage'' 2),
                          (HARDWARE_READ_O2_BATT_VOLTAGE, local_var P ''o2Voltage'' 2),
                          (HARDWARE_READ_O3_BATT_VOLTAGE, local_var P ''o3Voltage'' 2)]) (\<lambda>(success, vs).
     let v = map (\<lambda>v. uint (le16 v)) vs
     in then_do
       (if success then
          say w [Text ''Voltage (mV): Pi/RIO '', Number (v ! 0), Text '', O1 '', Number (v ! 1), Text '', O2 '', Number (v ! 2),
            Text '', O3 '', Number (v ! 3), Text ''.'', Newline]
        else say w [Text READ_FAILURE_MSG, Newline])
       (\<lambda>_. ret success))"

definition displayRemainingCapacities :: "ui_params \<Rightarrow> window \<Rightarrow> bool interface" where
  "displayRemainingCapacities P w =
     then_do (hw_reads P [(HARDWARE_READ_RIO_REMAINING_CAPACITY, local_var P ''rioRemainingCapacity'' 2),
                          (HARDWARE_READ_O1_REMAINING_CAPACITY, local_var P ''o1RemainingCapacity'' 2),
                          (HARDWARE_READ_O2_REMAINING_CAPACITY, local_var P ''o2RemainingCapacity'' 2),
                          (HARDWARE_READ_O3_REMAINING_CAPACITY, local_var P ''o3RemainingCapacity'' 2)]) (\<lambda>(success, vs).
     let v = map (\<lambda>v. uint (le16 v)) vs
     in then_do
       (if success then
          say w [Text ''Remaining capacity (mAhr): Pi/RIO '', Number (v ! 0), Text '', Ox '', Number (v ! 1 + v ! 2 + v ! 3),
            Text '', O1 '', Number (v ! 1), Text '', O2 '', Number (v ! 2), Text '', O3 '', Number (v ! 3), Text ''.'', Newline]
        else say w [Text READ_FAILURE_MSG, Newline])
       (\<lambda>_. ret success))"

definition displayLifetimeChargesDischarges :: "ui_params \<Rightarrow> window \<Rightarrow> bool interface" where
  "displayLifetimeChargesDischarges P w =
     then_do (hw_reads P [(HARDWARE_READ_RIO_BATT_LIFETIME_CHARGE_DISCHARGE, local_var P ''rioLifetime'' 8),
                          (HARDWARE_READ_O1_BATT_LIFETIME_CHARGE_DISCHARGE, local_var P ''o1Lifetime'' 8),
                          (HARDWARE_READ_O2_BATT_LIFETIME_CHARGE_DISCHARGE, local_var P ''o2Lifetime'' 8),
                          (HARDWARE_READ_O3_BATT_LIFETIME_CHARGE_DISCHARGE, local_var P ''o3Lifetime'' 8)]) (\<lambda>(success, vs).
     let c = map (\<lambda>v. uint (le32 v)) vs; d = map (\<lambda>v. uint (le32 (drop 4 v))) vs
     in then_do
       (if success then
          say w [Text ''Charge (mAhr):    Pi/RIO '', Number (c ! 0), Text '', O1 '', Number (c ! 1), Text '', O2 '', Number (c ! 2),
            Text '', O3 '', Number (c ! 3), Text ''.'', Newline,
            Text ''Discharge (mAhr): Pi/RIO '', Number (d ! 0), Text '', O1 '', Number (d ! 1), Text '', O2 '', Number (d ! 2),
            Text '', O3 '', Number (d ! 3), Text ''.'', Newline]
        else say w [Text READ_FAILURE_MSG, Newline])
       (\<lambda>_. ret success))"

definition displayGpioStatesHelper :: "window \<Rightarrow> bool \<Rightarrow> bool \<Rightarrow> bool \<Rightarrow> unit interface" where
  "displayGpioStatesHelper w isKnown isEnabled isOn =
     say w [Text (if isKnown then
                    (if isOn then (if isEnabled then ''  ON  '' else ''  on  '')
                     else (if isEnabled then '' OFF  '' else '' off  ''))
                  else ''  ??  '')]"

text \<open>
  The states of several relays in a row, behind the same enabling relay; \<open>isOn\<close> is one variable for all of them.
\<close>

fun relay_states :: "ui_params \<Rightarrow> window \<Rightarrow> u8 list \<Rightarrow> nat list \<Rightarrow> u8 list \<Rightarrow> u8 list interface" where
  "relay_states P w relaysEnabled [] isOn = ret isOn"
| "relay_states P w relaysEnabled (t # ts) isOn =
     then_do (hw_read P t 0 isOn) (\<lambda>(success, isOn).
     then_do (displayGpioStatesHelper w success (hd relaysEnabled \<noteq> 0) (hd isOn \<noteq> 0)) (\<lambda>_.
     relay_states P w relaysEnabled ts isOn))"

definition RELAY_HEADING_STRING :: string where
  "RELAY_HEADING_STRING = '' HPTg  HRTg  Pi12V PiBat H12V  HBat  PiChg H1Chg H2Chg H3Chg''"

definition displayRelayStates :: "ui_params \<Rightarrow> window \<Rightarrow> bool interface" where
  "displayRelayStates P w =
     then_do (say w [Text RELAY_HEADING_STRING, Newline]) (\<lambda>_.
     then_do (hw_read P HARDWARE_READ_ON_PCB_RELAYS_ENABLED 0 (local_var P ''relaysEnabled'' 1)) (\<lambda>(_, relaysEnabled).
     then_do (relay_states P w relaysEnabled
         [HARDWARE_READ_O_PWR, HARDWARE_READ_O_RST, HARDWARE_READ_RIO_PWR_12V, HARDWARE_READ_RIO_PWR_BATT]
         (local_var P ''isOn'' 1)) (\<lambda>isOn.
     then_do (hw_read P HARDWARE_READ_EXTERNAL_RELAYS_ENABLED 0 relaysEnabled) (\<lambda>(_, relaysEnabled).
     then_do (relay_states P w relaysEnabled
         [HARDWARE_READ_O_PWR_12V, HARDWARE_READ_O_PWR_BATT, HARDWARE_READ_RIO_BATTERY_CHARGER,
          HARDWARE_READ_O1_BATTERY_CHARGER, HARDWARE_READ_O2_BATTERY_CHARGER, HARDWARE_READ_O3_BATTERY_CHARGER] isOn) (\<lambda>_.
     then_do (say w [Newline]) (\<lambda>_. ret True))))))"

definition GPIO_HEADING_STRING :: string where
  "GPIO_HEADING_STRING = ''  0     1     2     3     4     5     6     7''"

fun gpio_states :: "window \<Rightarrow> bool \<Rightarrow> u8 \<Rightarrow> nat list \<Rightarrow> unit interface" where
  "gpio_states w success pinsState [] = ret ()"
| "gpio_states w success pinsState (i # is) =
     then_do (displayGpioStatesHelper w success True (and (push_bit i 1) pinsState \<noteq> 0)) (\<lambda>_.
     gpio_states w success pinsState is)"

definition displayGpios :: "ui_params \<Rightarrow> window \<Rightarrow> bool interface" where
  "displayGpios P w =
     then_do (say w [Text GPIO_HEADING_STRING, Newline]) (\<lambda>_.
     then_do (hw_read P HARDWARE_READ_GENERAL_PURPOSE_IOS 0 (local_var P ''pinsState'' 1)) (\<lambda>(success, pinsState).
     then_do (gpio_states w success (hd pinsState) [0..<8]) (\<lambda>_.
     then_do (say w [Newline]) (\<lambda>_. ret True))))"

subsection \<open>Commands\<close>

definition commandExit :: "ui_params \<Rightarrow> bool interface" where
  "commandExit P = sm_send P STATE_MACHINE_EVENT_SHUTDOWN None"

definition performCalAllBatteryMonitorsCnf :: "ui_params \<Rightarrow> window \<Rightarrow> bool interface" where
  "performCalAllBatteryMonitorsCnf P w =
     then_do (getYesInput P w ''Are all the current measurements resistors shorted (Y/N)? '') (\<lambda>yes.
       if yes then
         then_do (hw_send P HARDWARE_PERFORM_CAL_ALL_BATTERY_MONITORS None) (\<lambda>success.
         then_do (say w [Text (if success then ''Calibration completed, don't forget to remove the shorts.'' else GENERIC_FAILURE_MSG), Newline]) (\<lambda>_.
         ret success))
       else ret True)"

definition cmd_togglePiRst :: "ui_params \<Rightarrow> bool interface" where
  "cmd_togglePiRst P = hw_send P HARDWARE_TOGGLE_PI_RST None"

definition cmd_toggleOPwr :: "ui_params \<Rightarrow> bool interface" where
  "cmd_toggleOPwr P = hw_send P HARDWARE_TOGGLE_O_PWR None"

definition cmd_toggleORst :: "ui_params \<Rightarrow> bool interface" where
  "cmd_toggleORst P = hw_send P HARDWARE_TOGGLE_O_RST None"

definition cmd_setRioPwrBattOn :: "ui_params \<Rightarrow> bool interface" where
  "cmd_setRioPwrBattOn P = hw_send P HARDWARE_SET_RIO_PWR_BATT_ON None"

definition cmd_setRioPwrBattOff :: "ui_params \<Rightarrow> bool interface" where
  "cmd_setRioPwrBattOff P = hw_send P HARDWARE_SET_RIO_PWR_BATT_OFF None"

definition cmd_setRioPwr12VOn :: "ui_params \<Rightarrow> bool interface" where
  "cmd_setRioPwr12VOn P = hw_send P HARDWARE_SET_RIO_PWR_12V_ON None"

definition cmd_setRioPwr12VOff :: "ui_params \<Rightarrow> bool interface" where
  "cmd_setRioPwr12VOff P = hw_send P HARDWARE_SET_RIO_PWR_12V_OFF None"

definition cmd_setOPwrBattOn :: "ui_params \<Rightarrow> bool interface" where
  "cmd_setOPwrBattOn P = hw_send P HARDWARE_SET_O_PWR_BATT_ON None"

definition cmd_setOPwrBattOff :: "ui_params \<Rightarrow> bool interface" where
  "cmd_setOPwrBattOff P = hw_send P HARDWARE_SET_O_PWR_BATT_OFF None"

definition cmd_setOPwr12VOn :: "ui_params \<Rightarrow> bool interface" where
  "cmd_setOPwr12VOn P = hw_send P HARDWARE_SET_O_PWR_12V_ON None"

definition cmd_setOPwr12VOff :: "ui_params \<Rightarrow> bool interface" where
  "cmd_setOPwr12VOff P = hw_send P HARDWARE_SET_O_PWR_12V_OFF None"

definition cmd_setAllBatteryChargersOn :: "ui_params \<Rightarrow> bool interface" where
  "cmd_setAllBatteryChargersOn P = hw_send P HARDWARE_SET_ALL_BATTERY_CHARGERS_ON None"

definition cmd_setAllBatteryChargersOff :: "ui_params \<Rightarrow> bool interface" where
  "cmd_setAllBatteryChargersOff P = hw_send P HARDWARE_SET_ALL_BATTERY_CHARGERS_OFF None"

definition cmd_setRioBatteryChargerOn :: "ui_params \<Rightarrow> bool interface" where
  "cmd_setRioBatteryChargerOn P = hw_send P HARDWARE_SET_RIO_BATTERY_CHARGER_ON None"

definition cmd_setRioBatteryChargerOff :: "ui_params \<Rightarrow> bool interface" where
  "cmd_setRioBatteryChargerOff P = hw_send P HARDWARE_SET_RIO_BATTERY_CHARGER_OFF None"

definition cmd_setAllOChargersOn :: "ui_params \<Rightarrow> bool interface" where
  "cmd_setAllOChargersOn P = hw_send P HARDWARE_SET_ALL_O_BATTERY_CHARGERS_ON None"

definition cmd_setAllOChargersOff :: "ui_params \<Rightarrow> bool interface" where
  "cmd_setAllOChargersOff P = hw_send P HARDWARE_SET_ALL_O_BATTERY_CHARGERS_OFF None"

definition cmd_setO1BatteryChargerOn :: "ui_params \<Rightarrow> bool interface" where
  "cmd_setO1BatteryChargerOn P = hw_send P HARDWARE_SET_O1_BATTERY_CHARGER_ON None"

definition cmd_setO1BatteryChargerOff :: "ui_params \<Rightarrow> bool interface" where
  "cmd_setO1BatteryChargerOff P = hw_send P HARDWARE_SET_O1_BATTERY_CHARGER_OFF None"

definition cmd_setO2BatteryChargerOn :: "ui_params \<Rightarrow> bool interface" where
  "cmd_setO2BatteryChargerOn P = hw_send P HARDWARE_SET_O2_BATTERY_CHARGER_ON None"

definition cmd_setO2BatteryChargerOff :: "ui_params \<Rightarrow> bool interface" where
  "cmd_setO2BatteryChargerOff P = hw_send P HARDWARE_SET_O2_BATTERY_CHARGER_OFF None"

definition cmd_setO3BatteryChargerOn :: "ui_params \<Rightarrow> bool interface" where
  "cmd_setO3BatteryChargerOn P = hw_send P HARDWARE_SET_O3_BATTERY_CHARGER_ON None"

definition cmd_setO3BatteryChargerOff :: "ui_params \<Rightarrow> bool interface" where
  "cmd_setO3BatteryChargerOff P = hw_send P HARDWARE_SET_O3_BATTERY_CHARGER_OFF None"

definition cmd_enableAllRelays :: "ui_params \<Rightarrow> bool interface" where
  "cmd_enableAllRelays P =
     then_do (hw_send P HARDWARE_ENABLE_ON_PCB_RELAYS None) (\<lambda>success.
       if success then hw_send P HARDWARE_ENABLE_EXTERNAL_RELAYS None else ret success)"

definition cmd_disableAllRelays :: "ui_params \<Rightarrow> bool interface" where
  "cmd_disableAllRelays P =
     then_do (hw_send P HARDWARE_DISABLE_ON_PCB_RELAYS None) (\<lambda>success.
       if success then hw_send P HARDWARE_DISABLE_EXTERNAL_RELAYS None else ret success)"

text \<open>A string for the Hindbrain: a flag and the 80 characters of the string, answered by 80 characters and a length.\<close>

definition sendOString :: "ui_params \<Rightarrow> window \<Rightarrow> bool interface" where
  "sendOString P w =
     then_do (malloc P sizeof_OInputContainer) (\<lambda>inp. case inp of None \<Rightarrow> ret False | Some inp \<Rightarrow>
     then_do (malloc P sizeof_OResponseString) (\<lambda>resp. case resp of None \<Rightarrow> ret False | Some resp \<Rightarrow>
     then_do (malloc P MAX_O_STRING_LENGTH) (\<lambda>buf. case buf of None \<Rightarrow> ret False | Some buf \<Rightarrow>
     then_do (getStringInput P w ''String: '' (tl inp)) (\<lambda>str. case str of None \<Rightarrow> ret False | Some str \<Rightarrow>
     then_do (lift_fault (removeCtrlCharacters str MAX_O_STRING_LENGTH)) (\<lambda>shown.
     then_do (ui_exec P (Call HW_Server HARDWARE_SEND_O_STRING (Some (1 # str)))) (\<lambda>(success, specs).
       if success then
         then_do (place 0 specs (take MAX_O_STRING_LENGTH resp @ le_bytes32 (of_nat MAX_O_STRING_LENGTH))) (\<lambda>resp.
         then_do (say w [Newline, Text ''Sent '', Bytes shown, Text '' successfully'']) (\<lambda>_.
         if 1 < le32 (drop MAX_O_STRING_LENGTH resp) then
           then_do (lift_fault (removeCtrlCharacters resp MAX_O_STRING_LENGTH)) (\<lambda>shown.
           then_do (say w [Text '', response: '', Bytes shown, Text ''.'', Newline]) (\<lambda>_. ret True))
         else then_do (say w [Text '', no response.'', Newline]) (\<lambda>_. ret True)))
       else then_do (say w [Newline, Text ''Send failed.'', Newline]) (\<lambda>_. ret False)))))))"

text \<open>
  A task request in fresh memory \<open>mem\<close>: the header says where indications go, with the count of tasks as the handle; the address
  and what is behind the protocol stay what they were.
\<close>

definition task_request :: "u32 \<Rightarrow> u32 \<Rightarrow> u8 list \<Rightarrow> u8 list" where
  "task_request count proto mem =
     1 # le_bytes32 count @ le_bytes32 LOCAL_SERVER_PORT @ 0 # take 17 (drop 10 mem) @ le_bytes32 proto @ drop 31 mem"

definition sizeof_RoboOneTaskReq :: "ui_params \<Rightarrow> nat" where
  "sizeof_RoboOneTaskReq P = 31 + sizeofTaskUnion P"

definition MAX_LEN_HD_COMMAND_STRING :: nat where "MAX_LEN_HD_COMMAND_STRING = 30"

definition sendOTask :: "ui_params \<Rightarrow> window \<Rightarrow> bool interface" where
  "sendOTask P w =
     then_do (malloc P (sizeof_RoboOneTaskReq P)) (\<lambda>mem. case mem of None \<Rightarrow> ret False | Some mem \<Rightarrow>
     then_do (info taskCounter) (\<lambda>count.
     let req = task_request count TASK_PROTOCOL_HD mem
     in then_do (getStringInput P w ''Task string: '' (take MAX_LEN_HD_COMMAND_STRING (drop 31 req))) (\<lambda>str.
        case str of None \<Rightarrow> ret False | Some str \<Rightarrow>
        let req = take 31 req @ str @ drop (31 + MAX_LEN_HD_COMMAND_STRING) req
        in then_do (lift_fault (removeCtrlCharacters (drop 31 req) MAX_O_STRING_LENGTH)) (\<lambda>sent.
           then_do (set_info (\<lambda>g. g\<lparr>lastTaskSent := write_over sent (lastTaskSent g), lastResultReceivedIsValid := False,
             lastIndString := (lastIndString g)[0 := 0]\<rparr>)) (\<lambda>_.
           then_do (sm_send P STATE_MACHINE_EVENT_TASKS_AVAILABLE (Some req)) (\<lambda>success.
             if success then
               then_do (set_info (\<lambda>g. g\<lparr>lastTaskSent := write_over sent (lastTaskSent g), taskCounter := taskCounter g + 1\<rparr>)) (\<lambda>_.
               then_do (info lastTaskSent) (\<lambda>shown.
               then_do (say w [Newline, Text ''Sent task '', Bytes (take (c_strlen shown) shown), Text ''.'', Newline]) (\<lambda>_.
               ret True)))
             else
               then_do (set_info (\<lambda>g. g\<lparr>lastTaskSent := (lastTaskSent g)[0 := 0]\<rparr>)) (\<lambda>_.
               then_do (say w [Newline, Text ''Send failed.'', Newline]) (\<lambda>_. ret False))))))))"

text \<open>The parser of motion tasks is a stub that fails; it leaves the request alone.\<close>

definition getMotionTask :: "u8 list \<Rightarrow> bool" where
  "getMotionTask pString = False"

definition MAX_LEN_INPUT_STRING :: nat where "MAX_LEN_INPUT_STRING = 30"

definition sendMotionTask :: "ui_params \<Rightarrow> window \<Rightarrow> bool interface" where
  "sendMotionTask P w =
     then_do (malloc P (sizeof_RoboOneTaskReq P)) (\<lambda>mem. case mem of None \<Rightarrow> ret False | Some mem \<Rightarrow>
     then_do (info taskCounter) (\<lambda>count.
     let req = task_request count TASK_PROTOCOL_MOTION mem
     in then_do (getStringInput P w ''Command (? for help): '' (local_var P ''input'' MAX_LEN_INPUT_STRING)) (\<lambda>inp.
        case inp of None \<Rightarrow> ret False | Some inp \<Rightarrow>
        if inp ! 0 = 63 then
          then_do (say w [Newline, Text '' M[-]x: Move x mm or -x mm,'', Newline, Text '' T[-]x: Turn x degrees or -x degrees,'',
            Newline, Text '' Sx:    Stop command x,'', Newline, Text '' A:     stop All commands.'', Newline]) (\<lambda>_. ret False)
        else if getMotionTask inp then
          then_do (set_info (\<lambda>g. g\<lparr>lastResultReceivedIsValid := False, lastIndString := (lastIndString g)[0 := 0]\<rparr>)) (\<lambda>_.
          then_do (sm_send P STATE_MACHINE_EVENT_TASKS_AVAILABLE (Some req)) (\<lambda>success.
            if success then
              then_do (set_info (\<lambda>g. g\<lparr>taskCounter := taskCounter g + 1\<rparr>)) (\<lambda>_.
              then_do (info lastTaskSent) (\<lambda>shown.
              then_do (say w [Newline, Text ''Sent task '', Bytes (take (c_strlen shown) shown), Text ''.'', Newline]) (\<lambda>_.
              ret True)))
            else
              then_do (set_info (\<lambda>g. g\<lparr>lastTaskSent := (lastTaskSent g)[0 := 0]\<rparr>)) (\<lambda>_.
              then_do (say w [Newline, Text ''Send failed.'', Newline]) (\<lambda>_. ret False))))
        else ret False)))"

text \<open>The exchange of a battery: the four functions differ in the message only.\<close>

definition BATTERY_CAPACITY :: u16 where "BATTERY_CAPACITY = 2200"
definition SWAP_BATTERY_PROMPT :: string where "SWAP_BATTERY_PROMPT = ''Are you sure you want to change the battery (Y/N)?: ''"
definition SWAP_BATTERY_STATE_PROMPT :: string where
  "SWAP_BATTERY_STATE_PROMPT = ''Is the new battery fully charged (Y) (N if it is discharged)?: ''"
definition SWAP_BATTERY_CNF_MSG :: string where "SWAP_BATTERY_CNF_MSG = ''Battery data updated.''"

definition swap_battery_cnf :: "nat \<Rightarrow> ui_params \<Rightarrow> window \<Rightarrow> bool interface" where
  "swap_battery_cnf t P w =
     then_do (ui_exec P (Terminal Get_System_Ticks)) (\<lambda>(_, ticks).
     let systemTime = le32 ticks
     in if systemTime \<noteq> 0 then
          then_do (getYesInput P w SWAP_BATTERY_PROMPT) (\<lambda>sure.
          if sure then
            then_do (say w [Newline]) (\<lambda>_.
            then_do (getYesInput P w SWAP_BATTERY_STATE_PROMPT) (\<lambda>full.
            let capacity = (if full then BATTERY_CAPACITY else 0)
            in then_do (say w [Newline]) (\<lambda>_.
               then_do (hw_send P t (Some (le_bytes32 systemTime @ le_bytes16 capacity))) (\<lambda>success.
               then_do (say w [Text (if success then SWAP_BATTERY_CNF_MSG else GENERIC_FAILURE_MSG), Newline]) (\<lambda>_.
               ret success)))))
          else ret True)
        else ret False)"

definition swapRioBatteryCnf :: "ui_params \<Rightarrow> window \<Rightarrow> bool interface" where
  "swapRioBatteryCnf = swap_battery_cnf HARDWARE_SWAP_RIO_BATTERY"

definition swapO1BatteryCnf :: "ui_params \<Rightarrow> window \<Rightarrow> bool interface" where
  "swapO1BatteryCnf = swap_battery_cnf HARDWARE_SWAP_O1_BATTERY"

definition swapO2BatteryCnf :: "ui_params \<Rightarrow> window \<Rightarrow> bool interface" where
  "swapO2BatteryCnf = swap_battery_cnf HARDWARE_SWAP_O2_BATTERY"

definition swapO3BatteryCnf :: "ui_params \<Rightarrow> window \<Rightarrow> bool interface" where
  "swapO3BatteryCnf = swap_battery_cnf HARDWARE_SWAP_O3_BATTERY"

subsection \<open>The table of commands\<close>

text \<open>
  The columns of \<open>gCommandList\<close>: the characters to type, whether the function takes a window, and the description; the functions come
  after \<open>commandHelp\<close>, which lists the texts.
\<close>

definition command_texts :: "(string \<times> bool \<times> string) list" where
  "command_texts = [
    (''?'', True, ''display command help''),
    (''X'', False, ''exit this program''),
    (''I'', True, ''display current readings''),
    (''V'', True, ''display Voltage readings''),
    (''A'', True, ''display the accumulated remaining capacities''),
    (''L'', True, ''display the lifetime charge/discharge accumulators''),
    (''G'', True, ''display GPIO pin states''),
    (''Q'', True, ''calibrate battery monitors''),
    (''SP'', True, ''swap the battery connected to the RIO/Pi''),
    (''S1'', True, ''swap the battery connected to the O1''),
    (''S2'', True, ''swap the battery connected to the O2''),
    (''S3'', True, ''swap the battery connected to the O3''),
    (''P!'', False, ''toggle reset to the Pi [not yet implemented]''),
    (''H~'', False, ''toggle power to the hindbrain (AKA Orangutan)''),
    (''H!'', False, ''toggle reset to the hindbrain (AKA Orangutan)''),
    (''PB+'', False, ''switch RIO/Pi battery power on''),
    (''PB-'', False, ''switch RIO/Pi battery power off''),
    (''PM+'', False, ''switch RIO/Pi mains power on''),
    (''PM-'', False, ''switch RIO/Pi mains power off''),
    (''HB+'', False, ''switch hindbrain (AKA Orangutan) battery power on''),
    (''HB-'', False, ''switch hindbrain (AKA Orangutan) battery power off''),
    (''HM+'', False, ''switch hindbrain (AKA Orangutan) mains power on''),
    (''HM-'', False, ''switch hindbrain (AKA Orangutan) mains power off''),
    (''HS'', True, ''send hindbrain (AKA Orangutan) a string''),
    (''TH'', True, ''task sent to hindbrain (AKA Orangutan)''),
    (''TM'', True, ''task to do with motion''),
    (''CX+'', False, ''switch all chargers on''),
    (''CX-'', False, ''switch all chargers off''),
    (''CP+'', False, ''switch RIO/Pi charger on''),
    (''CP-'', False, ''switch RIO/Pi charger off''),
    (''CH+'', False, ''switch all hindbrain chargers on''),
    (''CH-'', False, ''switch all hindbrain chargers off''),
    (''C1+'', False, ''switch hindbrain charger 1 on''),
    (''C1-'', False, ''switch hindbrain charger 1 off''),
    (''C2+'', False, ''switch hindbrain charger 2 on''),
    (''C2-'', False, ''switch hindbrain charger 2 off''),
    (''C3+'', False, ''switch hindbrain charger 3 on''),
    (''C3-'', False, ''switch hindbrain charger 3 off''),
    (''R?'', True, ''display the state of all relays''),
    (''RX+'', False, ''enable power to all relays''),
    (''RX-'', False, ''disable power to all relays'')]"

definition commandHelp :: "ui_params \<Rightarrow> window \<Rightarrow> bool interface" where
  "commandHelp P w =
     then_do (say w (Newline # concat (map (\<lambda>(c, _, d). [Text '' '', Text c, Text '' '', Text d, Text '','', Newline]) (butlast command_texts)))) (\<lambda>_.
     then_do (case last command_texts of (c, _, d) \<Rightarrow> say w [Text '' '', Text c, Text '' '', Text d, Text ''.'', Newline]) (\<lambda>_.
     ret True))"

definition command_functions :: "ui_params \<Rightarrow> window \<Rightarrow> bool interface list" where
  "command_functions P w = [
    commandHelp P w,
    commandExit P,
    displayCurrents P w,
    displayVoltages P w,
    displayRemainingCapacities P w,
    displayLifetimeChargesDischarges P w,
    displayGpios P w,
    performCalAllBatteryMonitorsCnf P w,
    swapRioBatteryCnf P w,
    swapO1BatteryCnf P w,
    swapO2BatteryCnf P w,
    swapO3BatteryCnf P w,
    cmd_togglePiRst P,
    cmd_toggleOPwr P,
    cmd_toggleORst P,
    cmd_setRioPwrBattOn P,
    cmd_setRioPwrBattOff P,
    cmd_setRioPwr12VOn P,
    cmd_setRioPwr12VOff P,
    cmd_setOPwrBattOn P,
    cmd_setOPwrBattOff P,
    cmd_setOPwr12VOn P,
    cmd_setOPwr12VOff P,
    sendOString P w,
    sendOTask P w,
    sendMotionTask P w,
    cmd_setAllBatteryChargersOn P,
    cmd_setAllBatteryChargersOff P,
    cmd_setRioBatteryChargerOn P,
    cmd_setRioBatteryChargerOff P,
    cmd_setAllOChargersOn P,
    cmd_setAllOChargersOff P,
    cmd_setO1BatteryChargerOn P,
    cmd_setO1BatteryChargerOff P,
    cmd_setO2BatteryChargerOn P,
    cmd_setO2BatteryChargerOff P,
    cmd_setO3BatteryChargerOn P,
    cmd_setO3BatteryChargerOff P,
    displayRelayStates P w,
    cmd_enableAllRelays P,
    cmd_disableAllRelays P]"

text \<open>The characters of a command in its four bytes.\<close>

definition commandString :: "nat \<Rightarrow> u8 list" where
  "commandString i = map (\<lambda>c. of_nat (of_char c)) (fst (command_texts ! i)) @ replicate (4 - length (fst (command_texts ! i))) 0"

definition gIndexOfExitCommand :: nat where "gIndexOfExitCommand = 1"

subsection \<open>Keys\<close>

definition KEY_COMMAND_CANCEL :: u8 where "KEY_COMMAND_CANCEL = 0x1B"
definition BACKSPACE_KEY :: u8 where "BACKSPACE_KEY = 0x08"
definition MAX_NUM_CHARS_IN_COMMAND :: nat where "MAX_NUM_CHARS_IN_COMMAND = 4"

text \<open>\<open>actOnBackspace\<close> on the character at \<open>i\<close>; the cursor is not modelled.\<close>

definition actOnBackspace :: "nat \<Rightarrow> u8 \<times> u8 list \<Rightarrow> u8 \<times> u8 list" where
  "actOnBackspace i = (\<lambda>(n, e). (n - 1, e[i := 0]))"

text \<open>The loop on the cancel key; \<open>numEntries\<close> changes while it runs.\<close>

function cancel_loop :: "u8 \<Rightarrow> u8 \<times> u8 list \<Rightarrow> u8 \<times> u8 list" where
  "cancel_loop i (n, e) = (if i < n then cancel_loop (i + 1) (actOnBackspace (unat i) (n, e)) else (n, e))"
  by pat_completeness auto
termination
proof (relation "measure (\<lambda>(i, n, e). unat n)")
  fix i n :: u8 and e :: "u8 list"
  assume "i < n"
  then have "n \<noteq> 0"
    by auto
  then have "unat (n - 1) < unat n"
    by (rule measure_unat)
  then show "((i + 1, actOnBackspace (unat i) (n, e)), i, n, e) \<in> measure (\<lambda>(i, n, e). unat n)"
    by (simp add: actOnBackspace_def)
qed simp

text \<open>
  The matching of what has been typed: one pass over the commands at position \<open>pos\<close> gives the commands that still match, how many
  they are and the last of them (0 if none); the passes go on while there is something left of the entry.
\<close>

definition match_pass :: "u8 list \<Rightarrow> nat \<Rightarrow> bool list \<Rightarrow> bool list" where
  "match_pass e pos matching = map (\<lambda>i. matching ! i \<and> commandString i ! pos = e ! pos) [0..<length command_texts]"

definition last_match :: "bool list \<Rightarrow> nat" where
  "last_match matching = fold (\<lambda>i l. if matching ! i then i else l) [0..<length matching] 0"

function match_loop :: "u8 list \<Rightarrow> nat \<Rightarrow> nat \<Rightarrow> bool list \<Rightarrow> nat \<times> nat" where
  "match_loop e n pos matching =
     (let matching = match_pass e pos matching; numFound = count_list matching True
      in if 0 < numFound \<and> pos + 1 < n then match_loop e n (pos + 1) matching else (numFound, last_match matching))"
  by pat_completeness auto
termination
  by (relation "measure (\<lambda>(e, n, pos, m). n - pos)") auto

definition run_command :: "ui_params \<Rightarrow> nat \<Rightarrow> bool interface" where
  "run_command P i =
     (case command_texts ! i of (_, canDisplay, description) \<Rightarrow>
        then_do (say Output_Win [Text ''Cmd: '', Text description, Text ''...'', Newline]) (\<lambda>_.
        then_do (command_functions P Output_Win ! i) (\<lambda>success.
        if canDisplay then ret False
        else if i \<noteq> gIndexOfExitCommand then
          then_do (if success then say Output_Win [Text ''Done.'', Newline] else ret ()) (\<lambda>_. ret False)
        else ret True)))"

text \<open>The result: whether a command has been executed, and whether it is the one that ends the program.\<close>

definition handleUserCmdMenu :: "ui_params \<Rightarrow> u8 \<Rightarrow> (bool \<times> bool) interface" where
  "handleUserCmdMenu P key =
     then_do (call (\<lambda>s. ((numEntries s, entry s), s))) (\<lambda>(n, e).
     if key = KEY_COMMAND_CANCEL then
       (case cancel_loop 0 (n, e) of (n', e') \<Rightarrow>
          then_do (act (\<lambda>s. s\<lparr>numEntries := n', entry := e'\<rparr>)) (\<lambda>_. ret (False, False)))
     else if key = BACKSPACE_KEY then
       (if 0 < n then
          (case actOnBackspace (unat n) (n, e) of (n', e') \<Rightarrow>
             then_do (if unat n < length e then ret () else raise Bad_Access) (\<lambda>_.
             then_do (act (\<lambda>s. s\<lparr>numEntries := n', entry := e'\<rparr>)) (\<lambda>_. ret (False, False))))
        else ret (False, False))
     else
       then_do (if unat n < length e then ret () else raise Bad_Access) (\<lambda>_.
       let e' = e[unat n := toUpper key];
           (numFound, lastCommandMatching) = match_loop e' (unat (n + 1)) 0 (replicate (length command_texts) True)
       in if numFound = 0 then
            then_do (act (\<lambda>s. s\<lparr>entry := e'\<rparr>)) (\<lambda>_. ret (False, False))
          else
            then_do (act (\<lambda>s. s\<lparr>entry := e', numEntries := n + 1\<rparr>)) (\<lambda>_.
            then_do (say Command_Win [Bytes [e' ! unat n]]) (\<lambda>_.
            if numFound = 1 then
              then_do (run_command P lastCommandMatching) (\<lambda>exitMenu.
              then_do (act (\<lambda>s. s\<lparr>numEntries := 0\<rparr>)) (\<lambda>_. ret (True, exitMenu)))
            else ret (False, False)))))"

end
