(* ===== verification/Monitor.thy ===== *)
theory Monitor
  imports Menu StateMachine
begin

section \<open>The dashboard of RoboOne\<close>

text \<open>
  \<open>RoboOne/src/monitor.c\<close>: seven windows, updated in turn until the user leaves the menu.  The updates read the hardware server, pass
  the battery data on to the battery manager, tell the state machine when mains power appears, ask it for its state, ping the
  Hindbrain and handle a key of the menu; after each the task handler gets its tick.

  A \<open>BatteryData\<close> is 22 packed bytes: current (at 0), voltage (2), remaining capacity (4), charge (6), discharge (10) and temperature
  (14, a \<open>double\<close>); a \<open>BatteryStatus\<close> is five flags.  A confirmation with the state machine's context is a flag and the context,
  whose first member is the name; its size is that of the server's parameter.  The count of turns is a \<open>UInt8\<close>.
  The windows exist and are enabled; what sets up and closes the terminal is not modelled.
\<close>

definition SLOW_UPDATE_BACKOFF :: u8 where "SLOW_UPDATE_BACKOFF = 10"
definition SLOWER_UPDATE_BACKOFF :: u8 where "SLOWER_UPDATE_BACKOFF = 20"

subsection \<open>What is shown for a value\<close>

definition displayPowerStatesHelper :: "bool \<Rightarrow> bool \<Rightarrow> bool \<Rightarrow> bool \<Rightarrow> string" where
  "displayPowerStatesHelper isKnown isEnabled is12V isBatt =
     (if isKnown then
        (if (is12V \<and> isEnabled) \<and> isBatt then ''  !BOTH!  ''
         else if is12V \<and> isEnabled then ''  mains   ''
         else if isBatt \<or> \<not> isEnabled then ''   batt   ''
         else ''   ----   '')
      else ''    ??    '')"

definition displayTaskResultHelper :: "u32 \<Rightarrow> fault + string" where
  "displayTaskResultHelper result =
     (if result = HD_RESULT_SUCCESS then Inr ''rsp''
      else if result = HD_RESULT_SEND_FAILURE then Inr ''send failed''
      else if result = HD_RESULT_GENERAL_FAILURE then Inr ''failed''
      else Inl Assert_Failed)"

text \<open>The flags of a status, in the order of the structure.\<close>

definition displayBatteryStatusHelper :: "u8 list \<Rightarrow> char" where
  "displayBatteryStatusHelper st =
     (let fullyCharged = st ! 0 \<noteq> 0; insufficientCharge = st ! 1 \<noteq> 0; chargerOn = st ! 2 \<noteq> 0;
          overTemperature = st ! 3 \<noteq> 0; temperatureBroken = st ! 4 \<noteq> 0
      in if overTemperature then CHR ''!''
         else if temperatureBroken then CHR ''#''
         else if chargerOn then CHR ''c''
         else if fullyCharged then CHR ''+''
         else if insufficientCharge then CHR ''-''
         else CHR ''.'')"

definition gChargeStrings :: "string list" where
  "gChargeStrings = ['' --- '', '' Off '', '' Grn '', ''*Grn*'', '' Red '', ''*Red*'', ''  6  '', '' ??? '', '' Nul '', '' Bad '']"

subsection \<open>Batteries\<close>

text \<open>
  A chain of readings into the members of several structures, each made only if the one before was successful: the message, the
  structure and the offset of the member.
\<close>

fun hw_fills :: "ui_params \<Rightarrow> (nat \<times> nat \<times> nat) list \<Rightarrow> u8 list list \<Rightarrow> (bool \<times> u8 list list) interface" where
  "hw_fills P [] vars = ret (True, vars)"
| "hw_fills P ((t, k, off) # rs) vars =
     then_do (hw_read P t off (vars ! k)) (\<lambda>(ok, v).
       if ok then hw_fills P rs (vars[k := v]) else ret (False, vars))"

definition bm_data :: "ui_params \<Rightarrow> nat \<Rightarrow> u8 list \<Rightarrow> u8 list \<Rightarrow> (bool \<times> u8 list) interface" where
  "bm_data P t batteryData batteryStatus =
     then_do (ui_exec P (Call BM_Server t (Some batteryData))) (\<lambda>(ok, specs).
       if ok then then_do (place 0 specs batteryStatus) (\<lambda>st. ret (True, st)) else ret (False, batteryStatus))"

definition sizeof_BatteryData :: nat where "sizeof_BatteryData = 22"
definition sizeof_BatteryStatus :: nat where "sizeof_BatteryStatus = 5"

definition updateRioWindow :: "ui_params \<Rightarrow> u8 \<Rightarrow> bool interface" where
  "updateRioWindow P count =
     then_do (hw_fills P [(HARDWARE_READ_RIO_BATT_CURRENT, 0, 0), (HARDWARE_READ_RIO_BATT_VOLTAGE, 0, 2)]
       [replicate sizeof_BatteryData 0]) (\<lambda>(success, d).
     then_do (if success then
         say Rio_Win [Number (sint (le16 (d ! 0))), Text '' mA, '', Number (uint (le16 (drop 2 (d ! 0)))), Text '' mV'']
       else ret ()) (\<lambda>_.
     if count mod SLOW_UPDATE_BACKOFF = 0 then
       then_do (hw_fills P [(HARDWARE_READ_RIO_REMAINING_CAPACITY, 0, 4), (HARDWARE_READ_RIO_BATT_LIFETIME_CHARGE_DISCHARGE, 0, 6),
         (HARDWARE_READ_RIO_BATT_TEMPERATURE, 0, 14)] d) (\<lambda>(success, d).
       then_do (if success then bm_data P BATTERY_MANAGER_DATA_RIO (d ! 0) (replicate sizeof_BatteryStatus 0)
         else ret (False, replicate sizeof_BatteryStatus 0)) (\<lambda>(success, st).
       then_do (if success then
           say Rio_Win [Number (uint (le16 (drop 4 (d ! 0)))), Text '' mAhr(s) remain ['', Text [displayBatteryStatusHelper st], Text '']'',
             Text ''lifetime -'', Number (uint (le32 (drop 10 (d ! 0)))), Text ''/'', Number (uint (le32 (drop 6 (d ! 0)))), Text '' mAhr'']
         else ret ()) (\<lambda>_. ret False)))
     else ret False))"

definition updateOWindow :: "ui_params \<Rightarrow> u8 \<Rightarrow> bool interface" where
  "updateOWindow P count =
     then_do (hw_fills P [(HARDWARE_READ_O1_BATT_CURRENT, 0, 0), (HARDWARE_READ_O2_BATT_CURRENT, 1, 0), (HARDWARE_READ_O3_BATT_CURRENT, 2, 0),
         (HARDWARE_READ_O1_BATT_VOLTAGE, 0, 2), (HARDWARE_READ_O2_BATT_VOLTAGE, 1, 2), (HARDWARE_READ_O3_BATT_VOLTAGE, 2, 2)]
       (replicate 3 (replicate sizeof_BatteryData 0))) (\<lambda>(success, d).
     then_do (if success then
         say O_Win [Number (sint (le16 (d ! 0))), Text ''/'', Number (sint (le16 (d ! 1))), Text ''/'', Number (sint (le16 (d ! 2))),
           Text '' mA, '', Number (uint (le16 (drop 2 (d ! 0)))), Text ''/'', Number (uint (le16 (drop 2 (d ! 1)))), Text ''/'',
           Number (uint (le16 (drop 2 (d ! 2)))), Text '' mV'']
       else ret ()) (\<lambda>_.
     if count mod SLOWER_UPDATE_BACKOFF = 0 then
       then_do (hw_fills P [(HARDWARE_READ_O1_REMAINING_CAPACITY, 0, 4), (HARDWARE_READ_O2_REMAINING_CAPACITY, 1, 4),
         (HARDWARE_READ_O3_REMAINING_CAPACITY, 2, 4), (HARDWARE_READ_O1_BATT_LIFETIME_CHARGE_DISCHARGE, 0, 6),
         (HARDWARE_READ_O2_BATT_LIFETIME_CHARGE_DISCHARGE, 1, 6), (HARDWARE_READ_O3_BATT_LIFETIME_CHARGE_DISCHARGE, 2, 6),
         (HARDWARE_READ_O1_BATT_TEMPERATURE, 0, 14), (HARDWARE_READ_O2_BATT_TEMPERATURE, 1, 14),
         (HARDWARE_READ_O3_BATT_TEMPERATURE, 2, 14)] d) (\<lambda>(success, d).
       let none = replicate sizeof_BatteryStatus 0
       in then_do (if success then bm_data P BATTERY_MANAGER_DATA_O1 (d ! 0) none else ret (False, none)) (\<lambda>(success, st1).
          then_do (if success then bm_data P BATTERY_MANAGER_DATA_O2 (d ! 1) none else ret (False, none)) (\<lambda>(success, st2).
          then_do (if success then bm_data P BATTERY_MANAGER_DATA_O3 (d ! 2) none else ret (False, none)) (\<lambda>(success, st3).
          then_do (if success then
              say O_Win [Number (uint (le16 (drop 4 (d ! 0))) + uint (le16 (drop 4 (d ! 1))) + uint (le16 (drop 4 (d ! 2)))),
                Text '' mAhr(s) remain ['',
                Text [displayBatteryStatusHelper st1, displayBatteryStatusHelper st2, displayBatteryStatusHelper st3], Text '']'',
                Text ''lifetime -'', Number (uint (le32 (drop 10 (d ! 0)) + le32 (drop 10 (d ! 1)) + le32 (drop 10 (d ! 2)))),
                Text ''/'', Number (uint (le32 (drop 6 (d ! 0)) + le32 (drop 6 (d ! 1)) + le32 (drop 6 (d ! 2)))), Text '' mAhr'']
            else ret ()) (\<lambda>_. ret False)))))
     else ret False))"

subsection \<open>Power and chargers\<close>

definition STRING_POWER_HEADING :: string where "STRING_POWER_HEADING = ''  Mains     Pi/RIO  Hindbrain''"

text \<open>The first half of \<open>updatePowerWindow\<close>: mains power, with the event when it appears.\<close>

definition mains_power :: "ui_params \<Rightarrow> unit interface" where
  "mains_power P =
     then_do (hw_read P HARDWARE_READ_MAINS_12V 0 (local_var P ''mains12VPresent'' 1)) (\<lambda>(success, mains12VPresent).
       if success then
         then_do (if hd mains12VPresent \<noteq> 0 then
             then_do (say Power_Win [Text '' present  '']) (\<lambda>_.
             then_do (call (\<lambda>s. (previousMains12VPresent s, s))) (\<lambda>previous.
             if \<not> previous then then_do (sm_send P STATE_MACHINE_EVENT_MAINS_POWER_AVAILABLE None) (\<lambda>_. ret ()) else ret ()))
           else say Power_Win [Text ''   ---    '']) (\<lambda>_.
         act (\<lambda>s. s\<lparr>previousMains12VPresent := hd mains12VPresent \<noteq> 0\<rparr>))
       else say Power_Win [Text ''    ??    ''])"

text \<open>The three variables are those of the enabling relay, of mains power and of the battery.\<close>

definition power_states :: "ui_params \<Rightarrow> nat \<Rightarrow> nat \<Rightarrow> nat \<Rightarrow> u8 list list \<Rightarrow> u8 list list interface" where
  "power_states P t1 t2 t3 vars =
     then_do (hw_fills P [(t1, 0, 0), (t2, 1, 0), (t3, 2, 0)] vars) (\<lambda>(success, vars).
     then_do (say Power_Win [Text (displayPowerStatesHelper success (hd (vars ! 0) \<noteq> 0) (hd (vars ! 1) \<noteq> 0) (hd (vars ! 2) \<noteq> 0))]) (\<lambda>_.
     ret vars))"

definition updatePowerWindow :: "ui_params \<Rightarrow> u8 \<Rightarrow> bool interface" where
  "updatePowerWindow P count =
     (if count mod SLOW_UPDATE_BACKOFF = 0 then
        then_do (say Power_Win [Text STRING_POWER_HEADING]) (\<lambda>_.
        then_do (mains_power P) (\<lambda>_.
        then_do (power_states P HARDWARE_READ_ON_PCB_RELAYS_ENABLED HARDWARE_READ_RIO_PWR_12V HARDWARE_READ_RIO_PWR_BATT
          [local_var P ''relaysEnabled'' 1, local_var P ''is12V'' 1, local_var P ''isBatt'' 1]) (\<lambda>vars.
        then_do (power_states P HARDWARE_READ_EXTERNAL_RELAYS_ENABLED HARDWARE_READ_O_PWR_12V HARDWARE_READ_O_PWR_BATT vars) (\<lambda>_.
        ret False))))
      else ret False)"

text \<open>A charge state is a flag and four numbers of four bytes.\<close>

definition sizeof_HardwareChargeState :: nat where "sizeof_HardwareChargeState = 17"

fun charger_states :: "u8 list \<Rightarrow> nat list \<Rightarrow> unit interface" where
  "charger_states chargeState [] = ret ()"
| "charger_states chargeState (i # is) =
     (let state = le32 (drop (1 + 4 * i) chargeState)
      in then_do (require (unat state < length gChargeStrings)) (\<lambda>_.
         then_do (say Charger_Win [Text (gChargeStrings ! unat state)]) (\<lambda>_.
         charger_states chargeState is)))"

definition updateChgWindow :: "ui_params \<Rightarrow> u8 \<Rightarrow> bool interface" where
  "updateChgWindow P count =
     then_do (say Charger_Win [Text ''  Pi   O1   O2   O3'']) (\<lambda>_.
     then_do (hw_read P HARDWARE_READ_CHARGER_STATE 0 (replicate sizeof_HardwareChargeState 0)) (\<lambda>(success, chargeState).
     then_do (if success \<and> hd chargeState \<noteq> 0 then charger_states chargeState [0..<4] else ret ()) (\<lambda>_.
     ret False)))"

subsection \<open>Commands, output and state\<close>

definition COMMAND_PROMPT :: string where "COMMAND_PROMPT = ''Command (? help, x exit): ''"

text \<open>\<open>getch\<close> returns \<open>ERR\<close>, -1, when no key has been pressed.\<close>

definition updateCmdWindow :: "ui_params \<Rightarrow> u8 \<Rightarrow> bool interface" where
  "updateCmdWindow P count =
     then_do (ui_exec P (Terminal Get_Key)) (\<lambda>(_, c).
     then_do (handleUserCmdMenu P (hd (c @ [255]))) (\<lambda>(commandExecuted, exitMenu).
     then_do (if commandExecuted then say Command_Win [Text COMMAND_PROMPT] else ret ()) (\<lambda>_.
     ret exitMenu)))"

definition updateOutputWindow :: "ui_params \<Rightarrow> u8 \<Rightarrow> bool interface" where
  "updateOutputWindow P count = ret False"

text \<open>Printing a string with \<open>%s\<close>; without a terminator in its memory it is read beyond.\<close>

definition say_string :: "window \<Rightarrow> u8 list \<Rightarrow> unit interface" where
  "say_string w bs = (if terminated bs then say w [Bytes (take (c_strlen bs) bs)] else raise Bad_Access)"

text \<open>The last half of \<open>updateStateWindow\<close>: the last task and what came of it.\<close>

definition task_status :: "unit interface" where
  "task_status =
     then_do (info id) (\<lambda>g.
     if 0 < c_strlen (lastTaskSent g) then
       then_do (say State_Win [Text ''Task '', Number (sint (taskCounter g)), Text '': '']) (\<lambda>_.
       then_do (say_string State_Win (lastTaskSent g)) (\<lambda>_.
       if lastResultReceivedIsValid g then
         then_do (lift_fault (displayTaskResultHelper (lastResultReceived g))) (\<lambda>result.
         then_do (say State_Win [Text '', '', Text result]) (\<lambda>_.
         if 0 < c_strlen (lastIndString g) then
           then_do (say State_Win [Text '': '']) (\<lambda>_. say_string State_Win (lastIndString g))
         else ret ()))
       else ret ()))
     else ret ())"

text \<open>The reply of the state machine is its type and its body.\<close>

definition updateStateWindow :: "ui_params \<Rightarrow> u8 \<Rightarrow> bool interface" where
  "updateStateWindow P count =
     then_do (malloc P (sizeofContextCnf P)) (\<lambda>mem. case mem of None \<Rightarrow> ret False | Some mem \<Rightarrow>
     then_do (ui_exec P (Call SM_Server STATE_MACHINE_SERVER_GET_CONTEXT None)) (\<lambda>(success, rsp).
     then_do (if success then
         then_do (place 0 (tl rsp) (mem[0 := 0])) (\<lambda>cnf.
         if unat (hd (rsp @ [0])) = STATE_MACHINE_SERVER_GET_CONTEXT \<and> hd cnf \<noteq> 0 then say_string State_Win (tl cnf)
         else say State_Win [Text ''Invalid response''])
       else say State_Win [Text ''Error'']) (\<lambda>_.
     then_do (malloc P sizeof_OInputContainer) (\<lambda>inp.
     then_do (case inp of None \<Rightarrow> ret () | Some inp \<Rightarrow>
         then_do (hw_send P HARDWARE_SEND_O_STRING (Some (ping_container False inp))) (\<lambda>success.
         say State_Win [Text (if success then '' [Hindbrain ON]'' else '' [Hindbrain OFF]'')])) (\<lambda>_.
     then_do task_status (\<lambda>_. ret False))))))"

subsection \<open>The loop\<close>

definition gWindowList :: "ui_params \<Rightarrow> u8 \<Rightarrow> bool interface list" where
  "gWindowList P count =
     [updateOutputWindow P count, updateRioWindow P count, updateOWindow P count, updatePowerWindow P count,
      updateChgWindow P count, updateStateWindow P count, updateCmdWindow P count]"

fun update_windows :: "ui_params \<Rightarrow> bool interface list \<Rightarrow> bool interface" where
  "update_windows P [] = ret False"
| "update_windows P (w # ws) =
     then_do w (\<lambda>exitDashboard.
     then_do (ui_exec P (Call TH_Server TASK_HANDLER_TICK None)) (\<lambda>_.
     if exitDashboard then ret True else update_windows P ws))"

text \<open>The outer loop runs until a window says that it is finished; the first argument bounds the turns.\<close>

fun dashboard :: "nat \<Rightarrow> ui_params \<Rightarrow> u8 \<Rightarrow> unit interface" where
  "dashboard 0 P i = raise Blocked"
| "dashboard (Suc n) P i =
     then_do (update_windows P (gWindowList P i)) (\<lambda>exitDashboard. if exitDashboard then ret () else dashboard n P (i + 1))"

end
