(* ===== verification/Menu_Properties.thy ===== *)
theory Menu_Properties
  imports Menu
begin

section \<open>What the menu does with keys\<close>

text \<open>
  The matching of the keys is related to a specification: what has been typed is a string, and its candidates are the commands
  that start with it.
\<close>

definition candidates :: "u8 list \<Rightarrow> nat list" where
  "candidates t = filter (\<lambda>i. take (length t) (commandString i) = t) [0..<length command_texts]"

lemma length_command_texts: "length command_texts = 41"
  by (simp add: command_texts_def)

text \<open>The four bytes of every command.\<close>

definition command_table :: "u8 list list" where
  "command_table =
   [[63, 0, 0, 0], [88, 0, 0, 0], [73, 0, 0, 0], [86, 0, 0, 0], [65, 0, 0, 0], [76, 0, 0, 0], [71, 0, 0, 0], [81, 0, 0, 0],
    [83, 80, 0, 0], [83, 49, 0, 0], [83, 50, 0, 0], [83, 51, 0, 0], [80, 33, 0, 0], [72, 126, 0, 0], [72, 33, 0, 0],
    [80, 66, 43, 0], [80, 66, 45, 0], [80, 77, 43, 0], [80, 77, 45, 0], [72, 66, 43, 0], [72, 66, 45, 0], [72, 77, 43, 0],
    [72, 77, 45, 0], [72, 83, 0, 0], [84, 72, 0, 0], [84, 77, 0, 0], [67, 88, 43, 0], [67, 88, 45, 0], [67, 80, 43, 0],
    [67, 80, 45, 0], [67, 72, 43, 0], [67, 72, 45, 0], [67, 49, 43, 0], [67, 49, 45, 0], [67, 50, 43, 0], [67, 50, 45, 0],
    [67, 51, 43, 0], [67, 51, 45, 0], [82, 63, 0, 0], [82, 88, 43, 0], [82, 88, 45, 0]]"

lemma command_strings: "map commandString [0..<41] = command_table"
  by code_simp

lemma length_command_table: "length command_table = 41"
  by (simp add: command_table_def)

lemma commandString_table: "i < 41 \<Longrightarrow> commandString i = command_table ! i"
  by (simp flip: command_strings)

lemma length_commandString: "i < 41 \<Longrightarrow> length (commandString i) = 4"
proof -
  have "\<forall>x \<in> set (map commandString [0..<41]). length x = 4"
    unfolding command_strings command_table_def by simp
  then show "i < 41 \<Longrightarrow> length (commandString i) = 4"
    by simp
qed

subsection \<open>The loop of the matching\<close>

lemma count_list_map: "count_list (map f xs) True = length (filter f xs)"
  by (induction xs) auto

lemma last_match_map: "last_match (map f [0..<n]) = (if filter f [0..<n] = [] then 0 else last (filter f [0..<n]))"
proof -
  have "fold (\<lambda>i l. if map f [0..<n] ! i then i else l) [0..<m] 0 =
      (if filter f [0..<m] = [] then 0 else last (filter f [0..<m]))" if "m \<le> n" for m
    using that by (induction m) (auto simp: nth_append)
  then show ?thesis
    by (simp add: last_match_def)
qed

lemma match_pass_prefixes:
  assumes "length e = 4" and "pos < 4"
  shows "match_pass e pos (map (\<lambda>i. take pos (commandString i) = take pos e) [0..<41]) =
    map (\<lambda>i. take (Suc pos) (commandString i) = take (Suc pos) e) [0..<41]"
  using assms by (auto simp: match_pass_def length_command_texts length_commandString take_Suc_conv_app_nth)

lemma candidates_mono: "m \<le> n \<Longrightarrow> candidates (take m e) = [] \<Longrightarrow> candidates (take n e) = []"
proof (rule ccontr)
  assume "m \<le> n" and none: "candidates (take m e) = []" and "candidates (take n e) \<noteq> []"
  then obtain i where "i < length command_texts" and "take (length (take n e)) (commandString i) = take n e"
    by (auto simp: candidates_def filter_empty_conv)
  moreover have "take (length (take m e)) (take (length (take n e)) (commandString i)) = take (length (take m e)) (commandString i)"
    using \<open>m \<le> n\<close> by (simp add: min_def)
  moreover have "take (length (take m e)) (take n e) = take m e"
    using \<open>m \<le> n\<close> by (simp add: min_def)
  ultimately have "i \<in> set (candidates (take m e))"
    by (simp add: candidates_def)
  then show False
    using none by simp
qed

lemma match_loop_candidates:
  assumes "length e = 4" and "pos < n" and "n \<le> 4"
  shows "match_loop e n pos (map (\<lambda>i. take pos (commandString i) = take pos e) [0..<41]) =
    (let c = candidates (take n e) in (length c, if c = [] then 0 else last c))"
  using assms
proof (induction "n - pos" arbitrary: pos)
  case 0
  then show ?case by simp
next
  case (Suc k)
  let ?m = "map (\<lambda>i. take (Suc pos) (commandString i) = take (Suc pos) e) [0..<41]"
  have pass: "match_pass e pos (map (\<lambda>i. take pos (commandString i) = take pos e) [0..<41]) = ?m"
    using match_pass_prefixes Suc.prems by simp
  have cand: "filter (\<lambda>i. take (Suc pos) (commandString i) = take (Suc pos) e) [0..<41] = candidates (take (Suc pos) e)"
    using Suc.prems by (simp add: candidates_def length_command_texts)
  let ?c = "candidates (take (Suc pos) e)"
  have step: "match_loop e n pos (map (\<lambda>i. take pos (commandString i) = take pos e) [0..<41]) =
      (if ?c \<noteq> [] \<and> Suc pos < n then match_loop e n (Suc pos) ?m else (length ?c, if ?c = [] then 0 else last ?c))"
    by (subst match_loop.simps) (simp only: Let_def pass count_list_map last_match_map cand length_greater_0_conv flip: Suc_eq_plus1)
  show ?case
  proof (cases "candidates (take (Suc pos) e) \<noteq> [] \<and> Suc pos < n")
    case True
    then show ?thesis
      using step Suc.hyps(1) [of "Suc pos"] Suc.hyps(2) Suc.prems by (simp add: Let_def)
  next
    case False
    then have "candidates (take n e) = candidates (take (Suc pos) e)"
      using candidates_mono [of "Suc pos" n e] Suc.prems by (cases "Suc pos = n") auto
    then show ?thesis
      using step False by (auto simp: Let_def)
  qed
qed

lemma match_entry:
  assumes "length e = 4" and "0 < n" and "n \<le> 4"
  shows "match_loop e n 0 (replicate (length command_texts) True) =
    (let c = candidates (take n e) in (length c, if c = [] then 0 else last c))"
proof -
  have "replicate (length command_texts) True = map (\<lambda>i. take 0 (commandString i) = take 0 e) [0..<41]"
    by (simp add: length_command_texts map_replicate_const)
  then show ?thesis
    using match_loop_candidates [OF assms(1,2,3)] by simp
qed

lemmas cmd_defs = cmd_togglePiRst_def cmd_toggleOPwr_def cmd_toggleORst_def cmd_setRioPwrBattOn_def
  cmd_setRioPwrBattOff_def cmd_setRioPwr12VOn_def cmd_setRioPwr12VOff_def cmd_setOPwrBattOn_def
  cmd_setOPwrBattOff_def cmd_setOPwr12VOn_def cmd_setOPwr12VOff_def cmd_setAllBatteryChargersOn_def
  cmd_setAllBatteryChargersOff_def cmd_setRioBatteryChargerOn_def cmd_setRioBatteryChargerOff_def cmd_setAllOChargersOn_def
  cmd_setAllOChargersOff_def cmd_setO1BatteryChargerOn_def cmd_setO1BatteryChargerOff_def cmd_setO2BatteryChargerOn_def
  cmd_setO2BatteryChargerOff_def cmd_setO3BatteryChargerOn_def cmd_setO3BatteryChargerOff_def cmd_enableAllRelays_def

subsection \<open>What a computation of the interface leaves alone\<close>

text \<open>
  A computation follows a relation between states if, however it ends, the state before and the state after are related.  The locale has what
  such a relation needs so that every command of the menu follows it: it admits printing, changes of the task information that
  leave it displayable, and the calls that satisfy \<open>ok\<close>.
\<close>

definition follows :: "(ui \<Rightarrow> ui \<Rightarrow> bool) \<Rightarrow> 'a interface \<Rightarrow> bool" where
  "follows R m \<longleftrightarrow> (\<forall>s. R s (snd (m s)))"

locale ui_relation =
  fixes R :: "ui \<Rightarrow> ui \<Rightarrow> bool" and ok :: "call \<Rightarrow> bool"
  assumes R_refl: "R s s"
    and R_trans: "R s s' \<Longrightarrow> R s' s'' \<Longrightarrow> R s s''"
    and R_printed: "R s (s\<lparr>printed := x\<rparr>)"
    and R_info: "(info_ok (taskInfo s) \<Longrightarrow> info_ok g) \<Longrightarrow> R s (s\<lparr>taskInfo := g\<rparr>)"
    and R_call: "ok c \<Longrightarrow> R s (s\<lparr>uiCalls := uiCalls s @ [(c, r)]\<rparr>)"
    and ok_own: "ok (Malloc n)" "ok (Terminal q)"
    and ok_hw: "t < 74 \<Longrightarrow> t \<notin> {2, 36, 37, 65} \<Longrightarrow> ok (Call HW_Server t body)"
    and ok_string: "printable_fits str \<Longrightarrow> ok (Call HW_Server HARDWARE_SEND_O_STRING (Some (w # str)))"
    and ok_others: "p \<noteq> HW_Server \<Longrightarrow> p = SM_Server \<longrightarrow> t \<noteq> STATE_MACHINE_EVENT_MAINS_POWER_AVAILABLE \<Longrightarrow> ok (Call p t body)"
begin

lemma follows_ret: "follows R (ret x)"
  by (simp add: follows_def ret_run R_refl)

lemma follows_raise: "follows R (raise e)"
  by (simp add: follows_def raise_run R_refl)

lemma follows_require: "follows R (require b)"
  by (simp add: require_def follows_ret follows_raise)

lemma follows_then_do: "follows R m \<Longrightarrow> (\<And>x. follows R (f x)) \<Longrightarrow> follows R (then_do m f)"
  by (auto simp: follows_def then_do_run split: prod.splits sum.splits intro: R_trans) (metis R_trans prod.sel(2))

lemma follows_if: "(b \<Longrightarrow> follows R m) \<Longrightarrow> (\<not> b \<Longrightarrow> follows R n) \<Longrightarrow> follows R (if b then m else n)"
  by simp

lemma follows_option: "follows R n \<Longrightarrow> (\<And>y. r = Some y \<Longrightarrow> follows R (f y)) \<Longrightarrow> follows R (case r of None \<Rightarrow> n | Some y \<Rightarrow> f y)"
  by (cases r) simp_all

lemma follows_pair: "(\<And>x y. follows R (f x y)) \<Longrightarrow> follows R (case p of (x, y) \<Rightarrow> f x y)"
  by (cases p) simp

lemma follows_let: "follows R (f x) \<Longrightarrow> follows R (let y = x in f y)"
  by simp

lemma follows_exec: "ok c \<Longrightarrow> follows R (ui_exec P c)"
  by (simp add: follows_def ui_exec_def call_run R_call)

lemma follows_say: "follows R (say w outs)"
  by (simp add: follows_def say_def act_run R_printed)

lemma follows_info: "follows R (info f)"
  by (simp add: follows_def info_def call_run R_refl)

lemma follows_set_info: "(\<And>g. info_ok g \<Longrightarrow> info_ok (f g)) \<Longrightarrow> follows R (set_info f)"
  by (simp add: follows_def set_info_def act_run R_info)

lemma follows_place: "follows R (place off bs var)"
  by (simp add: place_def follows_ret follows_raise)

lemmas follows_basic = follows_ret follows_raise follows_require follows_then_do follows_if follows_option follows_pair follows_let
  follows_say follows_info follows_place

lemma follows_lifted:
  assumes "\<And>x. r = Inr x \<Longrightarrow> follows R (f x)"
  shows "follows R (then_do (lift_fault r) f)"
  using assms by (cases r) (simp_all add: lift_fault_def then_do_ret, simp add: follows_def then_do_run raise_run R_refl)

lemma follows_malloc: "follows R (malloc P n)"
  unfolding malloc_def by (intro follows_basic follows_exec ok_own)

lemma follows_hw_send: "ok (Call HW_Server t body) \<Longrightarrow> follows R (hw_send P t body)"
  unfolding hw_send_def by (intro follows_basic follows_exec)

lemma follows_sm_send: "t \<noteq> STATE_MACHINE_EVENT_MAINS_POWER_AVAILABLE \<Longrightarrow> follows R (sm_send P t body)"
  unfolding sm_send_def by (intro follows_basic follows_exec ok_others) simp_all

lemma follows_hw_read: "t < 74 \<Longrightarrow> t \<notin> {2, 36, 37, 65} \<Longrightarrow> follows R (hw_read P t off var)"
  unfolding hw_read_def by (intro follows_basic follows_exec ok_hw) auto

lemma follows_hw_reads: "(\<And>t. t \<in> fst ` set rs \<Longrightarrow> t < 74 \<and> t \<notin> {2, 36, 37, 65}) \<Longrightarrow> follows R (hw_reads P rs)"
proof (induction rs)
  case Nil
  then show ?case by (simp add: follows_ret)
next
  case (Cons r rs)
  obtain t var where r: "r = (t, var)" by fastforce
  show ?case
    unfolding r hw_reads.simps using Cons
    by (intro follows_basic follows_hw_read) (auto simp: r)
qed

lemma follows_yes: "follows R (getYesInput P w prompt)"
  unfolding getYesInput_def by (intro follows_basic follows_exec ok_own)

lemma follows_string: "follows R (getStringInput P w prompt var)"
  unfolding getStringInput_def by (intro follows_basic follows_exec ok_own)

lemma follows_relay_states:
  "(\<And>t. t \<in> set ts \<Longrightarrow> t < 74 \<and> t \<notin> {2, 36, 37, 65}) \<Longrightarrow> follows R (relay_states P w en ts isOn)"
proof (induction ts arbitrary: isOn)
  case (Cons t ts)
  then show ?case
    unfolding relay_states.simps displayGpioStatesHelper_def by (intro follows_basic follows_hw_read) auto
qed (simp add: follows_ret)

lemma follows_gpio_states: "follows R (gpio_states w success pins is)"
  by (induction "is") (auto simp: displayGpioStatesHelper_def intro!: follows_basic)

lemmas follows_rules = follows_basic follows_malloc follows_yes follows_string follows_gpio_states

lemma follows_displays:
  "follows R (displayCurrents P w)" "follows R (displayVoltages P w)" "follows R (displayRemainingCapacities P w)"
  "follows R (displayLifetimeChargesDischarges P w)" "follows R (displayRelayStates P w)" "follows R (displayGpios P w)"
  unfolding displayCurrents_def displayVoltages_def displayRemainingCapacities_def displayLifetimeChargesDischarges_def
    displayRelayStates_def displayGpios_def
  by (intro follows_rules follows_hw_reads follows_hw_read follows_relay_states; force)+

lemma follows_sendOString: "follows R (sendOString P w)"
  unfolding sendOString_def
  by (intro follows_rules follows_lifted follows_exec ok_string) (auto simp: removeCtrlCharacters_fits split: if_splits)

lemma follows_tasks: "follows R (sendOTask P w)" "follows R (sendMotionTask P w)"
  unfolding sendOTask_def sendMotionTask_def
  by (intro follows_rules follows_lifted follows_set_info follows_sm_send;
      auto simp: info_ok_def displayable_written displayable_cleared displayableD(1))+

lemma follows_swap: "t < 74 \<Longrightarrow> t \<notin> {2, 36, 37, 65} \<Longrightarrow> follows R (swap_battery_cnf t P w)"
  unfolding swap_battery_cnf_def by (intro follows_rules follows_exec ok_own follows_hw_send ok_hw) auto

lemma follows_confirmed: "follows R (performCalAllBatteryMonitorsCnf P w)" "follows R (commandExit P)" "follows R (commandHelp P w)"
  unfolding performCalAllBatteryMonitorsCnf_def commandExit_def commandHelp_def
  by (intro follows_rules follows_hw_send follows_sm_send ok_hw; simp)+

lemma follows_relays: "follows R (cmd_enableAllRelays P)" "follows R (cmd_disableAllRelays P)"
  unfolding cmd_enableAllRelays_def cmd_disableAllRelays_def
  by (intro follows_rules follows_hw_send ok_hw; simp)+

lemma follows_command:
  assumes "i < 41" and "i = 30 \<Longrightarrow> ok (Call HW_Server HARDWARE_SET_ALL_O_BATTERY_CHARGERS_ON None)"
    and "i = 31 \<Longrightarrow> ok (Call HW_Server HARDWARE_SET_ALL_O_BATTERY_CHARGERS_OFF None)"
  shows "follows R (command_functions P w ! i)"
proof -
  have "command_functions P w ! i \<in> {hw_send P t None | t. ok (Call HW_Server t None)} \<or> follows R (command_functions P w ! i)"
  proof -
    have "i \<in> set [0..<41]"
      using assms(1) by simp
    then have "(i \<in> {12..22} \<union> {26..37}) \<or> i \<in> set ([0..<12] @ [23..<26] @ [38..<41])"
      by auto
    then show ?thesis
    proof
      assume "i \<in> {12..22} \<union> {26..37}"
      then have "i \<in> set ([12..<23] @ [26..<38])"
        by (simp only: set_append set_upt) auto
      then show ?thesis
        using assms(2,3) ok_hw
        by (auto simp: command_functions_def upt_rec cmd_defs)
    next
      assume "i \<in> set ([0..<12] @ [23..<26] @ [38..<41])"
      then show ?thesis
        by (auto simp: command_functions_def upt_rec follows_displays follows_sendOString follows_tasks follows_confirmed
            follows_relays swapRioBatteryCnf_def swapO1BatteryCnf_def swapO2BatteryCnf_def swapO3BatteryCnf_def follows_swap)
    qed
  qed
  then show ?thesis
    by (auto intro: follows_hw_send)
qed

lemma follows_run_command:
  assumes "follows R (command_functions P Output_Win ! i)"
  shows "follows R (run_command P i)"
  unfolding run_command_def by (intro follows_rules assms)

end

text \<open>No command touches what has been typed, and every command leaves the task information displayable.\<close>

interpretation typing: ui_relation "\<lambda>s s'. numEntries s' = numEntries s \<and> entry s' = entry s" "\<lambda>_. True"
  by unfold_locales auto

interpretation display: ui_relation "\<lambda>s s'. info_ok (taskInfo s) \<longrightarrow> info_ok (taskInfo s')" "\<lambda>_. True"
  by unfold_locales auto

lemma run_command_typing:
  "i < 41 \<Longrightarrow> numEntries (snd (run_command P i s)) = numEntries s \<and> entry (snd (run_command P i s)) = entry s"
  using typing.follows_run_command [OF typing.follows_command [of i P Output_Win]] by (simp add: follows_def)

lemma run_command_display:
  "i < 41 \<Longrightarrow> info_ok (taskInfo s) \<Longrightarrow> info_ok (taskInfo (snd (run_command P i s)))"
  using display.follows_run_command [OF display.follows_command [of i P Output_Win]] by (simp add: follows_def)

subsection \<open>One key\<close>

definition typed :: "ui \<Rightarrow> u8 list" where
  "typed s = take (unat (numEntries s)) (entry s)"

definition menu_ok :: "ui \<Rightarrow> bool" where
  "menu_ok s \<longleftrightarrow> length (entry s) = MAX_NUM_CHARS_IN_COMMAND \<and> unat (numEntries s) \<le> 2"

definition key_shown :: "u8 \<Rightarrow> ui \<Rightarrow> ui" where
  "key_shown key s = s\<lparr>entry := (entry s)[unat (numEntries s) := toUpper key], numEntries := numEntries s + 1,
     printed := printed s @ [(Command_Win, Bytes [toUpper key])]\<rparr>"

definition finish_command :: "ui_params \<Rightarrow> nat \<Rightarrow> (bool \<times> bool) interface" where
  "finish_command P i =
     then_do (run_command P i) (\<lambda>exitMenu. then_do (act (\<lambda>s. s\<lparr>numEntries := 0\<rparr>)) (\<lambda>_. ret (True, exitMenu)))"

lemma menu_okD:
  assumes "menu_ok s"
  shows "unat (numEntries s + 1) = Suc (unat (numEntries s))" "unat (numEntries s) < length (entry s)" "length (entry s) = 4"
    "length (typed s) = unat (numEntries s)"
proof -
  have n: "unat (numEntries s) \<le> 2" and e: "length (entry s) = 4"
    using assms by (simp_all add: menu_ok_def MAX_NUM_CHARS_IN_COMMAND_def)
  show "unat (numEntries s + 1) = Suc (unat (numEntries s))"
    using n by (simp add: unat_word_ariths)
  show "unat (numEntries s) < length (entry s)" "length (entry s) = 4" "length (typed s) = unat (numEntries s)"
    using n e by (simp_all add: typed_def)
qed

lemma entry_typed:
  assumes "menu_ok s"
  shows "take (unat (numEntries s + 1)) ((entry s)[unat (numEntries s) := k]) = typed s @ [k]"
  using menu_okD [OF assms] by (simp add: typed_def take_Suc_conv_app_nth)

lemma menu_key_step:
  assumes "menu_ok s" and "key \<notin> {KEY_COMMAND_CANCEL, BACKSPACE_KEY}"
  shows "handleUserCmdMenu P key s =
    (case candidates (typed s @ [toUpper key]) of
       [] \<Rightarrow> (Inr (False, False), s\<lparr>entry := (entry s)[unat (numEntries s) := toUpper key]\<rparr>)
     | [i] \<Rightarrow> finish_command P i (key_shown key s)
     | _ \<Rightarrow> (Inr (False, False), key_shown key s))"
proof -
  let ?e = "(entry s)[unat (numEntries s) := toUpper key]"
  let ?c = "candidates (typed s @ [toUpper key])"
  note n = menu_okD [OF assms(1)]
  have "match_loop ?e (unat (numEntries s + 1)) 0 (replicate (length command_texts) True) =
      (let c = candidates (take (unat (numEntries s + 1)) ?e) in (length c, if c = [] then 0 else last c))"
    by (rule match_entry) (use n assms(1) in \<open>simp_all add: menu_ok_def\<close>)
  then have m: "match_loop ?e (unat (numEntries s + 1)) 0 (replicate (length command_texts) True) = (length ?c, if ?c = [] then 0 else last ?c)"
    by (simp add: entry_typed [OF assms(1)] Let_def)
  have k: "?e ! unat (numEntries s) = toUpper key"
    using n by simp
  show ?thesis
    using assms(2) n(2) m k
    by (cases "?c" rule: remdups_adj.cases)
      (simp_all add: handleUserCmdMenu_def then_do_run call_run ret_run act_run say_def Let_def key_shown_def finish_command_def)
qed

subsection \<open>Sequences of keys\<close>

lemma candidates_bound: "i \<in> set (candidates t) \<Longrightarrow> i < 41"
  by (auto simp: candidates_def length_command_texts)

lemma three_characters_decide:
  assumes "length t = 3"
  shows "length (candidates t) \<le> 1"
proof -
  have "distinct (map (take 3) (map commandString [0..<41]))"
    unfolding command_strings command_table_def by simp
  then have inj: "take 3 (commandString i) = take 3 (commandString j) \<Longrightarrow> i < 41 \<Longrightarrow> j < 41 \<Longrightarrow> i = j" for i j
    by (auto simp: distinct_map inj_on_def comp_def)
  have "set (candidates t) \<subseteq> {hd (candidates t)}"
  proof
    fix i assume i: "i \<in> set (candidates t)"
    then have "hd (candidates t) \<in> set (candidates t)"
      by (cases "candidates t") auto
    then show "i \<in> {hd (candidates t)}"
      using i inj assms by (simp add: candidates_def length_command_texts)
  qed
  moreover have "distinct (candidates t)"
    by (simp add: candidates_def)
  ultimately show ?thesis
    by (metis card_mono card.empty card_insert_disjoint distinct_card empty_iff finite.emptyI finite.insertI One_nat_def)
qed

lemma finish_command_menu_ok:
  assumes "i < 41" and "length (entry s) = MAX_NUM_CHARS_IN_COMMAND" and "finish_command P i s = (Inr r, s')"
  shows "menu_ok s'"
proof -
  obtain e s1 where run: "run_command P i s = (Inr e, s1)" and "s' = s1\<lparr>numEntries := 0\<rparr>"
    using assms(3) by (auto simp: finish_command_def then_do_run act_run ret_run split: prod.splits sum.splits)
  then show ?thesis
    using run_command_typing [OF assms(1), of P s] assms(2) by (simp add: menu_ok_def)
qed

lemma cancel_loop_ok:
  "unat n \<le> 2 \<Longrightarrow> cancel_loop 0 (n, e) =
     (if n = 0 then (0, e) else if n = 1 then (0, e[0 := 0]) else (1, e[0 := 0]))"
proof -
  assume "unat n \<le> 2"
  then have "n = 0 \<or> n = 1 \<or> n = 2"
    by (simp add: word_unat_eq_iff) linarith
  then show ?thesis
    by (elim disjE) (simp_all add: cancel_loop.simps actOnBackspace_def)
qed

lemma handle_menu_ok:
  assumes "menu_ok s" and "handleUserCmdMenu P key s = (Inr r, s')"
  shows "menu_ok s'"
proof (cases "key \<in> {KEY_COMMAND_CANCEL, BACKSPACE_KEY}")
  case True
  have small: "unat (numEntries s) \<le> 2"
    using assms(1) by (simp add: menu_ok_def)
  show ?thesis
  proof (cases "key = KEY_COMMAND_CANCEL")
    case True
    then obtain n e where "cancel_loop 0 (numEntries s, entry s) = (n, e)" and s': "s' = s\<lparr>numEntries := n, entry := e\<rparr>"
      using assms(2) by (auto simp: handleUserCmdMenu_def then_do_run call_run ret_run act_run split: prod.splits)
    then have "unat n \<le> 2 \<and> length e = length (entry s)"
      using cancel_loop_ok [OF small, of "entry s"] by (auto split: if_splits)
    then show ?thesis
      using assms(1) by (simp add: s' menu_ok_def)
  next
    case False
    then have key: "key = BACKSPACE_KEY" "key \<noteq> KEY_COMMAND_CANCEL"
      using True by auto
    show ?thesis
    proof (cases "numEntries s = 0")
      case True
      then have "s' = s"
        using assms(2) key by (simp add: handleUserCmdMenu_def then_do_run call_run ret_run)
      then show ?thesis
        using assms(1) by simp
    next
      case False
      then have "s' = s\<lparr>numEntries := numEntries s - 1, entry := (entry s)[unat (numEntries s) := 0]\<rparr>"
        using assms(2) key menu_okD(2) [OF assms(1)]
        by (simp add: handleUserCmdMenu_def then_do_run call_run ret_run act_run actOnBackspace_def word_gt_0)
      then show ?thesis
        using assms(1) small unat_minus_one [OF False] by (simp add: menu_ok_def)
    qed
  qed
next
  case False
  let ?c = "candidates (typed s @ [toUpper key])"
  have many: "unat (numEntries s) < 2" if "length ?c > 1"
  proof (rule ccontr)
    assume "\<not> unat (numEntries s) < 2"
    then have "length (typed s @ [toUpper key]) = 3"
      using assms(1) menu_okD(4) [OF assms(1)] by (simp add: menu_ok_def)
    then show False
      using three_characters_decide that by fastforce
  qed
  note len = menu_okD(3) [OF assms(1)] menu_okD(1) [OF assms(1)]
  show ?thesis
  proof (cases "?c" rule: remdups_adj.cases)
    case 1
    then show ?thesis
      using menu_key_step [OF assms(1) False] assms by (auto simp: menu_ok_def)
  next
    case (2 i)
    then have "finish_command P i (key_shown key s) = (Inr r, s')"
      using menu_key_step [OF assms(1) False] assms(2) by simp
    moreover have "i < 41"
      by (rule candidates_bound [of i "typed s @ [toUpper key]"]) (simp add: 2)
    ultimately show ?thesis
      using len by (intro finish_command_menu_ok [of i "key_shown key s"]) (simp_all add: key_shown_def MAX_NUM_CHARS_IN_COMMAND_def)
  next
    case (3 i j ks)
    then have "s' = key_shown key s"
      using menu_key_step [OF assms(1) False] assms(2) by simp
    then show ?thesis
      using many 3 len by (simp add: menu_ok_def key_shown_def MAX_NUM_CHARS_IN_COMMAND_def)
  qed
qed

text \<open>A sequence of keys; the result is the list of the results.\<close>

fun press :: "ui_params \<Rightarrow> u8 list \<Rightarrow> (bool \<times> bool) list interface" where
  "press P [] = ret []"
| "press P (k # ks) = then_do (handleUserCmdMenu P k) (\<lambda>r. then_do (press P ks) (\<lambda>rs. ret (r # rs)))"

lemma press_menu_ok: "menu_ok s \<Longrightarrow> press P ks s = (Inr rs, s') \<Longrightarrow> menu_ok s'"
  by (induction ks arbitrary: s rs)
    (auto simp: ret_run then_do_run split: prod.splits sum.splits dest: handle_menu_ok)

lemma key_shown_typing:
  assumes "menu_ok s"
  shows "typed (key_shown k s) = typed s @ [toUpper k]" "length (entry (key_shown k s)) = length (entry s)"
    "numEntries (key_shown k s) = numEntries s + 1"
  using entry_typed [OF assms, of "toUpper k"] by (simp_all add: key_shown_def typed_def)

lemma key_shown_menu_ok:
  assumes "menu_ok s" and "length (candidates (typed s @ [toUpper k])) > 1"
  shows "menu_ok (key_shown k s)"
proof -
  have "unat (numEntries s) \<noteq> 2"
    using three_characters_decide [of "typed s @ [toUpper k]"] menu_okD(4) [OF assms(1)] assms(2) by auto
  then show ?thesis
    using assms(1) menu_okD(1) [OF assms(1)] key_shown_typing [OF assms(1), of k] by (simp add: menu_ok_def)
qed

text \<open>Keys that leave a choice are only shown; the key that ends the choice runs the command.\<close>

lemma press_command:
  assumes "menu_ok s" and "ks \<noteq> []" and "\<And>k. k \<in> set ks \<Longrightarrow> k \<notin> {KEY_COMMAND_CANCEL, BACKSPACE_KEY}"
    and "\<And>m. 0 < m \<Longrightarrow> m < length ks \<Longrightarrow> length (candidates (typed s @ map toUpper (take m ks))) > 1"
    and "candidates (typed s @ map toUpper ks) = [i]"
  shows "press P ks s =
    (case finish_command P i (fold key_shown ks s) of
       (Inl e, s') \<Rightarrow> (Inl e, s')
     | (Inr r, s') \<Rightarrow> (Inr (replicate (length ks - 1) (False, False) @ [r]), s'))"
  using assms
proof (induction ks arbitrary: s)
  case Nil
  then show ?case by simp
next
  case (Cons k ks)
  have key: "k \<notin> {KEY_COMMAND_CANCEL, BACKSPACE_KEY}"
    using Cons.prems(3) by simp
  show ?case
  proof (cases "ks = []")
    case True
    then show ?thesis
      using menu_key_step [OF Cons.prems(1) key, of P] Cons.prems(5)
      by (simp add: then_do_run ret_run split: prod.splits sum.splits)
  next
    case False
    have many: "length (candidates (typed s @ [toUpper k])) > 1"
      using Cons.prems(4) [of 1] False by simp
    then have step: "handleUserCmdMenu P k s = (Inr (False, False), key_shown k s)"
      using menu_key_step [OF Cons.prems(1) key, of P]
      by (cases "candidates (typed s @ [toUpper k])" rule: remdups_adj.cases) auto
    have "press P ks (key_shown k s) = (case finish_command P i (fold key_shown ks (key_shown k s)) of
         (Inl e, s') \<Rightarrow> (Inl e, s')
       | (Inr r, s') \<Rightarrow> (Inr (replicate (length ks - 1) (False, False) @ [r]), s'))"
    proof (rule Cons.IH [OF key_shown_menu_ok [OF Cons.prems(1) many] False])
      show "\<And>m. 0 < m \<Longrightarrow> m < length ks \<Longrightarrow> length (candidates (typed (key_shown k s) @ map toUpper (take m ks))) > 1"
        using Cons.prems(4) [of "Suc _"] by (simp add: key_shown_typing [OF Cons.prems(1)])
    qed (use Cons.prems(3,5) key_shown_typing [OF Cons.prems(1)] in auto)
    then show ?thesis
      using step False by (cases ks) (simp_all add: then_do_run ret_run split: prod.splits sum.splits)
  qed
qed

definition commandKeys :: "nat \<Rightarrow> u8 list" where
  "commandKeys i = filter (\<lambda>b. b \<noteq> 0) (commandString i)"

lemma candidates_table:
  "candidates t = map fst (filter (\<lambda>(i, c). take (length t) c = t) (zip [0..<41] command_table))"
proof -
  have "zip [0..<41] command_table = map (\<lambda>i. (i, commandString i)) [0..<41]"
    by (simp only: zip_map2 zip_same_conv_map map_map comp_def flip: command_strings) simp
  then show ?thesis
    by (simp add: candidates_def length_command_texts filter_map comp_def)
qed

text \<open>The same table with integers for the bytes, which are faster to compare.\<close>

definition command_codes :: "int list list" where
  "command_codes =
   [[63, 0, 0, 0], [88, 0, 0, 0], [73, 0, 0, 0], [86, 0, 0, 0], [65, 0, 0, 0], [76, 0, 0, 0], [71, 0, 0, 0], [81, 0, 0, 0],
    [83, 80, 0, 0], [83, 49, 0, 0], [83, 50, 0, 0], [83, 51, 0, 0], [80, 33, 0, 0], [72, 126, 0, 0], [72, 33, 0, 0],
    [80, 66, 43, 0], [80, 66, 45, 0], [80, 77, 43, 0], [80, 77, 45, 0], [72, 66, 43, 0], [72, 66, 45, 0], [72, 77, 43, 0],
    [72, 77, 45, 0], [72, 83, 0, 0], [84, 72, 0, 0], [84, 77, 0, 0], [67, 88, 43, 0], [67, 88, 45, 0], [67, 80, 43, 0],
    [67, 80, 45, 0], [67, 72, 43, 0], [67, 72, 45, 0], [67, 49, 43, 0], [67, 49, 45, 0], [67, 50, 43, 0], [67, 50, 45, 0],
    [67, 51, 43, 0], [67, 51, 45, 0], [82, 63, 0, 0], [82, 88, 43, 0], [82, 88, 45, 0]]"

lemma command_codes: "command_codes = map (map uint) command_table"
  by (simp add: command_codes_def command_table_def)

lemma candidates_codes:
  "candidates t = map fst (filter (\<lambda>(i, c). take (length t) c = map uint t) (zip [0..<41] command_codes))"
proof -
  have inj: "inj (uint :: u8 \<Rightarrow> int)"
    by (rule injI) (rule word_uint_eqI)
  have "take (length t) (map uint c) = map uint t \<longleftrightarrow> take (length t) c = t" for c
    by (simp add: take_map inj_map_eq_map [OF inj])
  then show ?thesis
    unfolding command_codes candidates_table by (simp add: zip_map2 filter_map comp_def case_prod_unfold)
qed

lemma command_candidates:
  assumes "i < 41"
  shows "candidates (commandKeys i) = [i]" "commandKeys i \<noteq> []"
    "0 < m \<Longrightarrow> m < length (commandKeys i) \<Longrightarrow> length (candidates (take m (commandKeys i))) > 1"
    "KEY_COMMAND_CANCEL \<notin> set (commandKeys i)" "BACKSPACE_KEY \<notin> set (commandKeys i)"
proof -
  have table: "\<forall>(i, c) \<in> set (zip [0..<41] command_codes). let t = filter (\<lambda>b. b \<noteq> 0) c in
      map fst (filter (\<lambda>(i, c). take (length t) c = t) (zip [0..<41] command_codes)) = [i] \<and> t \<noteq> [] \<and>
      (\<forall>m \<in> set [1..<length t].
         length (map fst (filter (\<lambda>(i, c). take (length (take m t)) c = take m t) (zip [0..<41] command_codes))) > 1) \<and>
      0x1B \<notin> set t \<and> 0x08 \<notin> set t"
    by code_simp
  have member: "(i, map uint (commandString i)) \<in> set (zip [0..<41] command_codes)"
    using assms by (auto simp: set_zip commandString_table command_codes length_command_table intro!: exI [of _ i])
  have keys: "filter (\<lambda>b. b \<noteq> 0) (map uint (commandString i)) = map uint (commandKeys i)"
    by (simp add: commandKeys_def filter_map comp_def uint_0_iff)
  have code: "candidates (commandKeys i) = [i] \<and> commandKeys i \<noteq> [] \<and>
      (\<forall>m \<in> set [1..<length (commandKeys i)]. length (candidates (take m (commandKeys i))) > 1) \<and>
      0x1B \<notin> set (map uint (commandKeys i)) \<and> 0x08 \<notin> set (map uint (commandKeys i))"
    using bspec [OF table member] unfolding prod.case Let_def keys candidates_codes by (simp only: take_map length_map map_is_Nil_conv) blast
  then show "candidates (commandKeys i) = [i]" "commandKeys i \<noteq> []"
    by simp_all
  show "0 < m \<Longrightarrow> m < length (commandKeys i) \<Longrightarrow> length (candidates (take m (commandKeys i))) > 1"
    using code by simp
  show "KEY_COMMAND_CANCEL \<notin> set (commandKeys i)" "BACKSPACE_KEY \<notin> set (commandKeys i)"
    using code by (force simp: KEY_COMMAND_CANCEL_def BACKSPACE_KEY_def image_iff)+
qed

text \<open>
  C16.  One key of the menu, apart from the cancel and the backspace key, against its specification: the candidates are the commands
  that start with what has been typed and the new key, as a capital letter.  Without a candidate the key is ignored;
  a single one is carried out, and the next key starts afresh; otherwise the key is shown.  Nothing is written outside the
  four bytes of the entry, and after the key at most two characters are waiting.
\<close>

theorem menu_key:
  assumes "menu_ok s" and "key \<notin> {KEY_COMMAND_CANCEL, BACKSPACE_KEY}"
  shows "handleUserCmdMenu P key s =
    (case candidates (typed s @ [toUpper key]) of
       [] \<Rightarrow> (Inr (False, False), s\<lparr>entry := (entry s)[unat (numEntries s) := toUpper key]\<rparr>)
     | [i] \<Rightarrow> finish_command P i (key_shown key s)
     | _ \<Rightarrow> (Inr (False, False), key_shown key s))
   \<and> typed (key_shown key s) = typed s @ [toUpper key]
   \<and> (\<forall>r s'. handleUserCmdMenu P key s = (Inr r, s') \<longrightarrow> menu_ok s')"
  using menu_key_step [OF assms] key_shown_typing(1) [OF assms(1)] handle_menu_ok [OF assms(1)] by blast

definition initial_ui :: ui where
  "initial_ui = \<lparr>uiCalls = [], printed = [], taskInfo = initial_info, numEntries = 0, entry = replicate 4 0,
     previousMains12VPresent = False\<rparr>"

lemma initial_ui_menu_ok: "menu_ok initial_ui"
  by (simp add: menu_ok_def initial_ui_def MAX_NUM_CHARS_IN_COMMAND_def)

definition silent_ui :: ui_params where
  "silent_ui = \<lparr>uiEnv = \<lambda>h c. (True, []), uninitialised = \<lambda>v i. 0, sizeofTaskUnion = 35, sizeofContextCnf = 66\<rparr>"

theorem menu_key_witness:
  "\<exists>s'. handleUserCmdMenu silent_ui 115 initial_ui = (Inr (False, False), s') \<and> typed s' = [83] \<and> menu_ok s'"
proof -
  have c: "candidates [83] = [8, 9, 10, 11]"
    unfolding candidates_codes by code_simp
  have key: "115 \<notin> {KEY_COMMAND_CANCEL, BACKSPACE_KEY}" "toUpper 115 = 83" "typed initial_ui = []"
    by (simp_all add: KEY_COMMAND_CANCEL_def BACKSPACE_KEY_def toUpper_def typed_def initial_ui_def)
  note k = menu_key [OF initial_ui_menu_ok key(1), of silent_ui, unfolded key, simplified, unfolded c, simplified]
  then show ?thesis
    by auto
qed

lemma typing_a_command:
  assumes "menu_ok s" and "numEntries s = 0" and "i < 41" and "map toUpper ks = commandKeys i"
  shows "press P ks s =
    (case finish_command P i (fold key_shown ks s) of
       (Inl e, s') \<Rightarrow> (Inl e, s')
     | (Inr r, s') \<Rightarrow> (Inr (replicate (length ks - 1) (False, False) @ [r]), s'))
   \<and> uiCalls (fold key_shown ks s) = uiCalls s \<and> taskInfo (fold key_shown ks s) = taskInfo s"
proof -
  note c = command_candidates [OF assms(3)]
  have "typed s = []"
    by (simp add: typed_def assms(2))
  have keys: "k \<notin> {KEY_COMMAND_CANCEL, BACKSPACE_KEY}" if "k \<in> set ks" for k
  proof -
    have "toUpper k \<in> set (commandKeys i)"
      using that unfolding assms(4) [symmetric] by simp
    moreover have "toUpper KEY_COMMAND_CANCEL = KEY_COMMAND_CANCEL" "toUpper BACKSPACE_KEY = BACKSPACE_KEY"
      by (simp_all add: toUpper_def KEY_COMMAND_CANCEL_def BACKSPACE_KEY_def)
    ultimately show ?thesis
      using c(4,5) by auto
  qed
  have len: "length ks = length (commandKeys i)"
    by (simp flip: assms(4))
  have "press P ks s =
    (case finish_command P i (fold key_shown ks s) of
       (Inl e, s') \<Rightarrow> (Inl e, s')
     | (Inr r, s') \<Rightarrow> (Inr (replicate (length ks - 1) (False, False) @ [r]), s'))"
  proof (rule press_command [OF assms(1) _ keys])
    show "ks \<noteq> []"
      using c(2) len by auto
    show "0 < m \<Longrightarrow> m < length ks \<Longrightarrow> length (candidates (typed s @ map toUpper (take m ks))) > 1" for m
      using c(3) [of m] by (simp add: \<open>typed s = []\<close> assms(4) len flip: take_map)
    show "candidates (typed s @ map toUpper ks) = [i]"
      by (simp add: \<open>typed s = []\<close> assms(4) c(1))
  qed
  moreover have "uiCalls (fold key_shown ks s) = uiCalls s \<and> taskInfo (fold key_shown ks s) = taskInfo s"
    by (induction ks arbitrary: s) (simp_all add: key_shown_def)
  ultimately show ?thesis
    by simp
qed

text \<open>
  C10.  Whoever types the characters of a command, in capital or small letters, runs exactly this command, with the
  last character: the characters before it are only shown, and nothing is sent to anybody before.
\<close>

theorem command_typed:
  assumes "menu_ok s" and "numEntries s = 0" and "i < 41" and "map toUpper ks = commandKeys i"
  shows "press P ks s =
    (case finish_command P i (fold key_shown ks s) of
       (Inl e, s') \<Rightarrow> (Inl e, s')
     | (Inr r, s') \<Rightarrow> (Inr (replicate (length ks - 1) (False, False) @ [r]), s'))
   \<and> uiCalls (fold key_shown ks s) = uiCalls s \<and> taskInfo (fold key_shown ks s) = taskInfo s"
  using assms by (rule typing_a_command)

text \<open>Typing \<open>pb+\<close> switches the battery supply of the Pi on.\<close>

theorem command_typed_witness:
  "\<exists>s'. press silent_ui [112, 98, 43] initial_ui = (Inr [(False, False), (False, False), (True, False)], s')
    \<and> uiCalls s' = [(Call HW_Server HARDWARE_SET_RIO_PWR_BATT_ON None, True, [])]"
proof -
  have keys: "map toUpper [112, 98, 43] = commandKeys 15"
    by (simp add: toUpper_def commandKeys_def commandString_table command_table_def)
  have "numEntries initial_ui = 0" "(15 :: nat) < 41"
    by (simp_all add: initial_ui_def)
  note t = command_typed [OF initial_ui_menu_ok this keys, of silent_ui]
  have "command_texts ! 15 = (''PB+'', False, ''switch RIO/Pi battery power on'')"
    "command_functions silent_ui Output_Win ! 15 = hw_send silent_ui HARDWARE_SET_RIO_PWR_BATT_ON None"
    by (simp_all add: command_texts_def command_functions_def cmd_defs)
  then show ?thesis
    unfolding t [THEN conjunct1] finish_command_def run_command_def
    by (simp add: then_do_run ret_run act_run say_def hw_send_def ui_exec_def call_run silent_ui_def gIndexOfExitCommand_def
        key_shown_def initial_ui_def numeral_2_eq_2)
qed

text \<open>
  C21.  The cancel key after two characters does not cancel them.  The loop counts up while the number of characters goes down, so it
  clears one of the two, and clears the first: what is left is a zero byte that no command starts with, and from then on
  every key is ignored, until the backspace or the cancel key is pressed again.
\<close>

theorem cancel_jams_menu:
  assumes "menu_ok s" and "numEntries s = 2"
  shows "\<exists>s'. handleUserCmdMenu P KEY_COMMAND_CANCEL s = (Inr (False, False), s') \<and> typed s' = [0] \<and>
    (\<forall>ks. (\<forall>k \<in> set ks. k \<notin> {KEY_COMMAND_CANCEL, BACKSPACE_KEY}) \<longrightarrow>
      (\<exists>s''. press P ks s' = (Inr (replicate (length ks) (False, False)), s'') \<and> typed s'' = [0] \<and>
        uiCalls s'' = uiCalls s' \<and> printed s'' = printed s'))"
proof -
  let ?s = "s\<lparr>numEntries := 1, entry := (entry s)[0 := 0]\<rparr>"
  have len: "length (entry s) = 4"
    by (rule menu_okD(3) [OF assms(1)])
  have cancel: "handleUserCmdMenu P KEY_COMMAND_CANCEL s = (Inr (False, False), ?s)"
    using assms(2) cancel_loop_ok [of 2 "entry s"] by (simp add: handleUserCmdMenu_def then_do_run call_run ret_run act_run)
  have none: "candidates [0, k] = []" for k
  proof -
    have "\<forall>c \<in> set command_table. c ! 0 \<noteq> 0"
      by (simp add: command_table_def)
    then have "commandString i ! 0 \<noteq> 0" if "i < 41" for i
      using that by (simp add: commandString_table length_command_table)
    moreover have "c ! 0 = 0" if "take 2 c = [0, k]" for c :: "u8 list"
      using nth_take [of 0 2 c] that by simp
    ultimately have "\<forall>i < 41. take 2 (commandString i) \<noteq> [0, k]"
      by blast
    then show ?thesis
      by (simp add: candidates_def filter_empty_conv length_command_texts flip: numeral_2_eq_2)
  qed
  have jam: "\<exists>s''. press P ks t = (Inr (replicate (length ks) (False, False)), s'') \<and> typed s'' = [0] \<and>
      uiCalls s'' = uiCalls t \<and> printed s'' = printed t"
    if "menu_ok t" "typed t = [0]" "\<forall>k \<in> set ks. k \<notin> {KEY_COMMAND_CANCEL, BACKSPACE_KEY}" for ks t
    using that
  proof (induction ks arbitrary: t)
    case Nil
    then show ?case by (simp add: ret_run)
  next
    case (Cons k ks)
    let ?t = "t\<lparr>entry := (entry t)[unat (numEntries t) := toUpper k]\<rparr>"
    have step: "handleUserCmdMenu P k t = (Inr (False, False), ?t)"
      using menu_key_step [OF Cons.prems(1), of k P] Cons.prems(2,3) none by simp
    have "menu_ok ?t" "typed ?t = [0]"
      using Cons.prems(1,2) by (simp_all add: menu_ok_def typed_def)
    then obtain s'' where "press P ks ?t = (Inr (replicate (length ks) (False, False)), s'')" "typed s'' = [0]"
        "uiCalls s'' = uiCalls ?t" "printed s'' = printed ?t"
      using Cons.IH [of ?t] Cons.prems(3) by auto
    then show ?case
      by (simp add: step then_do_run ret_run)
  qed
  have ok: "menu_ok ?s" "typed ?s = [0]"
    using assms(1) len by (cases "entry s"; simp add: menu_ok_def typed_def)+
  show ?thesis
    by (rule exI [of _ ?s]) (use cancel ok jam [OF ok] in simp)
qed

theorem cancel_jams_menu_witness:
  "\<exists>s'. handleUserCmdMenu silent_ui KEY_COMMAND_CANCEL (initial_ui\<lparr>numEntries := 2, entry := [67, 72, 0, 0]\<rparr>) = (Inr (False, False), s')
    \<and> (\<exists>s''. press silent_ui [88, 63, 73] s' = (Inr (replicate 3 (False, False)), s'') \<and> uiCalls s'' = uiCalls s')"
proof -
  have "menu_ok (initial_ui\<lparr>numEntries := 2, entry := [67, 72, 0, 0]\<rparr>)"
      "numEntries (initial_ui\<lparr>numEntries := 2, entry := [67, 72, 0, 0]\<rparr>) = 2"
    by (simp_all add: menu_ok_def MAX_NUM_CHARS_IN_COMMAND_def)
  from cancel_jams_menu [OF this, of silent_ui] obtain s' where
    "handleUserCmdMenu silent_ui KEY_COMMAND_CANCEL (initial_ui\<lparr>numEntries := 2, entry := [67, 72, 0, 0]\<rparr>) = (Inr (False, False), s')"
    and jam: "\<And>ks. (\<forall>k \<in> set ks. k \<notin> {KEY_COMMAND_CANCEL, BACKSPACE_KEY}) \<Longrightarrow>
      \<exists>s''. press silent_ui ks s' = (Inr (replicate (length ks) (False, False)), s'') \<and> uiCalls s'' = uiCalls s'"
    by blast
  moreover have "\<forall>k \<in> set [88, 63, 73]. k \<notin> {KEY_COMMAND_CANCEL, BACKSPACE_KEY}"
    by (simp add: KEY_COMMAND_CANCEL_def BACKSPACE_KEY_def)
  ultimately show ?thesis
    using jam [of "[88, 63, 73]"] by (simp add: numeral_3_eq_3)
qed

end
