(* ===== verification/Monitor_Properties.thy ===== *)
theory Monitor_Properties
  imports Monitor Menu_Properties
begin

section \<open>What the dashboard does over many turns\<close>

subsection \<open>The windows follow a relation\<close>

text \<open>
  To the relations of the menu the windows add the part that looks at mains power, and the whole dashboard the entry of the menu.
\<close>

context ui_relation
begin

lemma follows_mains_power:
  assumes "ok (Call HW_Server HARDWARE_READ_MAINS_12V None)" and "ok (Call SM_Server STATE_MACHINE_EVENT_MAINS_POWER_AVAILABLE None)"
    and "\<And>s b. R s (s\<lparr>previousMains12VPresent := b\<rparr>)"
  shows "follows R (mains_power P)"
proof -
  have "follows R (act (\<lambda>s. s\<lparr>previousMains12VPresent := b\<rparr>))" "follows R (call (\<lambda>s. (previousMains12VPresent s, s)))" for b
    by (simp_all add: follows_def act_run call_run assms(3) R_refl)
  then show ?thesis
    unfolding mains_power_def hw_read_def sm_send_def by (intro follows_basic follows_exec assms(1,2))
qed

end

locale window_relation = ui_relation R ok for R :: "ui \<Rightarrow> ui \<Rightarrow> bool" and ok :: "call \<Rightarrow> bool" +
  fixes P :: ui_params
  assumes R_mains: "R s (snd (mains_power P s))"
begin

lemma follows_mains: "follows R (mains_power P)"
  by (simp add: follows_def R_mains)

lemma follows_hw_fills: "(\<And>t. t \<in> fst ` set rs \<Longrightarrow> t < 74 \<and> t \<notin> {2, 36, 37, 65}) \<Longrightarrow> follows R (hw_fills P rs vars)"
proof (induction rs arbitrary: vars)
  case Nil
  then show ?case by (simp add: follows_ret)
next
  case (Cons r rs)
  obtain t k off where r: "r = (t, k, off)" by (cases r)
  show ?case
    unfolding r hw_fills.simps using Cons
    by (intro follows_basic follows_hw_read) (auto simp: r)
qed

lemma follows_bm_data: "follows R (bm_data P t d st)"
  unfolding bm_data_def by (intro follows_basic follows_exec ok_others) simp_all

lemma follows_power_states:
  "(\<And>t. t \<in> {t1, t2, t3} \<Longrightarrow> t < 74 \<and> t \<notin> {2, 36, 37, 65}) \<Longrightarrow> follows R (power_states P t1 t2 t3 vars)"
  unfolding power_states_def by (intro follows_basic follows_hw_fills) auto

lemma follows_charger_states: "follows R (charger_states st is)"
  by (induction "is") (auto simp: Let_def intro!: follows_basic)

lemma follows_say_string: "follows R (say_string w bs)"
  by (simp add: say_string_def follows_basic)

lemma follows_task_status: "follows R task_status"
  unfolding task_status_def by (intro follows_basic follows_lifted follows_say_string)

lemma printable_ping: "printable_fits (tl (ping_container w mem))"
  using printable_fits_append [of PING_STRING] by (simp add: ping_container_def PING_STRING_def)

lemma follows_ping: "follows R (hw_send P HARDWARE_SEND_O_STRING (Some (ping_container w mem)))"
  using ok_string [OF printable_ping, of "bool_byte w" w mem]
  by (intro follows_hw_send) (simp add: ping_container_def)

lemma follows_windows:
  "follows R (updateOutputWindow P count)" "follows R (updateRioWindow P count)" "follows R (updateOWindow P count)"
  "follows R (updatePowerWindow P count)" "follows R (updateChgWindow P count)" "follows R (updateStateWindow P count)"
proof -
  show "follows R (updateOutputWindow P count)"
    by (simp add: updateOutputWindow_def follows_ret)
  show "follows R (updateRioWindow P count)"
    unfolding updateRioWindow_def by (intro follows_basic follows_hw_fills follows_bm_data; force)
  show "follows R (updateOWindow P count)"
    unfolding updateOWindow_def by (intro follows_basic follows_hw_fills follows_bm_data; force)
  show "follows R (updatePowerWindow P count)"
    unfolding updatePowerWindow_def by (intro follows_basic follows_mains follows_power_states; force)
  show "follows R (updateChgWindow P count)"
    unfolding updateChgWindow_def by (intro follows_basic follows_hw_read follows_charger_states; simp)
  show "follows R (updateStateWindow P count)"
    unfolding updateStateWindow_def
    by (intro follows_rules follows_exec ok_others follows_say_string follows_ping follows_task_status; simp)
qed

lemma follows_tick: "follows R (ui_exec P (Call TH_Server t body))"
  by (intro follows_exec ok_others) simp_all

end

locale dashboard_relation = window_relation +
  assumes R_entry: "R s (s\<lparr>numEntries := n, entry := e\<rparr>)"
begin

text \<open>A key follows the relation unless it completes one of the two commands whose message is not \<open>ok\<close>.\<close>

lemma follows_finish: "follows R (run_command P i) \<Longrightarrow> follows R (finish_command P i)"
proof -
  have "follows R (act (\<lambda>s. s\<lparr>numEntries := 0\<rparr>))"
  proof -
    have "s\<lparr>numEntries := 0\<rparr> = s\<lparr>numEntries := 0, entry := entry s\<rparr>" for s
      by simp
    then show ?thesis
      unfolding follows_def act_run snd_conv by (metis R_entry)
  qed
  then show "follows R (run_command P i) \<Longrightarrow> follows R (finish_command P i)"
    unfolding finish_command_def by (intro follows_basic)
qed

lemma R_key_shown: "R s (key_shown key s)"
proof -
  have "key_shown key s = s\<lparr>numEntries := numEntries s + 1, entry := (entry s)[unat (numEntries s) := toUpper key],
      printed := printed s @ [(Command_Win, Bytes [toUpper key])]\<rparr>"
    by (simp add: key_shown_def)
  then show ?thesis
    using R_trans [OF R_entry R_printed] by metis
qed

lemma key_follows:
  assumes "menu_ok s"
    and "candidates (typed s @ [toUpper key]) = [30] \<Longrightarrow> ok (Call HW_Server HARDWARE_SET_ALL_O_BATTERY_CHARGERS_ON None)"
    and "candidates (typed s @ [toUpper key]) = [31] \<Longrightarrow> ok (Call HW_Server HARDWARE_SET_ALL_O_BATTERY_CHARGERS_OFF None)"
  shows "R s (snd (handleUserCmdMenu P key s))"
proof (cases "key \<in> {KEY_COMMAND_CANCEL, BACKSPACE_KEY}")
  case True
  then show ?thesis
    using menu_okD(2) [OF assms(1)]
    by (auto simp: handleUserCmdMenu_def then_do_run call_run ret_run act_run raise_run KEY_COMMAND_CANCEL_def BACKSPACE_KEY_def
        R_refl R_entry split: prod.split)
next
  case False
  have entry: "R s (s\<lparr>entry := e\<rparr>)" for e
    using R_entry [of s e "numEntries s"] by simp
  show ?thesis
  proof (cases "candidates (typed s @ [toUpper key])" rule: remdups_adj.cases)
    case 1
    then show ?thesis
      using menu_key_step [OF assms(1) False, of P] entry by simp
  next
    case (2 i)
    have "i < 41"
      by (rule candidates_bound [of i "typed s @ [toUpper key]"]) (simp add: 2)
    then have "follows R (finish_command P i)"
      using assms(2,3) 2 by (intro follows_finish follows_run_command follows_command) auto
    then show ?thesis
      using menu_key_step [OF assms(1) False, of P] 2 R_trans [OF R_key_shown [of s key]] unfolding follows_def by simp
  next
    case (3 i j ks)
    then show ?thesis
      using menu_key_step [OF assms(1) False, of P] R_key_shown by simp
  qed
qed

end

subsection \<open>The loop follows a relation\<close>

text \<open>
  The menu only behaves while at most two characters are waiting, which a key keeps so if it is handled without a fault.  So the windows are followed
  from such states to such states.
\<close>

definition keeps_menu :: "(ui \<Rightarrow> ui \<Rightarrow> bool) \<Rightarrow> 'a interface \<Rightarrow> bool" where
  "keeps_menu R m \<longleftrightarrow> (\<forall>s. menu_ok s \<longrightarrow> R s (snd (m s)) \<and> (\<forall>r s'. m s = (Inr r, s') \<longrightarrow> menu_ok s'))"

interpretation typing: window_relation "\<lambda>s s'. numEntries s' = numEntries s \<and> entry s' = entry s" "\<lambda>_. True" P for P
proof unfold_locales
  fix s
  have "follows (\<lambda>s s'. numEntries s' = numEntries s \<and> entry s' = entry s) (mains_power P)"
    by (rule typing.follows_mains_power) simp_all
  then show "numEntries (snd (mains_power P s)) = numEntries s \<and> entry (snd (mains_power P s)) = entry s"
    by (simp add: follows_def)
qed

lemma keeps_typing:
  assumes "follows R m" and "follows (\<lambda>s s'. numEntries s' = numEntries s \<and> entry s' = entry s) m"
  shows "keeps_menu R m"
  using assms unfolding keeps_menu_def follows_def menu_ok_def by (metis snd_conv)

context dashboard_relation
begin

lemma keeps_ret: "keeps_menu R (ret x)"
  by (simp add: keeps_menu_def ret_run R_refl)

lemma keeps_then_do:
  assumes "keeps_menu R m" and "\<And>x. keeps_menu R (f x)"
  shows "keeps_menu R (then_do m f)"
  unfolding keeps_menu_def
proof (intro allI impI)
  fix s assume s: "menu_ok s"
  obtain r s1 where m: "m s = (r, s1)"
    by fastforce
  show "R s (snd (then_do m f s)) \<and> (\<forall>r s'. then_do m f s = (Inr r, s') \<longrightarrow> menu_ok s')"
  proof (cases r)
    case (Inl e)
    then show ?thesis
      using assms(1) s m by (auto simp: keeps_menu_def then_do_run)
  next
    case (Inr x)
    then have "R s s1" "menu_ok s1"
      using assms(1) s m unfolding keeps_menu_def by (metis snd_conv)+
    then show ?thesis
      using assms(2) [of x] m Inr R_trans unfolding keeps_menu_def then_do_run by simp
  qed
qed

lemma keeps_exec: "ok c \<Longrightarrow> keeps_menu R (ui_exec P c)"
  by (intro keeps_typing follows_exec typing.follows_exec) simp_all

lemma keeps_cmd_window:
  assumes "ok (Call HW_Server HARDWARE_SET_ALL_O_BATTERY_CHARGERS_ON None)" and "ok (Call HW_Server HARDWARE_SET_ALL_O_BATTERY_CHARGERS_OFF None)"
  shows "keeps_menu R (updateCmdWindow P count)"
proof -
  have "keeps_menu R (handleUserCmdMenu P key)" for key
    unfolding keeps_menu_def using key_follows assms handle_menu_ok by blast
  moreover have "keeps_menu R (if b then say w outs else ret ())" for b w outs
    by (intro keeps_typing follows_basic typing.follows_basic)
  ultimately show ?thesis
    unfolding updateCmdWindow_def
    by (auto intro!: keeps_then_do keeps_exec keeps_ret ok_own split: prod.splits)
qed

lemma keeps_windows:
  assumes "\<And>w. w \<in> set ws \<Longrightarrow> keeps_menu R w"
  shows "keeps_menu R (update_windows P ws)"
  using assms by (induction ws) (auto intro!: keeps_then_do keeps_exec keeps_ret ok_others split: prod.splits)

lemma keeps_window:
  assumes "ok (Call HW_Server HARDWARE_SET_ALL_O_BATTERY_CHARGERS_ON None)" and "ok (Call HW_Server HARDWARE_SET_ALL_O_BATTERY_CHARGERS_OFF None)"
    and "w \<in> set (gWindowList P i)"
  shows "keeps_menu R w"
  using assms(3) follows_windows typing.follows_windows keeps_cmd_window [OF assms(1,2)]
  by (auto simp: gWindowList_def intro: keeps_typing)

lemma keeps_dashboard:
  assumes "ok (Call HW_Server HARDWARE_SET_ALL_O_BATTERY_CHARGERS_ON None)" and "ok (Call HW_Server HARDWARE_SET_ALL_O_BATTERY_CHARGERS_OFF None)"
  shows "keeps_menu R (dashboard n P i)"
proof (induction n arbitrary: i)
  case 0
  then show ?case by (simp add: keeps_menu_def raise_run R_refl)
next
  case (Suc n)
  have "keeps_menu R (update_windows P (gWindowList P i))"
    by (intro keeps_windows keeps_window [OF assms])
  then show ?case
    using Suc keeps_ret by (auto intro!: keeps_then_do)
qed

lemma dashboard_follows:
  assumes "ok (Call HW_Server HARDWARE_SET_ALL_O_BATTERY_CHARGERS_ON None)" and "ok (Call HW_Server HARDWARE_SET_ALL_O_BATTERY_CHARGERS_OFF None)"
    and "menu_ok s"
  shows "R s (snd (dashboard n P i s))"
  using keeps_dashboard [OF assms(1,2), of n i] assms(3) by (simp add: keeps_menu_def)

end

subsection \<open>Mains power\<close>

text \<open>
  What a sequence of calls says of mains power: the levels that were read and the events that were sent.  A reply longer than the variable
  ends the program before it is looked at.  According to the protocol every level is followed by an event
  if mains power was absent at the level before.
\<close>

datatype mains_step = Level bool | Event_Sent

definition mains_step :: "ui_params \<Rightarrow> call \<times> reply \<Rightarrow> mains_step list" where
  "mains_step P = (\<lambda>(c, success, specs).
     if c = Call HW_Server HARDWARE_READ_MAINS_12V None \<and> success \<and> length specs \<le> 1
     then [Level (hd (specs @ local_var P ''mains12VPresent'' 1) \<noteq> 0)]
     else if c = Call SM_Server STATE_MACHINE_EVENT_MAINS_POWER_AVAILABLE None then [Event_Sent] else [])"

definition mains_steps :: "ui_params \<Rightarrow> history \<Rightarrow> mains_step list" where
  "mains_steps P h = concat (map (mains_step P) h)"

fun mains_protocol :: "bool \<Rightarrow> bool list \<Rightarrow> mains_step list" where
  "mains_protocol p [] = []"
| "mains_protocol p (b # bs) = Level b # (if b \<and> \<not> p then [Event_Sent] else []) @ mains_protocol b bs"

definition mains_free :: "call \<Rightarrow> bool" where
  "mains_free c \<longleftrightarrow> c \<noteq> Call HW_Server HARDWARE_READ_MAINS_12V None \<and> c \<noteq> Call SM_Server STATE_MACHINE_EVENT_MAINS_POWER_AVAILABLE None"

definition mains_rel :: "ui_params \<Rightarrow> ui \<Rightarrow> ui \<Rightarrow> bool" where
  "mains_rel P s s' \<longleftrightarrow> (\<exists>new levels. uiCalls s' = uiCalls s @ new \<and>
     mains_steps P new = mains_protocol (previousMains12VPresent s) levels \<and>
     previousMains12VPresent s' = last (previousMains12VPresent s # levels))"

lemma mains_protocol_append: "mains_protocol p (xs @ ys) = mains_protocol p xs @ mains_protocol (last (p # xs)) ys"
  by (induction xs arbitrary: p) auto

lemma mains_steps_append: "mains_steps P (xs @ ys) = mains_steps P xs @ mains_steps P ys"
  by (simp add: mains_steps_def)

lemma mains_relI:
  "uiCalls s' = uiCalls s @ new \<Longrightarrow> mains_steps P new = mains_protocol (previousMains12VPresent s) levels \<Longrightarrow>
    previousMains12VPresent s' = last (previousMains12VPresent s # levels) \<Longrightarrow> mains_rel P s s'"
  unfolding mains_rel_def by blast

lemma mains_rel_same:
  "uiCalls s' = uiCalls s @ new \<Longrightarrow> mains_steps P new = [] \<Longrightarrow> previousMains12VPresent s' = previousMains12VPresent s \<Longrightarrow> mains_rel P s s'"
  by (rule mains_relI [where levels = "[]"]) simp_all

lemma mains_rel_trans:
  assumes "mains_rel P s s'" and "mains_rel P s' s''"
  shows "mains_rel P s s''"
proof -
  obtain n1 l1 n2 l2 where "uiCalls s' = uiCalls s @ n1" "mains_steps P n1 = mains_protocol (previousMains12VPresent s) l1"
    "previousMains12VPresent s' = last (previousMains12VPresent s # l1)" "uiCalls s'' = uiCalls s' @ n2"
    "mains_steps P n2 = mains_protocol (previousMains12VPresent s') l2" "previousMains12VPresent s'' = last (previousMains12VPresent s' # l2)"
    using assms unfolding mains_rel_def by blast
  then show ?thesis
    by (intro mains_relI [of _ _ "n1 @ n2" _ "l1 @ l2"]) (auto simp: mains_steps_append mains_protocol_append)
qed

lemma mains_power_mains_rel: "mains_rel P s (snd (mains_power P s))"
proof -
  let ?c = "Call HW_Server HARDWARE_READ_MAINS_12V None" and ?v = "local_var P ''mains12VPresent'' 1"
    and ?e = "Call SM_Server STATE_MACHINE_EVENT_MAINS_POWER_AVAILABLE None"
  obtain success specs where r: "uiEnv P (uiCalls s) ?c = (success, specs)"
    by fastforce
  obtain ok2 r2 where r2: "uiEnv P (uiCalls s @ [(?c, success, specs)]) ?e = (ok2, r2)"
    by fastforce
  note run = mains_power_def hw_read_def ui_exec_def then_do_run call_run ret_run raise_run act_run say_def place_def sm_send_def
  have len: "length ?v = 1"
    by (simp add: local_var_def)
  show ?thesis
  proof (cases "success \<and> length specs \<le> 1")
    case True
    define b where "b = hd (specs @ ?v)"
    have var: "hd (specs @ drop (length specs) ?v) = b"
      using True by (cases specs) (simp_all add: b_def)
    have level: "mains_steps P [(?c, success, specs)] = [Level (b \<noteq> 0)]"
      using True by (simp add: mains_steps_def mains_step_def b_def)
    show ?thesis
    proof (cases "b \<noteq> 0 \<and> \<not> previousMains12VPresent s")
      case edge: True
      have "mains_steps P ([(?c, success, specs)] @ [(?e, ok2, r2)]) = mains_protocol False [True]"
        using level edge by (simp add: mains_steps_append) (simp add: mains_steps_def mains_step_def)
      then show ?thesis
        using True edge r r2 var len
        by (intro mains_relI [where new = "[(?c, success, specs)] @ [(?e, ok2, r2)]" and levels = "[True]"]) (simp_all add: run)
    next
      case False
      then show ?thesis
        using True r var len level
        by (intro mains_relI [where new = "[(?c, success, specs)]" and levels = "[b \<noteq> 0]"]) (auto simp add: run)
    qed
  next
    case False
    then have "mains_steps P [(?c, success, specs)] = []"
      by (auto simp: mains_steps_def mains_step_def)
    then show ?thesis
      using False r len by (intro mains_rel_same [where new = "[(?c, success, specs)]"]) (auto simp: run)
  qed
qed

lemma mains_rel_call:
  assumes "mains_free c"
  shows "mains_rel P s (s\<lparr>uiCalls := uiCalls s @ [(c, r)]\<rparr>)"
proof -
  have "mains_steps P [(c, r)] = []"
    using assms by (cases r) (simp add: mains_steps_def mains_step_def mains_free_def)
  then show ?thesis
    by (intro mains_rel_same [where new = "[(c, r)]"]) simp_all
qed

interpretation mains: dashboard_relation "mains_rel P" mains_free P for P
proof unfold_locales
  fix s s' s''
  show "mains_rel P s s' \<Longrightarrow> mains_rel P s' s'' \<Longrightarrow> mains_rel P s s''"
    by (rule mains_rel_trans)
  show "mains_rel P s (snd (mains_power P s))"
    by (rule mains_power_mains_rel)
  show "mains_free c \<Longrightarrow> mains_rel P s (s\<lparr>uiCalls := uiCalls s @ [(c, r)]\<rparr>)" for c r
    by (rule mains_rel_call)
qed (auto simp: mains_free_def mains_steps_def intro!: mains_rel_same [where new = "[]"])

text \<open>
  C9.  Mains power, over any number of turns of the dashboard and whatever is typed: the state machine gets the event that mains power is
  available directly after every reading that finds it present when the reading before found it absent, and it gets this
  event at no other time.  The first reading is compared with what the dashboard remembered, and readings that fail count for nothing.
\<close>

theorem mains_event_on_rising_edge:
  assumes "menu_ok s"
  shows "\<exists>new levels. uiCalls (snd (dashboard n P i s)) = uiCalls s @ new \<and>
    mains_steps P new = mains_protocol (previousMains12VPresent s) levels \<and>
    previousMains12VPresent (snd (dashboard n P i s)) = last (previousMains12VPresent s # levels)"
proof -
  have "mains_rel P s (snd (dashboard n P i s))"
    by (rule mains.dashboard_follows [OF _ _ assms]) (simp_all add: mains_free_def)
  then show ?thesis
    by (simp add: mains_rel_def)
qed

theorem mains_event_on_rising_edge_witness:
  "\<exists>new levels. uiCalls (snd (dashboard 2 silent_ui 0 initial_ui)) = new \<and> mains_steps silent_ui new = mains_protocol False levels"
proof -
  have "uiCalls initial_ui = []" "previousMains12VPresent initial_ui = False"
    by (simp_all add: initial_ui_def)
  then show ?thesis
    using mains_event_on_rising_edge [OF initial_ui_menu_ok, of 2 silent_ui 0] by (simp, metis append_Nil)
qed

end
