(* ===== verification/Interface_Properties.thy ===== *)
theory Interface_Properties
  imports Monitor_Properties HardwareServer_Faults BatteryManager_Properties
begin

section \<open>The user interface and the servers that it talks to\<close>

subsection \<open>Messages for the hardware server\<close>

text \<open>
  \<open>hw_safe\<close> are the calls that the hardware server handles without a fault (\<open>hw_faults\<close>), \<open>charger_call\<close> those of the commands \<open>CH+\<close> and
  \<open>CH-\<close>, and \<open>sends_only\<close> the relation that a computation follows if it makes such calls only.
\<close>

definition charger_call :: "call \<Rightarrow> bool" where
  "charger_call c \<longleftrightarrow> c \<in> {Call HW_Server HARDWARE_SET_ALL_O_BATTERY_CHARGERS_ON None, Call HW_Server HARDWARE_SET_ALL_O_BATTERY_CHARGERS_OFF None}"

definition hw_safe :: "call \<Rightarrow> bool" where
  "hw_safe c \<longleftrightarrow> (case c of Call HW_Server t body \<Rightarrow>
       t < 74 \<and> t \<notin> {HARDWARE_SET_ALL_O_BATTERY_CHARGERS_ON, HARDWARE_SET_ALL_O_BATTERY_CHARGERS_OFF, HARDWARE_PERFORM_CAL_O3_BATTERY_MONITOR} \<or>
       t = HARDWARE_SEND_O_STRING \<and> (case body of Some (w # str) \<Rightarrow> printable_fits str | _ \<Rightarrow> False)
     | _ \<Rightarrow> True)"

definition sends_only :: "(call \<Rightarrow> bool) \<Rightarrow> ui \<Rightarrow> ui \<Rightarrow> bool" where
  "sends_only ok s s' \<longleftrightarrow> (\<exists>new. uiCalls s' = uiCalls s @ new \<and> (\<forall>c \<in> fst ` set new. ok c))"

lemma sends_onlyI: "uiCalls s' = uiCalls s @ new \<Longrightarrow> (\<And>c. c \<in> fst ` set new \<Longrightarrow> ok c) \<Longrightarrow> sends_only ok s s'"
  unfolding sends_only_def by blast

lemma sends_only_same: "uiCalls s' = uiCalls s \<Longrightarrow> sends_only ok s s'"
  by (rule sends_onlyI [where new = "[]"]) simp_all

lemma sends_only_call: "ok c \<Longrightarrow> sends_only ok s (s\<lparr>uiCalls := uiCalls s @ [(c, r)]\<rparr>)"
  by (rule sends_onlyI [where new = "[(c, r)]"]) simp_all

lemma sends_only_trans:
  assumes "sends_only ok s s'" and "sends_only ok s' s''"
  shows "sends_only ok s s''"
proof -
  obtain n1 n2 where "uiCalls s' = uiCalls s @ n1" "\<forall>c \<in> fst ` set n1. ok c" "uiCalls s'' = uiCalls s' @ n2" "\<forall>c \<in> fst ` set n2. ok c"
    using assms unfolding sends_only_def by blast
  then show ?thesis
    by (intro sends_onlyI [of _ _ "n1 @ n2"]) auto
qed

lemma hw_safe_simps [simp]:
  "hw_safe (Malloc n)" "hw_safe (Terminal q)" "p \<noteq> HW_Server \<Longrightarrow> hw_safe (Call p t body)"
  "t < 74 \<Longrightarrow> t \<notin> {36, 37, 65} \<Longrightarrow> hw_safe (Call HW_Server t body)"
  "printable_fits str \<Longrightarrow> hw_safe (Call HW_Server HARDWARE_SEND_O_STRING (Some (w # str)))"
  by (cases p; simp add: hw_safe_def)+

interpretation safe: ui_relation "sends_only hw_safe" hw_safe
  by unfold_locales (auto intro: sends_only_same sends_only_call elim: sends_only_trans)

interpretation safe: dashboard_relation "sends_only hw_safe" hw_safe P for P
proof unfold_locales
  have "follows (sends_only hw_safe) (mains_power P)" for P
    by (rule safe.follows_mains_power) (auto intro: sends_only_same)
  then show "sends_only hw_safe s (snd (mains_power P s))" for P s
    by (simp add: follows_def)
qed (simp add: sends_only_same)

interpretation chargers: ui_relation "sends_only (\<lambda>c. hw_safe c \<or> charger_call c)" "\<lambda>c. hw_safe c \<or> charger_call c"
  by unfold_locales (auto intro: sends_only_same sends_only_call elim: sends_only_trans)

interpretation chargers: dashboard_relation "sends_only (\<lambda>c. hw_safe c \<or> charger_call c)" "\<lambda>c. hw_safe c \<or> charger_call c" P for P
proof unfold_locales
  have "follows (sends_only (\<lambda>c. hw_safe c \<or> charger_call c)) (mains_power P)" for P
    by (rule chargers.follows_mains_power) (auto intro: sends_only_same)
  then show "sends_only (\<lambda>c. hw_safe c \<or> charger_call c) s (snd (mains_power P s))" for P s
    by (simp add: follows_def)
qed (simp add: sends_only_same)

text \<open>A message as the server receives it: it starts with the bytes that were given, and what is behind them is whatever the buffer held.\<close>

definition delivered :: "nat \<Rightarrow> u8 list option \<Rightarrow> msg \<Rightarrow> bool" where
  "delivered t body m \<longleftrightarrow> unat (msgType m) = t \<and> (case body of None \<Rightarrow> True | Some bs \<Rightarrow> take (length bs) (msgBody m) = bs)"

lemma printable_fits_extend:
  assumes "printable_fits s"
  shows "printable_fits (s @ t)"
proof -
  have "terminated s"
    using assms by (simp add: printable_fits_def)
  then have "c_strlen (s @ t) = c_strlen s" "terminated (s @ t)"
    using c_strlen_terminated_append [of s t] by simp_all
  moreover have "c_strlen s - length s = 0"
    using c_strlen_le [of s] by simp
  ultimately show ?thesis
    using assms by (simp add: printable_fits_def)
qed

lemma hw_safe_survives:
  assumes "hw_safe (Call HW_Server t body)" and "delivered t body m" and "85 \<le> length (msgBody reply)"
  shows "\<exists>r. hw_serverHandleMsg Q m reply b = Inr r"
proof (rule ccontr)
  assume "\<nexists>r. hw_serverHandleMsg Q m reply b = Inr r"
  then obtain e where "hw_serverHandleMsg Q m reply b = Inl e"
    by (cases "hw_serverHandleMsg Q m reply b") auto
  then have bad: "75 \<le> t \<or> t \<in> {36, 37, 65} \<or> (t = 74 \<and> \<not> printable_fits (tl (msgBody m)))"
    using hw_faults [OF assms(3), of Q m b e] assms(2) by (auto simp: delivered_def)
  then have t: "t = HARDWARE_SEND_O_STRING" and unfit: "\<not> printable_fits (tl (msgBody m))"
    using assms(1) by (auto simp: hw_safe_def)
  then obtain w str where body: "body = Some (w # str)" and fits: "printable_fits str"
    using assms(1) by (auto simp: hw_safe_def split: option.splits list.splits)
  then have "take (Suc (length str)) (msgBody m) = w # str"
    using assms(2) by (simp add: delivered_def)
  then have "tl (msgBody m) = str @ drop (Suc (length str)) (msgBody m)"
    by (metis append_Cons append_take_drop_id list.sel(3))
  then show False
    using unfit printable_fits_extend [OF fits] by simp
qed

text \<open>
  C8.  The hardware server survives the user interface.  Over any number of turns of the dashboard, with whatever is typed and answered, every
  message for the hardware server is handled without a fault, in whatever state the server and its chips are: only the
  messages of the commands \<open>CH+\<close> and \<open>CH-\<close> are not.
\<close>

theorem dashboard_spares_hardware_server:
  assumes "menu_ok s"
  shows "\<exists>new. uiCalls (snd (dashboard n P i s)) = uiCalls s @ new \<and>
    (\<forall>t body r. (Call HW_Server t body, r) \<in> set new \<longrightarrow>
      t \<in> {HARDWARE_SET_ALL_O_BATTERY_CHARGERS_ON, HARDWARE_SET_ALL_O_BATTERY_CHARGERS_OFF} \<or>
      (\<forall>Q m reply b. delivered t body m \<longrightarrow> 85 \<le> length (msgBody reply) \<longrightarrow> (\<exists>a. hw_serverHandleMsg Q m reply b = Inr a)))"
proof -
  have "sends_only (\<lambda>c. hw_safe c \<or> charger_call c) s (snd (dashboard n P i s))"
    by (rule chargers.dashboard_follows [OF _ _ assms]) (simp_all add: charger_call_def)
  then obtain new where new: "uiCalls (snd (dashboard n P i s)) = uiCalls s @ new" "\<forall>c \<in> fst ` set new. hw_safe c \<or> charger_call c"
    unfolding sends_only_def by blast
  have "hw_safe (Call HW_Server t body) \<or> charger_call (Call HW_Server t body)" if "(Call HW_Server t body, r) \<in> set new" for t body r
    using new(2) that by force
  then show ?thesis
    using new(1) hw_safe_survives unfolding charger_call_def by blast
qed

theorem dashboard_spares_hardware_server_witness:
  "\<exists>new. uiCalls (snd (dashboard 3 silent_ui 0 initial_ui)) = uiCalls initial_ui @ new \<and>
    (\<forall>t body r. (Call HW_Server t body, r) \<in> set new \<longrightarrow>
      t \<in> {HARDWARE_SET_ALL_O_BATTERY_CHARGERS_ON, HARDWARE_SET_ALL_O_BATTERY_CHARGERS_OFF} \<or>
      (\<forall>Q m reply b. delivered t body m \<longrightarrow> 85 \<le> length (msgBody reply) \<longrightarrow> (\<exists>a. hw_serverHandleMsg Q m reply b = Inr a)))"
  by (rule dashboard_spares_hardware_server [OF initial_ui_menu_ok])


text \<open>
  C20.  The other side: whoever types \<open>ch+\<close> or \<open>ch-\<close>, which the help lists as switching the chargers of the Hindbrain's batteries, sends exactly
  the one message for this to the hardware server, and this message ends the server with an assertion.
\<close>

theorem charger_command_ends_server:
  assumes "menu_ok s" and "numEntries s = 0" and "i \<in> {30, 31}" and "map toUpper ks = commandKeys i"
    and "85 \<le> length (msgBody reply)"
  shows "\<exists>t a. fst (command_texts ! i) = (if i = 30 then ''CH+'' else ''CH-'') \<and>
    uiCalls (snd (press P ks s)) = uiCalls s @ [(Call HW_Server t None, a)] \<and>
    (\<forall>m. delivered t None m \<longrightarrow> hw_serverHandleMsg Q m reply b = Inl Assert_Failed)"
proof -
  define t where "t = (if i = 30 then HARDWARE_SET_ALL_O_BATTERY_CHARGERS_ON else HARDWARE_SET_ALL_O_BATTERY_CHARGERS_OFF)"
  have "i < 41"
    using assms(3) by auto
  note typed = typing_a_command [OF assms(1,2) this assms(4), of P]
  have command: "command_functions P Output_Win ! i = hw_send P t None" "\<exists>c d. command_texts ! i = (c, False, d)"
    "fst (command_texts ! i) = (if i = 30 then ''CH+'' else ''CH-'')"
    using assms(3) by (auto simp: command_functions_def cmd_defs command_texts_def t_def)
  have "\<exists>a. uiCalls (snd (finish_command P i u)) = uiCalls u @ [(Call HW_Server t None, a)]" for u
    using command(2)
    by (auto simp: finish_command_def run_command_def command(1) hw_send_def ui_exec_def then_do_run call_run act_run ret_run say_def
        split: prod.splits)
  from this [of "fold key_shown ks s"] obtain a where
    "uiCalls (snd (finish_command P i (fold key_shown ks s))) = uiCalls s @ [(Call HW_Server t None, a)]"
    using typed by auto
  then have "uiCalls (snd (press P ks s)) = uiCalls s @ [(Call HW_Server t None, a)]"
    using typed by (auto split: prod.splits sum.splits)
  moreover have "hw_serverHandleMsg Q m reply b = Inl Assert_Failed" if "delivered t None m" for m
    using that assms(3) by (auto simp: hw_faults [OF assms(5)] delivered_def t_def)
  ultimately show ?thesis
    using command(3) by blast
qed

theorem charger_command_ends_server_witness:
  "\<exists>t a. uiCalls (snd (press silent_ui [99, 104, 43] initial_ui)) = [(Call HW_Server t None, a)] \<and>
    (\<forall>m. delivered t None m \<longrightarrow> hw_serverHandleMsg ideal_params m empty_reply initial_bus = Inl Assert_Failed)"
proof -
  have "map toUpper [99, 104, 43] = commandKeys 30"
    by (simp add: toUpper_def commandKeys_def commandString_table command_table_def)
  moreover have "numEntries initial_ui = 0" "uiCalls initial_ui = []" "85 \<le> length (msgBody empty_reply)"
    by (simp_all add: initial_ui_def empty_reply_def)
  ultimately show ?thesis
    using charger_command_ends_server [OF initial_ui_menu_ok, of 30 "[99, 104, 43]" empty_reply silent_ui ideal_params initial_bus]
    by auto
qed

subsection \<open>What the dashboard learns of a battery\<close>

definition batteryOfMsg :: "nat \<Rightarrow> battery" where
  "batteryOfMsg t =
     (if t = BATTERY_MANAGER_DATA_RIO then Rio else if t = BATTERY_MANAGER_DATA_O1 then O1
      else if t = BATTERY_MANAGER_DATA_O2 then O2 else O3)"

lemma stat_signal: "stat (signalChargeStateAll P s) b = stat s b"
  by (rule signal_frame [of P s]) (simp add: stat_def)

lemma signal_quiet:
  "\<not> allInsufficientCharge s \<Longrightarrow> \<not> allFullyCharged s \<Longrightarrow> (\<And>b. \<not> insufficientCharge (stat s b)) \<Longrightarrow>
    (\<And>b. capacity s b \<le> FULL_CHARGE) \<Longrightarrow> signalChargeStateAll P s = s"
  by (simp add: signalChargeStateAll_def not_less)

lemma bm_data_reply:
  assumes "bm_serverHandleMsg P m reply s = Inr (code, reply', s')" and "msgBody reply \<noteq> []"
    and "unat (msgType m) \<in> {BATTERY_MANAGER_DATA_RIO, BATTERY_MANAGER_DATA_O1, BATTERY_MANAGER_DATA_O2, BATTERY_MANAGER_DATA_O3}"
  shows "msgLength reply' = 6 \<and> msgBody reply' =
    hd (msgBody reply) # encode_battery_status (stat s' (batteryOfMsg (unat (msgType m)))) @ drop 6 (msgBody reply)"
proof -
  have t: "unat (msgType m) = 2 \<or> unat (msgType m) = 3 \<or> unat (msgType m) = 4 \<or> unat (msgType m) = 5"
    using assms(3) by auto
  obtain h rest where body: "msgBody reply = h # rest"
    using assms(2) by (cases "msgBody reply") auto
  have "length (encode_battery_status st) = 5" for st
    by (simp add: encode_battery_status_def)
  then show ?thesis
    using assms(1) t
    by (elim disjE)
      (auto simp: bm_serverHandleMsg_def bm_doAction_def actionBatteryManagerData_def andthen_eq_Inr stat_signal batteryOfMsg_def body
        split: if_splits)
qed

lemma bm_data_success:
  assumes "length st = 5"
  shows "success_reply (Some (CLIENT_SUCCESS, \<lparr>msgLength = 6, msgType = t, msgBody = h # st @ rest\<rparr>)) =
    (if h \<noteq> 0 then (True, Some (take 4 st)) else (False, None))"
  using assms by (simp add: success_reply_def)

text \<open>
  C19.  The answer of the battery manager as the dashboard sees it through its access function.  Whether the request succeeds is decided
  by a byte that the server never sets, the first of the memory that it got for the answer; and if it does, four of the five flags arrive.
  The last one, that the sensor is broken, never does: what is shown is the sign of a battery with a working
  sensor.
\<close>

theorem battery_status_reply:
  assumes "bm_serverHandleMsg P m reply s = Inr (code, reply', s')" and "msgBody reply \<noteq> []"
    and "unat (msgType m) \<in> {BATTERY_MANAGER_DATA_RIO, BATTERY_MANAGER_DATA_O1, BATTERY_MANAGER_DATA_O2, BATTERY_MANAGER_DATA_O3}"
    and "uiEnv U (uiCalls u) (Call BM_Server (unat (msgType m)) (Some d)) =
      (case success_reply (Some (CLIENT_SUCCESS, reply')) of (success, specs) \<Rightarrow> (success, case specs of None \<Rightarrow> [] | Some bs \<Rightarrow> bs))"
  shows "\<exists>st. fst (bm_data U (unat (msgType m)) d (replicate sizeof_BatteryStatus 0) u) = Inr (hd (msgBody reply) \<noteq> 0, st) \<and>
    (hd (msgBody reply) \<noteq> 0 \<longrightarrow> displayBatteryStatusHelper st =
      displayBatteryStatusHelper (encode_battery_status (stat s' (batteryOfMsg (unat (msgType m)))\<lparr>temperatureBroken := False\<rparr>)))"
proof -
  define st where "st = encode_battery_status (stat s' (batteryOfMsg (unat (msgType m))))"
  have len: "length st = 5"
    by (simp add: st_def encode_battery_status_def)
  have "reply' = \<lparr>msgLength = 6, msgType = msgType reply', msgBody = hd (msgBody reply) # st @ drop 6 (msgBody reply)\<rparr>"
    using bm_data_reply [OF assms(1-3)] by (simp add: st_def)
  then have reply: "success_reply (Some (CLIENT_SUCCESS, reply')) = (if hd (msgBody reply) \<noteq> 0 then (True, Some (take 4 st)) else (False, None))"
    using bm_data_success [OF len] by metis
  have shown: "displayBatteryStatusHelper (take 4 st @ [0]) =
      displayBatteryStatusHelper (encode_battery_status (stat s' (batteryOfMsg (unat (msgType m)))\<lparr>temperatureBroken := False\<rparr>))"
    by (simp add: st_def displayBatteryStatusHelper_def encode_battery_status_def)
  show ?thesis
    using assms(4) reply shown len
    by (auto simp: bm_data_def ui_exec_def then_do_run call_run ret_run place_def sizeof_BatteryStatus_def)
qed

text \<open>A battery whose sensor reports -100 degrees is broken for the manager and in order for the dashboard.\<close>

definition cold_params :: bm_params where
  "cold_params = \<lparr>bmEnv = (\<lambda>h c. (False, [])), decodeDouble = (\<lambda>bs. Some (- 100))\<rparr>"

definition status_ui :: ui_params where
  "status_ui = \<lparr>uiEnv = \<lambda>h c. (True, [0, 0, 0, 0]), uninitialised = \<lambda>v i. 0, sizeofTaskUnion = 35, sizeofContextCnf = 66\<rparr>"

theorem battery_status_reply_witness:
  "\<exists>code reply' s' st. bm_serverHandleMsg cold_params \<lparr>msgLength = 23, msgType = 2, msgBody = replicate 22 0\<rparr>
      \<lparr>msgLength = 0, msgType = 0, msgBody = [7]\<rparr> (bm_globals 0 zero_msg) = Inr (code, reply', s') \<and> temperatureBroken (stat s' Rio)
    \<and> fst (bm_data status_ui 2 [] (replicate 5 0) initial_ui) = Inr (True, st) \<and> displayBatteryStatusHelper st = CHR ''.''"
proof -
  let ?m = "\<lparr>msgLength = 23, msgType = 2, msgBody = replicate 22 0\<rparr>" and ?reply = "\<lparr>msgLength = 0, msgType = 0, msgBody = [7]\<rparr>"
  let ?s = "store_data Rio (decode_battery_data (decodeDouble cold_params) (replicate 22 0)) (bm_globals 0 zero_msg)"
  let ?s' = "upd_status Rio (\<lambda>st. st\<lparr>temperatureBroken := True, chargerOn := False\<rparr>) ?s"
  have zeros: "le16 (replicate n 0) = 0" for n
  proof (cases n)
    case (Suc k)
    then show ?thesis by (cases k) simp_all
  qed simp
  have cap: "capacity ?s' b \<le> FULL_CHARGE" for b
    by (simp add: capacity_def upd_status_def store_data_def decode_battery_data_def bm_globals_def zero_container_def zeros charge_defs)
  have "setRioChargerStatus cold_params False ?s = Inr ?s'"
    by (simp add: setRioChargerStatus_def set_battery_charger_def report_defs decode_battery_data_def cold_params_def)
  moreover have "signalChargeStateAll cold_params ?s' = ?s'"
    using cap by (intro signal_quiet)
      (simp_all add: stat_def upd_status_def store_data_def bm_globals_def zero_container_def)
  ultimately have r: "bm_serverHandleMsg cold_params ?m ?reply (bm_globals 0 zero_msg) = Inr (SERVER_SUCCESS_KEEP_RUNNING,
      \<lparr>msgLength = 6, msgType = 2, msgBody = 7 # encode_battery_status (stat ?s' Rio)\<rparr>, ?s')"
    by (simp add: bm_serverHandleMsg_def bm_doAction_def actionBatteryManagerData_def MAX_NUM_BATTERY_MANAGER_MSGS_def andthen_def
        encode_battery_status_def)
  have stat: "encode_battery_status (stat ?s' Rio) = [0, 0, 0, 0, 1]" "temperatureBroken (stat ?s' Rio)"
    "encode_battery_status (stat ?s' Rio\<lparr>temperatureBroken := False\<rparr>) = [0, 0, 0, 0, 0]"
    by (simp_all add: encode_battery_status_def stat_def upd_status_def store_data_def bm_globals_def zero_container_def)
  have "\<exists>st. fst (bm_data status_ui (unat (msgType ?m)) [] (replicate sizeof_BatteryStatus 0) initial_ui) = Inr (hd (msgBody ?reply) \<noteq> 0, st) \<and>
    (hd (msgBody ?reply) \<noteq> 0 \<longrightarrow> displayBatteryStatusHelper st =
      displayBatteryStatusHelper (encode_battery_status (stat ?s' (batteryOfMsg (unat (msgType ?m)))\<lparr>temperatureBroken := False\<rparr>)))"
    by (rule battery_status_reply [OF r]) (simp_all only: stat, simp_all add: status_ui_def success_reply_def)
  then have "\<exists>st. fst (bm_data status_ui 2 [] (replicate 5 0) initial_ui) = Inr (True, st) \<and> displayBatteryStatusHelper st = CHR ''.''"
    using stat(3) by (simp add: batteryOfMsg_def sizeof_BatteryStatus_def del: upd_status_simps) (simp add: displayBatteryStatusHelper_def)
  then show ?thesis
    using r stat(2) by blast
qed

subsection \<open>The local server beside the dashboard\<close>

text \<open>
  The local server is a thread of the same process and writes what the dashboard shows.  A step is an update of one window or one
  message of the local server; a message in the middle of an update is not covered, there being no lock.
\<close>

inductive interface_step :: "ui_params \<Rightarrow> ui \<Rightarrow> ui \<Rightarrow> bool" for P where
  window: "w \<in> set (gWindowList P i) \<Longrightarrow> w s = (Inr exitDashboard, s') \<Longrightarrow> interface_step P s s'"
| indication: "ro_serverHandleMsg m reply (taskInfo s) = Inr (code, reply', g) \<Longrightarrow> interface_step P s (s\<lparr>taskInfo := g\<rparr>)"

inductive reached :: "ui_params \<Rightarrow> ui \<Rightarrow> bool" for P where
  start: "reached P \<lparr>uiCalls = [], printed = [], taskInfo = initial_info, numEntries = 0, entry = replicate 4 0, previousMains12VPresent = False\<rparr>"
| step: "reached P s \<Longrightarrow> interface_step P s s' \<Longrightarrow> reached P s'"

inductive_cases interface_stepE: "interface_step P s s'"

interpretation display: dashboard_relation "\<lambda>s s'. info_ok (taskInfo s) \<longrightarrow> info_ok (taskInfo s')" "\<lambda>_. True" P for P
proof unfold_locales
  have "follows (\<lambda>s s'. info_ok (taskInfo s) \<longrightarrow> info_ok (taskInfo s')) (mains_power P)" for P
    by (rule display.follows_mains_power) simp_all
  then show "info_ok (taskInfo s) \<longrightarrow> info_ok (taskInfo (snd (mains_power P s)))" for P s
    by (simp add: follows_def)
qed simp

lemma interface_step_ok:
  assumes "interface_step P s s'" and "menu_ok s \<and> info_ok (taskInfo s)"
  shows "menu_ok s' \<and> info_ok (taskInfo s')"
  using assms(1)
proof cases
  case (window w i e)
  have "keeps_menu (\<lambda>s s'. info_ok (taskInfo s) \<longrightarrow> info_ok (taskInfo s')) w"
    by (rule display.keeps_window [OF _ _ window(1)]) simp_all
  then show ?thesis
    using assms(2) window(2) unfolding keeps_menu_def by (metis snd_conv)
next
  case (indication m reply code reply' g)
  then show ?thesis
    using assms(2) ro_handle_ok by (auto simp: menu_ok_def)
qed

lemma reached_ok: "reached P s \<Longrightarrow> menu_ok s \<and> info_ok (taskInfo s)"
  by (induction rule: reached.induct)
    (use initial_ui_menu_ok initial_info_ok interface_step_ok in \<open>auto simp: initial_ui_def\<close>)

text \<open>
  C18.  In whatever order windows are updated, keys are typed and messages come in for the local server, the part of the dashboard that shows the last
  task and its result never fails: both strings are terminated and the result is one that it knows, so that
  neither its assertion nor an access beyond the strings can occur.
\<close>

theorem task_status_never_faults:
  assumes "reached P s"
  shows "menu_ok s \<and> info_ok (taskInfo s) \<and> fst (task_status s) = Inr ()"
proof -
  have ok: "menu_ok s" "info_ok (taskInfo s)"
    using reached_ok [OF assms] by simp_all
  then have t: "terminated (lastTaskSent (taskInfo s))" "terminated (lastIndString (taskInfo s))"
    by (simp_all add: info_ok_def displayableD)
  have "\<exists>str. displayTaskResultHelper (lastResultReceived (taskInfo s)) = Inr str" if "lastResultReceivedIsValid (taskInfo s)"
    using ok(2) that by (auto simp: info_ok_def displayTaskResultHelper_def)
  then have "fst (task_status s) = Inr ()"
    using t by (auto simp: task_status_def info_def say_def say_string_def lift_fault_def then_do_run call_run act_run ret_run)
  then show ?thesis
    using ok by simp
qed

theorem task_status_never_faults_witness:
  "\<exists>s. reached silent_ui s \<and> take 3 (lastIndString (taskInfo s)) = [79, 75, 0] \<and> fst (task_status s) = Inr ()"
proof -
  let ?g = "initial_info\<lparr>lastResultReceived := 0, lastResultReceivedIsValid := True,
    lastIndString := write_over [79, 75, 0] ((lastIndString initial_info)[0 := 0])\<rparr>"
  have "reached silent_ui initial_ui"
    unfolding initial_ui_def by (rule reached.start)
  moreover have "taskInfo initial_ui = initial_info"
    by (simp add: initial_ui_def)
  ultimately have "reached silent_ui (initial_ui\<lparr>taskInfo := ?g\<rparr>)"
    using ok_message_handled by (metis interface_step.indication reached.step)
  moreover have "take 3 (lastIndString ?g) = [79, 75, 0]"
    by (simp add: write_over_def)
  ultimately show ?thesis
    using task_status_never_faults by force
qed

end
