(* ===== verification/Startup_Properties.thy ===== *)
theory Startup_Properties
  imports Startup Interface_Properties
begin

section \<open>Launching and stopping the servers\<close>

subsection \<open>The life of the servers\<close>

text \<open>What a process does to the servers: it launches them, tells them to stop, and waits for their end.\<close>

datatype server_event = Launched peer | Told peer | Ended peer

definition stop_type :: "peer \<Rightarrow> nat" where
  "stop_type p = (if p = SM_Server then STATE_MACHINE_SERVER_STOP else HARDWARE_SERVER_STOP)"

fun event_of :: "start_call \<times> int \<times> u8 list \<Rightarrow> server_event list" where
  "event_of (Fork p, pid, _) = (if 0 < pid then [Launched p] else [])"
| "event_of (Access p t body, _, _) = (if t = stop_type p then [Told p] else [])"
| "event_of (Wait_Exit p, _, _) = [Ended p]"
| "event_of _ = []"

definition server_events :: "start_history \<Rightarrow> server_event list" where
  "server_events h = concat (map event_of h)"

text \<open>
  Launches that are nested: after a launch come those of some of the servers behind, then the end of the server.  The message to stop needs
  memory in the case of the state machine, and is left out without.
\<close>

inductive closing :: "peer \<Rightarrow> server_event list \<Rightarrow> bool" where
  told: "closing p [Told p, Ended p]"
| no_memory: "closing SM_Server [Ended SM_Server]"

inductive nested :: "peer list \<Rightarrow> server_event list \<Rightarrow> bool" where
  none: "nested ps []"
| one: "nested ps evs \<Longrightarrow> closing p c \<Longrightarrow> nested (p # ps) (Launched p # evs @ c)"

inductive_simps nested_Nil: "nested [] evs"

definition brings :: "'a startup \<Rightarrow> ('a \<Rightarrow> server_event list \<Rightarrow> bool) \<Rightarrow> bool" where
  "brings m Q \<longleftrightarrow> (\<forall>h x h'. m h = (Inr x, h') \<longrightarrow> (\<exists>evs. server_events h' = server_events h @ evs \<and> Q x evs))"

lemma server_events_append: "server_events (h @ h') = server_events h @ server_events h'"
  by (simp add: server_events_def)

lemma bringsD: "brings m Q \<Longrightarrow> m h = (Inr x, h') \<Longrightarrow> \<exists>evs. server_events h' = server_events h @ evs \<and> Q x evs"
  unfolding brings_def by blast

lemma brings_ret: "Q x [] \<Longrightarrow> brings (ret x) Q"
  by (simp add: brings_def ret_run)

lemma brings_raise: "brings (raise e) Q"
  by (simp add: brings_def raise_run)

lemma brings_then_do:
  assumes "brings m Q" and "\<And>x evs. Q x evs \<Longrightarrow> brings (f x) (\<lambda>y evs'. S y (evs @ evs'))"
  shows "brings (then_do m f) S"
  unfolding brings_def
proof (intro allI impI)
  fix h y h' assume run: "then_do m f h = (Inr y, h')"
  then obtain x h1 where m: "m h = (Inr x, h1)" and f: "f x h1 = (Inr y, h')"
    by (auto simp: then_do_run split: prod.splits sum.splits)
  then obtain evs evs' where "server_events h1 = server_events h @ evs" "Q x evs"
      "server_events h' = server_events h1 @ evs'" "S y (evs @ evs')"
    using bringsD [OF assms(1) m] bringsD [OF assms(2) f] by metis
  then show "\<exists>evs. server_events h' = server_events h @ evs \<and> S y evs"
    by auto
qed

lemma brings_os: "(\<And>r bs. Q (r, bs) (event_of (c, r, bs))) \<Longrightarrow> brings (os_call E c) Q"
  by (auto simp: brings_def os_call_def call_run server_events_def) (metis prod.collapse)

lemma brings_mono: "brings m Q \<Longrightarrow> (\<And>x evs. Q x evs \<Longrightarrow> S x evs) \<Longrightarrow> brings m S"
  unfolding brings_def by blast

lemma brings_if: "(b \<Longrightarrow> brings m Q) \<Longrightarrow> (\<not> b \<Longrightarrow> brings n Q) \<Longrightarrow> brings (if b then m else n) Q"
  by simp

lemma brings_pair: "(\<And>x y. brings (f x y) Q) \<Longrightarrow> brings (case p of (x, y) \<Rightarrow> f x y) Q"
  by (cases p) simp

lemma brings_access: "brings (access_server E p t body) (\<lambda>_ evs. evs = (if t = stop_type p then [Told p] else []))"
  unfolding access_server_def
  by (rule brings_then_do [OF brings_os [where Q = "\<lambda>_ evs. evs = (if t = stop_type p then [Told p] else [])"]])
    (auto intro: brings_ret)

lemma brings_state_machine:
  "brings (confirmed_by_state_machine E t) (\<lambda>_ evs. evs = (if t = STATE_MACHINE_SERVER_STOP then [Told SM_Server] else []) \<or> evs = [])"
  unfolding confirmed_by_state_machine_def
  by (rule brings_then_do [OF brings_os [where Q = "\<lambda>_ evs. evs = []"]], simp, rule brings_pair, rule brings_if)
    (auto intro!: brings_then_do [OF brings_os [where Q = "\<lambda>_ evs. evs = (if t = STATE_MACHINE_SERVER_STOP then [Told SM_Server] else [])"]]
      brings_ret brings_raise brings_pair brings_if simp: stop_type_def)

lemma brings_with_server:
  assumes start: "brings start (\<lambda>_ evs. evs = [])"
    and stop: "brings stop (\<lambda>_ evs. closing p (evs @ [Ended p]))"
    and inside: "brings inside (\<lambda>r evs. r \<noteq> None \<longrightarrow> nested ps evs)"
  shows "brings (with_server E p start stop success inside) (\<lambda>r evs. r \<noteq> None \<longrightarrow> nested (p # ps) evs)"
proof -
  let ?Q = "\<lambda>r evs. r \<noteq> None \<longrightarrow> nested (p # ps) evs"
  have finish: "brings (case r of None \<Rightarrow> ret None | Some success \<Rightarrow>
        then_do stop (\<lambda>_. then_do (os_call E (Wait_Exit p)) (\<lambda>_. ret (Some success)))) (\<lambda>y evs'. ?Q y (Launched p # evs @ evs'))"
    if "r \<noteq> None \<longrightarrow> nested ps evs" for r evs
  proof (cases r)
    case (Some s)
    then have "nested ps evs"
      using that by simp
    then show ?thesis
      unfolding Some option.case
      by (intro brings_then_do [OF stop] brings_then_do [OF brings_os [where Q = "\<lambda>_ evs. evs = [Ended p]"]] brings_ret)
        (auto intro: nested.one)
  qed (simp add: brings_ret)
  have parent: "brings (then_do start (\<lambda>success.
       then_do (if success then inside else ret (Some False)) (\<lambda>result. case result of
             None \<Rightarrow> ret None
           | Some success \<Rightarrow>
               then_do stop (\<lambda>_. then_do (os_call E (Wait_Exit p)) (\<lambda>_. ret (Some success)))))) (\<lambda>y evs'. ?Q y (Launched p # evs'))"
    by (rule brings_then_do [OF start],
        rule brings_then_do [where Q = "\<lambda>r evs. r \<noteq> None \<longrightarrow> nested ps evs"])
      (use finish inside in \<open>auto intro!: brings_if brings_ret nested.none\<close>)
  show ?thesis
    unfolding with_server_def
    by (rule brings_then_do [OF brings_os [where Q = "\<lambda>(pid, _) evs. evs = (if 0 < pid then [Launched p] else [])"]])
      (auto intro!: brings_if brings_ret nested.none parent [simplified] brings_then_do [OF brings_os [where Q = "\<lambda>_ evs. evs = []"]]
        )
qed

lemma brings_parse: "brings (parseParameters E args) (\<lambda>_ evs. evs = [])"
  unfolding parseParameters_def
  by (rule brings_then_do [where Q = "\<lambda>_ evs. evs = []"])
    (auto intro!: brings_if brings_ret brings_then_do [OF brings_os [where Q = "\<lambda>_ evs. evs = []"]] brings_pair split: prod.splits)

lemma brings_dashboard: "brings (run_dashboard E t b) (\<lambda>_ evs. evs = [])"
  unfolding run_dashboard_def startLocalServerThread_def stopLocalServerThread_def
  by (rule brings_then_do [where Q = "\<lambda>_ evs. evs = []"], rule brings_then_do [OF brings_os [where Q = "\<lambda>_ evs. evs = []"]])
    (auto intro!: brings_if brings_ret brings_raise brings_pair brings_then_do [where Q = "\<lambda>_ evs. evs = []"]
      brings_os [where Q = "\<lambda>_ evs. evs = []"])

lemma brings_start:
  "brings (startTimerServer E) (\<lambda>_ evs. evs = [])" "brings (startHardwareServer E b) (\<lambda>_ evs. evs = [])"
  "brings (startTaskHandlerServer E) (\<lambda>_ evs. evs = [])" "brings (startBatteryManagerServer E) (\<lambda>_ evs. evs = [])"
  "brings (startStateMachineServer E) (\<lambda>_ evs. evs = [])"
  unfolding startTimerServer_def startHardwareServer_def startTaskHandlerServer_def startBatteryManagerServer_def startStateMachineServer_def
  by (rule brings_mono [OF brings_access] brings_mono [OF brings_state_machine], simp add: stop_type_def timer_msg_defs)+

lemma brings_stop:
  "brings (stopTimerServer E) (\<lambda>_ evs. closing Timer_Srv (evs @ [Ended Timer_Srv]))"
  "brings (stopHardwareServer E) (\<lambda>_ evs. closing HW_Server (evs @ [Ended HW_Server]))"
  "brings (stopTaskHandlerServer E) (\<lambda>_ evs. closing TH_Server (evs @ [Ended TH_Server]))"
  "brings (stopBatteryManagerServer E) (\<lambda>_ evs. closing BM_Server (evs @ [Ended BM_Server]))"
  "brings (stopStateMachineServer E) (\<lambda>_ evs. closing SM_Server (evs @ [Ended SM_Server]))"
  unfolding stopTimerServer_def stopHardwareServer_def stopTaskHandlerServer_def stopBatteryManagerServer_def stopStateMachineServer_def
  by (rule brings_mono [OF brings_access] brings_mono [OF brings_state_machine],
      auto simp: stop_type_def timer_msg_defs intro: closing.intros)+


text \<open>A system in which everything works, and the first process of it.\<close>

definition working :: start_env where
  "working = (\<lambda>h c. case c of
     Access SM_Server t body \<Rightarrow> (1, [of_nat t, 1]) | Create_Thread port \<Rightarrow> (0, []) | _ \<Rightarrow> (1, []))"


subsection \<open>A server that cannot be launched\<close>

text \<open>
  C23.  A launch that fails is not reported, the variable holding the success of the server before.  If the hardware server cannot be forked,
  the program stops the timer server again and ends with the status of success.  If the child cannot become
  the hardware server, it does the same, with the timer server that its parent is still using.
\<close>

theorem failed_launch_reported_as_success:
  assumes "\<And>h. 0 < fst (E h (Fork Timer_Srv))" and "\<And>h. fst (E h (Access Timer_Srv (unat TIMER_SERVER_START_REQ) None)) \<noteq> 0"
    and "\<And>h. fst (E h (Fork HW_Server)) = pid" and "pid \<le> 0" and "\<And>h. fst (E h (Exec HW_Server)) < 0"
  shows "\<exists>h. roboone_main E [] [] = (Inr (Some 1), h) \<and>
    map fst h = [Fork Timer_Srv, Start_Delay Timer_Srv, Access Timer_Srv (unat TIMER_SERVER_START_REQ) None, Fork HW_Server]
      @ (if pid = 0 then [Exec HW_Server] else []) @ [Access Timer_Srv (unat TIMER_SERVER_STOP_REQ) None, Wait_Exit Timer_Srv]"
proof -
  have "fst (E h (Fork Timer_Srv)) \<noteq> 0" "\<not> fst (E h (Fork Timer_Srv)) < 0" for h
    using assms(1) [of h] by auto
  then show ?thesis
    using assms(2-5)
    by (cases "pid = 0")
      (auto simp: roboone_main_def parseParameters_def with_server_def startTimerServer_def stopTimerServer_def access_server_def
        os_call_def exit_status_def then_do_run call_run ret_run case_prod_unfold)
qed

theorem failed_launch_reported_as_success_witness:
  "\<exists>h. roboone_main (\<lambda>h c. case c of Fork HW_Server \<Rightarrow> (0, []) | Exec p \<Rightarrow> (- 1, []) | _ \<Rightarrow> (1, [])) [] [] = (Inr (Some 1), h) \<and>
    last (map fst h) = Wait_Exit Timer_Srv \<and> Exec HW_Server \<in> set (map fst h)"
  using failed_launch_reported_as_success [of "\<lambda>h c. case c of Fork HW_Server \<Rightarrow> (0, []) | Exec p \<Rightarrow> (- 1, []) | _ \<Rightarrow> (1, [])" 0]
  by fastforce

subsection \<open>The capacities\<close>

text \<open>The messages to the hardware server, with their bodies.\<close>

definition hw_messages :: "start_history \<Rightarrow> (nat \<times> u8 list option) list" where
  "hw_messages h = concat (map (\<lambda>(c, r). case c of Access HW_Server t body \<Rightarrow> [(t, body)] | _ \<Rightarrow> []) h)"

lemma safe_messages_handled:
  assumes "list_all2 (\<lambda>(t, body) m. delivered t body m) msgs ms" and "\<forall>(t, body) \<in> set msgs. hw_safe (Call HW_Server t body)"
  shows "\<exists>b'. handle_all (hw_serverHandleMsg Q) ms b = Inr b'"
  using assms
proof (induction msgs ms arbitrary: b rule: list_all2_induct)
  case (Cons x xs m ms)
  obtain t body where x: "x = (t, body)"
    by fastforce
  have "85 \<le> length (msgBody empty_reply)"
    by (simp add: empty_reply_def)
  then obtain code reply b1 where "hw_serverHandleMsg Q m empty_reply b = Inr (code, reply, b1)"
    using hw_safe_survives [of t body m empty_reply Q b] Cons.hyps(1) Cons.prems x by auto
  then show ?case
    using Cons.IH [of b1] Cons.prems by (simp add: andthen_def)
qed simp

lemma stop_ends_server: "delivered HARDWARE_SERVER_STOP None m \<Longrightarrow>
    \<exists>reply' b'. hw_serverHandleMsg Q m empty_reply b = Inr (SERVER_EXIT_NORMALLY, reply', b')"
proof -
  assume m: "delivered HARDWARE_SERVER_STOP None m"
  have "\<exists>r. hw_serverHandleMsg Q m empty_reply b = Inr r"
    by (rule hw_safe_survives [OF _ m]) (simp_all add: empty_reply_def)
  then show ?thesis
    using m by (auto simp: delivered_def hw_serverHandleMsg_def hw_doAction_def andthen_eq_Inr split: prod.splits)
qed



end
