(* ===== verification/PiIo.thy ===== *)
theory PiIo
  imports Computations
begin

unbundle bit_operations_syntax

section \<open>The pins of the Pi: \<open>PiIo/src/pi_io.c\<close>, \<open>PiIo/api/pi_io.h\<close>\<close>

text \<open>
  The library maps the registers of the GPIO controller into the process and reads and writes them.  The state is the structure
  \<open>gGpio\<close>, the addresses at which the process has a mapping, and the sequence of calls to the system and accesses to the
  registers with their answers; the environment answers each from what happened before.  A register access through an address that
  is not mapped is \<open>Bad_Access\<close>.  The state can be extended, so that a program that uses the pins has its own variables in it.
\<close>

datatype pi_call =
    Open_Mem
  | Mmap s32 u32
  | Munmap int
  | Close s32
  | Read_Reg nat
  | Write_Reg nat u32
  | Usleep nat
  | Key_Abort
  | Get_Ticks

type_synonym pi_history = "(pi_call \<times> int) list"
type_synonym pi_env = "pi_history \<Rightarrow> pi_call \<Rightarrow> int"

record peripheral =
  addressP :: u32
  memFd :: s32
  pMap :: int
  pAddress :: int

record pi_io =
  gGpio :: peripheral
  mapped :: "int list"
  pi_calls :: pi_history

definition pi_sys :: "pi_env \<Rightarrow> pi_call \<Rightarrow> ('z pi_io_scheme, int) driver" where
  "pi_sys E c = call (\<lambda>s. let r = E (pi_calls s) c in (r, s\<lparr>pi_calls := pi_calls s @ [(c, r)]\<rparr>))"

definition set_gpio :: "(peripheral \<Rightarrow> peripheral) \<Rightarrow> ('z pi_io_scheme, unit) driver" where
  "set_gpio f = act (\<lambda>s. s\<lparr>gGpio := f (gGpio s)\<rparr>)"

definition get_gpio :: "('z pi_io_scheme, peripheral) driver" where
  "get_gpio = call (\<lambda>s. (gGpio s, s))"

subsection \<open>The registers\<close>

text \<open>\<open>pAddress + n\<close>, where the block of registers is mapped at \<open>pAddress\<close>.\<close>

definition at_registers :: "('z pi_io_scheme, unit) driver" where
  "at_registers = (\<lambda>s. if pAddress (gGpio s) \<in> set (mapped s) then (Inr (), s) else (Inl Bad_Access, s))"

definition read_reg :: "pi_env \<Rightarrow> nat \<Rightarrow> ('z pi_io_scheme, u32) driver" where
  "read_reg E n = then_do at_registers (\<lambda>_. then_do (pi_sys E (Read_Reg n)) (\<lambda>r. ret (word_of_int r)))"

definition write_reg :: "pi_env \<Rightarrow> nat \<Rightarrow> u32 \<Rightarrow> ('z pi_io_scheme, unit) driver" where
  "write_reg E n v = then_do at_registers (\<lambda>_. then_do (pi_sys E (Write_Reg n v)) (\<lambda>_. ret ()))"

text \<open>A shift of the \<open>int\<close> 1 by 31 or more places is undefined.\<close>

definition one_shifted :: "u8 \<Rightarrow> ('z pi_io_scheme, u32) driver" where
  "one_shifted g = (if unat g < 31 then ret (push_bit (unat g) 1) else raise Bad_Conversion)"

definition GPIO_CONFIG_INPUT :: "pi_env \<Rightarrow> u8 \<Rightarrow> ('z pi_io_scheme, unit) driver" where
  "GPIO_CONFIG_INPUT E g =
     then_do (read_reg E (unat g div 10)) (\<lambda>v.
     write_reg E (unat g div 10) (v AND NOT (push_bit (unat g mod 10 * 3) 7)))"

definition GPIO_CONFIG_OUTPUT :: "pi_env \<Rightarrow> u8 \<Rightarrow> ('z pi_io_scheme, unit) driver" where
  "GPIO_CONFIG_OUTPUT E g =
     then_do (read_reg E (unat g div 10)) (\<lambda>v.
     write_reg E (unat g div 10)
       ((v AND NOT (push_bit (unat g mod 10 * 3) 7)) OR push_bit (unat g mod 10 * 3) 1))"

definition GPIO_CONFIG_ALT :: "pi_env \<Rightarrow> u8 \<Rightarrow> u32 \<Rightarrow> ('z pi_io_scheme, unit) driver" where
  "GPIO_CONFIG_ALT E g a =
     then_do (read_reg E (unat g div 10)) (\<lambda>v.
     write_reg E (unat g div 10)
       (v OR push_bit (unat g mod 10 * 3) (if a \<le> 3 then a + 4 else if a = 4 then 3 else 2)))"

definition GPIO_SET :: "pi_env \<Rightarrow> u8 \<Rightarrow> ('z pi_io_scheme, unit) driver" where
  "GPIO_SET E g = then_do (one_shifted g) (write_reg E 7)"

definition GPIO_CLR :: "pi_env \<Rightarrow> u8 \<Rightarrow> ('z pi_io_scheme, unit) driver" where
  "GPIO_CLR E g = then_do (one_shifted g) (write_reg E 10)"

text \<open>The value of the assignment \<open>&=\<close> is the value that is written.\<close>

definition GPIO_READ :: "pi_env \<Rightarrow> u8 \<Rightarrow> ('z pi_io_scheme, u32) driver" where
  "GPIO_READ E g =
     then_do (one_shifted g) (\<lambda>m.
     then_do (read_reg E 13) (\<lambda>v.
     then_do (write_reg E 13 (v AND m)) (\<lambda>_. ret (v AND m))))"

subsection \<open>Opening and closing\<close>

text \<open>\<open>gGpio\<close> as the program starts, on a Pi 2, and the address that \<open>mmap\<close> returns when it fails.\<close>

definition GPIO_BASE :: u32 where
  "GPIO_BASE = 0x3F000000 + 0x200000"

definition initial_gpio :: peripheral where
  "initial_gpio = \<lparr>addressP = GPIO_BASE, memFd = 0, pMap = 0, pAddress = 0\<rparr>"

definition MAP_FAILED :: int where
  "MAP_FAILED = - 1"

definition mmap_registers :: "pi_env \<Rightarrow> s32 \<Rightarrow> u32 \<Rightarrow> ('z pi_io_scheme, int) driver" where
  "mmap_registers E fd address =
     then_do (pi_sys E (Mmap fd address)) (\<lambda>m.
     then_do (act (\<lambda>s. if m = MAP_FAILED then s else s\<lparr>mapped := m # mapped s\<rparr>)) (\<lambda>_. ret m))"

definition munmap_registers :: "pi_env \<Rightarrow> int \<Rightarrow> ('z pi_io_scheme, unit) driver" where
  "munmap_registers E m =
     then_do (pi_sys E (Munmap m)) (\<lambda>_. act (\<lambda>s. s\<lparr>mapped := removeAll m (mapped s)\<rparr>))"

definition mapPeripheral :: "pi_env \<Rightarrow> ('z pi_io_scheme, bool) driver" where
  "mapPeripheral E =
     then_do (pi_sys E Open_Mem) (\<lambda>fd.
     then_do (set_gpio (\<lambda>g. g\<lparr>memFd := word_of_int fd\<rparr>)) (\<lambda>_.
     then_do get_gpio (\<lambda>g.
     if 0 \<le>s memFd g
     then then_do (mmap_registers E (memFd g) (addressP g)) (\<lambda>m.
          then_do (set_gpio (\<lambda>g. g\<lparr>pMap := m\<rparr>)) (\<lambda>_.
          if m \<noteq> MAP_FAILED
          then then_do (set_gpio (\<lambda>g. g\<lparr>pAddress := m\<rparr>)) (\<lambda>_. ret True)
          else ret False))
     else ret False)))"

definition unmapPeripheral :: "pi_env \<Rightarrow> ('z pi_io_scheme, unit) driver" where
  "unmapPeripheral E =
     then_do get_gpio (\<lambda>g.
     then_do (munmap_registers E (pMap g)) (\<lambda>_.
     then_do (pi_sys E (Close (memFd g))) (\<lambda>_. ret ())))"

definition openIo :: "pi_env \<Rightarrow> ('z pi_io_scheme, bool) driver" where
  "openIo E =
     then_do get_gpio (\<lambda>g.
     then_do (if 0 \<le>s memFd g then unmapPeripheral E else ret ()) (\<lambda>_.
     mapPeripheral E))"

definition closeIo :: "pi_env \<Rightarrow> ('z pi_io_scheme, unit) driver" where
  "closeIo E = unmapPeripheral E"

subsection \<open>The functions\<close>

text \<open>What each function does first: it maps the registers if the descriptor is not positive.\<close>

definition when_mapped :: "pi_env \<Rightarrow> ('z pi_io_scheme, unit) driver \<Rightarrow> ('z pi_io_scheme, bool) driver" where
  "when_mapped E m =
     then_do get_gpio (\<lambda>g.
     then_do (if memFd g \<le>s 0 then mapPeripheral E else ret True) (\<lambda>success.
     if success then then_do m (\<lambda>_. ret True) else ret False))"

definition configGpioInput :: "pi_env \<Rightarrow> u8 \<Rightarrow> ('z pi_io_scheme, bool) driver" where
  "configGpioInput E gpio = when_mapped E (GPIO_CONFIG_INPUT E gpio)"

definition configGpioOutput :: "pi_env \<Rightarrow> u8 \<Rightarrow> ('z pi_io_scheme, bool) driver" where
  "configGpioOutput E gpio = when_mapped E (GPIO_CONFIG_OUTPUT E gpio)"

definition setGpio :: "pi_env \<Rightarrow> u8 \<Rightarrow> ('z pi_io_scheme, bool) driver" where
  "setGpio E gpio = when_mapped E (GPIO_SET E gpio)"

definition clrGpio :: "pi_env \<Rightarrow> u8 \<Rightarrow> ('z pi_io_scheme, bool) driver" where
  "clrGpio E gpio = when_mapped E (GPIO_CLR E gpio)"

text \<open>\<open>wanted\<close> says that \<open>pState\<close> is not null.  The result is \<open>success\<close>, and the state of the pin if it is stored.\<close>

definition readGpio :: "pi_env \<Rightarrow> u8 \<Rightarrow> bool \<Rightarrow> ('z pi_io_scheme, bool \<times> bool option) driver" where
  "readGpio E gpio wanted =
     then_do get_gpio (\<lambda>g.
     then_do (if memFd g \<le>s 0 then mapPeripheral E else ret True) (\<lambda>success.
     if success \<and> wanted
     then then_do (GPIO_READ E gpio) (\<lambda>v. ret (success, Some (v \<noteq> 0)))
     else ret (success, None)))"

end
