(* ===== verification/Charger.thy ===== *)
theory Charger
  imports PiIo Ds2408 Ds2438 "HOL-Library.Signed_Division"
begin

section \<open>The charging station: \<open>Charger/src/main.c\<close>\<close>

text \<open>
  A program of its own that runs on the Pi of the charging station.  A stepper motor turns the charging socket towards the infrared light of
  the robot: infrared detectors are read from a PIO chip on the OneWire bus, the motor is stepped by two pins of the Pi, and the
  charging current is read from a battery monitor.  The state is the state of the pins, extended by the OneWire link, the number of the port
  and the angle of the motor in microsteps.  \<open>FindDevices\<close> of the OneWire kit is a parameter that returns the addresses found.
\<close>

subsection \<open>State and constants\<close>

record 's station = pi_io +
  bus :: 's
  gPortNumber :: s32
  angleMicrosteps :: s32

definition ONEWIRE_PORT :: string where
  "ONEWIRE_PORT = ''/dev/USBSerial''"

definition MAX_BATTERY_DEVICES :: nat where
  "MAX_BATTERY_DEVICES = 1"

definition MAX_IO_DEVICES :: nat where
  "MAX_IO_DEVICES = 1"

definition ANGLE_TO_MICROSTEPS :: "nat \<Rightarrow> nat" where
  "ANGLE_TO_MICROSTEPS a = a * 1600 div 360"

definition MIN_ANGLE_MICROSTEPS :: nat where
  "MIN_ANGLE_MICROSTEPS = ANGLE_TO_MICROSTEPS 3"

definition MIN_READINGS :: nat where
  "MIN_READINGS = 1"

definition LIMIT_ANGLE_MICROSTEPS :: nat where
  "LIMIT_ANGLE_MICROSTEPS = ANGLE_TO_MICROSTEPS 90"

abbreviation (input) GPIO_RELAY_1_ENABLE :: u8 where "GPIO_RELAY_1_ENABLE \<equiv> 2"
abbreviation (input) GPIO_RELAY_2_ENABLE :: u8 where "GPIO_RELAY_2_ENABLE \<equiv> 3"
abbreviation (input) GPIO_IR_ENABLE :: u8 where "GPIO_IR_ENABLE \<equiv> 4"
abbreviation (input) GPIO_MOTOR_ENABLE_BAR :: u8 where "GPIO_MOTOR_ENABLE_BAR \<equiv> 18"
abbreviation (input) GPIO_MOTOR_MICRO_STEP :: u8 where "GPIO_MOTOR_MICRO_STEP \<equiv> 24"
abbreviation (input) GPIO_MOTOR_DIRECTION :: u8 where "GPIO_MOTOR_DIRECTION \<equiv> 25"

abbreviation (input) OW_PIN_IR_DETECT_NORTH :: u8 where "OW_PIN_IR_DETECT_NORTH \<equiv> 0x01"
abbreviation (input) OW_PIN_IR_DETECT_EAST :: u8 where "OW_PIN_IR_DETECT_EAST \<equiv> 0x02"
abbreviation (input) OW_PIN_IR_DETECT_SOUTH :: u8 where "OW_PIN_IR_DETECT_SOUTH \<equiv> 0x04"
abbreviation (input) OW_PIN_IR_DETECT_WEST :: u8 where "OW_PIN_IR_DETECT_WEST \<equiv> 0x08"

text \<open>A driver of the OneWire bus, in this program.\<close>

definition on_bus :: "('s, 'a) driver \<Rightarrow> ('s station, 'a) driver" where
  "on_bus m = (\<lambda>s. case m (bus s) of (r, b) \<Rightarrow> (r, s\<lparr>bus := b\<rparr>))"

subsection \<open>Setting up\<close>

definition setupPiGpios :: "pi_env \<Rightarrow> ('z pi_io_scheme, unit) driver" where
  "setupPiGpios E =
     then_do (GPIO_CONFIG_OUTPUT E GPIO_RELAY_1_ENABLE) (\<lambda>_.
     then_do (GPIO_CONFIG_OUTPUT E GPIO_RELAY_2_ENABLE) (\<lambda>_.
     then_do (GPIO_CONFIG_OUTPUT E GPIO_IR_ENABLE) (\<lambda>_.
     then_do (GPIO_CONFIG_OUTPUT E GPIO_MOTOR_MICRO_STEP) (\<lambda>_.
     then_do (GPIO_CONFIG_OUTPUT E GPIO_MOTOR_DIRECTION) (\<lambda>_.
     then_do (GPIO_CONFIG_OUTPUT E GPIO_MOTOR_ENABLE_BAR) (\<lambda>_.
     then_do (GPIO_SET E GPIO_IR_ENABLE) (\<lambda>_.
     then_do (GPIO_SET E GPIO_MOTOR_ENABLE_BAR) (\<lambda>_.
     then_do (GPIO_SET E GPIO_RELAY_1_ENABLE) (\<lambda>_.
     GPIO_SET E GPIO_RELAY_2_ENABLE)))))))))"

text \<open>\<open>stack\<close> is what \<open>writeNVConfigThresholdDS2438\<close> finds in its buffer (\<open>Ds2438\<close>).\<close>

definition setupBatteryMonitoringDevice ::
    "pi_env \<Rightarrow> 's wire \<Rightarrow> (nat \<Rightarrow> u8) \<Rightarrow> s32 \<Rightarrow> u8 list \<Rightarrow> ('s station, bool) driver" where
  "setupBatteryMonitoringDevice E W stack port address =
     then_do (on_bus (writeNVConfigThresholdDS2438 W port address stack (0x01 OR 0x02 OR 0x04) (Some 0x40))) (\<lambda>success.
     if success
     then then_do (pi_sys E Get_Ticks) (\<lambda>ticks.
          on_bus (writeTimeCapacityDS2438 W port address (word_of_int ticks) None True))
     else ret success)"

definition setupIoDevice :: "'s wire \<Rightarrow> s32 \<Rightarrow> u8 list \<Rightarrow> ('s, bool) driver" where
  "setupIoDevice W port address =
     then_do (disableTestModeDS2408 W port address) (\<lambda>success.
     if success
     then then_do (resetActivityLatchesDS2408 W port address) (\<lambda>success.
          if success
          then let controlByte = (0 AND NOT (0x08 OR 0x04)) OR (0x02 OR 0x01) in
               then_do (writeControlRegisterDS2408 W port address controlByte) (\<lambda>success.
               if success
               then let pinsState = OW_PIN_IR_DETECT_NORTH OR OW_PIN_IR_DETECT_SOUTH OR OW_PIN_IR_DETECT_EAST
                                      OR OW_PIN_IR_DETECT_WEST in
                    then_do (channelAccessWriteDS2408 W port address pinsState) (\<lambda>r. ret (r \<noteq> None))
               else ret success)
          else ret success)
     else ret success)"

subsection \<open>One turn of the main loop\<close>

record votes =
  clockwiseVote :: u32
  antiClockwiseVote :: u32
  moveVote :: u32
  oneWireFailure :: bool

definition count_votes :: "u8 \<Rightarrow> votes \<Rightarrow> votes" where
  "count_votes pinsState v =
     (let isNorth = \<not> (pinsState AND OW_PIN_IR_DETECT_NORTH \<noteq> 0);
          isEast = \<not> (pinsState AND OW_PIN_IR_DETECT_EAST \<noteq> 0);
          isWest = \<not> (pinsState AND OW_PIN_IR_DETECT_WEST \<noteq> 0);
          v = (if isWest \<and> \<not> isEast then v\<lparr>antiClockwiseVote := antiClockwiseVote v + 1\<rparr>
               else if isEast \<and> \<not> isWest then v\<lparr>clockwiseVote := clockwiseVote v + 1\<rparr>
               else v)
      in if isNorth \<and> ((\<not> isWest \<and> \<not> isEast) \<or> (isWest \<and> isEast)) then v
         else v\<lparr>moveVote := moveVote v + 1\<rparr>)"

text \<open>A reading that fails sets \<open>success\<close> back to true, so that the condition of the loop is the count alone.\<close>

fun vote_loop :: "nat \<Rightarrow> 's wire \<Rightarrow> s32 \<Rightarrow> u8 list \<Rightarrow> votes \<Rightarrow> ('s, votes) driver" where
  "vote_loop 0 W port io v = ret v"
| "vote_loop (Suc n) W port io v =
     then_do (readPIOLogicStateDS2408 W port io) (\<lambda>r.
     vote_loop n W port io (case r of Some pinsState \<Rightarrow> count_votes pinsState v | None \<Rightarrow> v\<lparr>oneWireFailure := True\<rparr>))"

fun move_loop :: "nat \<Rightarrow> pi_env \<Rightarrow> s32 \<Rightarrow> bool \<Rightarrow> ('s station, bool) driver" where
  "move_loop 0 E microstepChange hitBuffers = ret hitBuffers"
| "move_loop (Suc n) E microstepChange hitBuffers =
     then_do (call (\<lambda>s. (angleMicrosteps s, s))) (\<lambda>angle.
     if angle + microstepChange <s of_nat LIMIT_ANGLE_MICROSTEPS \<and> - of_nat LIMIT_ANGLE_MICROSTEPS <s angle + microstepChange
     then then_do (GPIO_SET E GPIO_MOTOR_MICRO_STEP) (\<lambda>_.
          then_do (pi_sys E (Usleep 10000)) (\<lambda>_.
          then_do (GPIO_CLR E GPIO_MOTOR_MICRO_STEP) (\<lambda>_.
          then_do (pi_sys E (Usleep 10000)) (\<lambda>_.
          then_do (act (\<lambda>s. s\<lparr>angleMicrosteps := angleMicrosteps s + microstepChange\<rparr>)) (\<lambda>_.
          move_loop n E microstepChange hitBuffers)))))
     else move_loop n E microstepChange True)"

text \<open>What is left to be shown after a turn.\<close>

record turn =
  wantToMove :: bool
  wantToGoClockwise :: bool
  hitBuffers :: bool
  readFailure :: bool
  shownCurrent :: s16

definition move_motor :: "pi_env \<Rightarrow> votes \<Rightarrow> ('s station, bool \<times> bool \<times> bool) driver" where
  "move_motor E v =
     (if moveVote v = of_nat MIN_READINGS \<and> clockwiseVote v \<noteq> antiClockwiseVote v
      then then_do (if clockwiseVote v > antiClockwiseVote v
                    then then_do (GPIO_SET E GPIO_MOTOR_DIRECTION) (\<lambda>_. ret (1, True))
                    else then_do (GPIO_CLR E GPIO_MOTOR_DIRECTION) (\<lambda>_. ret (- 1, False))) (\<lambda>(microstepChange, clockwise).
           then_do (move_loop MIN_ANGLE_MICROSTEPS E microstepChange False) (\<lambda>hit. ret (True, clockwise, hit)))
      else ret (False, False, False))"

definition charger_turn :: "pi_env \<Rightarrow> 's wire \<Rightarrow> s32 \<Rightarrow> u8 list \<Rightarrow> u8 list \<Rightarrow> ('s station, turn) driver" where
  "charger_turn E W port battery io =
     then_do (on_bus (vote_loop MIN_READINGS W port io
               \<lparr>clockwiseVote = 0, antiClockwiseVote = 0, moveVote = 0, oneWireFailure = False\<rparr>)) (\<lambda>v.
     then_do (move_motor E v) (\<lambda>(moving, clockwise, hit).
     then_do (on_bus (readCurrentDS2438 W port battery True)) (\<lambda>current.
     ret \<lparr>wantToMove = moving, wantToGoClockwise = clockwise, hitBuffers = hit,
          readFailure = (oneWireFailure v \<or> current = None),
          shownCurrent = (case current of Some c \<Rightarrow> c | None \<Rightarrow> 0)\<rparr>)))"

text \<open>The two numbers that are shown for the current: amperes, and the thousandths behind the point.\<close>

definition amps_shown :: "s16 \<Rightarrow> int \<times> int" where
  "amps_shown current =
     (let currentFraction = sint current smod 1000;
          currentFraction = (if currentFraction < 0 then - currentFraction else currentFraction)
      in (sint current sdiv 1000, currentFraction))"

text \<open>The rest of the line: the arrow and the buffers it has run into, and the failure.\<close>

definition turn_shown :: "turn \<Rightarrow> string \<times> string" where
  "turn_shown t =
     (if wantToMove t
      then if \<not> wantToGoClockwise t
           then (if hitBuffers t then '' |'' else ''  '') @ ''<<     ..     ..''
           else ''  ..     ..     >>'' @ (if hitBuffers t then ''| '' else ''  '')
      else ''  ..    ^^^^    ..  '',
      if readFailure t then '' [OneWire read failure]'' else ''                       '')"

subsection \<open>The program\<close>

text \<open>The loop runs until a key is pressed; the first argument bounds its turns.  \<open>success\<close> is true after each turn.\<close>

fun charger_loop :: "nat \<Rightarrow> pi_env \<Rightarrow> 's wire \<Rightarrow> s32 \<Rightarrow> u8 list \<Rightarrow> u8 list \<Rightarrow> ('s station, unit) driver" where
  "charger_loop 0 E W port battery io = raise Blocked"
| "charger_loop (Suc n) E W port battery io =
     then_do (charger_turn E W port battery io) (\<lambda>_.
     then_do (pi_sys E Key_Abort) (\<lambda>key.
     if key = 0 then charger_loop n E W port battery io else ret ()))"

type_synonym 's device_search = "s32 \<Rightarrow> u8 \<Rightarrow> nat \<Rightarrow> 's \<Rightarrow> u8 list list \<times> 's"

text \<open>From the opening of the pins on.\<close>

definition run_charger :: "nat \<Rightarrow> pi_env \<Rightarrow> 's wire \<Rightarrow> s32 \<Rightarrow> u8 list \<Rightarrow> u8 list \<Rightarrow> ('s station, bool) driver" where
  "run_charger n E W port battery io =
     then_do (openIo E) (\<lambda>success.
     if success
     then then_do (setupPiGpios E) (\<lambda>_.
          then_do (GPIO_CLR E GPIO_MOTOR_ENABLE_BAR) (\<lambda>_.
          then_do (charger_loop n E W port battery io) (\<lambda>_.
          then_do (GPIO_SET E GPIO_MOTOR_ENABLE_BAR) (\<lambda>_.
          then_do (GPIO_CLR E GPIO_IR_ENABLE) (\<lambda>_.
          then_do (closeIo E) (\<lambda>_. ret success))))))
     else ret success)"

text \<open>The result is the exit status: \<open>success\<close> as an \<open>int\<close>, or -1.\<close>

definition charger_main ::
    "nat \<Rightarrow> pi_env \<Rightarrow> 's wire \<Rightarrow> 's device_search \<Rightarrow> (nat \<Rightarrow> u8) \<Rightarrow> string list \<Rightarrow> ('s station, int) driver" where
  "charger_main n E W FindDevices stack argv =
     then_do (act (\<lambda>s. s\<lparr>angleMicrosteps := 0\<rparr>)) (\<lambda>_.
     then_do (on_bus (oneWireStartBus W (if length argv = 2 then argv ! 1 else ONEWIRE_PORT))) (\<lambda>port.
     then_do (act (\<lambda>s. s\<lparr>gPortNumber := port\<rparr>)) (\<lambda>_.
     if port <s 0 then raise Assert_Failed
     else
       then_do (on_bus (call (FindDevices port FAMILY_SBATTERY MAX_BATTERY_DEVICES))) (\<lambda>batteries.
       case batteries of [] \<Rightarrow> raise Assert_Failed
       | battery # _ \<Rightarrow>
         then_do (setupBatteryMonitoringDevice E W stack port battery) (\<lambda>success.
         if \<not> success then raise Assert_Failed
         else
           then_do (on_bus (call (FindDevices port FAMILY_PIO MAX_IO_DEVICES))) (\<lambda>ios.
           case ios of [] \<Rightarrow> raise Assert_Failed
           | io # _ \<Rightarrow>
             then_do (on_bus (setupIoDevice W port io)) (\<lambda>success.
             if \<not> success then raise Assert_Failed
             else
               then_do (run_charger n E W port battery io) (\<lambda>success.
               then_do (on_bus (oneWireStopBus W port)) (\<lambda>_.
               ret (if success then 1 else - 1))))))))))"

end
