(* ===== verification/PiIo_Properties.thy ===== *)
theory PiIo_Properties
  imports PiIo
begin

unbundle bit_operations_syntax

section \<open>The pins of the Pi: properties\<close>

text \<open>
  What the registers hold and the level of a pin follow from the history of the accesses: the registers that select the function of the
  pins keep what was written to them, a write to register 7 (10) raises (lowers) the pins whose bits are 1.  The same history says which
  descriptors the process has open.
\<close>

subsection \<open>Histories\<close>

definition reg_value :: "pi_history \<Rightarrow> nat \<Rightarrow> u32" where
  "reg_value h n = foldl (\<lambda>v (c, _). case c of Write_Reg m w \<Rightarrow> (if m = n then w else v) | _ \<Rightarrow> v) 0 h"

text \<open>There are 54 pins.\<close>

definition pin_function :: "pi_history \<Rightarrow> nat \<Rightarrow> u32" where
  "pin_function h g = (if g < 54 then drop_bit (g mod 10 * 3) (reg_value h (g div 10)) AND 7 else 0)"

definition pin_level :: "pi_history \<Rightarrow> nat \<Rightarrow> bool" where
  "pin_level h g = foldl (\<lambda>l (c, _). case c of
      Write_Reg m w \<Rightarrow> (if m = 7 \<and> bit w g then True else if m = 10 \<and> bit w g then False else l) | _ \<Rightarrow> l) False h"

definition descriptors :: "pi_history \<Rightarrow> int list" where
  "descriptors h = foldl (\<lambda>fds (c, r). case c of
      Open_Mem \<Rightarrow> (if r < 0 then fds else r # fds) | Close fd \<Rightarrow> removeAll (sint fd) fds | _ \<Rightarrow> fds) [0, 1, 2] h"

text \<open>The hardware: the function registers can be read back.  The system: \<open>open\<close> returns the lowest free descriptor.\<close>

definition keeps_registers :: "pi_env \<Rightarrow> bool" where
  "keeps_registers E \<longleftrightarrow> (\<forall>h n. n < 6 \<longrightarrow> word_of_int (E h (Read_Reg n)) = reg_value h n)"

definition lowest_free :: "int list \<Rightarrow> int" where
  "lowest_free fds = hd (filter (\<lambda>i. i \<notin> set fds) (map int [0..<Suc (length fds)]))"

definition maps_memory :: "pi_env \<Rightarrow> bool" where
  "maps_memory E \<longleftrightarrow> (\<forall>h. E h Open_Mem = lowest_free (descriptors h)) \<and> (\<forall>h fd a. E h (Mmap fd a) \<noteq> MAP_FAILED)"

lemma reg_value_snoc [simp]:
  "reg_value (h @ [(c, r)]) n = (case c of Write_Reg m w \<Rightarrow> (if m = n then w else reg_value h n) | _ \<Rightarrow> reg_value h n)"
  by (cases c) (simp_all add: reg_value_def)

lemma pin_level_snoc [simp]:
  "pin_level (h @ [(c, r)]) g = (case c of
      Write_Reg m w \<Rightarrow> (if m = 7 \<and> bit w g then True else if m = 10 \<and> bit w g then False else pin_level h g)
    | _ \<Rightarrow> pin_level h g)"
  by (cases c) (simp_all add: pin_level_def)

lemma descriptors_snoc [simp]:
  "descriptors (h @ [(c, r)]) = (case c of
      Open_Mem \<Rightarrow> (if r < 0 then descriptors h else r # descriptors h) | Close fd \<Rightarrow> removeAll (sint fd) (descriptors h)
    | _ \<Rightarrow> descriptors h)"
  by (cases c) (simp_all add: descriptors_def)

lemma descriptors_Nil [simp]: "descriptors [] = [0, 1, 2]"
  by (simp add: descriptors_def)

subsection \<open>Accesses to the registers\<close>

abbreviation usable :: "'z pi_io_scheme \<Rightarrow> bool" where
  "usable s \<equiv> pAddress (gGpio s) \<in> set (mapped s)"

text \<open>The state after a call to the system or to the hardware.\<close>

definition noted :: "pi_env \<Rightarrow> pi_call \<Rightarrow> 'z pi_io_scheme \<Rightarrow> 'z pi_io_scheme" where
  "noted E c s = s\<lparr>pi_calls := pi_calls s @ [(c, E (pi_calls s) c)]\<rparr>"

lemma noted_sel [simp]:
  "pi_calls (noted E c s) = pi_calls s @ [(c, E (pi_calls s) c)]" "gGpio (noted E c s) = gGpio s"
  "mapped (noted E c s) = mapped s" "pi_io.more (noted E c s) = pi_io.more s"
  by (simp_all add: noted_def)

named_theorems pi_simps \<open>evaluation of accesses to the pins\<close>

lemma pi_sys_run [pi_simps]: "pi_sys E c s = (Inr (E (pi_calls s) c), noted E c s)"
  by (simp add: pi_sys_def driver_simps noted_def Let_def)

lemma at_registers_run [pi_simps]: "at_registers s = (if usable s then (Inr (), s) else (Inl Bad_Access, s))"
  by (simp add: at_registers_def)

lemma read_reg_run [pi_simps]:
  "read_reg E n s = (if usable s then (Inr (word_of_int (E (pi_calls s) (Read_Reg n))), noted E (Read_Reg n) s)
                     else (Inl Bad_Access, s))"
  by (simp add: read_reg_def driver_simps pi_simps)

lemma write_reg_run [pi_simps]:
  "write_reg E n v s = (if usable s then (Inr (), noted E (Write_Reg n v) s) else (Inl Bad_Access, s))"
  by (simp add: write_reg_def driver_simps pi_simps)

lemma get_gpio_run [pi_simps]: "get_gpio s = (Inr (gGpio s), s)"
  by (simp add: get_gpio_def driver_simps)

lemma set_gpio_run [pi_simps]: "set_gpio f s = (Inr (), s\<lparr>gGpio := f (gGpio s)\<rparr>)"
  by (simp add: set_gpio_def driver_simps)

lemma GPIO_SET_run [pi_simps]:
  "unat g < 31 \<Longrightarrow> GPIO_SET E g s =
     (if usable s then (Inr (), noted E (Write_Reg 7 (push_bit (unat g) 1)) s) else (Inl Bad_Access, s))"
  by (simp add: GPIO_SET_def one_shifted_def driver_simps pi_simps)

lemma GPIO_CLR_run [pi_simps]:
  "unat g < 31 \<Longrightarrow> GPIO_CLR E g s =
     (if usable s then (Inr (), noted E (Write_Reg 10 (push_bit (unat g) 1)) s) else (Inl Bad_Access, s))"
  by (simp add: GPIO_CLR_def one_shifted_def driver_simps pi_simps)

text \<open>A shift that is undefined is not made.\<close>

lemma undefined_shift: "31 \<le> unat g \<Longrightarrow> GPIO_SET E g s = (Inl Bad_Conversion, s)"
  by (simp add: GPIO_SET_def one_shifted_def driver_simps)

lemma gives_get_gpio: "gives get_gpio s Q \<longleftrightarrow> Q (gGpio s) s"
  by (simp add: gives_def pi_simps)

lemma gives_GPIO_SET:
  "unat g < 31 \<Longrightarrow> gives (GPIO_SET E g) s Q \<longleftrightarrow> usable s \<and> Q () (noted E (Write_Reg 7 (push_bit (unat g) 1)) s)"
  by (simp add: gives_def pi_simps)

subsection \<open>The function of a pin\<close>

lemma field_of_pin:
  fixes v :: u32
  assumes "i < 10" "j < 10"
  shows "drop_bit (j * 3) ((v AND NOT (push_bit (i * 3) 7)) OR push_bit (i * 3) 1) AND 7 =
    (if i = j then 1 else drop_bit (j * 3) v AND 7)"
proof -
  have seven: "(7 :: u32) = mask 3"
    by (simp add: mask_eq_exp_minus_1)
  have apart: "\<not> (i * 3 \<le> j * 3 + k \<and> j * 3 + k - i * 3 < 3)" if "i \<noteq> j" "k < 3" for k
    using that by presburger
  show ?thesis
  proof (cases "i = j")
    case True
    have "bit (drop_bit (i * 3) ((v AND NOT (push_bit (i * 3) 7)) OR push_bit (i * 3) 1) AND 7) k = bit (1 :: u32) k" for k
      using assms unfolding seven by (auto simp: bit_simps)
    with True show ?thesis
      by (auto intro: bit_word_eqI)
  next
    case False
    have "bit (drop_bit (j * 3) ((v AND NOT (push_bit (i * 3) 7)) OR push_bit (i * 3) 1) AND 7) k =
        bit (drop_bit (j * 3) v AND 7) k" for k
      using assms apart [OF False, of k] unfolding seven by (auto simp: bit_simps)
    with False show ?thesis
      by (auto intro: bit_word_eqI)
  qed
qed

text \<open>Making a pin an output leaves every other pin as it was.\<close>

lemma GPIO_CONFIG_OUTPUT_function:
  assumes "keeps_registers E" and "usable s" and "unat g < 54"
  shows "gives (GPIO_CONFIG_OUTPUT E g) s (\<lambda>_ t. usable t
    \<and> pin_function (pi_calls t) = (pin_function (pi_calls s))(unat g := 1) \<and> pin_level (pi_calls t) = pin_level (pi_calls s))"
proof -
  have read: "word_of_int (E (pi_calls s) (Read_Reg (unat g div 10))) = reg_value (pi_calls s) (unat g div 10)"
    using assms by (simp add: keeps_registers_def less_mult_imp_div_less)
  let ?n = "unat g div 10" and ?i = "unat g mod 10 * 3"
  let ?v = "(reg_value (pi_calls s) ?n AND NOT (push_bit ?i 7)) OR push_bit ?i 1"
  let ?t = "noted E (Write_Reg ?n ?v) (noted E (Read_Reg ?n) s)"
  have run: "GPIO_CONFIG_OUTPUT E g s = (Inr (), ?t)"
    using assms(2) by (simp add: GPIO_CONFIG_OUTPUT_def driver_simps pi_simps read)
  have "reg_value (pi_calls ?t) n = (if n = ?n then ?v else reg_value (pi_calls s) n)" for n
    by (simp del: append_assoc push_bit_of_1)
  moreover have "pin_level (pi_calls ?t) = pin_level (pi_calls s)"
    using assms(3) by (auto simp: fun_eq_iff simp del: append_assoc)
  moreover have "pin_function (pi_calls ?t) g' = (if g' = unat g then 1 else pin_function (pi_calls s) g')" for g'
  proof (cases "g' div 10 = ?n")
    case True
    then have same: "unat g mod 10 = g' mod 10 \<longleftrightarrow> g' = unat g"
      by (metis div_mult_mod_eq)
    have "drop_bit (g' mod 10 * 3) ?v AND 7 = (if g' = unat g then 1 else drop_bit (g' mod 10 * 3) (reg_value (pi_calls s) ?n) AND 7)"
      by (subst field_of_pin) (simp_all only: same mod_less_divisor zero_less_numeral)
    then show ?thesis
      using assms(3) unfolding pin_function_def calculation(1) by (simp only: True if_True refl) auto
  next
    case False
    then show ?thesis
      unfolding pin_function_def calculation(1) by (simp only: if_False) auto
  qed
  ultimately show ?thesis
    using assms(2) by (simp add: gives_def run fun_eq_iff)
qed

lemma GPIO_SET_levels:
  assumes "usable s" and "unat g < 31"
  shows "gives (GPIO_SET E g) s (\<lambda>_ t. usable t \<and> pin_function (pi_calls t) = pin_function (pi_calls s)
    \<and> pin_level (pi_calls t) = (pin_level (pi_calls s))(unat g := True))"
  using assms by (auto simp: gives_def pi_simps fun_eq_iff pin_function_def bit_push_bit_iff bit_exp_iff)

subsection \<open>Opening\<close>

lemma mapPeripheral_maps:
  assumes fd: "E (pi_calls s) Open_Mem = fd" "0 \<le> fd" "fd < 2 ^ 31"
    and mem: "maps_memory E"
  shows "gives (mapPeripheral E) s (\<lambda>ok t. ok \<and> memFd (gGpio t) = word_of_int fd \<and> usable t
    \<and> pMap (gGpio t) = pAddress (gGpio t) \<and> length (mapped t) = Suc (length (mapped s))
    \<and> (\<exists>m. pi_calls t = pi_calls s @ [(Open_Mem, fd), (Mmap (word_of_int fd) (addressP (gGpio s)), m)]))"
proof -
  have "sint (word_of_int fd :: s32) = fd"
    using fd(2,3) by (simp add: int_word_sint)
  then have "0 \<le>s (word_of_int fd :: s32)"
    using fd(2) by (simp add: word_sle_eq)
  then show ?thesis
    using fd(1) mem by (simp add: maps_memory_def gives_def mapPeripheral_def mmap_registers_def driver_simps pi_simps)
qed

text \<open>
  C27.  \<open>gGpio\<close> starts with descriptor 0, which \<open>openIo\<close> takes for an open one: it unmaps address 0 and closes standard input.
  \<open>/dev/mem\<close> then becomes descriptor 0, so that to every function that tests for a positive descriptor the pins are
  still closed: the first call opens and maps them once more.
\<close>

theorem first_open_takes_stdin:
  assumes "maps_memory E" and "gGpio s = initial_gpio" and "pi_calls s = []" and "unat g < 31"
  shows "gives (openIo E) s (\<lambda>ok t. ok \<and> memFd (gGpio t) = 0
      \<and> take 3 (map fst (pi_calls t)) = [Munmap 0, Close 0, Open_Mem] \<and> descriptors (pi_calls t) = [0, 1, 2]
      \<and> gives (setGpio E g) t (\<lambda>ok u. ok \<and> descriptors (pi_calls u) = [3, 0, 1, 2] \<and> length (mapped u) = Suc (length (mapped t))))"
proof -
  have mem: "E h Open_Mem = lowest_free (descriptors h)" for h
    using assms(1) by (simp_all add: maps_memory_def)
  have free: "lowest_free [1, 2] = 0" "lowest_free [0, 1, 2] = 3"
    by code_simp+
  define v where "v = noted E (Close 0) ((noted E (Munmap 0) s)\<lparr>mapped := removeAll 0 (mapped s)\<rparr>)"
  have v: "\<exists>a b. pi_calls v = [(Munmap 0, a), (Close 0, b)]"
    using assms(3) by (simp add: v_def)
  then have first: "E (pi_calls v) Open_Mem = 0"
    by (auto simp: mem descriptors_def free)
  have open_run: "openIo E s = mapPeripheral E v"
    using assms(2) by (simp add: openIo_def unmapPeripheral_def munmap_registers_def driver_simps pi_simps initial_gpio_def v_def
        noted_def)
  have set_run: "gives (setGpio E g) t (\<lambda>ok u. ok \<and> descriptors (pi_calls u) = [3, 0, 1, 2] \<and> length (mapped u) = Suc (length (mapped t)))"
    if "memFd (gGpio t) = 0" and calls: "pi_calls t = pi_calls v @ [(Open_Mem, 0), (Mmap 0 a, m)]" for t a m
  proof -
    have "descriptors (pi_calls t) = [0, 1, 2]"
      using v calls by (auto simp: descriptors_def)
    then have "E (pi_calls t) Open_Mem = 3"
      by (simp add: mem free)
    then show ?thesis
      using that(1) assms(4) \<open>descriptors (pi_calls t) = _\<close>
      by (auto simp: setGpio_def when_mapped_def gives_get_gpio gives_GPIO_SET descriptors_def
          intro!: gives_mono [OF mapPeripheral_maps [OF _ _ _ assms(1)]])
  qed
  obtain t m where t: "mapPeripheral E v = (Inr True, t)" "memFd (gGpio t) = 0"
      "pi_calls t = pi_calls v @ [(Open_Mem, 0), (Mmap 0 (addressP (gGpio v)), m)]"
    using mapPeripheral_maps [OF first _ _ assms(1)] by (auto simp: gives_iff)
  show ?thesis
    using v t set_run [OF t(2,3)] by (auto simp: gives_def [of "openIo E"] open_run descriptors_def)
qed

text \<open>A system that answers as described, with registers that can be read back.\<close>

definition example_pi :: pi_env where
  "example_pi h c = (case c of
      Open_Mem \<Rightarrow> lowest_free (descriptors h)
    | Mmap fd a \<Rightarrow> 0x1000 * (1 + int (length h))
    | Read_Reg n \<Rightarrow> uint (reg_value h n)
    | _ \<Rightarrow> 0)"

lemma example_pi_works: "maps_memory example_pi" "keeps_registers example_pi"
  by (simp_all add: maps_memory_def keeps_registers_def example_pi_def MAP_FAILED_def)

definition example_io :: pi_io where
  "example_io = \<lparr>gGpio = initial_gpio, mapped = [], pi_calls = []\<rparr>"

theorem first_open_takes_stdin_witness:
  "gives (openIo example_pi) example_io (\<lambda>ok t. ok \<and> gives (setGpio example_pi 18) t (\<lambda>ok u. length (mapped u) = Suc (length (mapped t))))"
  by (rule gives_mono [OF first_open_takes_stdin [OF example_pi_works(1), of example_io 18]])
    (auto simp: example_io_def elim: gives_mono)

text \<open>
  Once closed, the pins are taken for open, because \<open>closeIo\<close> leaves the descriptor and the address in place: the next
  access goes through an address that is no longer mapped.
\<close>

lemma dangling_after_close:
  assumes "0 <s memFd (gGpio s)" and "pMap (gGpio s) = pAddress (gGpio s)" and "unat g < 31"
  shows "gives (closeIo E) s (\<lambda>_ t. fst (setGpio E g t) = Inl Bad_Access)"
proof -
  have "\<not> memFd (gGpio s) \<le>s 0"
    using assms(1) by (simp add: word_sle_eq word_sless_alt)
  then show ?thesis
    using assms(2,3)
    by (simp add: gives_def closeIo_def unmapPeripheral_def munmap_registers_def setGpio_def when_mapped_def driver_simps pi_simps)
qed

end
