(* ===== verification/Charger_Properties.thy ===== *)
theory Charger_Properties
  imports Charger PiIo_Properties Ds2408_Properties
begin

unbundle bit_operations_syntax

section \<open>The charging station: properties\<close>

text \<open>
  The pins that the set-up configures; the position of the motor, read off the history of the accesses to its pins, which agrees with the
  angle the program keeps and never leaves the range; and what one turn of the loop does to it.
\<close>

subsection \<open>Set-up of the pins\<close>

definition pins_are :: "(nat \<Rightarrow> u32) \<Rightarrow> (nat \<Rightarrow> bool) \<Rightarrow> 'z pi_io_scheme \<Rightarrow> bool" where
  "pins_are F L s \<longleftrightarrow> usable s \<and> pin_function (pi_calls s) = F \<and> pin_level (pi_calls s) = L"

lemma config_pins:
  "keeps_registers E \<Longrightarrow> unat g < 54 \<Longrightarrow> pins_are F L s \<Longrightarrow>
     gives (GPIO_CONFIG_OUTPUT E g) s (\<lambda>_. pins_are (F(unat g := 1)) L)"
  by (rule gives_mono [OF GPIO_CONFIG_OUTPUT_function]) (auto simp: pins_are_def)

lemma set_pins: "unat g < 31 \<Longrightarrow> pins_are F L s \<Longrightarrow> gives (GPIO_SET E g) s (\<lambda>_. pins_are F (L(unat g := True)))"
  by (rule gives_mono [OF GPIO_SET_levels]) (auto simp: pins_are_def)

text \<open>
  The set-up makes outputs of the six pins of the station and of no other pin, and raises the relays, the infrared light and the
  (inverted) enabling pin of the motor.
\<close>

theorem setup_of_pins:
  assumes "keeps_registers E" and "usable s"
  shows "gives (setupPiGpios E) s (\<lambda>_ t. usable t
    \<and> (\<forall>g. pin_function (pi_calls t) g = (if g \<in> {2, 3, 4, 18, 24, 25} then 1 else pin_function (pi_calls s) g))
    \<and> (\<forall>g. pin_level (pi_calls t) g \<longleftrightarrow> g \<in> {2, 3, 4, 18} \<or> pin_level (pi_calls s) g))"
proof -
  define F where "F = pin_function (pi_calls s)"
  define L where "L = pin_level (pi_calls s)"
  have start: "pins_are F L s"
    using assms(2) by (simp add: pins_are_def F_def L_def)
  have "gives (setupPiGpios E) s (\<lambda>_ t. pins_are
      (F(2 := 1, 3 := 1, 4 := 1, 24 := 1, 25 := 1, 18 := 1)) (L(4 := True, 18 := True, 2 := True, 3 := True)) t)"
    unfolding setupPiGpios_def gives_then_do
    apply (rule gives_mono [OF config_pins [OF assms(1) _ start]], simp)
    apply (rule gives_mono [OF config_pins [OF assms(1)]], simp, assumption)+
    apply (rule gives_mono [OF set_pins], simp, assumption)+
    by simp
  then show ?thesis
    by (rule gives_mono) (auto simp: pins_are_def F_def L_def)
qed

definition example_open :: "'s \<Rightarrow> 's station" where
  "example_open b = \<lparr>gGpio = initial_gpio\<lparr>memFd := 3, pMap := 0x1000, pAddress := 0x1000\<rparr>, mapped = [0x1000], pi_calls = [],
     bus = b, gPortNumber = 0, angleMicrosteps = 0\<rparr>"

theorem setup_of_pins_witness:
  "gives (setupPiGpios example_pi) (example_open ()) (\<lambda>_ t. pin_function (pi_calls t) 18 = 1 \<and> pin_level (pi_calls t) 18)"
  by (rule gives_mono [OF setup_of_pins [OF example_pi_works(2)]]) (simp_all add: example_open_def)

subsection \<open>The motor\<close>

text \<open>
  The motor moves by one microstep when its step pin is raised while it is enabled, in the direction of its direction pin.
\<close>

definition motor_position :: "pi_history \<Rightarrow> int" where
  "motor_position h = (\<Sum>k<length h.
     if \<not> pin_level (take k h) 24 \<and> pin_level (take (Suc k) h) 24 \<and> \<not> pin_level (take k h) 18
     then (if pin_level (take k h) 25 then 1 else - 1) else 0)"

lemma motor_position_Nil [simp]: "motor_position [] = 0"
  by (simp add: motor_position_def)

lemma motor_position_snoc [simp]:
  "motor_position (h @ [x]) = motor_position h +
     (if \<not> pin_level h 24 \<and> pin_level (h @ [x]) 24 \<and> \<not> pin_level h 18 then (if pin_level h 25 then 1 else - 1) else 0)"
proof -
  have "motor_position h = (\<Sum>k<length h.
     if \<not> pin_level (take k (h @ [x])) 24 \<and> pin_level (take (Suc k) (h @ [x])) 24 \<and> \<not> pin_level (take k (h @ [x])) 18
     then (if pin_level (take k (h @ [x])) 25 then 1 else - 1) else 0)"
    unfolding motor_position_def by (rule sum.cong) auto
  then show ?thesis
    by (simp add: motor_position_def)
qed

definition within :: "pi_history \<Rightarrow> bool" where
  "within h \<longleftrightarrow> (\<forall>k. \<bar>motor_position (take k h)\<bar> < 400)"

lemma within_snoc [simp]: "within (h @ [x]) \<longleftrightarrow> within h \<and> \<bar>motor_position (h @ [x])\<bar> < 400"
proof
  assume all: "within (h @ [x])"
  have "\<bar>motor_position (take k h)\<bar> < 400" for k
    using all [unfolded within_def, rule_format, of "min k (length h)"] by (cases "k \<le> length h") auto
  moreover have "\<bar>motor_position (h @ [x])\<bar> < 400"
    using all [unfolded within_def, rule_format, of "Suc (length h)"] by simp
  ultimately show "within h \<and> \<bar>motor_position (h @ [x])\<bar> < 400"
    by (simp add: within_def)
next
  assume h: "within h \<and> \<bar>motor_position (h @ [x])\<bar> < 400"
  have "\<bar>motor_position (take k (h @ [x]))\<bar> < 400" for k
  proof (cases "k \<le> length h")
    case True
    then show ?thesis
      using h by (simp add: within_def del: motor_position_snoc)
  next
    case False
    then have "take k (h @ [x]) = h @ [x]"
      by simp
    with h show ?thesis
      by (simp only: )
  qed
  then show "within (h @ [x])"
    by (simp add: within_def)
qed

text \<open>
  \<open>in_range\<close>: the step pin is low, the angle kept is the position, and the motor has never been out of range.
  \<open>running\<close>: moreover the registers are mapped and the motor is enabled, with direction \<open>d\<close>.
\<close>

definition in_range :: "'s station \<Rightarrow> bool" where
  "in_range s \<longleftrightarrow> \<not> pin_level (pi_calls s) 24 \<and> motor_position (pi_calls s) = sint (angleMicrosteps s) \<and> within (pi_calls s)"

definition running :: "'s station \<Rightarrow> bool" where
  "running s \<longleftrightarrow> in_range s \<and> usable s \<and> \<not> pin_level (pi_calls s) 18"

lemma in_range_angle: "in_range s \<Longrightarrow> \<bar>sint (angleMicrosteps s)\<bar> < 400"
  unfolding in_range_def within_def by (metis take_all_iff order_refl)

lemma charger_sel [simp]:
  "angleMicrosteps (noted E c s) = angleMicrosteps s" "bus (noted E c s) = bus s" "gPortNumber (noted E c s) = gPortNumber s"
  by (simp_all add: noted_def)

lemma gives_pi_sys: "gives (pi_sys E c) s Q \<longleftrightarrow> Q (E (pi_calls s) c) (noted E c s)"
  by (simp add: gives_def pi_simps)

lemma gives_GPIO_CLR:
  "unat g < 31 \<Longrightarrow> gives (GPIO_CLR E g) s Q \<longleftrightarrow> usable s \<and> Q () (noted E (Write_Reg 10 (push_bit (unat g) 1)) s)"
  by (simp add: gives_def pi_simps)

lemmas gives_pins = gives_pi_sys gives_GPIO_SET gives_GPIO_CLR gives_get_gpio

lemma bit_pin: "i < 32 \<Longrightarrow> bit (push_bit i (1 :: u32)) g \<longleftrightarrow> g = i"
  by (auto simp: bit_push_bit_iff bit_exp_iff)

lemma level_set: "i < 32 \<Longrightarrow> pin_level (h @ [(Write_Reg 7 (push_bit i 1), r)]) = (pin_level h)(i := True)"
  by (auto simp: fun_eq_iff bit_pin simp del: push_bit_of_1)

lemma level_clear: "i < 32 \<Longrightarrow> pin_level (h @ [(Write_Reg 10 (push_bit i 1), r)]) = (pin_level h)(i := False)"
  by (auto simp: fun_eq_iff bit_pin simp del: push_bit_of_1)

lemma level_usleep: "pin_level (h @ [(Usleep n, r)]) = pin_level h"
  by (simp add: fun_eq_iff)

text \<open>One pulse on the step pin, and the angle that goes with it.\<close>

definition pulsed :: "pi_env \<Rightarrow> s32 \<Rightarrow> 's station \<Rightarrow> 's station" where
  "pulsed E c s = (noted E (Usleep 10000) (noted E (Write_Reg 10 (push_bit 24 1)) (noted E (Usleep 10000)
     (noted E (Write_Reg 7 (push_bit 24 1)) s))))\<lparr>angleMicrosteps := angleMicrosteps s + c\<rparr>"

definition one_way :: "bool \<Rightarrow> s32" where
  "one_way d = (if d then 1 else - 1)"

lemma sint_add_one_way: "\<bar>sint a\<bar> < 400 \<Longrightarrow> sint (a + one_way d) = sint a + (if d then 1 else - 1)" for a :: s32
  by (auto simp: one_way_def sint_word_ariths signed_take_bit_int_eq_self)

lemma pulsed_running:
  assumes run: "running s" and d: "pin_level (pi_calls s) 25 \<longleftrightarrow> d" and limit: "\<bar>sint (angleMicrosteps s + one_way d)\<bar> < 400"
  shows "running (pulsed E (one_way d) s)" "pin_level (pi_calls (pulsed E (one_way d) s)) 25 \<longleftrightarrow> d"
proof -
  have "\<bar>sint (angleMicrosteps s)\<bar> < 400"
    using run by (simp add: running_def in_range_angle)
  note sint_add_one_way [OF this, of d, simp]
  note levels = level_set level_clear level_usleep
  show "pin_level (pi_calls (pulsed E (one_way d) s)) 25 \<longleftrightarrow> d"
    using d by (simp add: pulsed_def levels del: pin_level_snoc append_assoc push_bit_of_1)
  show "running (pulsed E (one_way d) s)"
    using run d limit unfolding running_def in_range_def
    by (simp add: pulsed_def levels del: pin_level_snoc append_assoc push_bit_of_1)
qed

definition moved :: "bool \<Rightarrow> nat \<Rightarrow> int \<Rightarrow> int" where
  "moved d n a = (if d then min 399 (a + int n) else max (- 399) (a - int n))"

lemma move_loop_moves:
  assumes "running s" and "pin_level (pi_calls s) 25 \<longleftrightarrow> d"
  shows "gives (move_loop n E (one_way d) hit) s (\<lambda>_ t. running t \<and> bus t = bus s
    \<and> sint (angleMicrosteps t) = moved d n (sint (angleMicrosteps s)))"
  using assms
proof (induction n arbitrary: s hit)
  case 0
  then show ?case
    using in_range_angle [of s] by (auto simp: running_def moved_def)
next
  case (Suc n)
  have a: "\<bar>sint (angleMicrosteps s)\<bar> < 400"
    using Suc.prems(1) by (simp add: running_def in_range_angle)
  note sum = sint_add_one_way [OF a, of d]
  have limit: "angleMicrosteps s + one_way d <s of_nat LIMIT_ANGLE_MICROSTEPS \<and> - of_nat LIMIT_ANGLE_MICROSTEPS <s angleMicrosteps s + one_way d
      \<longleftrightarrow> \<bar>sint (angleMicrosteps s + one_way d)\<bar> < 400"
    by (auto simp: LIMIT_ANGLE_MICROSTEPS_def ANGLE_TO_MICROSTEPS_def word_sless_alt)
  show ?case
  proof (cases "\<bar>sint (angleMicrosteps s + one_way d)\<bar> < 400")
    case True
    note next_state = pulsed_running [OF Suc.prems True, of E]
    have "gives (move_loop n E (one_way d) hit) (pulsed E (one_way d) s) (\<lambda>_ t. running t \<and> bus t = bus s
      \<and> sint (angleMicrosteps t) = moved d (Suc n) (sint (angleMicrosteps s)))"
      by (rule gives_mono [OF Suc.IH [OF next_state]]) (use a True sum in \<open>auto simp: pulsed_def moved_def\<close>)
    then show ?thesis
      using True Suc.prems(1) unfolding move_loop.simps
      by (simp add: limit gives_pins pulsed_def running_def del: append_assoc push_bit_of_1)
  next
    case False
    then show ?thesis
      unfolding move_loop.simps
      by (simp add: limit) (rule gives_mono [OF Suc.IH [OF Suc.prems]], use a False sum in \<open>auto simp: moved_def\<close>)
  qed
qed

text \<open>What the votes of a turn do to the motor.\<close>

definition voted :: "votes \<Rightarrow> int \<Rightarrow> int" where
  "voted v a = (if moveVote v = 1 \<and> clockwiseVote v \<noteq> antiClockwiseVote v
                then moved (antiClockwiseVote v < clockwiseVote v) 13 a else a)"

lemma set_direction:
  assumes "running s"
  shows "running (noted E (Write_Reg 7 (push_bit 25 1)) s)" "pin_level (pi_calls (noted E (Write_Reg 7 (push_bit 25 1)) s)) 25"
    "running (noted E (Write_Reg 10 (push_bit 25 1)) s)" "\<not> pin_level (pi_calls (noted E (Write_Reg 10 (push_bit 25 1)) s)) 25"
  using assms in_range_angle [of s] unfolding running_def in_range_def
  by (simp_all add: level_set level_clear del: pin_level_snoc append_assoc push_bit_of_1)

lemma move_motor_moves:
  assumes "running s"
  shows "gives (move_motor E v) s (\<lambda>_ t. running t \<and> bus t = bus s
    \<and> sint (angleMicrosteps t) = voted v (sint (angleMicrosteps s)))"
proof (cases "moveVote v = 1 \<and> clockwiseVote v \<noteq> antiClockwiseVote v")
  case False
  then show ?thesis
    using assms by (auto simp: move_motor_def voted_def MIN_READINGS_def)
next
  case True
  note dirs = set_direction [OF assms, of E]
  show ?thesis
  proof (cases "antiClockwiseVote v < clockwiseVote v")
    case clockwise: True
    have "gives (move_loop 13 E 1 False) (noted E (Write_Reg 7 (push_bit 25 1)) s) (\<lambda>_ t. running t \<and> bus t = bus s
        \<and> sint (angleMicrosteps t) = voted v (sint (angleMicrosteps s)))"
      using move_loop_moves [OF dirs(1), of True] dirs(2) True clockwise by (simp add: one_way_def voted_def)
    then show ?thesis
      using True clockwise assms
      by (simp add: move_motor_def MIN_READINGS_def MIN_ANGLE_MICROSTEPS_def ANGLE_TO_MICROSTEPS_def gives_pins running_def
          del: push_bit_of_1)
  next
    case anti: False
    have "gives (move_loop 13 E (- 1) False) (noted E (Write_Reg 10 (push_bit 25 1)) s) (\<lambda>_ t. running t \<and> bus t = bus s
        \<and> sint (angleMicrosteps t) = voted v (sint (angleMicrosteps s)))"
      using move_loop_moves [OF dirs(3), of False] dirs(4) True anti by (simp add: one_way_def voted_def)
    then show ?thesis
      using True anti assms
      by (simp add: move_motor_def MIN_READINGS_def MIN_ANGLE_MICROSTEPS_def ANGLE_TO_MICROSTEPS_def gives_pins running_def
          del: push_bit_of_1)
  qed
qed

subsection \<open>Whatever happens\<close>

text \<open>\<open>ends I m s Q\<close>: from \<open>s\<close> the computation \<open>m\<close> ends with a fault in a state that satisfies \<open>I\<close>, or normally with \<open>Q\<close>.\<close>

definition ends :: "('s \<Rightarrow> bool) \<Rightarrow> ('s, 'a) driver \<Rightarrow> 's \<Rightarrow> ('a \<Rightarrow> 's \<Rightarrow> bool) \<Rightarrow> bool" where
  "ends I m s Q = (case m s of (Inl e, t) \<Rightarrow> I t | (Inr x, t) \<Rightarrow> Q x t)"

lemma ends_simps [simp]:
  "ends I (ret x) s Q = Q x s" "ends I (raise e) s Q = I s" "ends I (act f) s R = R () (f s)"
  "ends I (then_do m k) s Q = ends I m s (\<lambda>x t. ends I (k x) t Q)"
  by (simp_all add: ends_def driver_simps split: prod.splits sum.splits)

lemma ends_mono: "ends I m s Q \<Longrightarrow> (\<And>x t. Q x t \<Longrightarrow> R x t) \<Longrightarrow> ends I m s R"
  by (auto simp: ends_def split: prod.splits sum.splits)

lemma ends_gives: "gives m s Q \<Longrightarrow> ends I m s Q"
  by (auto simp: gives_def ends_def split: prod.splits sum.splits)

lemma ends_snd: "ends I m s (\<lambda>_. I) \<Longrightarrow> I (snd (m s))"
  by (auto simp: ends_def split: prod.splits sum.splits)

lemma ends_on_bus: "ends I (on_bus m) s Q" if "\<And>b. I (s\<lparr>bus := b\<rparr>)" and "\<And>x b. Q x (s\<lparr>bus := b\<rparr>)"
  using that by (auto simp: ends_def on_bus_def split: prod.splits sum.splits)

lemma bus_irrelevant [simp]: "in_range (s\<lparr>bus := b\<rparr>) = in_range s" "running (s\<lparr>bus := b\<rparr>) = running s"
  by (simp_all add: in_range_def running_def)

lemma running_in_range: "running s \<Longrightarrow> in_range s"
  by (simp add: running_def)

lemma charger_turn_running: "running s \<Longrightarrow> ends in_range (charger_turn E W port battery io) s (\<lambda>_. running)"
  unfolding charger_turn_def ends_simps
  by (rule ends_on_bus, simp add: running_in_range)
    (auto intro!: ends_gives [OF gives_mono [OF move_motor_moves]] ends_on_bus simp: running_in_range)

lemma key_abort_running: "running s \<Longrightarrow> running (noted E Key_Abort s)"
  using in_range_angle [of s] by (simp add: running_def in_range_def)

lemma charger_loop_running: "running s \<Longrightarrow> ends in_range (charger_loop n E W port battery io) s (\<lambda>_. running)"
proof (induction n arbitrary: s)
  case (Suc n)
  show ?case
    unfolding charger_loop.simps ends_simps
    by (rule ends_mono [OF charger_turn_running [OF Suc.prems]])
      (auto intro!: ends_gives [where m = "pi_sys E Key_Abort"] simp: gives_pi_sys key_abort_running Suc.IH)
qed (simp add: running_in_range)

subsection \<open>One turn\<close>

text \<open>Where a turn leaves the motor: east is pin 1 and west is pin 3 of the detectors, and a detector that sees the robot is low.\<close>

definition facing :: "u8 \<Rightarrow> int \<Rightarrow> int" where
  "facing pins a = (if bit pins 1 \<longleftrightarrow> bit pins 3 then a
                    else if \<not> bit pins 1 then min 399 (a + 13) else max (- 399) (a - 13))"

lemma count_votes_voted:
  "voted (count_votes pins \<lparr>clockwiseVote = 0, antiClockwiseVote = 0, moveVote = 0, oneWireFailure = False\<rparr>) a = facing pins a"
proof -
  have "pins AND 2 \<noteq> 0 \<longleftrightarrow> bit pins 1" "pins AND 8 \<noteq> 0 \<longleftrightarrow> bit pins 3"
    using and_exp_eq_0_iff_not_bit [of pins 1] and_exp_eq_0_iff_not_bit [of pins 3] by simp_all
  then show ?thesis
    by (cases "bit pins 1"; cases "bit pins 3") (simp_all add: count_votes_def voted_def facing_def moved_def Let_def)
qed

text \<open>
  C26.  One turn of the loop, whatever the battery monitor answers: a failed reading of the detectors leaves the motor where it is, else it
  turns by 13 microsteps towards the one of east and west that sees the robot, as far as the range goes, and not at all
  if both or none do.  The detectors of north and south have no influence.
\<close>

theorem turn_follows_detectors:
  assumes "running s" and "readPIOLogicStateDS2408 W port io (bus s) = (Inr r, b)"
  shows "motor_position (pi_calls (snd (charger_turn E W port battery io s))) =
    (case r of None \<Rightarrow> motor_position (pi_calls s) | Some pins \<Rightarrow> facing pins (motor_position (pi_calls s)))"
proof -
  let ?v0 = "\<lparr>clockwiseVote = 0, antiClockwiseVote = 0, moveVote = 0, oneWireFailure = False\<rparr>"
  define v where "v = (case r of Some pins \<Rightarrow> count_votes pins ?v0 | None \<Rightarrow> ?v0\<lparr>oneWireFailure := True\<rparr>)"
  define a where "a = (case r of None \<Rightarrow> sint (angleMicrosteps s) | Some pins \<Rightarrow> facing pins (sint (angleMicrosteps s)))"
  have v: "voted v (sint (angleMicrosteps s)) = a"
    by (simp add: v_def a_def count_votes_voted split: option.split) (simp add: voted_def)
  let ?I = "\<lambda>t. in_range t \<and> sint (angleMicrosteps t) = a"
  have "on_bus (vote_loop MIN_READINGS W port io ?v0) s = (Inr v, s\<lparr>bus := b\<rparr>)"
    using assms(2) by (simp add: on_bus_def MIN_READINGS_def v_def driver_simps)
  moreover have "ends ?I (move_motor E v) (s\<lparr>bus := b\<rparr>) (\<lambda>_ t. running t \<and> sint (angleMicrosteps t) = a)"
    by (rule ends_gives, rule gives_mono [OF move_motor_moves]) (use assms(1) v in auto)
  ultimately have "ends ?I (charger_turn E W port battery io) s (\<lambda>_. ?I)"
    unfolding charger_turn_def ends_simps
    by (simp add: ends_def [of _ "on_bus (vote_loop MIN_READINGS W port io ?v0)"])
      (erule ends_mono, auto intro!: ends_on_bus simp: running_in_range)
  then have "?I (snd (charger_turn E W port battery io s))"
    by (rule ends_snd)
  then show ?thesis
    using assms(1) by (simp add: in_range_def running_def a_def split: option.splits)
qed

lemma example_running: "running (example_open b)"
  by (simp add: running_def in_range_def within_def example_open_def pin_level_def)

theorem turn_follows_detectors_witness:
  "motor_position (pi_calls (snd (charger_turn example_pi ideal_ds2408 0 [] [0x29, 0xbd, 0xc1, 0x0e, 0x00, 0x00, 0x00, 0x94]
     (example_open (\<lambda>_. 0xF7))))) = - 13"
proof -
  have "gives (readPIOLogicStateDS2408 ideal_ds2408 0 [0x29, 0xbd, 0xc1, 0x0e, 0x00, 0x00, 0x00, 0x94]) (\<lambda>_. 0xF7)
      (\<lambda>r _. r = Some 0xF7)"
    unfolding readPIOLogicStateDS2408_def
    by (rule gives_mono [OF read_register_obeys [OF ideal_ds2408_obeys]]) (simp_all add: MAX_PORTNUM_def)
  then obtain b where "readPIOLogicStateDS2408 ideal_ds2408 0 [0x29, 0xbd, 0xc1, 0x0e, 0x00, 0x00, 0x00, 0x94]
      (bus (example_open (\<lambda>_. 0xF7))) = (Inr (Some 0xF7), b)"
    by (auto simp: gives_iff example_open_def)
  from turn_follows_detectors [OF example_running this, of example_pi "[]"] show ?thesis
    by (simp add: facing_def example_open_def)
qed

text \<open>The sign of a current of less than one ampere is not shown.\<close>

lemma current_sign_lost: "sint a = - sint b \<Longrightarrow> \<bar>sint b\<bar> < 1000 \<Longrightarrow> amps_shown a = amps_shown b"
  by (auto simp: amps_shown_def signed_divide_int_def signed_modulo_int_def Let_def)

subsection \<open>The whole program\<close>

lemma in_range_noted: "in_range s \<Longrightarrow> (\<And>m w. c = Write_Reg m w \<Longrightarrow> m \<noteq> 7 \<and> m \<noteq> 10) \<Longrightarrow> in_range (noted E c s)"
proof -
  assume s: "in_range s" and c: "\<And>m w. c = Write_Reg m w \<Longrightarrow> m \<noteq> 7 \<and> m \<noteq> 10"
  have "pin_level (pi_calls s @ [(c, r)]) = pin_level (pi_calls s)" for r
    using c by (cases c) (auto simp: fun_eq_iff)
  then show "in_range (noted E c s)"
    using s in_range_angle [OF s] by (simp add: in_range_def del: pin_level_snoc)
qed

lemma in_range_update [simp]:
  "in_range (s\<lparr>gGpio := g\<rparr>) = in_range s" "in_range (s\<lparr>mapped := ms\<rparr>) = in_range s" "in_range (s\<lparr>gPortNumber := p\<rparr>) = in_range s"
  by (simp_all add: in_range_def)

lemma config_in_range:
  "usable s \<and> in_range s \<Longrightarrow> unat g < 70 \<Longrightarrow> gives (GPIO_CONFIG_OUTPUT E g) s (\<lambda>_ t. usable t \<and> in_range t)"
  by (auto simp: GPIO_CONFIG_OUTPUT_def gives_def driver_simps pi_simps intro!: in_range_noted simp del: append_assoc)

lemma set_in_range:
  assumes "usable s \<and> in_range s" and "unat g < 31" and "g \<noteq> 24"
  shows "gives (GPIO_SET E g) s (\<lambda>_ t. usable t \<and> in_range t)" "gives (GPIO_CLR E g) s (\<lambda>_ t. usable t \<and> in_range t)"
proof -
  have "unat g \<noteq> unat (24 :: u8)"
    using assms(3) by (simp only: word_unat_eq_iff) simp
  then have "unat g \<noteq> 24"
    by simp
  then show "gives (GPIO_SET E g) s (\<lambda>_ t. usable t \<and> in_range t)" "gives (GPIO_CLR E g) s (\<lambda>_ t. usable t \<and> in_range t)"
    using assms(1,2) in_range_angle [of s]
    by (auto simp: gives_pins in_range_def level_set level_clear simp del: pin_level_snoc append_assoc push_bit_of_1)
qed

lemma openIo_in_range: "in_range s \<Longrightarrow> gives (openIo E) s (\<lambda>ok t. in_range t \<and> (ok \<longrightarrow> usable t))"
  by (auto simp: openIo_def unmapPeripheral_def munmap_registers_def mapPeripheral_def mmap_registers_def gives_def
      driver_simps pi_simps intro!: in_range_noted simp del: append_assoc)

lemma setup_in_range: "usable s \<and> in_range s \<Longrightarrow> gives (setupPiGpios E) s (\<lambda>_ t. usable t \<and> in_range t)"
  unfolding setupPiGpios_def gives_then_do
  by (rule gives_mono [OF config_in_range], assumption, simp)+ (rule gives_mono [OF set_in_range(1)], assumption, simp, simp)+

lemma run_charger_in_range:
  assumes "in_range s"
  shows "ends in_range (run_charger n E W port battery io) s (\<lambda>_. in_range)"
proof -
  have enabled: "running (noted E (Write_Reg 10 (push_bit 18 1)) s)" if "usable s" "in_range s" for s :: "'a station"
    using that in_range_angle [of s] unfolding running_def in_range_def
    by (simp add: level_clear del: pin_level_snoc append_assoc push_bit_of_1)
  have closed: "in_range (snd (closeIo E s)) \<and> (\<exists>u. fst (closeIo E s) = Inr u)" if "in_range s" for s :: "'a station"
    using that by (auto simp: closeIo_def unmapPeripheral_def munmap_registers_def driver_simps pi_simps
        intro!: in_range_noted simp del: append_assoc)
  have closing: "ends in_range (closeIo E) s (\<lambda>_. in_range)" if "in_range s" for s :: "'a station"
    using closed [OF that] by (auto simp: ends_def split: prod.splits sum.splits)
  have stopping: "ends in_range (then_do (GPIO_SET E 18) (\<lambda>_. then_do (GPIO_CLR E 4) (\<lambda>_. then_do (closeIo E) (\<lambda>_. ret True)))) s
      (\<lambda>_. in_range)" if "usable s \<and> in_range s" for s :: "'a station"
    unfolding ends_simps
    by (rule ends_gives [OF gives_mono [OF set_in_range(1) [OF that]]], simp, simp)
      (rule ends_gives [OF gives_mono [OF set_in_range(2)]], assumption, simp, simp, rule closing, simp)
  let ?run = "then_do (setupPiGpios E) (\<lambda>_. then_do (GPIO_CLR E 18) (\<lambda>_. then_do (charger_loop n E W port battery io) (\<lambda>_.
      then_do (GPIO_SET E 18) (\<lambda>_. then_do (GPIO_CLR E 4) (\<lambda>_. then_do (closeIo E) (\<lambda>_. ret True))))))"
  have opened: "ends in_range ?run s (\<lambda>_. in_range)" if "usable s \<and> in_range s" for s :: "'a station"
  proof -
    have "ends in_range (then_do (charger_loop n E W port battery io) (\<lambda>_. then_do (GPIO_SET E 18) (\<lambda>_. then_do (GPIO_CLR E 4) (\<lambda>_.
        then_do (closeIo E) (\<lambda>_. ret True))))) s (\<lambda>_. in_range)" if "running s" for s :: "'a station"
      unfolding ends_simps(4) [of _ "charger_loop n E W port battery io"]
      by (rule ends_mono [OF charger_loop_running [OF that]], rule stopping) (simp add: running_def)
    then have "ends in_range (then_do (GPIO_CLR E 18) (\<lambda>_. then_do (charger_loop n E W port battery io) (\<lambda>_. then_do (GPIO_SET E 18) (\<lambda>_.
        then_do (GPIO_CLR E 4) (\<lambda>_. then_do (closeIo E) (\<lambda>_. ret True)))))) s (\<lambda>_. in_range)"
      if "usable s \<and> in_range s" for s :: "'a station"
      unfolding ends_simps(4) [of _ "GPIO_CLR E 18"] using that enabled [of s]
      by (auto intro!: ends_gives [where m = "GPIO_CLR E 18"] simp: gives_pins simp del: push_bit_of_1 ends_simps)
    then show ?thesis
      unfolding ends_simps(4) [of _ "setupPiGpios E"]
      by (intro ends_gives [OF gives_mono [OF setup_in_range [OF that]]])
  qed
  show ?thesis
    unfolding run_charger_def ends_simps(4) [of _ "openIo E"]
    by (rule ends_gives [OF gives_mono [OF openIo_in_range [OF assms]]]) (use opened in \<open>auto simp del: ends_simps(4)\<close>)
qed

lemma setup_battery_in_range: "in_range s \<Longrightarrow> ends in_range (setupBatteryMonitoringDevice E W stack port a) s (\<lambda>_. in_range)"
  unfolding setupBatteryMonitoringDevice_def ends_simps
  by (rule ends_on_bus, simp)
    (auto intro!: ends_on_bus ends_gives [where m = "pi_sys E Get_Ticks"] in_range_noted simp: gives_pi_sys)

text \<open>
  C25.  Whatever the detectors, the battery monitor, the system and the user do, from start to end of the program, and
  also where it ends in an assertion, the motor is never out of its range, and the angle that the program keeps is
  the position the motor is in.
\<close>

theorem motor_stays_in_range:
  assumes "pi_calls s = []"
  shows "\<bar>motor_position (take k (pi_calls (snd (charger_main n E W FindDevices stack argv s))))\<bar> < 400
    \<and> motor_position (pi_calls (snd (charger_main n E W FindDevices stack argv s))) =
        sint (angleMicrosteps (snd (charger_main n E W FindDevices stack argv s)))"
proof -
  have "in_range (s\<lparr>angleMicrosteps := 0\<rparr>)"
    using assms by (simp add: in_range_def within_def pin_level_def)
  then have "ends in_range (charger_main n E W FindDevices stack argv) s (\<lambda>_. in_range)"
    unfolding charger_main_def
    by (auto intro!: ends_on_bus ends_mono [OF setup_battery_in_range] ends_mono [OF run_charger_in_range] split: list.split)
  then have "in_range (snd (charger_main n E W FindDevices stack argv s))"
    by (rule ends_snd)
  then show ?thesis
    by (simp add: in_range_def within_def)
qed

theorem motor_stays_in_range_witness:
  "\<bar>motor_position (take 40 (pi_calls (snd (charger_main 5 example_pi ideal_ds2408 (\<lambda>_ _ _ r. ([[0x26, 0, 0, 0, 0, 0, 0, 0]], r)) (\<lambda>_. 0)
     [''charger''] (example_open (\<lambda>_. 0xF7))))))\<bar> < 400"
  using motor_stays_in_range [of "example_open (\<lambda>_. 0xF7)" 40 5 example_pi ideal_ds2408 "\<lambda>_ _ _ r. ([[0x26, 0, 0, 0, 0, 0, 0, 0]], r)" "\<lambda>_. 0"
      "[''charger'']"] by (simp add: example_open_def)

end
