(* ===== verification/Spec2Isabelle.thy ===== *)
theory Spec2Isabelle
  imports Timer_Properties StateMachine_Properties BatteryManager_Properties TaskHandler_Properties OwBus_Properties
    Orangutan_Properties HardwareServer_Faults HardwareServer_Session OneWire_Drivers
    Startup_Properties Charger_Properties
begin

text \<open>
  Verification development for the Raspberry Pi software of RoboOne, a robot with two computers: the Pi, and a microcontroller
  board (the Hindbrain, an Orangutan) that drives the motors.

  \<^bold>\<open>The program.\<close>  The software is a set of server processes.  Each links \<open>MessagingServer\<close>, which accepts one connection
  after the other, receives one message, calls \<open>serverHandleMsg\<close> of the process and sends its reply; the others
  call it through an access function that links \<open>MessagingClient\<close>.
  \<^item> The \<^emph>\<open>timer server\<close> (\<open>timer/\<close>) keeps a sorted list of timers and sends an expiry message when one is due.
  \<^item> The \<^emph>\<open>hardware server\<close> (\<open>RoboOneHardware/\<close>) drives relays, chargers and battery monitors on a OneWire bus
    (\<open>ow_bus.c\<close>, over the chip drivers of \<open>OneWire/\<close>), and the Hindbrain on a serial port (\<open>orangutan.c\<close>).
  \<^item> The \<^emph>\<open>state machine\<close> (\<open>RoboOneStateMachine/\<close>) is a table of event handlers that its transitions rewrite; it switches power
    through the hardware server and tells the battery manager whether charging is permitted.
  \<^item> The \<^emph>\<open>battery manager\<close> (\<open>RoboOneBatteryManager/\<close>) gets battery data, decides which batteries are charged, and sends the
    charger commands to the hardware server one by one, spaced by a timer.
  \<^item> The \<^emph>\<open>task handler\<close> (\<open>RoboOneTaskHandler/\<close>) keeps a list of tasks, carries them out on a tick (those for the Hindbrain
    through the hardware server) and sends indications to whoever gave the task.
  \<^item> \<^emph>\<open>RoboOne\<close> (\<open>RoboOne/\<close>) launches these servers and is the user interface: a dashboard that reads the hardware server, feeds
    the battery manager and ticks the task handler, a menu of commands, and a server of its own, in a thread, for the indications of tasks.
  \<^item> The \<^emph>\<open>capacity synchronisation\<close> (\<open>remaining_capacity_sync.c\<close>) runs the hardware server alone when the Pi goes up or down.
  \<^item> The \<^emph>\<open>charging station\<close> (\<open>Charger/\<close>) is a program for another Pi: it turns the charging socket towards the robot with a stepper motor,
    through the register macros and functions of \<open>PiIo/\<close> and the OneWire drivers.

  \<^bold>\<open>Which theory models what.\<close>
  \<^item> \<open>Prelude\<close>: integer types, faults, fallible computations, words and little-endian members.  \<open>Rob_System\<close>: C strings and the
    string functions of \<open>shared/src/rob_system.c\<close>.
  \<^item> \<open>Messaging\<close>: \<open>messaging_server.c\<close>.  A connection is a record of what the system calls on it return.  The locales
    \<open>message_handler\<close> and \<open>short_reply_handler\<close> are the contract of \<open>serverHandleMsg\<close>; every server with an invariant
    interprets the first.  \<open>Client\<close>: \<open>messaging_client.c\<close> and the access functions \<open>*_client.c\<close>, \<open>task_handler_responder.c\<close>.
    \<open>Message_Types\<close>: the message numbers.
  \<^item> \<open>World\<close>: what a server sees of the other processes, a history of calls and replies, answered by an arbitrary function
    of the history; the locale \<open>trace_property\<close> carries properties of single calls to whole handlers.
  \<^item> \<open>Timer_Server\<close> (\<open>timer_server.c\<close>, \<open>timer_client.c\<close>): the two linked lists as a heap of entries with next and previous pointers.
    \<open>Timer_Lists\<close> and \<open>Timer_Refinement\<close> relate the pointers to lists of timers; \<open>Timer_Properties\<close> has the properties.
  \<^item> \<open>StateMachine\<close> (\<open>state_machine*.c\<close>, \<open>actions.c\<close>, \<open>*_state.c\<close>), \<open>StateMachine_Properties\<close>.
  \<^item> \<open>BatteryManager\<close> (\<open>battery_manager_server.c\<close>), \<open>BatteryManager_Properties\<close>.
  \<^item> \<open>TaskHandler\<close> (\<open>task_handler.c\<close>, \<open>task_handler_server.c\<close>, \<open>hindbrain_direct_task_handler.c\<close>, \<open>motion_task_handler.c\<close>): the task
    list as a heap in which a freed address is an error to read; \<open>TaskHandler_Properties\<close>.
  \<^item> \<open>Bus\<close>: the state of the hardware server and the operations it is built on.  \<open>Orangutan\<close> (\<open>orangutan.c\<close>), \<open>OwBus\<close>
    (\<open>ow_bus.c\<close>), \<open>HardwareServer\<close> (\<open>hardware_server.c\<close>).  The properties are in \<open>Orangutan_Properties\<close>, \<open>OwBus_Properties\<close>,
    \<open>OwBus_Safety\<close> (the locale \<open>bus_invariant\<close>), \<open>HardwareServer_Properties\<close>, \<open>HardwareServer_Faults\<close> and \<open>HardwareServer_Session\<close>.
  \<^item> \<open>Computations\<close>: computations that have a state and can fail, for the drivers, the user interface and the start-up.
  \<^item> \<open>OneWire\<close>: what the chip drivers are built on, the link as a record of the two functions of the kit they call, the
    checksums of \<open>crcutil.c\<close>, and \<open>utils.c\<close>; \<open>OneWire_Properties\<close> has the locale \<open>checksum\<close>.  \<open>Ds2408\<close> (\<open>ds2408.c\<close>, the
    relay and input chips) and \<open>Ds2438\<close> (\<open>ds2438.c\<close>, the battery monitors); \<open>Ds2408_Properties\<close>, \<open>Ds2438_Properties\<close>,
    \<open>Ds2438_Battery\<close>.  \<open>OneWire_Drivers\<close> joins the calls that \<open>OwBus\<close> makes to the drivers they run.
  \<^item> \<open>LocalServer\<close> (\<open>RoboOne/src/local_server.c\<close>, the globals of \<open>main.c\<close>), \<open>Menu\<close> (\<open>menu.c\<close>) and \<open>Monitor\<close> (\<open>monitor.c\<close>): the user
    interface.  \<open>Menu_Properties\<close> has the keys of the menu and the locale \<open>ui_relation\<close>, for what a command does to the state;
    \<open>Monitor_Properties\<close> extends it to windows and to the loop of the dashboard.  \<open>Interface_Properties\<close> puts the interface together
    with the hardware server, the battery manager and the local server.
  \<^item> \<open>Startup\<close>, \<open>Startup_Properties\<close>: the programs of \<open>RoboOne/src/main.c\<close> and \<open>remaining_capacity_sync.c\<close>.
  \<^item> \<open>PiIo\<close> (\<open>pi_io.c\<close>, \<open>pi_io.h\<close>) and \<open>Charger\<close> (\<open>Charger/src/main.c\<close>), over the sequence of calls to the system and accesses to the
    registers.  \<open>PiIo_Properties\<close> reads the registers, the levels of the pins and the descriptors off this sequence; \<open>Charger_Properties\<close>
    reads off the position of the motor, and relates it to the angle of the program with the judgement \<open>ends\<close>, which also covers faults.
  \<^item> This theory: properties that span processes.

  \<^bold>\<open>How.\<close>  The C types keep their width (\<open>u8\<close> to \<open>u32\<close>; signed values are words read with \<open>sint\<close> or compared with \<open>\<le>s\<close>), structs
  are records, messages are lists of bytes with the packed layout.  What ends a computation early is a value: a failed
  assertion, an access out of bounds or to freed memory, a call that never returns.  Everything
  outside the process is arbitrary: sockets, the other servers, the chips and the wire, the serial port, the contents of fresh memory.
  The definitions are executable given these.  In the theories of the bus a call of a driver is answered by an arbitrary function of the
  history; in the theories of the drivers an exchange on the wire changes an arbitrary state of the link.  Where a driver is shown to reach
  the chip's registers, what the data sheet says of the chip is a named hypothesis, \<open>obeys_ds2408\<close> or \<open>obeys_ds2438\<close>, on the
  link, and the witness gives a chip for which it holds.  The drivers' few operations on \<open>double\<close> are written with the exact
  integers or rationals: for every value the code can have there the result was found, by enumeration, to be that of the C code.

  \<^bold>\<open>What the lemmas show.\<close>  Refinement: the timer lists behave as sorted lists of timers; the state machine's table as a machine
  with seven modes; relay commands, in the process and through messages, as writes to a register.  Invariants of whole sessions, whatever
  the clients send: the seven tables, the bounds of the battery manager's queue, inputs never driven low.  Safety: power is handed
  over make-before-break.  Functional behaviour of reception, of the task list, of toggling, of reading strings.
  Round trips of requests and confirmations, of a battery's remaining capacity, of the user pages of the battery monitor.  Exact error
  behaviour: which messages end the hardware server.  Equivalence: the table-driven checksums are remainders of division by their
  polynomials, so a corrupted byte is always seen.  Composition: the bus operations never call a driver so that one of its assertions
  fails; the hardware server handles what the user interface and the synchronisation send it, but for two commands of the menu; the
  state machine is told of mains power at the rising edges of its readings.  The menu runs what is typed; what the
  local server keeps can be displayed; the servers are launched and stopped like brackets.  The motor of the
  charging station stays in its range whatever happens, and each turn takes it where the detectors say.  Several theorems
  state what the code does where it is not what it means to do; the manifest lists these findings.

  \<^bold>\<open>Bounds and fuel.\<close>  The list walks of the timer server take \<open>MAX_NUM_TIMERS\<close> = 30 steps, the number of entries, as in the
  code; the sort restarts after each exchange, and 900 = 30 * 30 steps are proved to be enough.  The task list walks stop at the code's guard
  of 150.  Loops on a socket run over the list of the results of the calls; when it is used up the
  call blocks.  The loop that reads from the serial port runs over what the port delivers until it falls silent; a port that
  never falls silent and never sends a carriage return is not modelled.  The drivers poll a conversion at most \<open>GUARD_COUNTER\<close> = 255
  times, as the code does.  The search for devices takes a number of turns as fuel, and blocks when they are used up, as does
  the loop of the dashboard, which runs until the user leaves; its theorems hold for every number of turns; so does the loop of
  the charging station.  The loops of the menu are
  proved to terminate.

  \<^bold>\<open>Not modelled.\<close>  Printed text, debug output and hex dumps (so also the naming tables \<open>*_msg_names.c\<close>, and the copies that
  \<open>removeCtrlCharacters\<close> makes for printing outside \<open>actionSendOString\<close>); the terminal settings of the serial port; in the user interface the
  positions on the screen, and the opening of the terminal and the windows (\<open>runMonitor\<close> apart from its loop); the five lines of
  the \<open>main\<close> of each server, which call \<open>runMessagingServer\<close>; the timer thread and its mutex (a tick is one atomic step, as the mutex makes
  it), and a message to the local server in the middle of an update of a window, which nothing excludes; \<open>OneWireLibs\<close>, a vendored kit,
  apart from \<open>crcutil.c\<close>; examples and test programs; the old \<open>OneWireServer\<close>, which is no longer in use (as
  the README says) and no longer compiles: it calls two functions of the drivers without the argument \<open>writeShadow\<close>.  Of the kit, \<open>FindDevices\<close>
  is a parameter of \<open>Charger\<close>.  \<open>motion_task_protocol.h\<close> is missing from the repository: what depends on it is a parameter.

  \<^bold>\<open>Plan.\<close>  The programs in use are modelled, apart from the points above.
\<close>

section \<open>Across the processes: answers of the Hindbrain\<close>

lemma send_o_string_reply:
  assumes "hw_serverHandleMsg P m reply b = Inr (code, reply', b')" and "unat (msgType m) = HARDWARE_SEND_O_STRING"
    and "hd (msgBody m) \<noteq> 0" and "85 \<le> length (msgBody reply)" and "hd (msgBody reply') \<noteq> 0"
  obtains t where "t = take 79 (upto_cr (received (serial_in b)))"
    and "msgBody reply' = 1 # (t @ 0 # drop (length t + 1) (take 80 (tl (msgBody reply)))) @
        le_bytes32 (of_nat (length t + 1)) @ drop 85 (msgBody reply)"
    and "unat (msgLength reply') = length t + 7"
proof -
  let ?mem = "msgBody reply"
  obtain ok str n c where r: "run_state (sendStringToOrangutan (hwEnv P) (tl (msgBody m)) True (take 80 (tl ?mem)) 80) b = ((ok, str, n), c)"
    by (cases "run_state (sendStringToOrangutan (hwEnv P) (tl (msgBody m)) True (take 80 (tl ?mem)) 80) b") auto
  have reply': "msgBody reply' = bool_byte ok # str @ le_bytes32 n @ drop 85 ?mem"
      "msgLength reply' = 1 + of_nat (1 + unat n + 4)"
    using assms(1-3) r
    by (auto simp: hw_serverHandleMsg_def hw_doAction_def actionSendOString_def MAX_NUM_HARDWARE_MSGS_def Let_def
        MAX_O_STRING_LENGTH_def sizeof_OResponseString_def andthen_eq_Inr split: prod.splits sum.splits)
  then have ok: ok
    using assms(5) by (simp add: bool_byte_def split: if_splits)
  obtain t where t: "str = t @ 0 # drop (length t + 1) (take 80 (tl ?mem))" "length t \<le> 79" "n = of_nat (length t + 1)"
      "t = take 79 (upto_cr (received (serial_in b)))"
    by (rule received_string_fits [OF r [unfolded eqTrueI [OF ok]]]) (use assms(4) in simp)
  have n: "unat n = length t + 1"
    using t(2) unfolding t(3) by (simp add: unat_of_nat take_bit_eq_mod del: of_nat_Suc of_nat_add)
  show thesis
  proof (rule that [OF t(4)])
    show "msgBody reply' = 1 # (t @ 0 # drop (length t + 1) (take 80 (tl ?mem))) @
        le_bytes32 (of_nat (length t + 1)) @ drop 85 ?mem"
      using reply'(1) ok by (simp add: bool_byte_def t(1,3))
    have "msgLength reply' = of_nat (length t + 7)"
      by (simp add: reply'(2) n)
    then show "unat (msgLength reply') = length t + 7"
      using t(2) by (simp add: unat_of_nat take_bit_eq_mod del: of_nat_Suc of_nat_add)
  qed
qed


text \<open>A port that takes every string and a Hindbrain that says \<open>OK\<close>.\<close>

definition answering_params :: hw_params where
  "answering_params = \<lparr>hwEnv = \<lambda>h c. (case c of Write_Port fd s \<Rightarrow> (True, of_nat (length s), 0) | _ \<Rightarrow> (True, 0, 0)),
     doubleBytes = \<lambda>_. replicate 8 0\<rparr>"

definition answering_bus :: ow_bus where
  "answering_bus = initial_bus\<lparr>gFd := 3, serial_in := [[79, 75, 13]]\<rparr>"

lemma answering_read:
  "\<exists>b'. run_state (readStringFromOrangutan E (replicate 80 0) 80) (logged answering_bus seg) =
     ((False, 79 # 75 # 13 # replicate 77 0, 4), b')"
proof -
  have "[79, 75, 13] = take (unat (80 :: u32) - 1) (upto_cr (received (serial_in (logged answering_bus seg))))"
    by (simp add: answering_bus_def received_def upto_cr_def ORANGUTAN_BUFFER_SIZE_def ORANGUTAN_RESPONSE_TERMINATOR_def)
  from readString_result [OF _ _ _ _ this, of "replicate 80 0" E] show ?thesis
    by (simp add: answering_bus_def word_sle_eq flip: replicate_Suc)
qed

lemma answering_sent:
  "\<exists>b'. run_state (sendStringToOrangutan (hwEnv answering_params) (33 # 10 # 0 # bs) True (replicate 80 0) 80) answering_bus =
     ((True, 79 # 75 # 13 # replicate 77 0, 4), b')"
proof -
  let ?E = "hwEnv answering_params"
  let ?c = "logged answering_bus [(Flush_Port 3, True, 0, 0), (Write_Port 3 [33, 10], True, 2, 0)]"
  obtain b' where r: "run_state (readStringFromOrangutan ?E (replicate 80 0) 80) ?c = ((False, 79 # 75 # 13 # replicate 77 0, 4), b')"
    using answering_read by blast
  have "c_strlen (33 # 10 # 0 # bs) = 2" "gFd answering_bus = 3" "0 \<le>s (3 :: s32)"
    by (simp_all add: c_strlen_def answering_bus_def word_sle_eq)
  then have "run_state (sendStringToOrangutan ?E (33 # 10 # 0 # bs) True (replicate 80 0) 80) answering_bus =
     ((True, 79 # 75 # 13 # replicate 77 0, 4), b')"
    using r by (simp add: sendStringToOrangutan_def Let_def ORANGUTAN_BUFFER_SIZE_def answering_params_def numeral_2_eq_2)
  then show ?thesis ..
qed


end
